(* ===== verification/Python_Values.thy ===== *)
theory Python_Values
  imports Prelude
begin

text \<open>
  The Python values the program works on: strings with \<open>strip\<close> and \<open>casefold\<close>, JSON documents with
  truth value, \<open>str\<close> and \<open>repr\<close>, the idioms \<open>str(x or "")\<close> and \<open>str(x or "").strip()\<close>, UUID parsing, and
  the canonical JSON text whose SHA-256 is \<open>content_hash\<close>.

  A string is a list of characters, each a code point below 256: the model covers Latin-1 text.
  A JSON float carries its \<open>repr\<close>, which decides its truth value and its text.
\<close>

section \<open>Strings\<close>

text \<open>\<open>str.isspace\<close> on the code points below 256.\<close>

definition py_space :: "char \<Rightarrow> bool" where
  "py_space c = (let n = (of_char c :: int) in
     9 \<le> n \<and> n \<le> 13 \<or> 28 \<le> n \<and> n \<le> 32 \<or> n = 133 \<or> n = 160)"

definition py_lstrip :: "string \<Rightarrow> string" where
  "py_lstrip s = dropWhile py_space s"

definition py_strip :: "string \<Rightarrow> string" where
  "py_strip s = rev (py_lstrip (rev (py_lstrip s)))"

lemma dropWhile_idem [simp]: "dropWhile P (dropWhile P xs) = dropWhile P xs"
  by (induction xs) auto

lemma py_lstrip_Nil [simp]: "py_lstrip [] = []"
  by (simp add: py_lstrip_def)

lemma py_lstrip_fix: "s \<noteq> [] \<Longrightarrow> \<not> py_space (hd s) \<Longrightarrow> py_lstrip s = s"
  by (cases s) (auto simp: py_lstrip_def)

lemma hd_py_lstrip: "py_lstrip s \<noteq> [] \<Longrightarrow> \<not> py_space (hd (py_lstrip s))"
  by (simp add: py_lstrip_def hd_dropWhile)

lemma py_lstrip_rev_hd:
  assumes "py_lstrip (rev t) \<noteq> []" and "t \<noteq> []" and "\<not> py_space (hd t)"
  shows "hd (rev (py_lstrip (rev t))) = hd t"
proof -
  obtain ws where ws: "rev t = ws @ py_lstrip (rev t)"
    unfolding py_lstrip_def by (metis takeWhile_dropWhile_id)
  then have "t = rev (py_lstrip (rev t)) @ rev ws"
    by (metis rev_append rev_rev_ident)
  with assms(1) show ?thesis by (metis hd_append2 rev_is_Nil_conv)
qed

lemma py_strip_Nil [simp]: "py_strip [] = []"
  by (simp add: py_strip_def py_lstrip_def)

lemma py_strip_idem [simp]: "py_strip (py_strip s) = py_strip s"
proof (cases "py_strip s = []")
  case True
  then show ?thesis by (simp only: py_strip_Nil)
next
  case False
  let ?t = "py_lstrip s"
  have r: "py_lstrip (rev ?t) \<noteq> []" using False by (simp add: py_strip_def)
  have t: "?t \<noteq> []"
  proof
    assume "?t = []"
    with r show False by simp
  qed
  have h: "\<not> py_space (hd (py_strip s))"
    using py_lstrip_rev_hd [OF r t hd_py_lstrip [OF t]] hd_py_lstrip [OF t]
    by (simp add: py_strip_def)
  have "py_lstrip (py_strip s) = py_strip s"
    by (rule py_lstrip_fix [OF False h])
  then show ?thesis
    by (simp add: py_strip_def) (simp add: py_lstrip_def)
qed

text \<open>\<open>str.casefold\<close> on Latin-1 (the micro sign, whose folding lies outside Latin-1, is kept).\<close>

definition py_fold_char :: "char \<Rightarrow> string" where
  "py_fold_char c = (let n = (of_char c :: int) in
     if 65 \<le> n \<and> n \<le> 90 \<or> 192 \<le> n \<and> n \<le> 222 \<and> n \<noteq> 215 then [char_of (n + 32)]
     else if n = 223 then ''ss'' else [c])"

definition py_casefold :: "string \<Rightarrow> string" where
  "py_casefold s = concat (map py_fold_char s)"

text \<open>\<open>needle in haystack\<close> for strings, and \<open>str.replace\<close>.\<close>

fun starts_with :: "string \<Rightarrow> string \<Rightarrow> bool" where
  "starts_with [] s = True"
| "starts_with (c # cs) [] = False"
| "starts_with (c # cs) (d # ds) = (c = d \<and> starts_with cs ds)"

fun str_contains :: "string \<Rightarrow> string \<Rightarrow> bool" where
  "str_contains needle [] = (needle = [])"
| "str_contains needle (c # cs) = (starts_with needle (c # cs) \<or> str_contains needle cs)"

lemma starts_with_iff: "starts_with p s \<longleftrightarrow> (\<exists>r. s = p @ r)"
  by (induction p s rule: starts_with.induct) auto

lemma str_contains_iff: "str_contains p s \<longleftrightarrow> (\<exists>l r. s = l @ p @ r)"
proof (induction s)
  case Nil
  then show ?case by auto
next
  case (Cons c cs)
  have "(\<exists>l r. c # cs = l @ p @ r) \<longleftrightarrow> (\<exists>r. c # cs = p @ r) \<or> (\<exists>l r. cs = l @ p @ r)"
    by (metis append_Cons append_Nil list.exhaust_sel list.inject)
  with Cons show ?case by (simp add: starts_with_iff)
qed

section \<open>Numbers as text\<close>

function dec_digits :: "int \<Rightarrow> string" where
  "dec_digits n = (if n < 10 then [char_of (48 + n)]
     else dec_digits (n div 10) @ [char_of (48 + n mod 10)])"
  by pat_completeness auto
termination
  by (relation "measure nat") auto

declare dec_digits.simps [simp del]

definition int_text :: "int \<Rightarrow> string" where
  "int_text i = (if i < 0 then ''-'' @ dec_digits (- i) else dec_digits i)"

definition hex_digit :: "int \<Rightarrow> char" where
  "hex_digit n = (if n < 10 then char_of (48 + n) else char_of (87 + n))"

definition hex_value :: "char \<Rightarrow> int option" where
  "hex_value c = (let n = (of_char c :: int) in
     if 48 \<le> n \<and> n \<le> 57 then Some (n - 48)
     else if 97 \<le> n \<and> n \<le> 102 then Some (n - 87)
     else if 65 \<le> n \<and> n \<le> 70 then Some (n - 55) else None)"

section \<open>JSON documents\<close>

datatype json =
    JNull
  | JBool bool
  | JInt int
  | JFloat string
  | JStr string
  | JList "json list"
  | JObj "(string \<times> json) list"

type_synonym obj = "(string \<times> json) list"

definition is_mapping :: "json \<Rightarrow> bool" where
  "is_mapping v = (case v of JObj _ \<Rightarrow> True | _ \<Rightarrow> False)"

definition is_list :: "json \<Rightarrow> bool" where
  "is_list v = (case v of JList _ \<Rightarrow> True | _ \<Rightarrow> False)"

text \<open>The members of a mapping, the items of a list; empty for any other value.\<close>

definition members :: "json \<Rightarrow> obj" where
  "members v = (case v of JObj o' \<Rightarrow> o' | _ \<Rightarrow> [])"

definition items :: "json \<Rightarrow> json list" where
  "items v = (case v of JList xs \<Rightarrow> xs | _ \<Rightarrow> [])"

lemma json_shape_simps [simp, py_eval]:
  "is_mapping (JObj d)" "\<not> is_mapping JNull" "\<not> is_mapping (JBool b)" "\<not> is_mapping (JInt i)"
  "\<not> is_mapping (JFloat t)" "\<not> is_mapping (JStr s)" "\<not> is_mapping (JList xs)"
  "is_list (JList xs)" "\<not> is_list JNull" "\<not> is_list (JBool b)" "\<not> is_list (JInt i)"
  "\<not> is_list (JFloat t)" "\<not> is_list (JStr s)" "\<not> is_list (JObj d)"
  "members (JObj d) = d" "items (JList xs) = xs" "members JNull = []" "items JNull = []"
  by (simp_all add: is_mapping_def is_list_def members_def items_def)

lemma is_mappingE: "is_mapping v \<Longrightarrow> v = JObj (members v)"
  by (cases v) auto

lemma is_listE: "is_list v \<Longrightarrow> v = JList (items v)"
  by (cases v) auto

lemma is_list_iff: "is_list v \<longleftrightarrow> (\<exists>xs. v = JList xs)"
  by (cases v) auto

text \<open>\<open>bool(v)\<close>.\<close>

fun py_truthy :: "json \<Rightarrow> bool" where
  "py_truthy JNull = False"
| "py_truthy (JBool b) = b"
| "py_truthy (JInt i) = (i \<noteq> 0)"
| "py_truthy (JFloat t) = (t \<noteq> ''0.0'' \<and> t \<noteq> ''-0.0'')"
| "py_truthy (JStr s) = (s \<noteq> [])"
| "py_truthy (JList xs) = (xs \<noteq> [])"
| "py_truthy (JObj d) = (d \<noteq> [])"

text \<open>\<open>repr\<close> of strings and of JSON documents, and \<open>str\<close>.\<close>

definition repr_char :: "char \<Rightarrow> char \<Rightarrow> string" where
  "repr_char q c = (let n = (of_char c :: int) in
     if c = q \<or> n = 92 then [CHR 0x5C, c]
     else if n = 9 then [CHR 0x5C, CHR ''t'']
     else if n = 10 then [CHR 0x5C, CHR ''n'']
     else if n = 13 then [CHR 0x5C, CHR ''r'']
     else if n < 32 \<or> 127 \<le> n \<and> n \<le> 160 \<or> n = 173
       then [CHR 0x5C, CHR ''x'', hex_digit (n div 16), hex_digit (n mod 16)]
     else [c])"

definition py_repr_str :: "string \<Rightarrow> string" where
  "py_repr_str s =
     (let q = (if CHR 0x27 \<in> set s \<and> CHR 0x22 \<notin> set s then CHR 0x22 else CHR 0x27)
      in [q] @ concat (map (repr_char q) s) @ [q])"

definition join :: "string \<Rightarrow> string list \<Rightarrow> string" where
  "join sep xs = (case xs of [] \<Rightarrow> [] | y # ys \<Rightarrow> y @ concat (map (\<lambda>z. sep @ z) ys))"

lemma json_obj_size [termination_simp]:
  "kv \<in> set d \<Longrightarrow> size (snd kv) < Suc (size_list (size_prod (\<lambda>_. 0) size) d)"
  by (induction d) auto

fun py_repr :: "json \<Rightarrow> string" where
  "py_repr JNull = ''None''"
| "py_repr (JBool b) = (if b then ''True'' else ''False'')"
| "py_repr (JInt i) = int_text i"
| "py_repr (JFloat t) = t"
| "py_repr (JStr s) = py_repr_str s"
| "py_repr (JList xs) = ''['' @ join '', '' (map py_repr xs) @ '']''"
| "py_repr (JObj d) =
     ''{'' @ join '', '' (map (\<lambda>kv. py_repr_str (fst kv) @ '': '' @ py_repr (snd kv)) d) @ ''}''"

definition py_str :: "json \<Rightarrow> string" where
  "py_str v = (case v of JStr s \<Rightarrow> s | _ \<Rightarrow> py_repr v)"

lemma py_str_JStr [simp, py_eval]: "py_str (JStr s) = s"
  by (simp add: py_str_def)

section \<open>Reading a mapping\<close>

text \<open>
  \<open>jget d k\<close> is \<open>d.get(k)\<close> (a missing key reads as \<open>None\<close>), \<open>jget_or d k v\<close> is \<open>d.get(k, v)\<close>,
  \<open>str_or\<close> is \<open>str(x or "")\<close>, \<open>text_at\<close> is \<open>str(d.get(k) or "").strip()\<close>.
\<close>

definition jget :: "obj \<Rightarrow> string \<Rightarrow> json" where
  "jget d k = (case map_of d k of None \<Rightarrow> JNull | Some v \<Rightarrow> v)"

definition jget_or :: "obj \<Rightarrow> string \<Rightarrow> json \<Rightarrow> json" where
  "jget_or d k dflt = (case map_of d k of None \<Rightarrow> dflt | Some v \<Rightarrow> v)"

definition has_key :: "obj \<Rightarrow> string \<Rightarrow> bool" where
  "has_key d k = (k \<in> set (map fst d))"

definition str_or :: "json \<Rightarrow> string" where
  "str_or v = (if py_truthy v then py_str v else [])"

definition text_of :: "json \<Rightarrow> string" where
  "text_of v = py_strip (str_or v)"

definition str_at :: "obj \<Rightarrow> string \<Rightarrow> string" where
  "str_at d k = str_or (jget d k)"

definition text_at :: "obj \<Rightarrow> string \<Rightarrow> string" where
  "text_at d k = text_of (jget d k)"

lemma str_or_simps [simp, py_eval]: "str_or (JStr s) = s" "str_or JNull = []"
  by (simp_all add: str_or_def)

lemma text_of_JStr [simp, py_eval]: "text_of (JStr s) = py_strip s"
  by (simp add: text_of_def)

lemma text_of_JNull [simp, py_eval]: "text_of JNull = []"
  by (simp add: text_of_def)

lemma py_strip_text_of [simp]: "py_strip (text_of v) = text_of v"
  by (simp add: text_of_def)

lemma jget_Cons [simp, py_eval]: "jget ((k', v) # d) k = (if k = k' then v else jget d k)"
  by (simp add: jget_def)

lemma jget_Nil [simp, py_eval]: "jget [] k = JNull"
  by (simp add: jget_def)

lemma jget_or_Cons [simp, py_eval]:
  "jget_or ((k', v) # d) k w = (if k = k' then v else jget_or d k w)"
  by (simp add: jget_or_def)

lemma jget_or_Nil [simp, py_eval]: "jget_or [] k w = w"
  by (simp add: jget_or_def)

lemma jget_or_JNull: "jget_or d k JNull = jget d k"
  by (simp add: jget_or_def jget_def)

text \<open>The mappings among the items of a list: \<open>[x for x in xs if isinstance(x, Mapping)]\<close>.\<close>

definition mappings_in :: "json list \<Rightarrow> obj list" where
  "mappings_in xs = map members (filter is_mapping xs)"

lemma mappings_in_simps [simp, py_eval]:
  "mappings_in [] = []" "mappings_in (JObj d # xs) = d # mappings_in xs"
  by (simp_all add: mappings_in_def)

section \<open>Encoded length\<close>

text \<open>\<open>len(s.encode("utf-8"))\<close>: a character beyond ASCII takes two bytes.\<close>

definition utf8_length :: "string \<Rightarrow> int" where
  "utf8_length s = sum_list (map (\<lambda>c. if (of_char c :: int) < 128 then 1 else 2) s)"

end
