(* ===== verification/Canonical.thy ===== *)
theory Canonical
  imports Python_Values
begin

text \<open>
  The canonical JSON text that \<open>content_hash\<close> of \<open>accelerator/investigation_runtime.py\<close> feeds to
  SHA-256, and the UUID text normalisation that tool parameters go through. SHA-256 itself
  (\<open>hashlib\<close>) is the parameter \<open>H\<close> of \<open>content_hash\<close>: the hexadecimal digest of a text.
\<close>

section \<open>Canonical JSON\<close>

text \<open>String escapes of \<open>json.dumps(..., ensure_ascii=False)\<close>.\<close>

definition json_char :: "char \<Rightarrow> string" where
  "json_char c = (let n = (of_char c :: int) in
     if n = 34 \<or> n = 92 then [CHR 0x5C, c]
     else if n = 10 then [CHR 0x5C, CHR ''n'']
     else if n = 13 then [CHR 0x5C, CHR ''r'']
     else if n = 9 then [CHR 0x5C, CHR ''t'']
     else if n = 12 then [CHR 0x5C, CHR ''f'']
     else if n = 8 then [CHR 0x5C, CHR ''b'']
     else if n < 32
       then [CHR 0x5C, CHR ''u'', CHR ''0'', CHR ''0'', hex_digit (n div 16), hex_digit (n mod 16)]
     else [c])"

definition json_string :: "string \<Rightarrow> string" where
  "json_string s = [CHR 0x22] @ concat (map json_char s) @ [CHR 0x22]"

text \<open>
  \<open>json.dumps(value, ensure_ascii=False, sort_keys=True, separators=(",", ":"))\<close>: members in the
  order of their keys, no blanks.
\<close>

fun canonical_json :: "json \<Rightarrow> string" where
  "canonical_json JNull = ''null''"
| "canonical_json (JBool b) = (if b then ''true'' else ''false'')"
| "canonical_json (JInt i) = int_text i"
| "canonical_json (JFloat t) = t"
| "canonical_json (JStr s) = json_string s"
| "canonical_json (JList xs) = ''['' @ join '','' (map canonical_json xs) @ '']''"
| "canonical_json (JObj d) =
     ''{'' @ join '','' (map (\<lambda>kv. json_string (fst kv) @ '':'' @ snd kv)
       (sort_key fst (map (\<lambda>kv. (fst kv, canonical_json (snd kv))) d))) @ ''}''"

definition content_hash :: "(string \<Rightarrow> string) \<Rightarrow> json \<Rightarrow> string" where
  "content_hash H v = H (canonical_json v)"

text \<open>
  The order in which members were inserted does not reach the text: sorting by distinct keys gives
  one list for all orders.
\<close>

lemma sort_key_fst_unique:
  fixes xs ys :: "('a::linorder \<times> 'b) list"
  assumes "set xs = set ys" and "distinct (map fst xs)" and "distinct (map fst ys)"
  shows "sort_key fst xs = sort_key fst ys"
proof (rule map_sorted_distinct_set_unique [where f = fst])
  have "distinct (map fst (sort_key fst zs)) \<longleftrightarrow> distinct (map fst zs)"
    for zs :: "('a \<times> 'b) list"
    by (simp add: distinct_map)
  with assms show "distinct (map fst (sort_key fst xs))" "distinct (map fst (sort_key fst ys))"
    by blast+
  show "inj_on fst (set (sort_key fst xs) \<union> set (sort_key fst ys))"
    using assms by (simp add: distinct_map)
qed (use assms in simp_all)

text \<open>
  Two documents are the same Python value when they agree up to the order of members, at every
  depth: when their sorted forms are equal.
\<close>

fun json_norm :: "json \<Rightarrow> json" where
  "json_norm (JList xs) = JList (map json_norm xs)"
| "json_norm (JObj d) = JObj (sort_key fst (map (\<lambda>kv. (fst kv, json_norm (snd kv))) d))"
| "json_norm v = v"

fun json_wf :: "json \<Rightarrow> bool" where
  "json_wf (JList xs) = list_all json_wf xs"
| "json_wf (JObj d) = (distinct (map fst d) \<and> list_all (\<lambda>kv. json_wf (snd kv)) d)"
| "json_wf v = True"

lemma sort_key_fst_map:
  fixes xs :: "('a::linorder \<times> 'b) list"
  assumes "distinct (map fst xs)"
  shows "map (\<lambda>kv. (fst kv, f (snd kv))) (sort_key fst xs) =
    sort_key fst (map (\<lambda>kv. (fst kv, f (snd kv))) xs)"
proof (rule map_sorted_distinct_set_unique [where f = fst])
  let ?g = "\<lambda>kv. (fst kv, f (snd kv))"
  have comp: "fst \<circ> ?g = fst" by auto
  show "distinct (map fst (map ?g (sort_key fst xs)))"
    using assms by (simp add: comp distinct_map)
  show "distinct (map fst (sort_key fst (map ?g xs)))"
    using assms by (auto simp: comp distinct_map inj_on_def)
  show "sorted (map fst (map ?g (sort_key fst xs)))" by (simp add: comp)
  show "inj_on fst (set (map ?g (sort_key fst xs)) \<union> set (sort_key fst (map ?g xs)))"
    using assms by (auto simp: distinct_map inj_on_def)
qed simp_all

lemma map_fst_json_norm: "map fst (map (\<lambda>kv. (fst kv, f (snd kv))) d) = map fst d"
  by simp

lemma canonical_json_norm: "json_wf v \<Longrightarrow> canonical_json (json_norm v) = canonical_json v"
proof (induction v rule: canonical_json.induct)
  case (6 xs)
  then have "map (\<lambda>x. canonical_json (json_norm x)) xs = map canonical_json xs"
    by (simp add: list_all_iff)
  then show ?case by (simp add: comp_def cong: map_cong)
next
  case (7 d)
  let ?n = "\<lambda>kv. (fst kv, json_norm (snd kv))" and ?c = "\<lambda>kv. (fst kv, canonical_json (snd kv))"
  have d: "distinct (map fst d)" using "7.prems" by simp
  then have "distinct (map fst (map ?n d))" by (simp add: comp_def)
  then have "map ?c (sort_key fst (map ?n d)) = sort_key fst (map ?c (map ?n d))"
    by (rule sort_key_fst_map)
  also have "map ?c (map ?n d) = map ?c d"
    using 7 by (auto simp: list_all_iff)
  finally show ?case by (simp add: sort_key_id_if_sorted)
qed simp_all

lemma canonical_json_cong:
  "json_wf v \<Longrightarrow> json_wf w \<Longrightarrow> json_norm v = json_norm w \<Longrightarrow> canonical_json v = canonical_json w"
  by (metis canonical_json_norm)

section \<open>UUID text\<close>

text \<open>
  \<open>int(s, 16)\<close>: surrounding white space, a sign, a prefix \<open>0x\<close>, and single underscores between
  digits are accepted; \<open>None\<close> is \<open>ValueError\<close>. The flag of \<open>hex_run\<close> says that a digit may be
  preceded by an underscore.
\<close>

fun hex_run :: "bool \<Rightarrow> int \<Rightarrow> string \<Rightarrow> int option" where
  "hex_run seen acc [] = (if seen then Some acc else None)"
| "hex_run seen acc (c # cs) =
     (if c = CHR ''_'' then (if seen \<and> cs \<noteq> [] then hex_run False acc cs else None)
      else case hex_value c of None \<Rightarrow> None | Some v \<Rightarrow> hex_run True (16 * acc + v) cs)"

definition hex_nat :: "string \<Rightarrow> int option" where
  "hex_nat s = (case s of
       CHR ''0'' # c # cs \<Rightarrow>
         (if c = CHR ''x'' \<or> c = CHR ''X''
          then (case cs of [] \<Rightarrow> None
                | d # ds \<Rightarrow> if d = CHR ''_'' then hex_run False 0 ds else hex_run False 0 cs)
          else hex_run False 0 s)
     | _ \<Rightarrow> hex_run False 0 s)"

definition py_int16 :: "string \<Rightarrow> int option" where
  "py_int16 s = (let t = py_strip s in
     case t of [] \<Rightarrow> None
     | c # cs \<Rightarrow> if c = CHR ''-'' then map_option uminus (hex_nat cs)
                else if c = CHR ''+'' then hex_nat cs
                else hex_nat t)"

text \<open>\<open>s.replace(sub, "")\<close> for a non-empty \<open>sub\<close>, and \<open>s.strip("{}")\<close>.\<close>

function remove_sub :: "string \<Rightarrow> string \<Rightarrow> string" where
  "remove_sub sub [] = []"
| "remove_sub sub (c # cs) =
     (if sub \<noteq> [] \<and> starts_with sub (c # cs) then remove_sub sub (drop (length sub) (c # cs))
      else c # remove_sub sub cs)"
  by pat_completeness auto
termination
  by (relation "measure (\<lambda>(sub, s). length s)") auto

definition strip_braces :: "string \<Rightarrow> string" where
  "strip_braces s =
     (let P = (\<lambda>c. c = CHR 0x7B \<or> c = CHR 0x7D) in rev (dropWhile P (rev (dropWhile P s))))"

text \<open>
  \<open>str(uuid.UUID(s))\<close>: \<open>urn:\<close> and \<open>uuid:\<close> are removed, then braces and hyphens; 32 characters of a
  non-negative base-16 number must remain. The result is the lower-case form with hyphens.
\<close>

fun hex_text :: "nat \<Rightarrow> int \<Rightarrow> string" where
  "hex_text 0 n = []"
| "hex_text (Suc k) n = hex_text k (n div 16) @ [hex_digit (n mod 16)]"

definition uuid_format :: "int \<Rightarrow> string" where
  "uuid_format n = (let h = hex_text 32 n in
     take 8 h @ ''-'' @ take 4 (drop 8 h) @ ''-'' @ take 4 (drop 12 h) @ ''-'' @
     take 4 (drop 16 h) @ ''-'' @ drop 20 h)"

definition py_uuid :: "string \<Rightarrow> string option" where
  "py_uuid s =
     (let h = filter (\<lambda>c. c \<noteq> CHR ''-'') (strip_braces (remove_sub ''uuid:'' (remove_sub ''urn:'' s)))
      in if length h \<noteq> 32 then None
         else case py_int16 h of None \<Rightarrow> None
              | Some i \<Rightarrow> if i < 0 then None else Some (uuid_format i))"

text \<open>The normal form is a fixed point: parsing it gives it back.\<close>

definition hexd :: "char \<Rightarrow> bool" where
  "hexd c = (c \<in> set ''0123456789abcdef'')"

lemma hex_digit_table:
  "list_all (\<lambda>d. hex_value (hex_digit d) = Some d \<and> hexd (hex_digit d)) [0..15]"
  by code_simp

lemma hex_digit_value: "0 \<le> d \<Longrightarrow> d < 16 \<Longrightarrow> hex_value (hex_digit d) = Some d"
  using hex_digit_table by (simp add: list_all_iff)

lemma hex_digit_hexd: "0 \<le> d \<Longrightarrow> d < 16 \<Longrightarrow> hexd (hex_digit d)"
  using hex_digit_table by (simp add: list_all_iff)

lemma hexd_table:
  "list_all (\<lambda>c. \<not> py_space c \<and> c \<noteq> CHR ''-'' \<and> c \<noteq> CHR ''+'' \<and> c \<noteq> CHR ''_'' \<and> c \<noteq> CHR ''x'' \<and>
     c \<noteq> CHR ''X'' \<and> c \<noteq> CHR ''u'' \<and> c \<noteq> CHR 0x7B \<and> c \<noteq> CHR 0x7D \<and> hex_value c \<noteq> None) ''0123456789abcdef''"
  by code_simp

lemma hexdD:
  assumes "hexd c"
  shows "\<not> py_space c" "c \<noteq> CHR ''-''" "c \<noteq> CHR ''+''" "c \<noteq> CHR ''_''" "c \<noteq> CHR ''x''" "c \<noteq> CHR ''X''"
    "c \<noteq> CHR ''u''" "c \<noteq> CHR 0x7B" "c \<noteq> CHR 0x7D" "\<exists>v. hex_value c = Some v"
  using assms hexd_table unfolding hexd_def list_all_iff by blast+

lemma length_hex_text [simp]: "length (hex_text k n) = k"
  by (induction k arbitrary: n) auto

lemma hex_text_hexd: "c \<in> set (hex_text k n) \<Longrightarrow> hexd c"
proof (induction k arbitrary: n)
  case (Suc k)
  have "0 \<le> n mod 16" "n mod 16 < 16" by simp_all
  with Suc show ?case by (auto intro: hex_digit_hexd)
qed simp

definition hex_fold :: "int \<Rightarrow> string \<Rightarrow> int" where
  "hex_fold acc s = foldl (\<lambda>a c. 16 * a + the (hex_value c)) acc s"

lemma hex_run_hexd:
  "(\<forall>c\<in>set s. hexd c) \<Longrightarrow> seen \<or> s \<noteq> [] \<Longrightarrow> hex_run seen acc s = Some (hex_fold acc s)"
proof (induction s arbitrary: seen acc)
  case (Cons c cs)
  then obtain v where "hex_value c = Some v" "c \<noteq> CHR ''_''" using hexdD by (metis list.set_intros(1))
  with Cons show ?case by (simp add: hex_fold_def)
qed (simp add: hex_fold_def)

lemma hex_fold_hex_text: "hex_fold 0 (hex_text k n) = n mod 16 ^ k"
proof (induction k arbitrary: n)
  case (Suc k)
  have d: "hex_value (hex_digit (n mod 16)) = Some (n mod 16)"
    by (rule hex_digit_value) simp_all
  have "hex_fold 0 (hex_text (Suc k) n) = 16 * (n div 16 mod 16 ^ k) + n mod 16"
    using Suc [of "n div 16"] d by (simp add: hex_fold_def)
  also have "\<dots> = n mod (16 * 16 ^ k)"
    by (simp add: zmod_zmult2_eq)
  finally show ?case by simp
qed (simp add: hex_fold_def)

lemma hex_text_mod: "hex_text k (n mod 16 ^ k) = hex_text k n"
proof (induction k arbitrary: n)
  case (Suc k)
  have m: "n mod 16 ^ Suc k = 16 * (n div 16 mod 16 ^ k) + n mod 16"
    by (simp add: zmod_zmult2_eq)
  have "n mod 16 ^ Suc k div 16 = n div 16 mod 16 ^ k"
    unfolding m by simp
  moreover have "n mod 16 ^ Suc k mod 16 = n mod 16"
    unfolding m by simp
  ultimately show ?case using Suc by simp
qed simp

lemma remove_sub_id: "c \<notin> set s \<Longrightarrow> remove_sub (c # cs) s = s"
  by (induction s) auto

lemma strip_braces_id: "CHR 0x7B \<notin> set s \<Longrightarrow> CHR 0x7D \<notin> set s \<Longrightarrow> strip_braces s = s"
proof -
  assume a: "CHR 0x7B \<notin> set s" "CHR 0x7D \<notin> set s"
  have "dropWhile (\<lambda>c. c = CHR 0x7B \<or> c = CHR 0x7D) t = t" if "set t = set s" for t
    using that a by (cases t) auto
  then show ?thesis by (simp add: strip_braces_def)
qed

lemma py_strip_id: "\<forall>c\<in>set s. \<not> py_space c \<Longrightarrow> py_strip s = s"
proof -
  assume a: "\<forall>c\<in>set s. \<not> py_space c"
  have "py_lstrip t = t" if "set t = set s" for t
    using that a by (cases t) (auto simp: py_lstrip_def)
  then show ?thesis by (simp add: py_strip_def)
qed

lemma py_int16_hexd:
  assumes h: "\<forall>c\<in>set s. hexd c" and s: "s \<noteq> []"
  shows "py_int16 s = Some (hex_fold 0 s)"
proof -
  have r: "hex_run False 0 s = Some (hex_fold 0 s)" by (rule hex_run_hexd) (use assms in auto)
  obtain c cs where cs: "s = c # cs" using s by (cases s) auto
  have "hex_nat s = Some (hex_fold 0 s)"
  proof (cases cs)
    case Nil
    with r cs show ?thesis by (auto simp: hex_nat_def split: char.splits bool.splits)
  next
    case (Cons d ds)
    then have "d \<noteq> CHR ''x''" "d \<noteq> CHR ''X''" using h cs hexdD(5,6) by auto
    with r cs Cons show ?thesis by (auto simp: hex_nat_def split: char.splits bool.splits)
  qed
  moreover have "py_strip s = s" by (rule py_strip_id) (use h hexdD(1) in auto)
  moreover have "c \<noteq> CHR ''-''" "c \<noteq> CHR ''+''" using h cs hexdD(2,3) by auto
  ultimately show ?thesis by (simp add: py_int16_def cs)
qed

lemma set_uuid_format: "c \<in> set (uuid_format n) \<Longrightarrow> hexd c \<or> c = CHR ''-''"
  by (auto simp: uuid_format_def Let_def dest: in_set_takeD in_set_dropD intro: hex_text_hexd)

lemma filter_uuid_format: "filter (\<lambda>c. c \<noteq> CHR ''-'') (uuid_format n) = hex_text 32 n"
proof -
  let ?h = "hex_text 32 n"
  have f: "filter (\<lambda>c. c \<noteq> CHR ''-'') t = t" if "set t \<subseteq> set ?h" for t
    using that hexdD(2) hex_text_hexd by (fastforce intro!: filter_True)
  have parts: "set (take i (drop j ?h)) \<subseteq> set ?h" "set (take i ?h) \<subseteq> set ?h" "set (drop j ?h) \<subseteq> set ?h"
    for i j
    by (meson order_trans set_take_subset set_drop_subset)+
  have "take 8 ?h @ take 4 (drop 8 ?h) @ take 4 (drop 12 ?h) @ take 4 (drop 16 ?h) @ drop 20 ?h = ?h"
    using take_add [of 8 4 ?h] take_add [of 12 4 ?h] take_add [of 16 4 ?h]
      append_take_drop_id [of 20 ?h]
    by (simp del: hex_text.simps append_take_drop_id)
  then show ?thesis
    by (simp add: uuid_format_def Let_def f parts del: hex_text.simps)
qed

lemma py_uuid_format: "py_uuid (uuid_format n) = Some (uuid_format n)"
proof -
  have c: "c \<notin> set (uuid_format n)" if "c \<noteq> CHR ''-''" "\<not> hexd c" for c
    using that set_uuid_format by blast
  have "\<not> hexd (CHR ''u'')" using hexdD(7) by blast
  then have "remove_sub ''uuid:'' (remove_sub ''urn:'' (uuid_format n)) = uuid_format n"
    using c [of "CHR ''u''"] by (simp add: remove_sub_id)
  moreover have "strip_braces (uuid_format n) = uuid_format n"
    by (rule strip_braces_id; rule c) (use hexdD(8,9) in auto)
  moreover have "py_int16 (hex_text 32 n) = Some (n mod 16 ^ 32)"
    using py_int16_hexd [of "hex_text 32 n"] hex_text_hexd hex_fold_hex_text [of 32 n]
    by (metis length_hex_text list.size(3) zero_neq_numeral)
  moreover have "uuid_format (n mod 16 ^ 32) = uuid_format n"
    by (simp only: uuid_format_def hex_text_mod)
  ultimately show ?thesis
    by (simp add: py_uuid_def filter_uuid_format del: hex_text.simps)
qed

lemma py_uuid_idem: "py_uuid s = Some t \<Longrightarrow> py_uuid t = Some t"
  using py_uuid_format by (auto simp: py_uuid_def [of s] Let_def split: option.splits if_splits)

lemma py_uuid_text: "py_uuid s = Some t \<Longrightarrow> py_strip t = t \<and> t \<noteq> []"
proof -
  assume "py_uuid s = Some t"
  then obtain n where t: "t = uuid_format n"
    by (auto simp: py_uuid_def Let_def split: option.splits if_splits)
  have "\<forall>c\<in>set t. \<not> py_space c"
    using set_uuid_format hexdD(1) by (fastforce simp: t py_space_def)
  moreover have "t \<noteq> []" by (simp add: t uuid_format_def Let_def)
  ultimately show ?thesis by (simp add: py_strip_id)
qed

end
