(* ===== verification/Content_Binding.thy ===== *)
theory Content_Binding
  imports Canonical
begin

text \<open>
  The canonical text determines the document (\<open>canonical_json\<close> of
  \<open>accelerator/investigation_runtime.py\<close>): two documents have the same text exactly when they are the
  same Python value. A content hash therefore binds the content as tightly as SHA-256 does.
\<close>

section \<open>Escaped strings\<close>

text \<open>Reading one escaped character back.\<close>

definition read_char :: "string \<Rightarrow> (char \<times> string) option" where
  "read_char s = (case s of
       [] \<Rightarrow> None
     | c # cs \<Rightarrow>
         if c \<noteq> CHR 0x5C then Some (c, cs)
         else (case cs of
             [] \<Rightarrow> None
           | e # r \<Rightarrow>
               if e = CHR ''n'' then Some (char_of (10 :: int), r)
               else if e = CHR ''r'' then Some (char_of (13 :: int), r)
               else if e = CHR ''t'' then Some (char_of (9 :: int), r)
               else if e = CHR ''f'' then Some (char_of (12 :: int), r)
               else if e = CHR ''b'' then Some (char_of (8 :: int), r)
               else if e = CHR ''u'' then
                 (case map hex_value (take 2 (drop 2 r)) of
                    [Some a, Some b] \<Rightarrow> Some (char_of (16 * a + b), drop 4 r)
                  | _ \<Rightarrow> None)
               else Some (e, r)))"

lemma of_char_char_eq: "(of_char c :: int) = n \<Longrightarrow> c = char_of n"
  by (metis char_of_char)

lemma of_char_int_nonneg: "0 \<le> (of_char c :: int)"
  by (metis of_nat_0_le_iff of_nat_of_char)

lemma read_json_char: "read_char (json_char c @ r) = Some (c, r)"
proof -
  define n where "n = (of_char c :: int)"
  have c: "c = char_of n" by (simp add: n_def)
  consider "n = 34 \<or> n = 92" | "n = 10" | "n = 13" | "n = 9" | "n = 12" | "n = 8"
    | "n \<notin> {34, 92, 10, 13, 9, 12, 8}" "n < 32" | "n \<notin> {34, 92, 10, 13, 9, 12, 8}" "\<not> n < 32"
    by auto
  then show ?thesis
  proof cases
    case 1
    moreover have "char_of (34 :: int) = CHR 0x22" "char_of (92 :: int) = CHR 0x5C" by code_simp+
    ultimately have "json_char c = [CHR 0x5C, c]" "c = CHR 0x22 \<or> c = CHR 0x5C"
      by (auto simp: json_char_def n_def [symmetric] c)
    then show ?thesis by (auto simp: read_char_def)
  next
    case 7
    then have j: "json_char c = [CHR 0x5C, CHR ''u'', CHR ''0'', CHR ''0'', hex_digit (n div 16),
        hex_digit (n mod 16)]"
      by (simp add: json_char_def n_def [symmetric])
    have "0 \<le> n" by (simp add: n_def of_char_int_nonneg)
    with 7 show ?thesis
      unfolding j by (simp add: read_char_def hex_digit_value c)
  next
    case 8
    then have "json_char c = [c]" "c \<noteq> CHR 0x5C"
      by (auto simp: json_char_def n_def [symmetric]) (simp add: n_def)
    then show ?thesis by (simp add: read_char_def)
  qed (simp_all add: json_char_def n_def [symmetric] read_char_def c)
qed

lemma json_char_cancel: "json_char c @ r = json_char e @ q \<Longrightarrow> c = e \<and> r = q"
  by (metis Pair_inject option.inject read_json_char)

lemma json_char_start: obtains h t where "json_char c = h # t" "h \<noteq> CHR 0x22"
proof -
  have "json_char c \<noteq> [] \<and> hd (json_char c) \<noteq> CHR 0x22"
    by (auto simp: json_char_def Let_def)
  then show thesis using that by (cases "json_char c") auto
qed

lemma escaped_cancel:
  "concat (map json_char s) @ CHR 0x22 # x = concat (map json_char t) @ CHR 0x22 # y \<Longrightarrow> s = t \<and> x = y"
proof (induction s arbitrary: t)
  case Nil
  show ?case
  proof (cases t)
    case (Cons e t')
    obtain h u where "json_char e = h # u" "h \<noteq> CHR 0x22" by (rule json_char_start)
    with Nil Cons show ?thesis by simp
  qed (use Nil in simp)
next
  case (Cons c s)
  show ?case
  proof (cases t)
    case Nil
    obtain h u where "json_char c = h # u" "h \<noteq> CHR 0x22" by (rule json_char_start)
    with Cons.prems Nil show ?thesis by simp
  next
    case (Cons e t')
    with Cons.prems have "json_char c @ (concat (map json_char s) @ CHR 0x22 # x) =
        json_char e @ (concat (map json_char t') @ CHR 0x22 # y)"
      by simp
    from json_char_cancel [OF this] Cons.IH [of t'] Cons show ?thesis by simp
  qed
qed

lemma json_string_cancel: "json_string s @ x = json_string t @ y \<Longrightarrow> s = t \<and> x = y"
  using escaped_cancel [of s x t y] by (simp add: json_string_def)

section \<open>Separated sequences\<close>

lemma join_simps [simp]:
  "join sep [] = []" "join sep [x] = x" "join sep (x # y # ys) = x @ sep @ join sep (y # ys)"
  by (simp_all add: join_def)

definition delimiter :: "char \<Rightarrow> bool" where
  "delimiter c \<longleftrightarrow> c = CHR '','' \<or> c = CHR '']'' \<or> c = CHR 0x7D"

text \<open>\<open>ends x\<close>: the rest of the text after a value.\<close>

definition ends :: "string \<Rightarrow> bool" where
  "ends x \<longleftrightarrow> x = [] \<or> delimiter (hd x)"

lemma ends_simps [simp]: "ends []" "ends (c # x) = delimiter c"
  by (simp_all add: ends_def)

lemma delimiter_simps [simp]:
  "delimiter CHR '',''" "delimiter CHR '']''" "delimiter CHR 0x7D"
  by (simp_all add: delimiter_def)

lemma join_tail:
  assumes "delimiter close" shows "ends (join '','' [] @ close # x)"
    "xs \<noteq> [] \<Longrightarrow> ends ('','' @ join '','' xs @ close # x)"
  using assms by simp_all

text \<open>
  Two sequences with the same text have the same elements, when each element can be cancelled and
  none starts with a delimiter.
\<close>

lemma join_cancel:
  assumes "\<And>a b x y. a \<in> set as \<Longrightarrow> b \<in> set bs \<Longrightarrow> ends x \<Longrightarrow> ends y \<Longrightarrow> f a @ x = f b @ y \<Longrightarrow>
      g a = g b \<and> x = y"
    and "\<And>a. a \<in> set as \<union> set bs \<Longrightarrow> f a \<noteq> [] \<and> \<not> delimiter (hd (f a))"
    and "delimiter close" "close \<noteq> CHR '',''"
    and "join '','' (map f as) @ close # x = join '','' (map f bs) @ close # y"
  shows "map g as = map g bs \<and> x = y"
  using assms
proof (induction as arbitrary: bs)
  case Nil
  show ?case
  proof (cases bs)
    case (Cons b bs')
    with Nil.prems(2) [of b] obtain h t where "f b = h # t" "\<not> delimiter h" by (cases "f b") auto
    with Nil.prems(3,5) Cons show ?thesis by (cases bs') auto
  qed (use Nil in simp)
next
  case (Cons a as)
  obtain h t where h: "f a = h # t" "\<not> delimiter h" using Cons.prems(2) [of a] by (cases "f a") auto
  show ?case
  proof (cases bs)
    case Nil
    with h Cons.prems(3,5) show ?thesis by (cases as) auto
  next
    case bs: (Cons b bs')
    define u where "u = (if as = [] then [] else CHR '','' # join '','' (map f as)) @ close # x"
    define v where "v = (if bs' = [] then [] else CHR '','' # join '','' (map f bs')) @ close # y"
    have e: "ends u" "ends v" using Cons.prems(3) by (auto simp: u_def v_def)
    have "f a @ u = f b @ v"
      using Cons.prems(5) by (cases as; cases bs') (auto simp: bs u_def v_def)
    then have ab: "g a = g b" and uv: "u = v"
      using Cons.prems(1) [of a b u v] e by (auto simp: bs)
    have "as = [] \<longleftrightarrow> bs' = []"
      using uv Cons.prems(4) by (auto simp: u_def v_def split: if_splits)
    with uv have rest: "join '','' (map f as) @ close # x = join '','' (map f bs') @ close # y"
      by (auto simp: u_def v_def split: if_splits)
    have "map g as = map g bs' \<and> x = y"
      by (rule Cons.IH [OF _ _ Cons.prems(3,4) rest]) (use Cons.prems(1,2) bs in auto)
    with ab show ?thesis by (simp add: bs)
  qed
qed

section \<open>Numbers\<close>

definition digit :: "char \<Rightarrow> bool" where
  "digit c \<longleftrightarrow> c \<in> set ''0123456789''"

definition digits_value :: "string \<Rightarrow> int" where
  "digits_value s = foldl (\<lambda>a c. 10 * a + (of_char c - 48)) 0 s"

lemma digit_table: "list_all (\<lambda>d. digit (char_of (48 + d)) \<and> of_char (char_of (48 + d) :: char) = 48 + d) [0..9 :: int]"
  by code_simp

lemma digit_char: "0 \<le> d \<Longrightarrow> d < 10 \<Longrightarrow> digit (char_of (48 + d)) \<and> of_char (char_of (48 + d :: int) :: char) = 48 + d"
  using digit_table by (simp add: list_all_iff)

lemma dec_digits_value:
  "0 \<le> n \<Longrightarrow> dec_digits n \<noteq> [] \<and> (\<forall>c\<in>set (dec_digits n). digit c) \<and> digits_value (dec_digits n) = n"
proof (induction n rule: dec_digits.induct)
  case (1 n)
  show ?case
  proof (cases "n < 10")
    case True
    with 1 digit_char [of n] show ?thesis by (simp add: dec_digits.simps [of n] digits_value_def)
  next
    case False
    with 1 have "0 \<le> n div 10" by simp
    with "1.IH" [OF False] digit_char [of "n mod 10"] False show ?thesis
      by (auto simp: dec_digits.simps [of n] digits_value_def)
  qed
qed

lemma digitD:
  "digit c \<Longrightarrow> c \<notin> {CHR ''-'', CHR ''.'', CHR ''e'', CHR ''+'', CHR ''l'', CHR ''r'', CHR 0x22, CHR ''['', CHR 0x7B,
     CHR '','', CHR '']'', CHR 0x7D}"
proof -
  have "list_all (\<lambda>c. c \<notin> {CHR ''-'', CHR ''.'', CHR ''e'', CHR ''+'', CHR ''l'', CHR ''r'', CHR 0x22, CHR ''['',
     CHR 0x7B, CHR '','', CHR '']'', CHR 0x7D}) ''0123456789''"
    by code_simp
  then show "digit c \<Longrightarrow> ?thesis" unfolding digit_def list_all_iff by (rule bspec)
qed

text \<open>The characters of the text of a number.\<close>

definition numeric :: "char \<Rightarrow> bool" where
  "numeric c \<longleftrightarrow> digit c \<or> c = CHR ''-'' \<or> c = CHR ''.'' \<or> c = CHR ''e'' \<or> c = CHR ''+''"

lemma numericD:
  "numeric c \<Longrightarrow> c \<notin> {CHR ''l'', CHR ''r'', CHR 0x22, CHR ''['', CHR 0x7B} \<and> \<not> delimiter c"
  using digitD [of c] by (elim numeric_def [THEN iffD1, elim_format] disjE) (simp_all add: delimiter_def)

lemma int_text_chars: "int_text i \<noteq> [] \<and> (\<forall>c\<in>set (int_text i). digit c \<or> c = CHR ''-'')"
  using dec_digits_value [of i] dec_digits_value [of "- i"] by (auto simp: int_text_def)

lemma dec_digits_inj: "0 \<le> n \<Longrightarrow> 0 \<le> m \<Longrightarrow> dec_digits n = dec_digits m \<Longrightarrow> n = m"
  by (metis dec_digits_value)

lemma hd_int_text: "hd (int_text i) = CHR ''-'' \<longleftrightarrow> i < 0"
proof (cases "i < 0")
  case False
  with dec_digits_value [of i] have "digit (hd (dec_digits i))" by simp
  with False digitD [of "hd (dec_digits i)"] show ?thesis by (simp add: int_text_def)
qed (simp add: int_text_def)

lemma int_text_inj: "int_text i = int_text j \<longleftrightarrow> i = j"
proof
  assume e: "int_text i = int_text j"
  then have "i < 0 \<longleftrightarrow> j < 0" by (metis hd_int_text)
  with e dec_digits_inj [of i j] dec_digits_inj [of "- i" "- j"] show "i = j"
    by (cases "i < 0") (simp_all add: int_text_def)
qed simp

text \<open>The \<open>repr\<close> of a finite float has a point or an exponent.\<close>

definition float_repr :: "string \<Rightarrow> bool" where
  "float_repr t \<longleftrightarrow> t \<noteq> [] \<and> (\<forall>c\<in>set t. numeric c) \<and> (CHR ''.'' \<in> set t \<or> CHR ''e'' \<in> set t)"

lemma int_text_numeric: "int_text i \<noteq> [] \<and> (\<forall>c\<in>set (int_text i). numeric c)"
  using int_text_chars [of i] unfolding numeric_def by blast

lemma float_not_int: "float_repr t \<Longrightarrow> t \<noteq> int_text i"
  using int_text_chars [of i] digitD [of "CHR ''.''"] digitD [of "CHR ''e''"]
  by (auto simp only: float_repr_def)

lemma numeric_words:
  "(\<forall>c\<in>set t. numeric c) \<Longrightarrow> t \<noteq> ''null'' \<and> t \<noteq> ''true'' \<and> t \<noteq> ''false''"
  using numericD [of "CHR ''l''"] numericD [of "CHR ''r''"] by auto

section \<open>Documents\<close>

text \<open>Documents as Python holds them: distinct keys, and finite floats.\<close>

fun json_ok :: "json \<Rightarrow> bool" where
  "json_ok (JFloat t) = float_repr t"
| "json_ok (JList xs) = list_all json_ok xs"
| "json_ok (JObj d) = (distinct (map fst d) \<and> list_all (\<lambda>kv. json_ok (snd kv)) d)"
| "json_ok v = True"

lemma json_ok_wf: "json_ok v \<Longrightarrow> json_wf v"
  by (induction v rule: json_ok.induct) (auto simp: list_all_iff)

text \<open>Values without structure are read up to the next delimiter.\<close>

definition plain :: "json \<Rightarrow> bool" where
  "plain v \<longleftrightarrow> (case v of JStr s \<Rightarrow> False | JList xs \<Rightarrow> False | JObj d \<Rightarrow> False | _ \<Rightarrow> True)"

lemma numeric_text:
  assumes "t \<noteq> []" "\<forall>c\<in>set t. numeric c"
  shows "t \<noteq> [] \<and> (\<forall>c\<in>set t. \<not> delimiter c) \<and> hd t \<notin> {CHR 0x22, CHR ''['', CHR 0x7B}"
  using assms numericD numericD [of "hd t"] hd_in_set by blast

lemma plain_text:
  assumes "plain v" "json_ok v"
  shows "canonical_json v \<noteq> [] \<and> (\<forall>c\<in>set (canonical_json v). \<not> delimiter c) \<and>
    hd (canonical_json v) \<notin> {CHR 0x22, CHR ''['', CHR 0x7B}"
proof (cases v)
  case (JInt i)
  with numeric_text [of "int_text i"] int_text_numeric [of i] show ?thesis by simp
next
  case (JFloat t)
  with assms(2) have "t \<noteq> []" "\<forall>c\<in>set t. numeric c" by (simp_all add: float_repr_def)
  from numeric_text [OF this] JFloat show ?thesis by simp
qed (use assms in \<open>simp_all add: plain_def delimiter_def\<close>)

lemma take_delimiter:
  assumes "\<forall>c\<in>set s. \<not> delimiter c" "\<forall>c\<in>set t. \<not> delimiter c" "ends x" "ends y" "s @ x = t @ y"
  shows "s = t \<and> x = y"
proof -
  have "takeWhile (\<lambda>c. \<not> delimiter c) (s @ x) = s" "takeWhile (\<lambda>c. \<not> delimiter c) (t @ y) = t"
    using assms(1-4) by (cases x; cases y; auto simp: takeWhile_append)+
  with assms(5) show ?thesis by simp
qed

lemma plain_inj:
  assumes "plain v" "plain w" "json_ok v" "json_ok w" "canonical_json v = canonical_json w"
  shows "v = w"
proof -
  have i: "int_text k \<noteq> ''null''" "int_text k \<noteq> ''true''" "int_text k \<noteq> ''false''" for k
    using int_text_numeric numeric_words by blast+
  have f: "float_repr t \<Longrightarrow> t \<noteq> ''null'' \<and> t \<noteq> ''true'' \<and> t \<noteq> ''false''" for t
    using numeric_words by (simp add: float_repr_def)
  note d = f i i [symmetric] float_not_int float_not_int [symmetric] int_text_inj
  show ?thesis
  proof (cases v)
    case JNull
    with assms d show ?thesis by (cases w) (auto simp: plain_def split: if_splits)
  next
    case (JBool b)
    with assms d show ?thesis by (cases w) (auto simp: plain_def split: if_splits)
  next
    case (JInt k)
    with assms d show ?thesis by (cases w) (auto simp: plain_def split: if_splits)
  next
    case (JFloat t)
    with assms d show ?thesis by (cases w) (auto simp: plain_def split: if_splits)
  qed (use assms in \<open>simp_all add: plain_def\<close>)
qed

text \<open>The first character of a value tells its shape.\<close>

lemma starts:
  "canonical_json (JStr s) = CHR 0x22 # tl (canonical_json (JStr s))"
  "canonical_json (JList xs) = CHR ''['' # join '','' (map canonical_json xs) @ '']''"
  "canonical_json (JObj d) = CHR 0x7B # tl (canonical_json (JObj d))"
  by (simp_all add: json_string_def)

lemma not_plain: "\<not> plain v \<longleftrightarrow> (\<exists>s. v = JStr s) \<or> (\<exists>xs. v = JList xs) \<or> (\<exists>d. v = JObj d)"
  by (cases v) (simp_all add: plain_def)

lemma value_start:
  assumes "json_ok v" shows "canonical_json v \<noteq> [] \<and> \<not> delimiter (hd (canonical_json v))"
proof (cases "plain v")
  case True
  from plain_text [OF this assms] show ?thesis by auto
next
  case False
  then show ?thesis by (auto simp: not_plain json_string_def delimiter_def)
qed

text \<open>The text of an object, member by member in the order of the keys.\<close>

definition member_text :: "string \<times> json \<Rightarrow> string" where
  "member_text kv = json_string (fst kv) @ CHR '':'' # canonical_json (snd kv)"

lemma canonical_json_object:
  assumes "distinct (map fst d)"
  shows "canonical_json (JObj d) = CHR 0x7B # join '','' (map member_text (sort_key fst d)) @ [CHR 0x7D]"
    "json_norm (JObj d) = JObj (map (\<lambda>kv. (fst kv, json_norm (snd kv))) (sort_key fst d))"
  by (simp_all add: member_text_def [abs_def] o_def sort_key_fst_map [OF assms, symmetric])

lemma member_text_cancel:
  assumes "canonical_json (snd a) @ x = canonical_json (snd b) @ y \<Longrightarrow>
      json_norm (snd a) = json_norm (snd b) \<and> x = y"
  and "member_text a @ x = member_text b @ y"
  shows "(fst a, json_norm (snd a)) = (fst b, json_norm (snd b)) \<and> x = y"
proof -
  have "json_string (fst a) @ CHR '':'' # (canonical_json (snd a) @ x) =
      json_string (fst b) @ CHR '':'' # (canonical_json (snd b) @ y)"
    using assms(2) by (simp add: member_text_def)
  from json_string_cancel [OF this] assms(1) show ?thesis by simp
qed

lemma canonical_cancel:
  "json_ok v \<Longrightarrow> json_ok w \<Longrightarrow> ends x \<Longrightarrow> ends y \<Longrightarrow> canonical_json v @ x = canonical_json w @ y \<Longrightarrow>
     json_norm v = json_norm w \<and> x = y"
proof (induction "size v" arbitrary: v w x y rule: less_induct)
  case less
  note ok = less.prems(1,2) and e = less.prems(3,4) and eq = less.prems(5)
  have hd_eq: "hd (canonical_json v) = hd (canonical_json w)"
    using eq value_start [OF ok(1)] value_start [OF ok(2)] by (metis hd_append2)
  show ?case
  proof (cases "plain v")
    case True
    with hd_eq plain_text [OF True ok(1)] have "plain w"
      by (metis insertCI list.sel(1) not_plain starts)
    with True plain_text ok e eq have "canonical_json v = canonical_json w \<and> x = y"
      by (intro take_delimiter) blast+
    with plain_inj [OF True \<open>plain w\<close> ok] show ?thesis by simp
  next
    case False
    note nv = False
    have "\<not> plain w"
      using hd_eq plain_text [OF _ ok(2)] nv by (metis insertCI list.sel(1) not_plain starts)
    with nv hd_eq consider (str) s t where "v = JStr s" "w = JStr t"
      | (list) vs ws where "v = JList vs" "w = JList ws"
      | (obj) d f where "v = JObj d" "w = JObj f"
      by (auto simp: not_plain json_string_def)
    then show ?thesis
    proof cases
      case str
      with eq json_string_cancel [of s x t y] show ?thesis by simp
    next
      case list
      have "map json_norm vs = map json_norm ws \<and> x = y"
      proof (rule join_cancel [where f = canonical_json and close = "CHR '']''"])
        fix a b u z
        assume a: "a \<in> set vs" and b: "b \<in> set ws" and "ends u" "ends z"
          "canonical_json a @ u = canonical_json b @ z"
        moreover have "size a < size v"
          using a by (simp add: list(1) less_Suc_eq_le size_list_estimation')
        moreover have "json_ok a" "json_ok b" using ok a b by (simp_all add: list list_all_iff)
        ultimately show "json_norm a = json_norm b \<and> u = z" by (intro less.hyps)
      qed (use ok value_start eq list in \<open>auto simp: list_all_iff\<close>)
      with list show ?thesis by simp
    next
      case obj
      have d: "distinct (map fst d)" "distinct (map fst f)" using ok by (simp_all add: obj)
      have "map (\<lambda>kv. (fst kv, json_norm (snd kv))) (sort_key fst d) =
          map (\<lambda>kv. (fst kv, json_norm (snd kv))) (sort_key fst f) \<and> x = y"
      proof (rule join_cancel [where f = member_text and close = "CHR 0x7D"])
        fix a b u z
        assume a: "a \<in> set (sort_key fst d)" and b: "b \<in> set (sort_key fst f)" and e: "ends u" "ends z"
          and m: "member_text a @ u = member_text b @ z"
        have "size (snd a) < size v"
          using a json_obj_size [of a d] by (simp add: obj(1))
        moreover have "json_ok (snd a)" "json_ok (snd b)"
          using ok a b by (auto simp: obj list_all_iff)
        ultimately have "json_norm (snd a) = json_norm (snd b) \<and> u = z"
          if "canonical_json (snd a) @ u = canonical_json (snd b) @ z"
          using e that by (intro less.hyps)
        from member_text_cancel [OF this m]
        show "(fst a, json_norm (snd a)) = (fst b, json_norm (snd b)) \<and> u = z" .
      qed (use eq in \<open>simp_all add: obj canonical_json_object(1) [OF d(1)] canonical_json_object(1) [OF d(2)]
          member_text_def json_string_def delimiter_def del: canonical_json.simps\<close>)
      then show ?thesis
        by (simp add: obj canonical_json_object(2) [OF d(1)] canonical_json_object(2) [OF d(2)]
            del: json_norm.simps)
    qed
  qed
qed

lemma canonical_json_inj:
  "json_ok v \<Longrightarrow> json_ok w \<Longrightarrow> canonical_json v = canonical_json w \<longleftrightarrow> json_norm v = json_norm w"
  using canonical_cancel [of v w "[]" "[]"] canonical_json_cong json_ok_wf by (metis append_Nil2 ends_simps(1))

lemma content_hash_inj:
  "inj H \<Longrightarrow> json_ok v \<Longrightarrow> json_ok w \<Longrightarrow> content_hash H v = content_hash H w \<longleftrightarrow> json_norm v = json_norm w"
  by (simp add: content_hash_def inj_eq canonical_json_inj)

text \<open>
  C15. The canonical text is a faithful name of a document: two documents (with distinct member names
  and finite floats, as Python holds them) have the same canonical text exactly when they are equal
  up to the order of members, at every depth. So a stored hash cannot bind two different contents,
  unless SHA-256 itself collides.
\<close>

theorem canonical_json_faithful:
  assumes "json_ok v" and "json_ok w"
  shows "canonical_json v = canonical_json w \<longleftrightarrow> json_norm v = json_norm w"
  using assms by (rule canonical_json_inj)

definition sample_document :: "bool \<Rightarrow> json" where
  "sample_document swapped = (let a = (''a'', JList [JInt (- 12), JFloat ''0.5'', JNull]);
     b = (''b'', JStr [CHR 0x22, CHR 0x5C, CHR 0x0A]) in
     JObj (if swapped then [b, a] else [a, b]))"

theorem canonical_json_faithful_witness:
  "canonical_json (sample_document True) = canonical_json (sample_document False) \<and>
   canonical_json (sample_document True) \<noteq> canonical_json (JObj [])"
proof -
  have "json_ok (sample_document True)" "json_ok (sample_document False)" by code_simp+
  then have ok: "json_ok (sample_document b)" for b by (cases b) simp_all
  have norm: "json_norm (sample_document True) = json_norm (sample_document False)"
    "json_norm (sample_document True) \<noteq> json_norm (JObj [])"
    by code_simp+
  have empty: "json_ok (JObj [])" by simp
  show ?thesis
    using canonical_json_faithful [OF ok ok, of True False] canonical_json_faithful [OF ok empty, of True]
      norm by blast
qed

end
