(* ===== verification/Accounts.thy ===== *)
theory Accounts
  imports Prelude
begin

text \<open>
  Users, groups and the permission predicates of \<open>accounts/permissions.py\<close>,
  \<open>architecture/permissions.py\<close> and \<open>use_cases/permissions.py\<close>. An actor that may be missing is a
  \<open>user option\<close>; an anonymous user has no primary key.
\<close>

record user =
  u_id :: "int option"
  u_authenticated :: bool
  u_active :: bool
  u_superuser :: bool
  u_anonymized :: bool
  u_groups :: "string list"

definition group_tech_admin :: string where "group_tech_admin = ''Technischer Administrator''"
definition group_coordinator :: string where "group_coordinator = ''KI-Koordinator''"
definition group_business_owner :: string where "group_business_owner = ''Business Owner''"

definition in_group :: "user \<Rightarrow> string \<Rightarrow> bool" where
  "in_group u name \<longleftrightarrow> u_authenticated u \<and> name \<in> set (u_groups u)"

definition is_technical_admin :: "user \<Rightarrow> bool" where
  "is_technical_admin u \<longleftrightarrow> u_authenticated u \<and> (u_superuser u \<or> in_group u group_tech_admin)"

definition is_coordinator :: "user \<Rightarrow> bool" where
  "is_coordinator u \<longleftrightarrow> is_technical_admin u \<or> in_group u group_coordinator"

definition is_business_owner :: "user \<Rightarrow> bool" where
  "is_business_owner u \<longleftrightarrow> is_coordinator u \<or> in_group u group_business_owner"

lemma is_coordinator_authenticated: "is_coordinator u \<Longrightarrow> u_authenticated u"
  by (auto simp: is_coordinator_def is_technical_admin_def in_group_def)

lemma is_business_owner_authenticated: "is_business_owner u \<Longrightarrow> u_authenticated u"
  by (auto simp: is_business_owner_def in_group_def dest: is_coordinator_authenticated)

lemma coordinator_is_business_owner: "is_coordinator u \<Longrightarrow> is_business_owner u"
  by (simp add: is_business_owner_def)

text \<open>Editing a value stream: a coordinator, or the business owner who owns it.\<close>

definition can_edit_value_stream :: "user \<Rightarrow> int option \<Rightarrow> bool" where
  "can_edit_value_stream u owner_id \<longleftrightarrow>
     is_coordinator u \<or> (is_business_owner u \<and> owner_id = u_id u)"

definition can_manage_architecture :: "user \<Rightarrow> bool" where
  "can_manage_architecture u \<longleftrightarrow> is_business_owner u"

text \<open>\<open>_can_accountable_transition\<close>: pilot start and ending a use case.\<close>

definition can_accountable_transition :: "user option \<Rightarrow> int option \<Rightarrow> bool" where
  "can_accountable_transition actor owner_id =
     (case actor of
        None \<Rightarrow> False
      | Some u \<Rightarrow>
          if \<not> u_authenticated u then False
          else if is_coordinator u then True
          else is_business_owner u \<and> owner_id = u_id u)"

lemma can_accountable_transition_iff:
  "can_accountable_transition (Some u) owner_id \<longleftrightarrow> can_edit_value_stream u owner_id"
  by (auto simp: can_accountable_transition_def can_edit_value_stream_def
      dest: is_coordinator_authenticated is_business_owner_authenticated)

end
