(* ===== verification/Csv.thy ===== *)
theory Csv
  imports Python_Values
begin

text \<open>
  The part of Python's \<open>csv\<close> module the program uses: \<open>csv.reader\<close> and \<open>csv.DictReader\<close> in the
  \<open>excel\<close> dialect (comma, double quote doubled inside quotes, not strict). The reader is the state
  machine of the module, fed line by line; \<open>None\<close> is \<open>csv.Error\<close>, raised for a carriage return that
  no line end follows outside quotes and for a field above the limit of 131072 characters.
\<close>

datatype csv_state =
  Start_Record | Start_Field | In_Field | In_Quoted | Quote_In_Quoted | Eat_Crnl

text \<open>State, the fields saved so far (last first), the characters of the current field (last first).\<close>

type_synonym csv_config = "csv_state \<times> string list \<times> string"

abbreviation cr :: char where "cr \<equiv> CHR 0x0D"
abbreviation lf :: char where "lf \<equiv> CHR 0x0A"
abbreviation dquote :: char where "dquote \<equiv> CHR 0x22"

definition csv_add :: "csv_state \<Rightarrow> string list \<Rightarrow> string \<Rightarrow> char \<Rightarrow> csv_config option" where
  "csv_add st fs cur c = (if int (length cur) \<ge> 131072 then None else Some (st, fs, c # cur))"

fun csv_char :: "csv_config \<Rightarrow> char \<Rightarrow> csv_config option" where
  "csv_char (Eat_Crnl, fs, cur) c = (if c = lf \<or> c = cr then Some (Eat_Crnl, fs, cur) else None)"
| "csv_char (In_Field, fs, cur) c =
     (if c = lf \<or> c = cr then Some (Eat_Crnl, rev cur # fs, [])
      else if c = CHR '','' then Some (Start_Field, rev cur # fs, [])
      else csv_add In_Field fs cur c)"
| "csv_char (In_Quoted, fs, cur) c =
     (if c = dquote then Some (Quote_In_Quoted, fs, cur) else csv_add In_Quoted fs cur c)"
| "csv_char (Quote_In_Quoted, fs, cur) c =
     (if c = dquote then csv_add In_Quoted fs cur c
      else if c = CHR '','' then Some (Start_Field, rev cur # fs, [])
      else if c = lf \<or> c = cr then Some (Eat_Crnl, rev cur # fs, [])
      else csv_add In_Field fs cur c)"
| "csv_char (Start_Record, fs, cur) c =
     (if c = lf \<or> c = cr then Some (Eat_Crnl, fs, cur)
      else if c = dquote then Some (In_Quoted, fs, cur)
      else if c = CHR '','' then Some (Start_Field, rev cur # fs, [])
      else csv_add In_Field fs cur c)"
| "csv_char (Start_Field, fs, cur) c =
     (if c = lf \<or> c = cr then Some (Eat_Crnl, rev cur # fs, [])
      else if c = dquote then Some (In_Quoted, fs, cur)
      else if c = CHR '','' then Some (Start_Field, rev cur # fs, [])
      else csv_add In_Field fs cur c)"

text \<open>The end of a line.\<close>

fun csv_eol :: "csv_config \<Rightarrow> csv_config" where
  "csv_eol (In_Quoted, fs, cur) = (In_Quoted, fs, cur)"
| "csv_eol (Eat_Crnl, fs, cur) = (Start_Record, fs, cur)"
| "csv_eol (Start_Record, fs, cur) = (Start_Record, fs, cur)"
| "csv_eol (st, fs, cur) = (Start_Record, rev cur # fs, [])"

fun csv_line :: "csv_config \<Rightarrow> string \<Rightarrow> csv_config option" where
  "csv_line cfg [] = Some cfg"
| "csv_line cfg (c # cs) = (case csv_char cfg c of None \<Rightarrow> None | Some cfg' \<Rightarrow> csv_line cfg' cs)"

text \<open>Iterating over \<open>io.StringIO(text)\<close>: lines keep their line feed.\<close>

fun text_lines_acc :: "string \<Rightarrow> string \<Rightarrow> string list" where
  "text_lines_acc cur [] = (if cur = [] then [] else [rev cur])"
| "text_lines_acc cur (c # cs) =
     (if c = lf then rev (c # cur) # text_lines_acc [] cs else text_lines_acc (c # cur) cs)"

definition text_lines :: "string \<Rightarrow> string list" where
  "text_lines s = text_lines_acc [] s"

text \<open>The rows of the reader; an open quoted field at the end of the text ends the last row.\<close>

fun csv_rows_from :: "csv_config \<Rightarrow> string list \<Rightarrow> string list list option" where
  "csv_rows_from (st, fs, cur) [] =
     Some (if cur \<noteq> [] \<or> st = In_Quoted then [rev (rev cur # fs)] else [])"
| "csv_rows_from cfg (l # ls) =
     (case csv_line cfg l of
        None \<Rightarrow> None
      | Some cfg' \<Rightarrow>
          (case csv_eol cfg' of
             (Start_Record, fs, cur) \<Rightarrow>
               map_option (\<lambda>rows. rev fs # rows) (csv_rows_from (Start_Record, [], []) ls)
           | cfg'' \<Rightarrow> csv_rows_from cfg'' ls))"

definition csv_reader :: "string \<Rightarrow> string list list option" where
  "csv_reader s = csv_rows_from (Start_Record, [], []) (text_lines s)"

text \<open>
  Over \<open>io.StringIO(text, newline="")\<close> a line also ends after a carriage return that no line feed
  follows.
\<close>

fun raw_lines_acc :: "string \<Rightarrow> string \<Rightarrow> string list" where
  "raw_lines_acc cur [] = (if cur = [] then [] else [rev cur])"
| "raw_lines_acc cur [c] = [rev (c # cur)]"
| "raw_lines_acc cur (c # e # cs) =
     (if c = cr \<and> e = lf then rev (e # c # cur) # raw_lines_acc [] cs
      else if c = lf \<or> c = cr then rev (c # cur) # raw_lines_acc [] (e # cs)
      else raw_lines_acc (c # cur) (e # cs))"

definition csv_reader_raw :: "string \<Rightarrow> string list list option" where
  "csv_reader_raw s = csv_rows_from (Start_Record, [], []) (raw_lines_acc [] s)"

text \<open>
  A row of \<open>DictReader\<close>: the header's names with the fields, \<open>None\<close> for missing ones; a name that
  occurs twice keeps its last field. Fields beyond the header sit under the key \<open>None\<close>, which no
  string reads. Empty rows are skipped.
\<close>

type_synonym csv_row = "(string, string option) dict"

definition dict_row :: "string list \<Rightarrow> string list \<Rightarrow> csv_row" where
  "dict_row header row = dict_of
     (zip header (map Some row @ replicate (length header - length row) None))"

definition dict_rows :: "string \<Rightarrow> csv_row list option" where
  "dict_rows s = (case csv_reader s of
       None \<Rightarrow> None
     | Some [] \<Rightarrow> Some []
     | Some (header # rows) \<Rightarrow> Some (map (dict_row header) (filter (\<lambda>r. r \<noteq> []) rows)))"

text \<open>\<open>str(row.get(column) or "").strip()\<close>.\<close>

definition cell_text :: "csv_row \<Rightarrow> string \<Rightarrow> string" where
  "cell_text row column = (case map_of row column of Some (Some s) \<Rightarrow> py_strip s | _ \<Rightarrow> [])"

lemma csv_sample:
  "csv_reader (''a,b'' @ [cr, lf] @ ''1,'' @ [dquote] @ ''x,'' @ [dquote, dquote, lf] @ ''y'' @ [dquote]) =
     Some [[''a'', ''b''], [''1'', ''x,'' @ [dquote, lf] @ ''y'']]"
  by code_simp

lemma csv_raw_sample:
  "csv_reader_raw (''a'' @ [cr] @ ''b'' @ [cr, lf, lf] @ ''c,'' @ [dquote, cr]) =
     Some [[''a''], [''b''], [], [''c'', [cr]]]"
  by code_simp

end
