(* ===== verification/Investigation_Policy.thy ===== *)
theory Investigation_Policy
  imports Python_Values
begin

text \<open>
  \<open>accelerator/investigation_policy.py\<close>: the deterministic stop policy of an investigation run. A
  \<open>policy_state\<close> is what the policy sees of a run; \<open>evaluate_policy\<close> decides whether the run is ready
  for a decision, continues, or waits for a human. Blockers are the strings of the code.
\<close>

datatype policy_outcome = CONTINUE | READY_FOR_DECISION | HUMAN_CLARIFICATION

datatype reason_code =
    MISSING_EVIDENCE | FIXED_ROUTE_BOUNDARY | PERMISSION_OR_SCOPE | VALUE_TRADEOFF
  | BUDGET_EXHAUSTED | NO_PROGRESS | VERIFICATION_FAILED | TECHNICAL_FAILURE

definition reason_value :: "reason_code \<Rightarrow> string" where
  "reason_value r = (case r of
       MISSING_EVIDENCE \<Rightarrow> ''missing_evidence''
     | FIXED_ROUTE_BOUNDARY \<Rightarrow> ''fixed_route_boundary''
     | PERMISSION_OR_SCOPE \<Rightarrow> ''permission_or_scope''
     | VALUE_TRADEOFF \<Rightarrow> ''value_tradeoff''
     | BUDGET_EXHAUSTED \<Rightarrow> ''budget_exhausted''
     | NO_PROGRESS \<Rightarrow> ''no_progress''
     | VERIFICATION_FAILED \<Rightarrow> ''verification_failed''
     | TECHNICAL_FAILURE \<Rightarrow> ''technical_failure'')"

definition reason_codes :: "reason_code list" where
  "reason_codes = [MISSING_EVIDENCE, FIXED_ROUTE_BOUNDARY, PERMISSION_OR_SCOPE, VALUE_TRADEOFF,
     BUDGET_EXHAUSTED, NO_PROGRESS, VERIFICATION_FAILED, TECHNICAL_FAILURE]"

record policy_check =
  pc_claim_id :: string
  pc_area :: string
  pc_claim_kind :: string
  pc_critical :: bool
  pc_status :: string
  pc_evidence_refs :: "obj list"
  pc_counterevidence_refs :: "obj list"
  pc_remaining_assumption :: string
  pc_references_valid :: bool
  pc_change_guard_valid :: bool
  pc_used_as_premise :: bool
  pc_metadata :: obj

record verifier_state =
  vs_success :: bool
  vs_critical_findings :: int
  vs_bound_hashes :: "(string, string) dict"
  vs_source_references_valid :: bool
  vs_checked_critical_claims :: "string list"

record policy_state =
  ps_checks :: "policy_check list"
  ps_data_check_executed :: bool
  ps_counterevidence_search_executed :: bool
  ps_counterevidence_hits_processed :: bool
  ps_source_relevance_complete :: bool
  ps_contract_hash :: string
  ps_manifest_hash :: string
  ps_register_hash :: string
  ps_brief_hash :: string
  ps_brief_blockers :: "string list"
  ps_verifier :: "verifier_state option"
  ps_external_critical_gap :: bool
  ps_permission_or_scope_block :: bool
  ps_value_tradeoff :: bool
  ps_budget_exhausted :: bool
  ps_technical_failure :: bool
  ps_retry_available :: bool
  ps_no_progress_streak :: int
  ps_repair_available :: bool
  ps_question_narrowed :: bool
  ps_aborted :: bool

record policy_decision =
  pd_outcome :: policy_outcome
  pd_reason_code :: "reason_code option"
  pd_blockers :: "string list"

definition current_hashes :: "policy_state \<Rightarrow> (string, string) dict" where
  "current_hashes s =
     [(''contract'', ps_contract_hash s), (''manifest'', ps_manifest_hash s),
      (''register'', ps_register_hash s), (''brief'', ps_brief_hash s)]"

definition is_evidence_claim :: "string \<Rightarrow> string \<Rightarrow> bool" where
  "is_evidence_claim area kind \<longleftrightarrow>
     \<not> (area = ''solution_options'' \<and> kind = ''option''
        \<or> area = ''recommendation_validation'' \<and> kind = ''validation'')"

definition evidence_checks :: "policy_state \<Rightarrow> policy_check list" where
  "evidence_checks s = filter (\<lambda>c. is_evidence_claim (pc_area c) (pc_claim_kind c)) (ps_checks s)"

text \<open>The body of the loop over the evidence checks in \<open>pre_verifier_blockers\<close>.\<close>

definition check_blockers :: "policy_check \<Rightarrow> string list" where
  "check_blockers c =
     (if pc_status c = ''supported'' \<and> pc_evidence_refs c = []
      then [''supported_without_evidence:'' @ pc_claim_id c] else []) @
     (if pc_status c = ''refuted'' \<and> \<not> (pc_counterevidence_refs c \<noteq> [] \<or> pc_evidence_refs c \<noteq> [])
      then [''refuted_without_evidence:'' @ pc_claim_id c] else []) @
     (if \<not> pc_references_valid c then [''invalid_reference:'' @ pc_claim_id c] else []) @
     (if \<not> pc_change_guard_valid c then [''invalid_claim_revision:'' @ pc_claim_id c] else []) @
     (if pc_status c = ''refuted'' \<and> pc_used_as_premise c
      then [''refuted_premise_used:'' @ pc_claim_id c] else [])"

definition pre_verifier_blockers :: "policy_state \<Rightarrow> string list" where
  "pre_verifier_blockers s = sorted_set
     (ps_brief_blockers s @
      (if evidence_checks s = [] then [''claim_register_missing''] else []) @
      concat (map check_blockers (evidence_checks s)) @
      (if ps_question_narrowed s then [''decision_question_changed''] else []) @
      (if \<not> ps_source_relevance_complete s then [''source_relevance_incomplete''] else []))"

text \<open>Equality of dictionaries: the same value, or no value, at every key.\<close>

definition dict_eq :: "(string, string) dict \<Rightarrow> (string, string) dict \<Rightarrow> bool" where
  "dict_eq d d' \<longleftrightarrow> (\<forall>k\<in>set (dict_keys d @ dict_keys d'). map_of d k = map_of d' k)"

lemma map_of_not_key: "k \<notin> set (dict_keys d) \<Longrightarrow> map_of d k = None"
  by (simp add: dict_keys_def map_of_eq_None_iff)

lemma dict_eq_iff: "dict_eq d d' \<longleftrightarrow> map_of d = map_of d'"
proof
  assume e: "dict_eq d d'"
  show "map_of d = map_of d'"
  proof
    fix k
    show "map_of d k = map_of d' k"
    proof (cases "k \<in> set (dict_keys d @ dict_keys d')")
      case True
      with e show ?thesis by (simp add: dict_eq_def)
    next
      case False
      then show ?thesis by (simp add: map_of_not_key)
    qed
  qed
qed (simp add: dict_eq_def)

definition critical_claim_ids :: "policy_state \<Rightarrow> string list" where
  "critical_claim_ids s = map pc_claim_id (filter
     (\<lambda>c. pc_critical c \<and> is_evidence_claim (pc_area c) (pc_claim_kind c)) (ps_checks s))"

definition verifier_blockers :: "policy_state \<Rightarrow> string list" where
  "verifier_blockers s = sorted_set
     (case ps_verifier s of
        None \<Rightarrow> [''verifier_missing'']
      | Some v \<Rightarrow>
          (if \<not> vs_success v \<or> vs_critical_findings v \<noteq> 0 then [''verifier_critical''] else []) @
          (if \<not> vs_source_references_valid v
           then [''verifier_source_reference_invalid''] else []) @
          (if \<not> dict_eq (vs_bound_hashes v) (current_hashes s) then [''verifier_stale''] else []) @
          (if \<not> set (critical_claim_ids s) \<subseteq> set (vs_checked_critical_claims v)
           then [''verifier_critical_scope_incomplete''] else []))"

definition readiness_blockers :: "policy_state \<Rightarrow> string list" where
  "readiness_blockers s = sorted_set (pre_verifier_blockers s @ verifier_blockers s)"

abbreviation human :: "reason_code \<Rightarrow> string list \<Rightarrow> policy_decision" where
  "human r bs \<equiv> \<lparr>pd_outcome = HUMAN_CLARIFICATION, pd_reason_code = Some r, pd_blockers = bs\<rparr>"

definition evaluate_policy :: "policy_state \<Rightarrow> policy_decision" where
  "evaluate_policy s = (let blockers = readiness_blockers s in
     if ps_external_critical_gap s
     then human MISSING_EVIDENCE (sorted_set (blockers @ [''external_critical_gap'']))
     else if blockers = []
     then \<lparr>pd_outcome = READY_FOR_DECISION, pd_reason_code = None, pd_blockers = []\<rparr>
     else if ps_aborted s then human TECHNICAL_FAILURE (blockers @ [''run_aborted''])
     else if ps_permission_or_scope_block s then human PERMISSION_OR_SCOPE blockers
     else if ps_value_tradeoff s then human VALUE_TRADEOFF blockers
     else if ps_budget_exhausted s then human BUDGET_EXHAUSTED blockers
     else if ps_technical_failure s \<and> \<not> ps_retry_available s
     then human TECHNICAL_FAILURE blockers
     else \<lparr>pd_outcome = CONTINUE, pd_reason_code = None, pd_blockers = blockers\<rparr>)"

section \<open>What the policy promises\<close>

text \<open>An evidence check without a blocker.\<close>

definition sound_check :: "policy_check \<Rightarrow> bool" where
  "sound_check c \<longleftrightarrow>
     (pc_status c = ''supported'' \<longrightarrow> pc_evidence_refs c \<noteq> []) \<and>
     (pc_status c = ''refuted'' \<longrightarrow>
        (pc_counterevidence_refs c \<noteq> [] \<or> pc_evidence_refs c \<noteq> []) \<and> \<not> pc_used_as_premise c) \<and>
     pc_references_valid c \<and> pc_change_guard_valid c"

lemma check_blockers_Nil_iff: "check_blockers c = [] \<longleftrightarrow> sound_check c"
  by (auto simp: check_blockers_def sound_check_def)

text \<open>The package contract as a predicate, without reference to blocker strings.\<close>

definition sound_package :: "policy_state \<Rightarrow> bool" where
  "sound_package s \<longleftrightarrow>
     ps_brief_blockers s = [] \<and> evidence_checks s \<noteq> [] \<and>
     (\<forall>c\<in>set (evidence_checks s). sound_check c) \<and>
     \<not> ps_question_narrowed s \<and> ps_source_relevance_complete s"

definition verified_package :: "policy_state \<Rightarrow> verifier_state \<Rightarrow> bool" where
  "verified_package s v \<longleftrightarrow>
     vs_success v \<and> vs_critical_findings v = 0 \<and> vs_source_references_valid v \<and>
     map_of (vs_bound_hashes v) = map_of (current_hashes s) \<and>
     set (critical_claim_ids s) \<subseteq> set (vs_checked_critical_claims v)"

lemma pre_verifier_blockers_Nil_iff: "pre_verifier_blockers s = [] \<longleftrightarrow> sound_package s"
  by (auto simp: pre_verifier_blockers_def sound_package_def check_blockers_Nil_iff)

lemma verifier_blockers_Nil_iff:
  "verifier_blockers s = [] \<longleftrightarrow> (\<exists>v. ps_verifier s = Some v \<and> verified_package s v)"
  by (auto simp: verifier_blockers_def verified_package_def dict_eq_iff split: option.splits)

lemma readiness_blockers_Nil_iff:
  "readiness_blockers s = [] \<longleftrightarrow>
     sound_package s \<and> (\<exists>v. ps_verifier s = Some v \<and> verified_package s v)"
  by (simp add: readiness_blockers_def pre_verifier_blockers_Nil_iff verifier_blockers_Nil_iff)

lemma evaluate_policy_ready_iff:
  "pd_outcome (evaluate_policy s) = READY_FOR_DECISION \<longleftrightarrow>
     \<not> ps_external_critical_gap s \<and> readiness_blockers s = []"
  by (simp add: evaluate_policy_def Let_def)

lemma evaluate_policy_reason_None_iff:
  "pd_reason_code (evaluate_policy s) = None \<longleftrightarrow>
     pd_outcome (evaluate_policy s) \<noteq> HUMAN_CLARIFICATION"
  by (simp add: evaluate_policy_def Let_def)

lemma evaluate_policy_missing_evidence_iff:
  "pd_reason_code (evaluate_policy s) = Some MISSING_EVIDENCE \<longleftrightarrow> ps_external_critical_gap s"
  by (simp add: evaluate_policy_def Let_def)

text \<open>A verifier verdict is bound to the four hashes it was issued for.\<close>

lemma verified_package_binds:
  "verified_package s v \<Longrightarrow> verified_package s' v \<Longrightarrow>
     ps_contract_hash s' = ps_contract_hash s \<and> ps_manifest_hash s' = ps_manifest_hash s \<and>
     ps_register_hash s' = ps_register_hash s \<and> ps_brief_hash s' = ps_brief_hash s"
proof -
  assume "verified_package s v" "verified_package s' v"
  then have m: "map_of (current_hashes s') k = map_of (current_hashes s) k" for k
    by (simp add: verified_package_def)
  show ?thesis
    using m [of "''contract''"] m [of "''manifest''"] m [of "''register''"] m [of "''brief''"]
    by (simp add: current_hashes_def)
qed

section \<open>Properties\<close>

text \<open>
  C6. The stop policy declares a run ready exactly when no external gap is known, the package is
  sound (no brief blocker, at least one evidence claim, every evidence claim grounded, the question
  unchanged, every source classified) and the latest verifier verdict is a success without critical
  findings, bound to the current hashes and covering every critical claim.
\<close>

theorem policy_ready_spec:
  "pd_outcome (evaluate_policy s) = READY_FOR_DECISION \<longleftrightarrow>
     \<not> ps_external_critical_gap s \<and> sound_package s \<and>
     (\<exists>v. ps_verifier s = Some v \<and> verified_package s v)"
  by (simp add: evaluate_policy_ready_iff readiness_blockers_Nil_iff)

text \<open>
  C17. Readiness does not survive an edit: from a ready state, any state with the same verifier
  verdict whose contract, manifest, register or brief hash differs is not ready and carries the
  blocker \<open>verifier_stale\<close>.
\<close>

theorem policy_edit_invalidates_verification:
  assumes "pd_outcome (evaluate_policy s) = READY_FOR_DECISION"
    and "ps_verifier s' = ps_verifier s"
    and "ps_contract_hash s' \<noteq> ps_contract_hash s \<or> ps_manifest_hash s' \<noteq> ps_manifest_hash s \<or>
         ps_register_hash s' \<noteq> ps_register_hash s \<or> ps_brief_hash s' \<noteq> ps_brief_hash s"
  shows "pd_outcome (evaluate_policy s') \<noteq> READY_FOR_DECISION \<and>
    ''verifier_stale'' \<in> set (verifier_blockers s')"
proof -
  from assms(1) obtain v where v: "ps_verifier s = Some v" "verified_package s v"
    by (auto simp: evaluate_policy_ready_iff readiness_blockers_Nil_iff)
  have stale: "\<not> dict_eq (vs_bound_hashes v) (current_hashes s')"
  proof
    assume "dict_eq (vs_bound_hashes v) (current_hashes s')"
    with v(2) have "map_of (current_hashes s') k = map_of (current_hashes s) k" for k
      by (simp add: dict_eq_iff verified_package_def)
    from this [of "''contract''"] this [of "''manifest''"] this [of "''register''"]
      this [of "''brief''"] assms(3)
    show False by (simp add: current_hashes_def)
  qed
  then have "''verifier_stale'' \<in> set (verifier_blockers s')"
    by (simp add: verifier_blockers_def assms(2) v(1))
  moreover from stale have "\<not> (\<exists>w. ps_verifier s' = Some w \<and> verified_package s' w)"
    by (auto simp: assms(2) v(1) verified_package_def dict_eq_iff)
  ultimately show ?thesis
    by (simp add: evaluate_policy_ready_iff readiness_blockers_Nil_iff)
qed

definition sample_state :: policy_state where
  "sample_state =
     \<lparr>ps_checks = [\<lparr>pc_claim_id = ''c1'', pc_area = ''problem_context'', pc_claim_kind = ''fact'',
        pc_critical = True, pc_status = ''supported'',
        pc_evidence_refs = [[(''source_id'', JStr ''s1'')]],
        pc_counterevidence_refs = [], pc_remaining_assumption = [], pc_references_valid = True,
        pc_change_guard_valid = True, pc_used_as_premise = False, pc_metadata = []\<rparr>],
      ps_data_check_executed = True, ps_counterevidence_search_executed = True,
      ps_counterevidence_hits_processed = True, ps_source_relevance_complete = True,
      ps_contract_hash = ''hc'', ps_manifest_hash = ''hm'', ps_register_hash = ''hr'',
      ps_brief_hash = ''hb'', ps_brief_blockers = [],
      ps_verifier = Some \<lparr>vs_success = True, vs_critical_findings = 0,
        vs_bound_hashes = [(''brief'', ''hb''), (''contract'', ''hc''), (''manifest'', ''hm''),
          (''register'', ''hr'')],
        vs_source_references_valid = True, vs_checked_critical_claims = [''c1'']\<rparr>,
      ps_external_critical_gap = False, ps_permission_or_scope_block = False,
      ps_value_tradeoff = False, ps_budget_exhausted = False, ps_technical_failure = False,
      ps_retry_available = False, ps_no_progress_streak = 0, ps_repair_available = True,
      ps_question_narrowed = False, ps_aborted = False\<rparr>"

theorem policy_edit_invalidates_verification_witness:
  "pd_outcome (evaluate_policy sample_state) = READY_FOR_DECISION \<and>
   pd_outcome (evaluate_policy (sample_state\<lparr>ps_register_hash := ''changed''\<rparr>)) \<noteq> READY_FOR_DECISION \<and>
   ''verifier_stale'' \<in> set (verifier_blockers (sample_state\<lparr>ps_register_hash := ''changed''\<rparr>))"
proof -
  have ready: "pd_outcome (evaluate_policy sample_state) = READY_FOR_DECISION"
    by code_simp
  have same: "ps_verifier (sample_state\<lparr>ps_register_hash := ''changed''\<rparr>) = ps_verifier sample_state"
    by simp
  show ?thesis
    using policy_edit_invalidates_verification [OF ready same] ready
    by (simp add: sample_state_def)
qed

end
