(* ===== verification/Investigation_Model.thy ===== *)
theory Investigation_Model
  imports Accounts Canonical Csv Investigation_Policy
begin

text \<open>
  The data of the investigation runtime: the rows of \<open>accelerator/investigation_models.py\<close> as records,
  with the fields the runtime reads or writes, the error values, and the database the services work
  on. A run carries its related rows (steps, model calls, verifier reports, input and brief
  revisions) and its frozen source snapshot; the process analysis, the source folders and the stored
  tool results are tables of the database. Times are microseconds, tokens and keys are strings.
\<close>

section \<open>Errors\<close>

text \<open>
  \<open>InvestigationRunError\<close> with its code and the run it names, \<open>InvestigationToolError\<close> with its code,
  \<open>PermissionDenied\<close>, an error of the \<open>csv\<close> module, and any other exception by its name.
\<close>

datatype run_error =
    Run_Error (err_code: string) "string option"
  | Tool_Error string
  | Permission_Denied
  | Csv_Error
  | Other_Error string

abbreviation run_err :: "string \<Rightarrow> run_error" where
  "run_err c \<equiv> Run_Error c None"

text \<open>An exception of the standard library, by its name.\<close>

definition signalR :: "(string, 'a) res \<Rightarrow> (run_error, 'a) res" where
  "signalR r = map_sum Other_Error id r"

lemma signalR_simps [simp]: "signalR (Inr x) = Inr x" "signalR (Inl e) = Inl (Other_Error e)"
  by (simp_all add: signalR_def)

section \<open>Rows\<close>

datatype run_status = Running | Waiting_Human | Ready | Aborted | Failed

definition active_statuses :: "run_status list" where
  "active_statuses = [Running, Waiting_Human]"

datatype step_status = Step_Running | Step_Success | Step_Failed | Step_Discarded

datatype model_role = Planner | Synthesizer | Verifier

datatype call_status = Call_Running | Call_Success | Call_Failed | Call_Discarded

record source =
  src_id :: string
  src_filename :: string
  src_type :: string
  src_content :: string
  src_sha256 :: string
  src_columns :: "string list"
  src_row_count :: "int option"
  src_column_count :: "int option"
  src_size :: int
  src_mtime :: "int option"
  src_duplicate_of :: "string option"

record snapshot =
  snap_id :: string
  snap_process :: "string option"
  snap_capture :: "string option"
  snap_revision :: int
  snap_folder :: string
  snap_sources :: "source list"
  snap_manifest_hash :: string
  snap_question :: string
  snap_process_version :: "int option"
  snap_run_limits :: obj
  snap_context :: json
  snap_created :: int

record process =
  proc_id :: string
  proc_draft :: bool
  proc_version :: int
  proc_owner :: "int option"
  proc_stage :: string
  proc_stream :: string
  proc_texts :: obj
  proc_updated :: int
  proc_options :: "obj list"

record folder =
  fo_id :: string
  fo_process :: "string option"
  fo_capture :: "string option"
  fo_name :: string
  fo_root :: string
  fo_active :: bool

record tool_result =
  tr_id :: string
  tr_snapshot :: string
  tr_source :: string
  tr_requested_by :: "int option"
  tr_tool :: string
  tr_version :: string
  tr_source_hash :: string
  tr_parameters :: obj
  tr_population :: json
  tr_missing_values :: obj
  tr_payload :: json
  tr_excluded :: json
  tr_group_sizes :: obj
  tr_units :: obj

record obligation =
  ob_id :: string
  ob_snapshot :: string
  ob_manifest_hash :: string
  ob_source :: string
  ob_source_hash :: string
  ob_column :: string
  ob_keys :: "string list"
  ob_dimension :: string

record claim =
  cl_id :: string
  cl_statement :: string
  cl_area :: string
  cl_kind :: string
  cl_critical :: bool
  cl_status :: string
  cl_evidence :: "obj list"
  cl_counter :: "obj list"
  cl_assumption :: string
  cl_references_valid :: bool
  cl_change_guard_valid :: bool
  cl_premise :: bool
  cl_metadata :: obj

record attempt =
  at_number :: int
  at_status :: string
  at_started :: int
  at_finished :: "int option"
  at_error :: string

record step =
  st_sequence :: int
  st_key :: string
  st_claim :: string
  st_finding :: string
  st_tool :: string
  st_parameters :: obj
  st_status :: step_status
  st_attempts :: int
  st_history :: "attempt list"
  st_generation :: int
  st_payload :: json
  st_hash :: string
  st_result_ref :: json
  st_progress_kind :: string
  st_progress_payload :: obj
  st_error :: string
  st_started :: int
  st_finished :: "int option"

text \<open>
  A call keeps what it was allowed (\<open>effective_parameters\<close>), what it was asked, and, once accepted, its
  payload; \<open>mc_diagnostics\<close> and \<open>mc_metadata\<close> are \<open>response_diagnostics\<close> and \<open>response_metadata\<close>.
\<close>

record model_call =
  mc_id :: string
  mc_role :: model_role
  mc_status :: call_status
  mc_generation :: int
  mc_max_tokens :: int
  mc_timeout :: int
  mc_effort :: string
  mc_instruction :: string
  mc_prompt_version :: string
  mc_schema_version :: string
  mc_prompt_hash :: string
  mc_context :: obj
  mc_requested_model :: string
  mc_returned_model :: string
  mc_tokens :: "(int \<times> int) option"
  mc_payload :: obj
  mc_payload_hash :: string
  mc_error :: string
  mc_created :: int
  mc_finished :: "int option"
  mc_diagnostics :: obj
  mc_metadata :: obj

record report =
  rp_revision :: int
  rp_success :: bool
  rp_findings :: json
  rp_critical :: int
  rp_references_valid :: bool
  rp_checked :: "string list"
  rp_hashes :: "(string, string) dict"
  rp_created :: int
  rp_call :: string
  rp_generation :: int

record input_revision =
  in_id :: string
  in_revision :: int
  in_payload :: obj
  in_hash :: string
  in_created :: int

record brief_revision =
  br_revision :: int
  br_payload :: obj
  br_hash :: string
  br_key :: string
  br_process_version :: int

type_synonym budget = "(string, int) dict"

record run =
  r_id :: string
  r_process :: string
  r_snapshot :: snapshot
  r_campaign :: "string option"
  r_mode :: string
  r_key :: string
  r_status :: run_status
  r_process_version :: int
  r_loop_version :: string
  r_policy_version :: string
  r_budget_version :: string
  r_execution :: obj
  r_question :: string
  r_contract_hash :: string
  r_manifest_hash :: string
  r_limits :: budget
  r_usage :: budget
  r_fingerprint :: "string option"
  r_repeat :: int
  r_brief_required :: bool
  r_replay :: bool
  r_obligations :: "obligation list"
  r_claims :: "claim list"
  r_relevance :: obj
  r_register_revision :: int
  r_register_hash :: string
  r_brief :: obj
  r_brief_revision :: int
  r_brief_hash :: string
  r_data_check :: bool
  r_counter_search :: bool
  r_counter_processed :: bool
  r_relevance_complete :: bool
  r_streak :: int
  r_token :: string
  r_generation :: int
  r_reason :: string
  r_clarification :: obj
  r_started :: int
  r_finished :: "int option"
  r_last_progress :: "int option"
  r_steps :: "step list"
  r_calls :: "model_call list"
  r_reports :: "report list"
  r_inputs :: "input_revision list"
  r_briefs :: "brief_revision list"

text \<open>
  A process carries the texts of its description in \<open>proc_texts\<close>, by the names of its columns, and its
  solution options in the order of their identifiers; a
  capture session is a guided or autonomous discovery of a business problem.
\<close>

record capture =
  ca_id :: string
  ca_owner :: int
  ca_value_stream :: bool
  ca_autonomous :: bool
  ca_draft :: bool
  ca_answers :: obj
  ca_catalog :: string
  ca_revision :: int

text \<open>
  A campaign is the budget shared by the runs that collect evidence; it carries its reservations, one
  per provider attempt, and the history of its authorisations.
\<close>

datatype reservation_status = Reserved_Open | Reserved_Settled | Reserved_Uncertain

record reservation =
  pv_id :: string
  pv_run :: string
  pv_call :: string
  pv_status :: reservation_status
  pv_input :: int
  pv_output :: int
  pv_cost :: "int option"
  pv_actual_input :: "int option"
  pv_actual_output :: "int option"
  pv_actual_cost :: "int option"
  pv_reason :: string
  pv_settled :: "int option"

record budget_revision =
  bv_revision :: int
  bv_limits :: budget
  bv_pricing :: "(string, string) dict"
  bv_currency :: string
  bv_pricing_version :: string
  bv_usage :: budget
  bv_reason :: string
  bv_actor :: "int option"

record campaign =
  cp_id :: string
  cp_process :: string
  cp_key :: string
  cp_revision :: int
  cp_limits :: budget
  cp_usage :: budget
  cp_pricing :: "(string, string) dict"
  cp_currency :: string
  cp_pricing_version :: string
  cp_actor :: "int option"
  cp_authorized :: int
  cp_reason :: string
  cp_revisions :: "budget_revision list"
  cp_reservations :: "reservation list"

record db =
  db_now :: int
  db_next :: nat
  db_processes :: "process list"
  db_folders :: "folder list"
  db_snapshots :: "snapshot list"
  db_captures :: "capture list"
  db_campaigns :: "campaign list"
  db_results :: "tool_result list"
  db_runs :: "run list"

text \<open>
  What the code takes from outside: SHA-256 as a hexadecimal text, the conversion of a value to the
  primary key of a row by the object-relational mapper (\<open>None\<close> when the conversion raises
  \<open>ValueError\<close>, \<open>Inl\<close> for any other exception), the identifiers \<open>uuid.uuid4()\<close> yields, one per
  call, the sort key of a text in the collation of the database, the instruction texts of the three model
  roles, the configured model (\<open>OPENROUTER_MODEL\<close>) and the versions of the runtime. \<open>db_now\<close> is
  \<open>timezone.now()\<close> and \<open>db_next\<close> the number of identifiers drawn.
\<close>

record env =
  e_hash :: "string \<Rightarrow> string"
  e_pk :: "json \<Rightarrow> (run_error, string option) res"
  e_uuid :: "nat \<Rightarrow> string"
  e_collation :: "string \<Rightarrow> string"
  e_instruction :: "model_role \<Rightarrow> string"
  e_model :: string
  e_runtime :: json

definition draw :: "db \<Rightarrow> db" where
  "draw d = d\<lparr>db_next := Suc (db_next d)\<rparr>"

definition fresh :: "env \<Rightarrow> db \<Rightarrow> string" where
  "fresh env d = e_uuid env (db_next d)"

lemma draw_simps [simp]:
  "db_now (draw d) = db_now d" "db_next (draw d) = Suc (db_next d)"
  "db_processes (draw d) = db_processes d" "db_folders (draw d) = db_folders d"
  "db_snapshots (draw d) = db_snapshots d" "db_captures (draw d) = db_captures d"
  "db_campaigns (draw d) = db_campaigns d"
  "db_results (draw d) = db_results d" "db_runs (draw d) = db_runs d"
  by (simp_all add: draw_def)

section \<open>Reading and writing rows\<close>

definition get_run :: "db \<Rightarrow> string \<Rightarrow> run option" where
  "get_run d i = find (\<lambda>r. r_id r = i) (db_runs d)"

definition get_process :: "db \<Rightarrow> string \<Rightarrow> process option" where
  "get_process d i = find (\<lambda>p. proc_id p = i) (db_processes d)"

definition find_campaign :: "db \<Rightarrow> string \<Rightarrow> campaign option" where
  "find_campaign d i = find (\<lambda>c. cp_id c = i) (db_campaigns d)"

definition get_folder :: "db \<Rightarrow> string \<Rightarrow> folder option" where
  "get_folder d i = find (\<lambda>f. fo_id f = i) (db_folders d)"

definition folder_active :: "db \<Rightarrow> string \<Rightarrow> bool" where
  "folder_active d i = (case get_folder d i of None \<Rightarrow> False | Some f \<Rightarrow> fo_active f)"

text \<open>\<open>run.save()\<close>: the row of the run is replaced.\<close>

definition save_run :: "db \<Rightarrow> run \<Rightarrow> db" where
  "save_run d r = d\<lparr>db_runs := update_where (\<lambda>x. r_id x = r_id r) (\<lambda>_. r) (db_runs d)\<rparr>"

definition get_source :: "snapshot \<Rightarrow> string \<Rightarrow> source option" where
  "get_source s i = find (\<lambda>x. src_id x = i) (snap_sources s)"

definition source_ids :: "run \<Rightarrow> string list" where
  "source_ids r = map src_id (snap_sources (r_snapshot r))"

definition is_active :: "run \<Rightarrow> bool" where
  "is_active r \<longleftrightarrow> r_status r \<in> set active_statuses"

lemma is_active_iff: "is_active r \<longleftrightarrow> r_status r = Running \<or> r_status r = Waiting_Human"
  by (simp add: is_active_def active_statuses_def)

lemma get_run_SomeD: "get_run d i = Some r \<Longrightarrow> r \<in> set (db_runs d) \<and> r_id r = i"
  by (auto simp: get_run_def dest: find_SomeD)

lemma get_source_SomeD: "get_source s i = Some x \<Longrightarrow> x \<in> set (snap_sources s) \<and> src_id x = i"
  by (auto simp: get_source_def dest: find_SomeD)

lemma map_r_id_save_run [simp]: "map r_id (db_runs (save_run d r)) = map r_id (db_runs d)"
  by (simp add: save_run_def map_update_where)

lemma get_run_save_run_other: "i \<noteq> r_id r \<Longrightarrow> get_run (save_run d r) i = get_run d i"
proof -
  assume i: "i \<noteq> r_id r"
  have "find (\<lambda>x. r_id x = i) (update_where (\<lambda>x. r_id x = r_id r) (\<lambda>_. r) xs) =
      find (\<lambda>x. r_id x = i) xs" for xs
    using i by (induction xs) auto
  then show ?thesis by (simp add: get_run_def save_run_def)
qed

lemma get_run_save_run: "get_run d (r_id r) = Some r0 \<Longrightarrow> get_run (save_run d r) (r_id r) = Some r"
proof -
  have "find (\<lambda>x. r_id x = r_id r) xs = Some r0 \<Longrightarrow>
      find (\<lambda>x. r_id x = r_id r) (update_where (\<lambda>x. r_id x = r_id r) (\<lambda>_. r) xs) = Some r" for xs
    by (induction xs) (auto split: if_splits)
  then show "get_run d (r_id r) = Some r0 \<Longrightarrow> ?thesis"
    by (simp add: get_run_def save_run_def)
qed

lemma get_run_draw [simp]: "get_run (draw d) i = get_run d i"
  by (simp add: get_run_def)

lemma db_save_run_simps [simp]:
  "db_now (save_run d r) = db_now d"
  "db_next (save_run d r) = db_next d"
  "db_processes (save_run d r) = db_processes d"
  "db_folders (save_run d r) = db_folders d"
  "db_snapshots (save_run d r) = db_snapshots d"
  "db_captures (save_run d r) = db_captures d"
  "db_campaigns (save_run d r) = db_campaigns d"
  "db_results (save_run d r) = db_results d"
  by (simp_all add: save_run_def)

lemma in_save_run:
  "x \<in> set (db_runs (save_run d r)) \<Longrightarrow> x = r \<or> x \<in> set (db_runs d) \<and> r_id x \<noteq> r_id r"
  by (auto simp: save_run_def in_set_update_where split: if_splits)

section \<open>Dictionaries of counters\<close>

text \<open>\<open>usage[key]\<close> and \<open>limits[key]\<close>; the rows of a run hold every key (\<open>initial_usage\<close>, \<open>budget_from_snapshot\<close>).\<close>

definition dget :: "budget \<Rightarrow> string \<Rightarrow> int" where
  "dget b k = (case map_of b k of None \<Rightarrow> 0 | Some v \<Rightarrow> v)"

definition bump :: "budget \<Rightarrow> string \<Rightarrow> budget" where
  "bump b k = dict_set b k (dget b k + 1)"

lemma dget_dict_set [simp]: "dget (dict_set b k v) k' = (if k' = k then v else dget b k')"
  by (simp add: dget_def)

lemma dget_bump [simp]: "dget (bump b k) k' = (if k' = k then dget b k + 1 else dget b k')"
  by (simp add: bump_def)

lemma dget_Cons [simp]: "dget ((k', v) # b) k = (if k = k' then v else dget b k)"
  by (simp add: dget_def)

lemma dget_Nil [simp]: "dget [] k = 0"
  by (simp add: dget_def)

section \<open>Access checks\<close>

text \<open>
  \<open>assert_actor_can_edit_run\<close>, \<open>assert_executor\<close>, \<open>assert_active\<close>, \<open>locked_run\<close> of
  \<open>investigation_runtime.py\<close>. The row lock of \<open>locked_run\<close> serialises the transactions; a missing run
  raises \<open>PermissionDenied\<close> as well.
\<close>

definition actor_has_pk :: "user option \<Rightarrow> bool" where
  "actor_has_pk actor = (case actor of None \<Rightarrow> False | Some u \<Rightarrow> u_id u \<noteq> None)"

definition actor_can_edit_run :: "db \<Rightarrow> user option \<Rightarrow> run \<Rightarrow> bool" where
  "actor_can_edit_run d actor r =
     (case actor of None \<Rightarrow> False
      | Some u \<Rightarrow>
          (if u_id u = None then False
           else case get_process d (r_process r) of None \<Rightarrow> False
           | Some p \<Rightarrow>
               proc_draft p \<and> can_edit_value_stream u (proc_owner p) \<and>
               folder_active d (snap_folder (r_snapshot r)) \<and>
               snap_process (r_snapshot r) = Some (proc_id p)))"

definition locked_run :: "db \<Rightarrow> user option \<Rightarrow> string \<Rightarrow> (run_error, run) res" where
  "locked_run d actor i =
     (case get_run d i of None \<Rightarrow> Inl Permission_Denied
      | Some r \<Rightarrow> if actor_can_edit_run d actor r then Inr r else Inl Permission_Denied)"

definition assert_executor :: "run \<Rightarrow> string \<Rightarrow> (run_error, unit) res" where
  "assert_executor r token = raise_if (r_token r \<noteq> token) (run_err ''stale_executor'')"

definition assert_active :: "run \<Rightarrow> (run_error, unit) res" where
  "assert_active r = raise_if (\<not> is_active r) (run_err ''run_terminal'')"

text \<open>The three checks every writing operation of an executor starts with.\<close>

definition executor_run :: "db \<Rightarrow> user option \<Rightarrow> string \<Rightarrow> string \<Rightarrow> (run_error, run) res" where
  "executor_run d actor i token =
     bindR (locked_run d actor i) (\<lambda>r.
     bindR (assert_active r) (\<lambda>_.
     bindR (assert_executor r token) (\<lambda>_. Inr r)))"

lemma locked_run_eq_Inr [res_simps]:
  "locked_run d actor i = Inr r \<longleftrightarrow> get_run d i = Some r \<and> actor_can_edit_run d actor r"
  by (auto simp: locked_run_def split: option.splits if_splits)

lemma executor_run_eq_Inr [res_simps]:
  "executor_run d actor i token = Inr r \<longleftrightarrow>
     get_run d i = Some r \<and> actor_can_edit_run d actor r \<and> is_active r \<and> r_token r = token"
  by (auto simp: executor_run_def assert_active_def assert_executor_def res_simps)

end
