(* ===== verification/Investigation_References.thy ===== *)
theory Investigation_References
  imports Investigation_Model
begin

text \<open>
  References into the frozen sources (\<open>accelerator/investigation_runtime.py\<close>): locators, the validity
  of a reference, the exhaustive mapping obligations a run may carry, and the blockers that report
  an incomplete or unbound mapping.
\<close>

section \<open>Locators\<close>

text \<open>\<open>isinstance(v, int)\<close>, which a Boolean passes as 0 or 1.\<close>

definition as_int :: "json \<Rightarrow> int option" where
  "as_int v = (case v of JInt i \<Rightarrow> Some i | JBool b \<Rightarrow> Some (if b then 1 else 0) | _ \<Rightarrow> None)"

definition line_end :: "char \<Rightarrow> bool" where
  "line_end c = (let n = (of_char c :: int) in 10 \<le> n \<and> n \<le> 13 \<or> 28 \<le> n \<and> n \<le> 30 \<or> n = 133)"

text \<open>\<open>len(s.splitlines())\<close>; a carriage return before a line feed does not end a line of its own.\<close>

fun count_lines :: "bool \<Rightarrow> string \<Rightarrow> int" where
  "count_lines open_line [] = (if open_line then 1 else 0)"
| "count_lines open_line (c # cs) =
     (if line_end c \<and> \<not> (c = cr \<and> cs \<noteq> [] \<and> hd cs = lf) then 1 + count_lines False cs
      else count_lines True cs)"

definition validate_locator :: "source \<Rightarrow> obj \<Rightarrow> bool" where
  "validate_locator s loc =
     (if src_type s = ''txt'' \<or> src_type s = ''md'' then
        (case as_int (jget loc ''line'') of
           None \<Rightarrow> False
         | Some line \<Rightarrow> 1 \<le> line \<and> line \<le> max 1 (count_lines False (src_content s)))
      else
        (case as_int (jget loc ''row'') of
           None \<Rightarrow> False
         | Some row \<Rightarrow>
             if row < 1 then False
             else if (case src_row_count s of None \<Rightarrow> False | Some n \<Rightarrow> row > n) then False
             else (case jget loc ''column'' of
                     JNull \<Rightarrow> True
                   | JStr column \<Rightarrow> column \<in> set (src_columns s)
                   | _ \<Rightarrow> False)))"

section \<open>References\<close>

definition get_result :: "db \<Rightarrow> string \<Rightarrow> string \<Rightarrow> tool_result option" where
  "get_result d snap i = find (\<lambda>t. tr_id t = i \<and> tr_snapshot t = snap) (db_results d)"

text \<open>
  \<open>reference_valid\<close>: the key conversion of the lookup may raise; a \<open>ValueError\<close> or a missing row is
  an invalid reference.
\<close>

definition reference_valid :: "env \<Rightarrow> db \<Rightarrow> run \<Rightarrow> obj \<Rightarrow> (run_error, bool) res" where
  "reference_valid env d r ref =
     (if py_truthy (jget ref ''source_id'') then
        bindR (e_pk env (jget ref ''source_id'')) (\<lambda>k. Inr
          (case Option.bind k (get_source (r_snapshot r)) of
             None \<Rightarrow> False
           | Some s \<Rightarrow>
               str_at ref ''revision_hash'' = src_sha256 s \<and>
               is_mapping (jget ref ''locator'') \<and>
               validate_locator s (members (jget ref ''locator''))))
      else if py_truthy (jget ref ''tool_result_id'') then
        bindR (e_pk env (jget ref ''tool_result_id'')) (\<lambda>k. Inr
          (case Option.bind k (get_result d (snap_id (r_snapshot r))) of
             None \<Rightarrow> False
           | Some t \<Rightarrow> str_at ref ''revision_hash'' = tr_source_hash t))
      else Inr False)"

definition all_valid :: "env \<Rightarrow> db \<Rightarrow> run \<Rightarrow> obj list \<Rightarrow> (run_error, bool) res" where
  "all_valid env d r refs = allR (reference_valid env d r) refs"

lemma all_valid_True_iff:
  "all_valid env d r refs = Inr True \<longleftrightarrow> (\<forall>ref\<in>set refs. reference_valid env d r ref = Inr True)"
  by (simp add: all_valid_def allR_True_iff)

text \<open>A reference is judged against the snapshot and the stored results alone.\<close>

lemma reference_valid_cong:
  "r_snapshot r' = r_snapshot r \<Longrightarrow> db_results d' = db_results d \<Longrightarrow>
     reference_valid env d' r' = reference_valid env d r"
  by (rule ext) (simp add: reference_valid_def get_result_def [abs_def])

section \<open>Mapping obligations\<close>

abbreviation bad_obligation :: run_error where
  "bad_obligation \<equiv> run_err ''invalid_structured_mapping_obligation''"

abbreviation bad_contract :: run_error where
  "bad_contract \<equiv> run_err ''invalid_structured_mapping_snapshot_contract''"

definition obligation_fields :: "string list" where
  "obligation_fields = [''obligation_id'', ''source_id'', ''case_key_column'', ''case_keys'',
     ''mapping_dimension'', ''exhaustive'']"

text \<open>The loop over the raw case keys: every key a string that is not blank, stripped.\<close>

definition case_key :: "json \<Rightarrow> (run_error, string) res" where
  "case_key v = (case v of
       JStr s \<Rightarrow> if py_strip s = [] then Inl bad_obligation else Inr (py_strip s)
     | _ \<Rightarrow> Inl bad_obligation)"

definition key_count :: "csv_row list \<Rightarrow> string \<Rightarrow> string \<Rightarrow> nat" where
  "key_count rows column k = length (filter (\<lambda>row. cell_text row column = k) rows)"

text \<open>One iteration of the loop of \<open>normalize_structured_mapping_obligations\<close>.\<close>

definition normalize_obligation :: "snapshot \<Rightarrow> string list \<Rightarrow> json \<Rightarrow> (run_error, obligation) res" where
  "normalize_obligation snap seen raw = (let
     f = members raw;
     oid = text_at f ''obligation_id'';
     sid = text_at f ''source_id'';
     column = text_at f ''case_key_column'';
     dimension = text_at f ''mapping_dimension'' in
     bindR (raise_if (\<not> is_mapping raw \<or> \<not> set (map fst f) \<subseteq> set obligation_fields)
              bad_obligation) (\<lambda>_.
     bindR (raise_if (oid = [] \<or> length oid > 100 \<or> oid \<in> set seen \<or> sid = [] \<or> column = [] \<or>
              dimension = [] \<or> jget f ''exhaustive'' \<noteq> JBool True) bad_obligation) (\<lambda>_.
     (case get_source snap sid of
        None \<Rightarrow> Inl bad_obligation
      | Some s \<Rightarrow>
          bindR (raise_if (src_type s \<noteq> ''csv'') bad_obligation) (\<lambda>_.
          bindR (raise_if (column \<notin> set (src_columns s)) bad_obligation) (\<lambda>_.
          bindR (raise_if (items (jget f ''case_keys'') = []) bad_obligation) (\<lambda>_.
          bindR (mapR case_key (items (jget f ''case_keys''))) (\<lambda>keys.
          bindR (raise_if (\<not> distinct keys) bad_obligation) (\<lambda>_.
          (case dict_rows (src_content s) of
             None \<Rightarrow> Inl Csv_Error
           | Some rows \<Rightarrow>
               bindR (raise_if (\<exists>k\<in>set keys. key_count rows column k \<noteq> 1) bad_obligation) (\<lambda>_.
               Inr \<lparr>ob_id = oid, ob_snapshot = snap_id snap,
                    ob_manifest_hash = snap_manifest_hash snap, ob_source = src_id s,
                    ob_source_hash = src_sha256 s, ob_column = column, ob_keys = sort keys,
                    ob_dimension = dimension\<rparr>)))))))))))"

fun normalize_obligations_from ::
    "snapshot \<Rightarrow> string list \<Rightarrow> json list \<Rightarrow> (run_error, obligation list) res" where
  "normalize_obligations_from snap seen [] = Inr []"
| "normalize_obligations_from snap seen (raw # raws) =
     bindR (normalize_obligation snap seen raw) (\<lambda>ob.
     bindR (normalize_obligations_from snap (ob_id ob # seen) raws) (\<lambda>obs. Inr (ob # obs)))"

definition normalize_structured_mapping_obligations ::
    "snapshot \<Rightarrow> json \<Rightarrow> (run_error, obligation list) res" where
  "normalize_structured_mapping_obligations snap raw = (case raw of
       JNull \<Rightarrow> Inr []
     | JList raws \<Rightarrow>
         bindR (normalize_obligations_from snap [] raws) (\<lambda>obs. Inr (sort_key ob_id obs))
     | _ \<Rightarrow> Inl bad_obligation)"

text \<open>\<open>list(v)\<close>: a string lists its characters, a mapping its keys, a number raises.\<close>

definition py_list :: "json \<Rightarrow> (run_error, json list) res" where
  "py_list v = (case v of
       JList xs \<Rightarrow> Inr xs
     | JStr s \<Rightarrow> Inr (map (\<lambda>c. JStr [c]) s)
     | JObj f \<Rightarrow> Inr (map (\<lambda>kv. JStr (fst kv)) f)
     | _ \<Rightarrow> Inl (Other_Error ''TypeError''))"

definition spec_fields :: "string list" where
  "spec_fields = [''obligation_id'', ''source_filename'', ''source_content_sha256'',
     ''case_key_column'', ''case_keys'', ''mapping_dimension'', ''exhaustive'']"

definition source_by_filename :: "snapshot \<Rightarrow> string \<Rightarrow> source option" where
  "source_by_filename snap n = find (\<lambda>s. src_filename s = n) (rev (snap_sources snap))"

text \<open>One frozen specification becomes the raw obligation the normaliser takes.\<close>

definition spec_obligation :: "snapshot \<Rightarrow> json \<Rightarrow> (run_error, json) res" where
  "spec_obligation snap spec = (let f = members spec in
     bindR (raise_if (\<not> is_mapping spec \<or> set (map fst f) \<noteq> set spec_fields) bad_contract) (\<lambda>_.
     (case source_by_filename snap (text_at f ''source_filename'') of
        None \<Rightarrow> Inl bad_contract
      | Some s \<Rightarrow>
          bindR (raise_if (src_type s \<noteq> ''csv'' \<or>
                   src_sha256 s \<noteq> str_at f ''source_content_sha256'') bad_contract) (\<lambda>_.
          bindR (if py_truthy (jget f ''case_keys'') then py_list (jget f ''case_keys'') else Inr [])
            (\<lambda>keys.
          Inr (JObj [(''obligation_id'', jget f ''obligation_id''), (''source_id'', JStr (src_id s)),
                 (''case_key_column'', jget f ''case_key_column''), (''case_keys'', JList keys),
                 (''mapping_dimension'', jget f ''mapping_dimension''),
                 (''exhaustive'', jget f ''exhaustive'')]))))))"

text \<open>\<open>except InvestigationRunError as exc: raise InvestigationRunError(...) from exc\<close>.\<close>

definition recode :: "run_error \<Rightarrow> (run_error, 'a) res \<Rightarrow> (run_error, 'a) res" where
  "recode e r = (case r of
       Inr x \<Rightarrow> Inr x
     | Inl e' \<Rightarrow> Inl (case e' of Run_Error c i \<Rightarrow> e | _ \<Rightarrow> e'))"

lemma recode_eq_Inr [simp]: "recode e r = Inr x \<longleftrightarrow> r = Inr x"
  by (auto simp: recode_def split: sum.splits)

definition structured_mapping_obligations_from_snapshot ::
    "snapshot \<Rightarrow> (run_error, obligation list) res" where
  "structured_mapping_obligations_from_snapshot snap =
     (case jget (members (snap_context snap)) ''structured_mapping_specs'' of
        JNull \<Rightarrow> Inr []
      | JList [] \<Rightarrow> Inr []
      | JList specs \<Rightarrow>
          bindR (mapR (spec_obligation snap) specs) (\<lambda>raws.
          recode bad_contract (normalize_structured_mapping_obligations snap (JList raws)))
      | _ \<Rightarrow> Inl bad_contract)"

section \<open>Coverage of the obligations\<close>

definition mapping_reference_matches_case ::
    "env \<Rightarrow> db \<Rightarrow> run \<Rightarrow> obligation \<Rightarrow> string \<Rightarrow> obj \<Rightarrow> (run_error, bool) res" where
  "mapping_reference_matches_case env d r ob key ref =
     bindR (reference_valid env d r ref) (\<lambda>ok.
       if \<not> ok \<or> str_at ref ''source_id'' \<noteq> ob_source ob \<or>
          str_at ref ''revision_hash'' \<noteq> ob_source_hash ob \<or> \<not> is_mapping (jget ref ''locator'')
       then Inr False
       else (case as_int (jget (members (jget ref ''locator'')) ''row'') of
           None \<Rightarrow> Inr False
         | Some row \<Rightarrow>
             bindR (e_pk env (JStr (ob_source ob))) (\<lambda>k.
             (case Option.bind k (get_source (r_snapshot r)) of
                None \<Rightarrow> Inr False
              | Some s \<Rightarrow>
                  (case dict_rows (src_content s) of
                     None \<Rightarrow> Inl Csv_Error
                   | Some rows \<Rightarrow> Inr
                       (if row < 1 \<or> row > int (length rows) then False
                        else cell_text (rows ! nat (row - 1)) (ob_column ob) = key))))))"

text \<open>The loop over the raw mappings: the mappings of an obligation, and the invalid ones.\<close>

definition mapping_id :: "json \<Rightarrow> string" where
  "mapping_id m = text_at (members m) ''obligation_id''"

definition mappings_of :: "json list \<Rightarrow> string \<Rightarrow> obj list" where
  "mappings_of raw i = map members (filter (\<lambda>m. mapping_id m = i \<and> i \<noteq> []) raw)"

definition assignment_key :: "json \<Rightarrow> string" where
  "assignment_key a = text_at (members a) ''case_key''"

text \<open>The keys met again after their first occurrence.\<close>

fun repeated :: "'a list \<Rightarrow> 'a list \<Rightarrow> 'a list" where
  "repeated seen [] = []"
| "repeated seen (x # xs) = (if x \<in> set seen then x # repeated seen xs else repeated (x # seen) xs)"

text \<open>The checks of one assignment of an expected case key.\<close>

definition assignment_blockers ::
    "env \<Rightarrow> db \<Rightarrow> run \<Rightarrow> obligation \<Rightarrow> string \<Rightarrow> obj \<Rightarrow> (run_error, string list) res" where
  "assignment_blockers env d r ob key a = (let
     refs = jget a ''references'';
     tag = ob_id ob @ '':'' @ key in
     bindR (if is_list refs \<and> items refs \<noteq> []
            then allR (\<lambda>v. if is_mapping v then reference_valid env d r (members v) else Inr False)
                   (items refs)
            else Inr False) (\<lambda>valid.
     bindR (if valid
            then anyR (mapping_reference_matches_case env d r ob key) (mappings_in (items refs))
            else Inr False) (\<lambda>bound.
     Inr ((if text_at a ''value'' = [] then [''structured_mapping_value_missing:'' @ tag] else []) @
          (if \<not> valid \<or> \<not> bound then [''structured_mapping_reference_invalid:'' @ tag] else [])))))"

text \<open>One iteration of the loop over the expected obligations.\<close>

definition obligation_blockers ::
    "env \<Rightarrow> db \<Rightarrow> run \<Rightarrow> json list \<Rightarrow> obligation \<Rightarrow> (run_error, string list) res" where
  "obligation_blockers env d r raw ob = (let
     oid = ob_id ob;
     groups = mappings_of raw oid;
     incomplete = ''structured_mapping_coverage_incomplete:'' @ oid in
     (case groups of
        [m] \<Rightarrow>
          (if \<not> is_list (jget m ''assignments'') then Inr [incomplete] else (let
             assignments = items (jget m ''assignments'');
             keys = filter (\<lambda>k. k \<noteq> []) (map assignment_key assignments);
             expected = ob_keys ob;
             assignment = (\<lambda>k. find (\<lambda>a. assignment_key a = k) assignments) in
             bindR (concatR (\<lambda>k. case assignment k of
                       None \<Rightarrow> Inr []
                     | Some a \<Rightarrow> assignment_blockers env d r ob k (members a))
                   (sorted_set (filter (\<lambda>k. k \<in> set keys) expected))) (\<lambda>bs.
             Inr ((if \<exists>a\<in>set assignments. assignment_key a = []
                   then [''structured_mapping_assignment_invalid:'' @ oid] else []) @
                  map (\<lambda>k. ''structured_mapping_duplicate_case_key:'' @ oid @ '':'' @ k)
                    (repeated [] keys) @
                  map (\<lambda>k. ''structured_mapping_unexpected_case_key:'' @ oid @ '':'' @ k)
                    (sorted_set (filter (\<lambda>k. k \<notin> set expected) keys)) @
                  (if set keys \<noteq> set expected \<or> length keys \<noteq> length (remdups expected)
                   then [incomplete] else []) @ bs))))
      | _ \<Rightarrow> Inr ((if length groups > 1
                   then [''structured_mapping_duplicate_obligation:'' @ oid] else []) @
                 [incomplete])))"

text \<open>\<open>{str(item["obligation_id"]): item for item in obligations}\<close>.\<close>

definition expected_obligations :: "obligation list \<Rightarrow> (string, obligation) dict" where
  "expected_obligations obs = dict_of (map (\<lambda>ob. (ob_id ob, ob)) obs)"

definition structured_mapping_blockers :: "env \<Rightarrow> db \<Rightarrow> run \<Rightarrow> (run_error, string list) res" where
  "structured_mapping_blockers env d r = (let
     obligations = r_obligations r;
     raw = jget (r_brief r) ''structured_mappings'';
     expected = expected_obligations obligations in
     if obligations = [] then Inr []
     else if \<not> is_list raw
     then Inr (map (\<lambda>ob. ''structured_mapping_coverage_incomplete:'' @ ob_id ob) obligations)
     else bindR (concatR (obligation_blockers env d r (items raw)) (map snd expected)) (\<lambda>bs.
       Inr (sorted_set
         ((if \<exists>m\<in>set (items raw). mapping_id m = [] then [''structured_mapping_invalid''] else []) @
          map (\<lambda>i. ''structured_mapping_unexpected_obligation:'' @ i)
            (sorted_set (filter (\<lambda>i. i \<noteq> [] \<and> i \<notin> set (dict_keys expected))
              (map mapping_id (items raw)))) @ bs))))"

section \<open>What an empty blocker list means\<close>

text \<open>
  \<open>mapping_complete\<close> states the contract without blockers: every mapping names an expected
  obligation, and every obligation has exactly one mapping whose assignments name each expected case
  key exactly once, with a value, valid references and at least one reference to the row of the key.
\<close>

definition sound_assignment :: "env \<Rightarrow> db \<Rightarrow> run \<Rightarrow> obligation \<Rightarrow> string \<Rightarrow> obj \<Rightarrow> bool" where
  "sound_assignment env d r ob key a \<longleftrightarrow>
     text_at a ''value'' \<noteq> [] \<and>
     (\<exists>refs. jget a ''references'' = JList refs \<and> refs \<noteq> [] \<and>
        (\<forall>v\<in>set refs. is_mapping v \<and> reference_valid env d r (members v) = Inr True) \<and>
        (\<exists>v\<in>set refs. mapping_reference_matches_case env d r ob key (members v) = Inr True))"

definition covered :: "env \<Rightarrow> db \<Rightarrow> run \<Rightarrow> json list \<Rightarrow> obligation \<Rightarrow> bool" where
  "covered env d r raw ob \<longleftrightarrow>
     (\<exists>m as. mappings_of raw (ob_id ob) = [m] \<and> jget m ''assignments'' = JList as \<and>
        distinct (map assignment_key as) \<and> [] \<notin> set (map assignment_key as) \<and>
        set (map assignment_key as) = set (ob_keys ob) \<and>
        (\<forall>a\<in>set as. sound_assignment env d r ob (assignment_key a) (members a)))"

definition mapping_complete :: "env \<Rightarrow> db \<Rightarrow> run \<Rightarrow> bool" where
  "mapping_complete env d r \<longleftrightarrow> r_obligations r = [] \<or>
     (\<exists>raw. jget (r_brief r) ''structured_mappings'' = JList raw \<and>
        (\<forall>m\<in>set raw. mapping_id m \<noteq> [] \<and>
           mapping_id m \<in> set (dict_keys (expected_obligations (r_obligations r)))) \<and>
        (\<forall>ob\<in>set (map snd (expected_obligations (r_obligations r))). covered env d r raw ob))"

lemma repeated_Nil_iff: "repeated seen xs = [] \<longleftrightarrow> distinct xs \<and> set seen \<inter> set xs = {}"
  by (induction seen xs rule: repeated.induct) auto

lemma matches_defined:
  assumes m: "mapping_reference_matches_case env d r ob key ref = Inr True"
    and v: "reference_valid env d r ref' = Inr True"
  shows "\<exists>b. mapping_reference_matches_case env d r ob key ref' = Inr b"
proof -
  note d = mapping_reference_matches_case_def
  obtain k where k: "e_pk env (JStr (ob_source ob)) = Inr k"
    using m by (cases "e_pk env (JStr (ob_source ob))")
      (auto simp: d bindR_eq_Inr split: if_split_asm option.split_asm)
  obtain s where s: "Option.bind k (get_source (r_snapshot r)) = Some s"
    using m k by (cases "Option.bind k (get_source (r_snapshot r))")
      (auto simp: d bindR_eq_Inr split: if_split_asm option.split_asm)
  obtain rows where "dict_rows (src_content s) = Some rows"
    using m k s by (cases "dict_rows (src_content s)")
      (auto simp: d bindR_eq_Inr split: if_split_asm option.split_asm)
  with k s show ?thesis
    using v by (auto simp: d split: option.split)
qed

lemma mappings_in_all: "\<forall>v\<in>set xs. is_mapping v \<Longrightarrow> mappings_in xs = map members xs"
  by (simp add: mappings_in_def)

lemma anyR_map: "anyR f (map g xs) = anyR (\<lambda>x. f (g x)) xs"
  by (induction xs) (simp_all add: bindR_def split: sum.splits)

lemma assignment_blockers_Nil_iff:
  "assignment_blockers env d r ob key a = Inr [] \<longleftrightarrow> sound_assignment env d r ob key a"
proof -
  let ?refs = "jget a ''references''"
  let ?valid = "if is_list ?refs \<and> items ?refs \<noteq> []
            then allR (\<lambda>v. if is_mapping v then reference_valid env d r (members v) else Inr False)
                   (items ?refs)
            else Inr False"
  let ?bound = "anyR (mapping_reference_matches_case env d r ob key) (mappings_in (items ?refs))"
  have v: "?valid = Inr True \<longleftrightarrow> (\<exists>refs. ?refs = JList refs \<and> refs \<noteq> [] \<and>
      (\<forall>v\<in>set refs. is_mapping v \<and> reference_valid env d r (members v) = Inr True))"
    by (cases ?refs) (auto simp: allR_True_iff split: if_splits)
  have b: "?bound = Inr True \<longleftrightarrow>
      (\<exists>v\<in>set refs. mapping_reference_matches_case env d r ob key (members v) = Inr True)"
    if "?refs = JList refs" "\<forall>v\<in>set refs. is_mapping v \<and> reference_valid env d r (members v) = Inr True"
    for refs
    using that matches_defined
    by (auto simp: mappings_in_all anyR_map dest: anyR_TrueD intro: anyR_TrueI)
  have "assignment_blockers env d r ob key a = Inr [] \<longleftrightarrow>
      text_at a ''value'' \<noteq> [] \<and> ?valid = Inr True \<and> ?bound = Inr True"
    by (simp only: assignment_blockers_def Let_def bindR_eq_Inr) (auto split: if_splits)
  also have "\<dots> \<longleftrightarrow> sound_assignment env d r ob key a"
    unfolding sound_assignment_def v using b by auto
  finally show ?thesis .
qed

lemma covered_keys:
  assumes d: "distinct (map assignment_key as)" and e: "set (map assignment_key as) = set ks"
  shows "concatR (\<lambda>k. case find (\<lambda>a. assignment_key a = k) as of None \<Rightarrow> Inr []
       | Some a \<Rightarrow> f k a) (sorted_set (filter (\<lambda>k. k \<in> set (map assignment_key as)) ks)) = Inr []
    \<longleftrightarrow> (\<forall>a\<in>set as. f (assignment_key a) a = Inr [])"
proof -
  have "find (\<lambda>x. assignment_key x = assignment_key a) as = Some a" if "a \<in> set as" for a
    using distinct_map_find [OF d that] .
  moreover have "set (sorted_set (filter (\<lambda>k. k \<in> set (map assignment_key as)) ks)) =
      set (map assignment_key as)"
    using e by auto
  ultimately show ?thesis
    unfolding concatR_Nil_iff by (simp del: set_sorted_set)
qed

lemma obligation_blockers_Nil_iff:
  "obligation_blockers env d r raw ob = Inr [] \<longleftrightarrow> covered env d r raw ob"
proof (cases "\<exists>m as. mappings_of raw (ob_id ob) = [m] \<and> jget m ''assignments'' = JList as")
  case False
  then show ?thesis
    by (auto simp: obligation_blockers_def covered_def Let_def is_list_iff split: list.split)
next
  case True
  then obtain m as where m: "mappings_of raw (ob_id ob) = [m]" "jget m ''assignments'' = JList as"
    by auto
  let ?ks = "map assignment_key as"
  let ?rest = "concatR (\<lambda>k. case find (\<lambda>a. assignment_key a = k) as of None \<Rightarrow> Inr []
       | Some a \<Rightarrow> assignment_blockers env d r ob k (members a))
       (sorted_set (filter (\<lambda>k. k \<in> set ?ks) (ob_keys ob)))"
  show ?thesis
  proof (cases "[] \<in> set ?ks")
    case True
    then show ?thesis
      using m by (auto simp: obligation_blockers_def covered_def Let_def bindR_eq_Inr)
  next
    case False
    obtain ks where ks: "map assignment_key as = ks" by simp
    have f: "filter (\<lambda>k. k \<noteq> []) ks = ks"
      using False ks by (metis (mono_tags, lifting) filter_True)
    have none: "\<not> (\<exists>a\<in>set as. assignment_key a = [])"
      using False by (metis image_eqI set_map)
    have len: "length ks = length (remdups (ob_keys ob))" if "distinct ks" "set ks = set (ob_keys ob)"
      using that by (metis distinct_card length_remdups_card_conv)
    have "obligation_blockers env d r raw ob = bindR ?rest (\<lambda>bs. Inr
        (map (\<lambda>k. ''structured_mapping_duplicate_case_key:'' @ ob_id ob @ '':'' @ k) (repeated [] ks) @
         map (\<lambda>k. ''structured_mapping_unexpected_case_key:'' @ ob_id ob @ '':'' @ k)
           (sorted_set (filter (\<lambda>k. k \<notin> set (ob_keys ob)) ks)) @
         (if set ks \<noteq> set (ob_keys ob) \<or> length ks \<noteq> length (remdups (ob_keys ob))
          then [''structured_mapping_coverage_incomplete:'' @ ob_id ob] else []) @ bs))"
      unfolding obligation_blockers_def Let_def m json_shape_simps list.case ks f if_not_P [OF none]
      by simp
    then have "obligation_blockers env d r raw ob = Inr [] \<longleftrightarrow>
        distinct ks \<and> filter (\<lambda>k. k \<notin> set (ob_keys ob)) ks = [] \<and>
        \<not> (set ks \<noteq> set (ob_keys ob) \<or> length ks \<noteq> length (remdups (ob_keys ob))) \<and> ?rest = Inr []"
      by (cases ?rest) (auto simp: repeated_Nil_iff split: if_split_asm)
    also have "\<dots> \<longleftrightarrow> distinct ?ks \<and> set ?ks = set (ob_keys ob) \<and> ?rest = Inr []"
      unfolding ks using len by (auto simp: filter_empty_conv)
    also have "\<dots> \<longleftrightarrow> covered env d r raw ob"
    proof -
      have "?rest = Inr [] \<longleftrightarrow>
          (\<forall>a\<in>set as. sound_assignment env d r ob (assignment_key a) (members a))"
        if "distinct ?ks" "set ?ks = set (ob_keys ob)"
        unfolding covered_keys [OF that, of "\<lambda>k a. assignment_blockers env d r ob k (members a)"]
        by (simp add: assignment_blockers_Nil_iff)
      then show ?thesis
        using m False by (auto simp: covered_def)
    qed
    finally show ?thesis .
  qed
qed

lemma structured_mapping_blockers_Nil_iff:
  "structured_mapping_blockers env d r = Inr [] \<longleftrightarrow> mapping_complete env d r"
proof (cases "\<exists>raw. jget (r_brief r) ''structured_mappings'' = JList raw")
  case False
  then show ?thesis
    by (simp add: structured_mapping_blockers_def mapping_complete_def Let_def is_list_iff)
next
  case True
  then obtain raw where raw: "jget (r_brief r) ''structured_mappings'' = JList raw" by auto
  have "(\<exists>m\<in>set raw. mapping_id m = []) \<or>
      filter (\<lambda>i. i \<noteq> [] \<and> i \<notin> K) (map mapping_id raw) \<noteq> [] \<longleftrightarrow>
      \<not> (\<forall>m\<in>set raw. mapping_id m \<noteq> [] \<and> mapping_id m \<in> K)" for K
    by (auto simp: filter_empty_conv)
  then show ?thesis
    using raw
    by (auto simp: structured_mapping_blockers_def mapping_complete_def Let_def bindR_eq_Inr
        concatR_Nil_iff obligation_blockers_Nil_iff filter_empty_conv split: if_split_asm)
qed
section \<open>Frozen obligations\<close>

text \<open>
  What the normaliser promises of an obligation: it is bound to a CSV source of the snapshot by
  identifier and content hash, and each of its keys names exactly one row of the bound column.
\<close>

definition obligation_ok :: "snapshot \<Rightarrow> obligation \<Rightarrow> bool" where
  "obligation_ok snap ob \<longleftrightarrow>
     ob_id ob \<noteq> [] \<and> ob_dimension ob \<noteq> [] \<and> ob_snapshot ob = snap_id snap \<and>
     ob_manifest_hash ob = snap_manifest_hash snap \<and>
     ob_keys ob \<noteq> [] \<and> distinct (ob_keys ob) \<and> sorted (ob_keys ob) \<and>
     (\<exists>s rows. get_source snap (ob_source ob) = Some s \<and> src_type s = ''csv'' \<and>
        ob_source_hash ob = src_sha256 s \<and> ob_column ob \<in> set (src_columns s) \<and>
        dict_rows (src_content s) = Some rows \<and>
        (\<forall>k\<in>set (ob_keys ob). key_count rows (ob_column ob) k = 1))"

definition obligations_ok :: "snapshot \<Rightarrow> obligation list \<Rightarrow> bool" where
  "obligations_ok snap obs \<longleftrightarrow>
     distinct (map ob_id obs) \<and> sorted (map ob_id obs) \<and> (\<forall>ob\<in>set obs. obligation_ok snap ob)"

lemma normalize_obligation_ok:
  assumes "normalize_obligation snap seen raw = Inr ob"
  shows "obligation_ok snap ob \<and> ob_id ob \<notin> set seen"
proof -
  let ?f = "members raw"
  from assms obtain s where s: "get_source snap (text_at ?f ''source_id'') = Some s"
    by (auto simp: normalize_obligation_def Let_def bindR_eq_Inr split: option.splits)
  from assms s obtain rows keys where
    "dict_rows (src_content s) = Some rows"
    and "mapR case_key (items (jget ?f ''case_keys'')) = Inr keys"
    and "items (jget ?f ''case_keys'') \<noteq> []"
    and "distinct keys" "\<forall>k\<in>set keys. key_count rows (text_at ?f ''case_key_column'') k = 1"
    and "ob = \<lparr>ob_id = text_at ?f ''obligation_id'', ob_snapshot = snap_id snap,
                    ob_manifest_hash = snap_manifest_hash snap, ob_source = src_id s,
                    ob_source_hash = src_sha256 s, ob_column = text_at ?f ''case_key_column'',
                    ob_keys = sort keys, ob_dimension = text_at ?f ''mapping_dimension''\<rparr>"
    by (auto simp: normalize_obligation_def Let_def bindR_eq_Inr raise_if_eq_Inr
        split: option.split_asm)
  moreover from this(2,3) have "sort keys \<noteq> []"
    using mapR_Inr_length by (metis length_0_conv length_sort)
  moreover have "get_source snap (src_id s) = Some s"
    using s by (metis get_source_SomeD)
  ultimately show ?thesis
    using assms s by (auto simp: obligation_ok_def normalize_obligation_def Let_def bindR_eq_Inr
        raise_if_eq_Inr)
qed

lemma normalize_obligations_from_ok:
  "normalize_obligations_from snap seen raws = Inr obs \<Longrightarrow>
     distinct (map ob_id obs) \<and> set (map ob_id obs) \<inter> set seen = {} \<and>
     (\<forall>ob\<in>set obs. obligation_ok snap ob)"
proof (induction snap seen raws arbitrary: obs rule: normalize_obligations_from.induct)
  case (2 snap seen raw raws)
  from "2.prems" obtain ob obs' where ob: "normalize_obligation snap seen raw = Inr ob"
    and rest: "normalize_obligations_from snap (ob_id ob # seen) raws = Inr obs'"
    and obs: "obs = ob # obs'"
    by (auto simp: bindR_eq_Inr)
  show ?case
    using "2.IH" [OF ob rest] normalize_obligation_ok [OF ob] by (auto simp: obs)
qed simp

lemma normalize_obligations_ok:
  "normalize_structured_mapping_obligations snap raw = Inr obs \<Longrightarrow> obligations_ok snap obs"
  by (auto simp: normalize_structured_mapping_obligations_def obligations_ok_def bindR_eq_Inr
      distinct_map inj_on_def split: json.split_asm dest!: normalize_obligations_from_ok)

lemma obligations_from_snapshot_ok:
  "structured_mapping_obligations_from_snapshot snap = Inr obs \<Longrightarrow> obligations_ok snap obs"
  by (auto simp: structured_mapping_obligations_from_snapshot_def bindR_eq_Inr
      split: json.split_asm list.split_asm intro: normalize_obligations_ok)
    (simp add: obligations_ok_def)+

end
