(* ===== verification/Python_Int.thy ===== *)
theory Python_Int
  imports Python_Values
begin

text \<open>
  Python's \<open>int(v)\<close> on JSON values. \<open>Inl\<close> carries the name of the exception. A float is given by its
  \<open>repr\<close>: below \<open>10 ^ 16\<close> the digits before the point are its integral part; a \<open>repr\<close> with a positive
  exponent stands for the nearest multiple of a power of two with 53 significant bits.
\<close>

definition dec_value :: "char \<Rightarrow> int option" where
  "dec_value c = (let n = (of_char c :: int) in if 48 \<le> n \<and> n \<le> 57 then Some (n - 48) else None)"

text \<open>Digits with single underscores between them; the flag says that a digit came just before.\<close>

fun dec_run :: "bool \<Rightarrow> int \<Rightarrow> string \<Rightarrow> int option" where
  "dec_run seen acc [] = (if seen then Some acc else None)"
| "dec_run seen acc (c # cs) =
     (if c = CHR ''_'' then (if seen \<and> cs \<noteq> [] then dec_run False acc cs else None)
      else case dec_value c of None \<Rightarrow> None | Some v \<Rightarrow> dec_run True (10 * acc + v) cs)"

definition signed :: "(string \<Rightarrow> int option) \<Rightarrow> string \<Rightarrow> int option" where
  "signed f s = (case s of
       [] \<Rightarrow> None
     | c # cs \<Rightarrow> if c = CHR ''-'' then map_option uminus (f cs)
                else if c = CHR ''+'' then f cs else f s)"

definition int_of_text :: "string \<Rightarrow> int option" where
  "int_of_text s = signed (dec_run False 0) (py_strip s)"

text \<open>Rounding a positive integer to 53 bits, ties to even.\<close>

function unit_in_last_place :: "int \<Rightarrow> int" where
  "unit_in_last_place n = (if n < 2 ^ 53 then 1 else 2 * unit_in_last_place (n div 2))"
  by pat_completeness auto
termination
  by (relation "measure nat") auto

declare unit_in_last_place.simps [simp del]

definition round_double :: "int \<Rightarrow> int" where
  "round_double n = (let u = unit_in_last_place n; q = n div u; r = n mod u in
     u * (if 2 * r > u \<or> 2 * r = u \<and> odd q then q + 1 else q))"

definition float_magnitude :: "string \<Rightarrow> int option" where
  "float_magnitude t = (let
     mantissa = takeWhile (\<lambda>c. c \<noteq> CHR ''e'') t;
     exponent = drop (length mantissa + 1) t;
     whole = takeWhile (\<lambda>c. c \<noteq> CHR ''.'') mantissa;
     frac = drop (length whole + 1) mantissa in
     if exponent = [] then dec_run False 0 whole
     else (case signed (dec_run False 0) exponent of
         None \<Rightarrow> None
       | Some e \<Rightarrow>
           if e < 0 then Some 0
           else map_option (\<lambda>n. round_double (n * 10 ^ nat (e - int (length frac))))
                  (dec_run False 0 (whole @ frac))))"

definition py_int :: "json \<Rightarrow> (string, int) res" where
  "py_int v = (case v of
       JInt i \<Rightarrow> Inr i
     | JBool b \<Rightarrow> Inr (if b then 1 else 0)
     | JStr s \<Rightarrow> (case int_of_text s of None \<Rightarrow> Inl ''ValueError'' | Some i \<Rightarrow> Inr i)
     | JFloat t \<Rightarrow>
         if t = ''nan'' then Inl ''ValueError''
         else (case signed float_magnitude t of None \<Rightarrow> Inl ''OverflowError'' | Some i \<Rightarrow> Inr i)
     | _ \<Rightarrow> Inl ''TypeError'')"

lemma py_int_JInt [simp, py_eval]: "py_int (JInt i) = Inr i"
  by (simp add: py_int_def)

lemma py_int_samples:
  "py_int (JStr '' -1_000 '') = Inr (- 1000)" "py_int (JFloat ''-2.75'') = Inr (- 2)"
  "py_int (JFloat ''1e+23'') = Inr 99999999999999991611392" "py_int (JFloat ''5e-07'') = Inr 0"
  by code_simp+

section \<open>Equality\<close>

text \<open>
  \<open>v == w\<close> on JSON values: Booleans, integers and integral floats compare as numbers, objects by
  their keys.
\<close>

definition num_value :: "json \<Rightarrow> (string, int) res option" where
  "num_value v = (case v of
       JInt i \<Rightarrow> Some (Inr i)
     | JBool b \<Rightarrow> Some (Inr (if b then 1 else 0))
     | JFloat t \<Rightarrow>
         if drop (length t - 2) t = ''.0'' \<or> CHR ''e'' \<in> set t \<and> CHR ''-'' \<notin> set (dropWhile (\<lambda>c. c \<noteq> CHR ''e'') t)
         then map_option Inr (signed float_magnitude t)
         else Some (Inl t)
     | _ \<Rightarrow> None)"

fun py_eq :: "json \<Rightarrow> json \<Rightarrow> bool" where
  "py_eq (JList xs) w = (case w of JList ys \<Rightarrow> list_all2 py_eq xs ys | _ \<Rightarrow> False)"
| "py_eq (JObj f) w = (case w of
     JObj g \<Rightarrow> length f = length g \<and>
       (\<forall>kv\<in>set f. case map_of g (fst kv) of None \<Rightarrow> False | Some v \<Rightarrow> py_eq (snd kv) v)
   | _ \<Rightarrow> False)"
| "py_eq (JStr s) w = (w = JStr s)"
| "py_eq JNull w = (w = JNull)"
| "py_eq v w = (v \<noteq> JFloat ''nan'' \<and> num_value v \<noteq> None \<and> num_value v = num_value w)"

end
