(* ===== verification/Investigation_Brief.thy ===== *)
theory Investigation_Brief
  imports Investigation_References Python_Int
begin

text \<open>
  The decision brief (\<open>accelerator/investigation_runtime.py\<close>): the normalisation that drops
  ungrounded calculations, the blockers of a brief, one definition per section, and the detection of
  decision-critical evidence that is missing altogether.
\<close>

section \<open>Lists of references\<close>

text \<open>\<open>[item for item in x.get(key, []) if isinstance(item, Mapping)]\<close>.\<close>

definition ref_list :: "obj \<Rightarrow> string \<Rightarrow> (run_error, obj list) res" where
  "ref_list f key = bindR (py_list (jget_or f key (JList []))) (\<lambda>vs. Inr (mappings_in vs))"

text \<open>\<open>v not in s\<close> for a set \<open>s\<close> of strings: a list or an object cannot be hashed.\<close>

definition not_in_set :: "json \<Rightarrow> string list \<Rightarrow> (run_error, bool) res" where
  "not_in_set v s = (case v of
       JStr t \<Rightarrow> Inr (t \<notin> set s)
     | JList _ \<Rightarrow> Inl (Other_Error ''TypeError'')
     | JObj _ \<Rightarrow> Inl (Other_Error ''TypeError'')
     | _ \<Rightarrow> Inr True)"

definition blocker_if :: "bool \<Rightarrow> string \<Rightarrow> string list" where
  "blocker_if b t = (if b then [t] else [])"

definition at_index :: "string \<Rightarrow> int \<Rightarrow> string" where
  "at_index t i = t @ '':'' @ int_text i"

text \<open>\<open>enumerate(xs)\<close> with a body that may raise.\<close>

fun enumR :: "(int \<Rightarrow> 'a \<Rightarrow> ('e, 'b list) res) \<Rightarrow> int \<Rightarrow> 'a list \<Rightarrow> ('e, 'b list) res" where
  "enumR f i [] = Inr []"
| "enumR f i (x # xs) = bindR (f i x) (\<lambda>ys. bindR (enumR f (i + 1) xs) (\<lambda>zs. Inr (ys @ zs)))"

section \<open>Normalisation\<close>

text \<open>The condition under which a calculation is kept, evaluated from left to right.\<close>

definition calculation_kept :: "env \<Rightarrow> db \<Rightarrow> run \<Rightarrow> obj \<Rightarrow> (run_error, bool) res" where
  "calculation_kept env d r c = (let ref = jget c ''reference'' in
     if text_at c ''summary'' = [] \<or> \<not> is_mapping ref \<or>
        \<not> py_truthy (jget (members ref) ''tool_result_id'')
     then Inr False
     else bindR (reference_valid env d r (members ref)) (\<lambda>ok.
       Inr (ok \<and> is_mapping (jget c ''population'') \<and> text_at c ''limits'' \<noteq> [])))"

definition kept_calculations :: "env \<Rightarrow> db \<Rightarrow> run \<Rightarrow> json list \<Rightarrow> (run_error, json list) res" where
  "kept_calculations env d r vs = concatR (\<lambda>v.
     if \<not> is_mapping v then Inr []
     else bindR (calculation_kept env d r (members v)) (\<lambda>ok. Inr (if ok then [v] else []))) vs"

definition normalize_decision_brief_payload ::
    "env \<Rightarrow> db \<Rightarrow> run \<Rightarrow> obj \<Rightarrow> (run_error, obj) res" where
  "normalize_decision_brief_payload env d r payload =
     (if \<not> r_brief_required r then Inr payload
      else (case jget payload ''calculations'' of
          JNull \<Rightarrow> Inr payload
        | JList vs \<Rightarrow>
            bindR (kept_calculations env d r vs) (\<lambda>ws.
            Inr (dict_set payload ''calculations'' (JList ws)))
        | _ \<Rightarrow> Inr (dict_set payload ''calculations'' (JList []))))"

section \<open>Blockers by section\<close>

definition question_blockers :: "run \<Rightarrow> string list" where
  "question_blockers r = (let scope = jget (r_brief r) ''question_scope''; f = members scope in
     if \<not> is_mapping scope then [''decision_brief_question_scope_missing'']
     else blocker_if (text_at f ''question'' = [] \<or>
              text_at f ''question'' \<noteq> py_strip (r_question r))
            ''decision_brief_question_mismatch'' @
          blocker_if (text_at f ''scope'' = []) ''decision_brief_scope_missing'')"

definition problem_blockers :: "env \<Rightarrow> db \<Rightarrow> run \<Rightarrow> (run_error, string list) res" where
  "problem_blockers env d r = (let problem = jget (r_brief r) ''problem''; f = members problem in
     if \<not> is_mapping problem \<or> text_at f ''statement'' = []
     then Inr [''decision_brief_problem_missing'']
     else
       bindR (ref_list f ''references'') (\<lambda>refs.
       bindR (if refs = [] then Inr False else all_valid env d r refs) (\<lambda>ok.
       Inr (blocker_if (\<not> ok) ''decision_brief_problem_reference_invalid''))))"

definition claim_statuses :: "string list" where
  "claim_statuses = [''open'', ''supported'', ''refuted'', ''conflicting'']"

definition hypothesis_blockers :: "env \<Rightarrow> db \<Rightarrow> run \<Rightarrow> int \<Rightarrow> obj \<Rightarrow> (run_error, string list) res" where
  "hypothesis_blockers env d r i f = (let status = text_at f ''status'' in
     if text_at f ''statement'' = [] \<or> status \<notin> set claim_statuses
     then Inr [at_index ''decision_brief_hypothesis_invalid'' i]
     else
       bindR (ref_list f ''references'') (\<lambda>evidence.
       bindR (ref_list f ''counterevidence_refs'') (\<lambda>counter.
       bindR (if status = ''open'' then Inr True
              else if evidence @ counter = [] then Inr False
              else all_valid env d r (evidence @ counter)) (\<lambda>ok.
       Inr (blocker_if (\<not> ok) (at_index ''decision_brief_hypothesis_reference_invalid'' i))))))"

definition calculation_blockers :: "env \<Rightarrow> db \<Rightarrow> run \<Rightarrow> int \<Rightarrow> obj \<Rightarrow> (run_error, string list) res" where
  "calculation_blockers env d r i c = (let ref = jget c ''reference'' in
     bindR (if text_at c ''summary'' = [] \<or> \<not> is_mapping ref \<or>
               \<not> py_truthy (jget (members ref) ''tool_result_id'')
            then Inr False else reference_valid env d r (members ref)) (\<lambda>ok.
     Inr (blocker_if (\<not> ok) (at_index ''decision_brief_calculation_reference_invalid'' i) @
          blocker_if (\<not> is_mapping (jget c ''population''))
            (at_index ''decision_brief_calculation_population_missing'' i) @
          blocker_if (text_at c ''limits'' = [])
            (at_index ''decision_brief_calculation_limits_missing'' i))))"

definition option_types :: "string list" where
  "option_types = [''organizational'', ''rule_automation'', ''standard_software'',
     ''custom_software'', ''analytics_ml'', ''generative_ai'', ''assistant'', ''hybrid'', ''no_tech'',
     ''other'']"

definition option_efforts :: "string list" where
  "option_efforts = [''low'', ''medium'', ''high'']"

text \<open>\<open>field in option and option.get(field) not in allowed\<close>.\<close>

definition choice_blockers :: "obj \<Rightarrow> string \<Rightarrow> string list \<Rightarrow> string \<Rightarrow> (run_error, string list) res" where
  "choice_blockers f field allowed blocker =
     (if \<not> has_key f field then Inr []
      else bindR (not_in_set (jget f field) allowed) (\<lambda>bad. Inr (blocker_if bad blocker)))"

definition option_blockers :: "int \<Rightarrow> obj \<Rightarrow> (run_error, string list) res" where
  "option_blockers i f =
     (if text_at f ''name'' = [] \<or> text_at f ''description'' = [] \<or> text_at f ''expected_value'' = [] \<or>
         str_at f ''option_type'' \<notin> set option_types
      then Inr [at_index ''decision_brief_option_invalid'' i]
      else
        bindR (choice_blockers f ''feasibility'' option_efforts
                 (at_index ''decision_brief_option_feasibility_invalid'' i)) (\<lambda>b1.
        bindR (choice_blockers f ''integration_effort'' option_efforts
                 (at_index ''decision_brief_option_integration_effort_invalid'' i)) (\<lambda>b2.
        bindR (choice_blockers f ''time_to_value'' [''unknown'', ''short'', ''medium'', ''long'']
                 (at_index ''decision_brief_option_time_to_value_invalid'' i)) (\<lambda>b3.
        bindR (choice_blockers f ''evidence_basis'' [''hypothesis'', ''indicative'', ''measured'']
                 (at_index ''decision_brief_option_evidence_basis_invalid'' i)) (\<lambda>b4.
        Inr (b1 @ b2 @ b3 @ b4 @
             blocker_if (has_key f ''contains_ai_component'' \<and>
                 \<not> (case jget f ''contains_ai_component'' of JBool _ \<Rightarrow> True | _ \<Rightarrow> False))
               (at_index ''decision_brief_option_contains_ai_component_invalid'' i)))))))"

text \<open>\<open>raw and not isinstance(raw, list)\<close> for an optional list of a section, and its mappings.\<close>

definition section_list :: "obj \<Rightarrow> string \<Rightarrow> string \<Rightarrow> string list \<times> obj list" where
  "section_list f key blocker = (let raw = jget_or f key (JList []) in
     (blocker_if (py_truthy raw \<and> \<not> is_list raw) blocker, mappings_in (items raw)))"

definition recommendation_blockers :: "env \<Rightarrow> db \<Rightarrow> run \<Rightarrow> (run_error, string list) res" where
  "recommendation_blockers env d r =
     (let recommendation = jget (r_brief r) ''recommendation''; f = members recommendation in
      if \<not> is_mapping recommendation then Inr [''decision_brief_recommendation_missing'']
      else
        bindR (ref_list f ''references'') (\<lambda>refs.
        bindR (if text_at f ''summary'' = [] \<or> text_at f ''rationale'' = [] \<or> refs = [] then Inr False
               else all_valid env d r refs) (\<lambda>ok.
        Inr (blocker_if (\<not> ok) ''decision_brief_recommendation_invalid''))))"

definition closing_blockers :: "run \<Rightarrow> string list" where
  "closing_blockers r = (let
     risks = jget (r_brief r) ''risks_unknowns'';
     validation = jget (r_brief r) ''validation_step'';
     f = members validation in
     blocker_if (risks \<noteq> JNull \<and> \<not> is_list risks) ''decision_brief_risks_unknowns_invalid'' @
     blocker_if (validation \<noteq> JNull \<and>
         (\<not> is_mapping validation \<or> text_at f ''step'' = [] \<or> text_at f ''measurement'' = []))
       ''decision_brief_validation_step_invalid'')"

definition decision_brief_blockers :: "env \<Rightarrow> db \<Rightarrow> run \<Rightarrow> (run_error, string list) res" where
  "decision_brief_blockers env d r =
     bindR (structured_mapping_blockers env d r) (\<lambda>mapping.
     if \<not> r_brief_required r then Inr (sorted_set mapping)
     else (case section_list (r_brief r) ''hypotheses'' ''decision_brief_hypotheses_invalid'' of
        (hypotheses_bad, hypotheses) \<Rightarrow>
       (case section_list (r_brief r) ''calculations'' ''decision_brief_calculations_invalid'' of
        (calculations_bad, calculations) \<Rightarrow>
       (case section_list (r_brief r) ''options'' ''decision_brief_options_invalid'' of
        (options_bad, options) \<Rightarrow>
          bindR (problem_blockers env d r) (\<lambda>problem.
          bindR (enumR (hypothesis_blockers env d r) 0 hypotheses) (\<lambda>hs.
          bindR (enumR (calculation_blockers env d r) 0 calculations) (\<lambda>cs.
          bindR (enumR option_blockers 0 options) (\<lambda>os.
          bindR (recommendation_blockers env d r) (\<lambda>recommendation.
          Inr (sorted_set (mapping @ question_blockers r @ problem @ hypotheses_bad @ hs @
                 calculations_bad @ cs @ options_bad @ os @ recommendation @
                 closing_blockers r)))))))))))"

section \<open>Missing evidence\<close>

text \<open>The identifiers among \<open>[str(reference.get("tool_result_id") or "").strip()]\<close> that parse.\<close>

definition result_ids :: "obj list \<Rightarrow> string list" where
  "result_ids refs = concat (map (\<lambda>ref.
     case py_uuid (text_at ref ''tool_result_id'') of None \<Rightarrow> [] | Some i \<Rightarrow> [i]) refs)"

definition referenced_tool_result_ids :: "obj \<Rightarrow> (run_error, string list) res" where
  "referenced_tool_result_ids payload = (let
     calculations = jget_or payload ''calculations'' (JList []);
     recommendation = jget payload ''recommendation'' in
     if \<not> is_list calculations \<or> \<not> is_mapping recommendation then Inr []
     else
       bindR (ref_list (members recommendation) ''references'') (\<lambda>refs.
       Inr (filter (\<lambda>i. i \<in> set (result_ids refs))
         (result_ids (map members (filter is_mapping
           (map (\<lambda>c. jget c ''reference'') (mappings_in (items calculations)))))))))"

text \<open>\<open>int(x or y)\<close> and the like on a stored JSON value.\<close>

definition count_of :: "json \<Rightarrow> (run_error, int) res" where
  "count_of v =
     (if \<not> py_truthy v then Inr 0
      else case py_int v of Inl e \<Rightarrow> Inl (Other_Error e) | Inr i \<Rightarrow> Inr i)"

definition json_or :: "json \<Rightarrow> json \<Rightarrow> json" where
  "json_or v w = (if py_truthy v then v else w)"

text \<open>The columns a profile reports as empty in every row.\<close>

definition empty_column :: "string \<times> json \<Rightarrow> (run_error, string list) res" where
  "empty_column kv = (case kv of (name, details) \<Rightarrow>
     if \<not> is_mapping details then Inr []
     else
       bindR (count_of (jget (members details) ''missing'')) (\<lambda>missing.
       if \<not> missing > 0 then Inr []
       else bindR (count_of (jget (members details) ''non_missing'')) (\<lambda>present.
         Inr (if present = 0 \<and> str_at (members details) ''type'' = ''empty'' then [name] else []))))"

definition completely_missing_decision_column :: "tool_result \<Rightarrow> (run_error, string) res" where
  "completely_missing_decision_column t =
     (if tr_tool t = ''compare_groups'' then (let
        column = text_at (tr_parameters t) ''value_column'';
        population = members (tr_population t) in
        if column = [] then Inr []
        else
          bindR (count_of (json_or (jget population ''filter_matched_rows'')
                   (jget population ''rows_total''))) (\<lambda>matched.
          bindR (count_of (jget (tr_missing_values t) column)) (\<lambda>missing.
          Inr (if matched > 0 \<and> items (jget population ''aggregated_rows'') = [] \<and> missing \<ge> matched
               then column else []))))
      else if tr_tool t = ''profile_csv'' then (let columns = jget (members (tr_payload t)) ''columns'' in
        if \<not> is_mapping columns then Inr []
        else bindR (concatR empty_column (members columns)) (\<lambda>names.
          Inr (case names of [name] \<Rightarrow> name | _ \<Rightarrow> [])))
      else Inr [])"

definition u_umlaut :: string where "u_umlaut = [CHR 0xFC]"

definition gap_payload :: "string \<Rightarrow> obj" where
  "gap_payload column =
     [(''question'', JStr (''Welcher belastbare Wert liegt f'' @ u_umlaut @ ''r '' @ column @
         '' im betrachteten Zeitraum vor?'')),
      (''needed_evidence'', JStr (''Belastbarer Wert f'' @ u_umlaut @ ''r '' @ column @
         '' im betrachteten Zeitraum aus einer autorisierten Quelle.'')),
      (''impact'', JStr (''Die entscheidungskritische Gr'' @ [CHR 0xF6, CHR 0xDF] @ ''e '' @ column @
         '' fehlt vollst'' @ [CHR 0xE4] @
         ''ndig; die darauf gest'' @ u_umlaut @ ''tzte Berechnung ist nicht belastbar.'')),
      (''required_action'', JStr (column @
         '' erg'' @ [CHR 0xE4] @
         ''nzen und die Untersuchung mit derselben Richtungsfrage neu bewerten.''))]"

text \<open>The first stored result with a completely missing column decides.\<close>

fun first_gap :: "tool_result list \<Rightarrow> (run_error, obj option) res" where
  "first_gap [] = Inr None"
| "first_gap (t # ts) =
     bindR (completely_missing_decision_column t) (\<lambda>column.
       if column = [] then first_gap ts else Inr (Some (gap_payload column)))"

definition decision_blocking_missing_evidence :: "db \<Rightarrow> run \<Rightarrow> (run_error, obj option) res" where
  "decision_blocking_missing_evidence d r =
     (if \<not> r_brief_required r then Inr None
      else if \<not> (r_relevance_complete r \<and> r_counter_search r \<and> r_counter_processed r) then Inr None
      else bindR (referenced_tool_result_ids (r_brief r)) (\<lambda>ids.
        if ids = [] then Inr None
        else first_gap (filter (\<lambda>t. tr_id t \<in> set ids \<and> tr_snapshot t = snap_id (r_snapshot r))
               (db_results d))))"

section \<open>What normalisation guarantees\<close>

lemma kept_calculations_kept:
  "kept_calculations env d r vs = Inr ws \<Longrightarrow> w \<in> set ws \<Longrightarrow>
     is_mapping w \<and> calculation_kept env d r (members w) = Inr True"
  unfolding kept_calculations_def
  by (induction vs arbitrary: ws) (auto simp: bindR_eq_Inr split: if_split_asm)

lemma kept_calculations_fix:
  "\<forall>w\<in>set ws. is_mapping w \<and> calculation_kept env d r (members w) = Inr True \<Longrightarrow>
     kept_calculations env d r ws = Inr ws"
  unfolding kept_calculations_def by (induction ws) auto

lemma calculation_kept_unblocked:
  "calculation_kept env d r c = Inr True \<Longrightarrow> calculation_blockers env d r i c = Inr []"
  unfolding calculation_kept_def calculation_blockers_def blocker_if_def Let_def
  by (cases "reference_valid env d r (members (jget c ''reference''))")
    (simp_all split: if_split_asm)

lemma enumR_Nil: "(\<And>i x. x \<in> set xs \<Longrightarrow> f i x = Inr []) \<Longrightarrow> enumR f i xs = Inr []"
  by (induction xs arbitrary: i) auto

lemma jget_dict_set: "jget (dict_set f k v) k' = (if k' = k then v else jget f k')"
  by (simp add: jget_def)

lemma jget_or_dict_set: "jget_or (dict_set f k v) k w = v"
  by (simp add: jget_or_def)

lemma dict_set_same: "map_of f k = Some v \<Longrightarrow> dict_set f k v = f"
  by (induction f) auto

text \<open>
  \<open>grounded_calculations\<close>: no blocker of the calculation section is left, whatever else the brief
  holds.
\<close>

definition grounded_calculations :: "env \<Rightarrow> db \<Rightarrow> run \<Rightarrow> obj \<Rightarrow> bool" where
  "grounded_calculations env d r payload =
     (case section_list payload ''calculations'' ''decision_brief_calculations_invalid'' of
        (bad, calculations) \<Rightarrow>
          bad = [] \<and> enumR (calculation_blockers env d r) 0 calculations = Inr [])"

lemma normalize_brief_cases:
  assumes "normalize_decision_brief_payload env d r p = Inr q" and "r_brief_required r"
  obtains "jget p ''calculations'' = JNull" "q = p"
  | ws where "q = dict_set p ''calculations'' (JList ws)"
      "\<forall>w\<in>set ws. is_mapping w \<and> calculation_kept env d r (members w) = Inr True"
proof (cases "jget p ''calculations''")
  case (JList vs)
  with assms obtain ws where "kept_calculations env d r vs = Inr ws"
    and q: "q = dict_set p ''calculations'' (JList ws)"
    by (auto simp: normalize_decision_brief_payload_def bindR_eq_Inr)
  then have "\<forall>w\<in>set ws. is_mapping w \<and> calculation_kept env d r (members w) = Inr True"
    using kept_calculations_kept by blast
  with q show thesis by (rule that(2))
next
  case JNull
  then show thesis
    by (rule that(1)) (use assms JNull in \<open>simp add: normalize_decision_brief_payload_def\<close>)
qed (rule that(2) [of "[]"]; use assms in \<open>simp add: normalize_decision_brief_payload_def\<close>)+

lemma normalize_brief_grounded:
  assumes n: "normalize_decision_brief_payload env d r p = Inr q" and req: "r_brief_required r"
  shows "grounded_calculations env d r q"
proof (rule normalize_brief_cases [OF n req])
  assume "jget p ''calculations'' = JNull" "q = p"
  then show ?thesis
    by (auto simp: grounded_calculations_def section_list_def Let_def blocker_if_def jget_def
        jget_or_def split: option.splits)
next
  fix ws assume q: "q = dict_set p ''calculations'' (JList ws)"
    and k: "\<forall>w\<in>set ws. is_mapping w \<and> calculation_kept env d r (members w) = Inr True"
  have "enumR (calculation_blockers env d r) 0 (mappings_in ws) = Inr []"
    using k by (intro enumR_Nil calculation_kept_unblocked) (auto simp: mappings_in_def)
  then show ?thesis
    by (simp add: grounded_calculations_def section_list_def Let_def blocker_if_def q
        jget_or_dict_set)
qed

lemma normalize_brief_fix:
  assumes n: "normalize_decision_brief_payload env d r p = Inr q" and req: "r_brief_required r"
  shows "normalize_decision_brief_payload env d r q = Inr q"
proof (rule normalize_brief_cases [OF n req])
  assume "jget p ''calculations'' = JNull" "q = p"
  then show ?thesis by (simp add: normalize_decision_brief_payload_def)
next
  fix ws assume q: "q = dict_set p ''calculations'' (JList ws)"
    and k: "\<forall>w\<in>set ws. is_mapping w \<and> calculation_kept env d r (members w) = Inr True"
  show ?thesis
    using kept_calculations_fix [OF k]
    by (simp add: normalize_decision_brief_payload_def q jget_dict_set dict_set_same)
qed

lemma normalize_brief_other:
  assumes n: "normalize_decision_brief_payload env d r p = Inr q" and "k \<noteq> ''calculations''"
  shows "jget q k = jget p k"
proof (cases "r_brief_required r")
  case True
  show ?thesis
    by (rule normalize_brief_cases [OF n True]) (use assms(2) in \<open>auto simp: jget_dict_set\<close>)
qed (use n in \<open>simp add: normalize_decision_brief_payload_def\<close>)

end
