(* ===== verification/Investigation_Claims.thy ===== *)
theory Investigation_Claims
  imports Investigation_Brief
begin

text \<open>
  The claim register (\<open>accelerator/investigation_runtime.py\<close>): the normalisation of a proposed
  claim, the guard that keeps critical claims from vanishing or changing, and the test whether a
  register change is progress.
\<close>

section \<open>Normalisation of a claim\<close>

abbreviation bad_claim :: run_error where
  "bad_claim \<equiv> run_err ''invalid_claim''"

abbreviation claim_guard :: run_error where
  "claim_guard \<equiv> run_err ''critical_claim_guard''"

definition claim_areas :: "string list" where
  "claim_areas = [''problem_context'', ''competing_hypotheses'', ''solution_options'',
     ''constraints_risks'', ''recommendation_validation'']"

definition claim_is_critical :: "string \<Rightarrow> string \<Rightarrow> bool \<Rightarrow> bool" where
  "claim_is_critical area kind premise \<longleftrightarrow>
     area \<in> {''problem_context'', ''competing_hypotheses''} \<or> kind = ''recommendation'' \<or> premise"

definition normalize_claim :: "env \<Rightarrow> db \<Rightarrow> run \<Rightarrow> obj \<Rightarrow> (run_error, claim) res" where
  "normalize_claim env d r raw = (let
     claim_id = text_at raw ''claim_id'';
     statement = (case jget raw ''statement'' of JStr s \<Rightarrow> py_strip s | _ \<Rightarrow> []);
     area = text_at raw ''area'';
     kind = text_at raw ''claim_kind'';
     status = text_at raw ''status'';
     metadata = json_or (jget raw ''metadata'') (JObj []) in
     bindR (raise_if (\<not> is_mapping metadata) bad_claim) (\<lambda>_.
     bindR (raise_if (claim_id = [] \<or> length claim_id > 100) bad_claim) (\<lambda>_.
     bindR (raise_if (statement = []) bad_claim) (\<lambda>_.
     bindR (raise_if (area \<notin> set claim_areas) bad_claim) (\<lambda>_.
     bindR (raise_if (kind = []) bad_claim) (\<lambda>_.
     bindR (raise_if (status \<notin> set claim_statuses) bad_claim) (\<lambda>_.
     bindR (case jget_or raw ''used_as_premise'' (JBool False) of
              JBool b \<Rightarrow> Inr b | _ \<Rightarrow> Inl bad_claim) (\<lambda>premise.
     bindR (ref_list raw ''evidence_refs'') (\<lambda>evidence.
     bindR (ref_list raw ''counterevidence_refs'') (\<lambda>counter.
     bindR (all_valid env d r (evidence @ counter)) (\<lambda>refs_ok.
     Inr \<lparr>cl_id = claim_id, cl_statement = statement, cl_area = area, cl_kind = kind,
          cl_critical = claim_is_critical area kind premise, cl_status = status,
          cl_evidence = evidence, cl_counter = counter,
          cl_assumption = text_at raw ''remaining_assumption'',
          cl_references_valid = refs_ok, cl_change_guard_valid = True, cl_premise = premise,
          cl_metadata = members metadata\<rparr>)))))))))))"

section \<open>The guard of critical claims\<close>

text \<open>\<open>{item["claim_id"]: item for item in claims}\<close>: the last claim of an identifier.\<close>

definition claim_by_id :: "claim list \<Rightarrow> string \<Rightarrow> claim option" where
  "claim_by_id cs i = find (\<lambda>c. cl_id c = i) (rev cs)"

definition replaces :: "claim \<Rightarrow> string" where
  "replaces c = text_at (cl_metadata c) ''replaces_claim_id''"

text \<open>
  One iteration of the first loop: nothing, or the identifier the claim replaces. A claim that
  already replaced a claim gone since then keeps its mark.
\<close>

definition active_replacement :: "claim list \<Rightarrow> claim \<Rightarrow> (run_error, string list) res" where
  "active_replacement previous item = (let target = replaces item in
     if target = [] then Inr []
     else if target = cl_id item then Inl claim_guard
     else (case claim_by_id previous target of
         Some old \<Rightarrow> Inr [target]
       | None \<Rightarrow>
           (case claim_by_id previous (cl_id item) of
              Some same \<Rightarrow> if replaces same = target then Inr [] else Inl claim_guard
            | None \<Rightarrow> Inl claim_guard)))"

text \<open>One iteration of the second loop, over the identifiers that are replaced.\<close>

definition check_replacement ::
    "claim list \<Rightarrow> claim list \<Rightarrow> string \<Rightarrow> (run_error, unit list) res" where
  "check_replacement previous proposed target =
     (case claim_by_id previous target of
        None \<Rightarrow> Inr []
      | Some old \<Rightarrow>
          (case filter (\<lambda>c. replaces c = target) proposed of
             [new] \<Rightarrow>
               if \<not> cl_critical old \<or> claim_by_id proposed target \<noteq> None then Inl claim_guard
               else if \<not> cl_critical new \<or> cl_area new \<noteq> cl_area old \<or> cl_kind new \<noteq> cl_kind old
               then Inl claim_guard
               else Inr []
           | _ \<Rightarrow> Inl claim_guard))"

text \<open>One iteration of the third loop, over the previous claims.\<close>

definition check_kept ::
    "claim list \<Rightarrow> string list \<Rightarrow> claim \<Rightarrow> (run_error, unit list) res" where
  "check_kept proposed replaced old =
     (if \<not> cl_critical old then Inr []
      else (case claim_by_id proposed (cl_id old) of
          None \<Rightarrow> if cl_id old \<in> set replaced then Inr [] else Inl claim_guard
        | Some new \<Rightarrow>
            if \<not> cl_critical new then Inl claim_guard
            else if cl_statement new \<noteq> cl_statement old then Inl claim_guard
            else Inr []))"

definition enforce_claim_guard :: "claim list \<Rightarrow> claim list \<Rightarrow> (run_error, unit) res" where
  "enforce_claim_guard previous proposed =
     bindR (concatR (active_replacement previous) proposed) (\<lambda>replaced.
     bindR (concatR (check_replacement previous proposed) (remdups replaced)) (\<lambda>_.
     bindR (concatR (check_kept proposed replaced) previous) (\<lambda>_. Inr ())))"

section \<open>The register\<close>

text \<open>\<open>except (TypeError, ValueError)\<close> around the normalisation of the items.\<close>

definition catch_item_errors :: "(run_error, 'a) res \<Rightarrow> (run_error, 'a) res" where
  "catch_item_errors r = (case r of
       Inl (Other_Error t) \<Rightarrow>
         if t \<in> {''TypeError'', ''ValueError''} then Inl bad_claim else Inl (Other_Error t)
     | _ \<Rightarrow> r)"

definition normalize_claim_register ::
    "env \<Rightarrow> db \<Rightarrow> run \<Rightarrow> json list \<Rightarrow> (run_error, claim list) res" where
  "normalize_claim_register env d r raws =
     bindR (raise_if (\<not> list_all is_mapping raws) bad_claim) (\<lambda>_.
     bindR (catch_item_errors (mapR (\<lambda>v. normalize_claim env d r (members v)) raws)) (\<lambda>claims.
     bindR (raise_if (\<not> distinct (map cl_id claims)) (run_err ''duplicate_claim_id'')) (\<lambda>_.
     bindR (enforce_claim_guard (r_claims r) claims) (\<lambda>_. Inr claims))))"

definition claim_json :: "claim \<Rightarrow> json" where
  "claim_json c = JObj
     [(''claim_id'', JStr (cl_id c)), (''statement'', JStr (cl_statement c)),
      (''area'', JStr (cl_area c)), (''claim_kind'', JStr (cl_kind c)),
      (''critical'', JBool (cl_critical c)), (''status'', JStr (cl_status c)),
      (''evidence_refs'', JList (map JObj (cl_evidence c))),
      (''counterevidence_refs'', JList (map JObj (cl_counter c))),
      (''remaining_assumption'', JStr (cl_assumption c)),
      (''references_valid'', JBool (cl_references_valid c)),
      (''change_guard_valid'', JBool (cl_change_guard_valid c)),
      (''used_as_premise'', JBool (cl_premise c)), (''metadata'', JObj (cl_metadata c))]"

definition claims_json :: "claim list \<Rightarrow> json" where
  "claims_json cs = JList (map claim_json cs)"

definition register_hash :: "env \<Rightarrow> claim list \<Rightarrow> obj \<Rightarrow> nat \<Rightarrow> string" where
  "register_hash env claims relevance inputs = content_hash (e_hash env) (JObj
     [(''claims'', claims_json claims), (''source_relevance'', JObj relevance),
      (''input_revision_count'', JInt (int inputs))])"

definition brief_hash :: "env \<Rightarrow> obj \<Rightarrow> string" where
  "brief_hash env payload = content_hash (e_hash env) (JObj payload)"

definition refs_hash :: "env \<Rightarrow> obj list \<Rightarrow> string" where
  "refs_hash env refs = content_hash (e_hash env) (JList (map JObj refs))"

text \<open>The loop over the new register: the first claim that decides ends it.\<close>

definition claim_progress :: "env \<Rightarrow> claim list \<Rightarrow> claim \<Rightarrow> bool" where
  "claim_progress env earlier item =
     (case claim_by_id earlier (cl_id item) of
        None \<Rightarrow> cl_evidence item \<noteq> [] \<or> cl_counter item \<noteq> []
      | Some old \<Rightarrow>
          cl_status old \<noteq> cl_status item \<or>
          refs_hash env (cl_evidence old) \<noteq> refs_hash env (cl_evidence item) \<or>
          refs_hash env (cl_counter old) \<noteq> refs_hash env (cl_counter item))"

definition meaningful_register_change :: "env \<Rightarrow> claim list \<Rightarrow> claim list \<Rightarrow> bool" where
  "meaningful_register_change env earlier later \<longleftrightarrow>
     content_hash (e_hash env) (claims_json earlier) \<noteq> content_hash (e_hash env) (claims_json later) \<and>
     (\<exists>item\<in>set later. claim_progress env earlier item)"

section \<open>What the guard promises\<close>

text \<open>
  A critical claim survives a register change under its identifier with its statement, or exactly
  one critical claim of the same area and kind replaces it and its identifier is gone.
\<close>

definition claim_survives :: "claim list \<Rightarrow> claim \<Rightarrow> bool" where
  "claim_survives proposed old \<longleftrightarrow>
     (\<exists>new\<in>set proposed. cl_id new = cl_id old \<and> cl_critical new \<and>
        cl_statement new = cl_statement old) \<or>
     (cl_id old \<notin> cl_id ` set proposed \<and>
      (\<exists>new. filter (\<lambda>c. replaces c = cl_id old) proposed = [new] \<and> cl_critical new \<and>
         cl_area new = cl_area old \<and> cl_kind new = cl_kind old))"

definition criticals_survive :: "claim list \<Rightarrow> claim list \<Rightarrow> bool" where
  "criticals_survive previous proposed \<longleftrightarrow>
     (\<forall>old\<in>set previous. cl_critical old \<longrightarrow> claim_survives proposed old)"

lemma claim_by_id_SomeD: "claim_by_id cs i = Some c \<Longrightarrow> c \<in> set cs \<and> cl_id c = i"
  by (auto simp: claim_by_id_def dest: find_SomeD)

lemma claim_by_id_None_iff: "claim_by_id cs i = None \<longleftrightarrow> i \<notin> cl_id ` set cs"
  by (auto simp: claim_by_id_def find_None_iff)

lemma claim_by_id_distinct:
  "distinct (map cl_id cs) \<Longrightarrow> c \<in> set cs \<Longrightarrow> claim_by_id cs (cl_id c) = Some c"
  unfolding claim_by_id_def by (rule distinct_map_find) (simp_all add: rev_map [symmetric])

lemma concatR_InrD:
  "concatR f xs = Inr ys \<Longrightarrow> x \<in> set xs \<Longrightarrow> \<exists>zs. f x = Inr zs \<and> set zs \<subseteq> set ys"
proof (induction xs arbitrary: ys)
  case (Cons a xs)
  from Cons.prems(1) obtain us vs where u: "f a = Inr us" and v: "concatR f xs = Inr vs"
    and ys: "ys = us @ vs"
    by (auto simp: bindR_eq_Inr)
  show ?case
  proof (cases "x = a")
    case False
    with Cons.IH [OF v] Cons.prems(2) show ?thesis by (force simp: ys)
  qed (simp add: u ys)
qed simp

lemma enforce_claim_guard_survive:
  assumes g: "enforce_claim_guard previous proposed = Inr u" and d: "distinct (map cl_id previous)"
  shows "criticals_survive previous proposed"
  unfolding criticals_survive_def
proof (intro ballI impI)
  fix old assume old: "old \<in> set previous" and crit: "cl_critical old"
  from g obtain replaced zs ws where r: "concatR (active_replacement previous) proposed = Inr replaced"
    and s: "concatR (check_replacement previous proposed) (remdups replaced) = Inr zs"
    and k: "concatR (check_kept proposed replaced) previous = Inr ws"
    by (auto simp: enforce_claim_guard_def bindR_eq_Inr)
  obtain w where w: "check_kept proposed replaced old = Inr w"
    using concatR_InrD [OF k old] by auto
  show "claim_survives proposed old"
  proof (cases "claim_by_id proposed (cl_id old)")
    case (Some new)
    with w crit have "cl_critical new" "cl_statement new = cl_statement old"
      by (auto simp: check_kept_def split: if_split_asm)
    with claim_by_id_SomeD [OF Some] show ?thesis by (auto simp: claim_survives_def)
  next
    case None
    with w crit have "cl_id old \<in> set replaced"
      by (auto simp: check_kept_def split: if_split_asm)
    then obtain z where "check_replacement previous proposed (cl_id old) = Inr z"
      using concatR_InrD [OF s, of "cl_id old"] by auto
    then have "\<exists>new. filter (\<lambda>c. replaces c = cl_id old) proposed = [new] \<and> cl_critical new \<and>
         cl_area new = cl_area old \<and> cl_kind new = cl_kind old"
      using claim_by_id_distinct [OF d old]
      by (auto simp: check_replacement_def split: list.split_asm if_split_asm)
    with None show ?thesis by (simp add: claim_survives_def claim_by_id_None_iff)
  qed
qed

lemma normalize_claim_register_distinct:
  "normalize_claim_register env d r raws = Inr cs \<Longrightarrow> distinct (map cl_id cs)"
  by (auto simp: normalize_claim_register_def bindR_eq_Inr raise_if_eq_Inr)

lemma normalize_claim_register_guarded:
  "normalize_claim_register env d r raws = Inr cs \<Longrightarrow> distinct (map cl_id (r_claims r)) \<Longrightarrow>
     criticals_survive (r_claims r) cs"
  by (auto simp: normalize_claim_register_def bindR_eq_Inr intro: enforce_claim_guard_survive)

end
