(* ===== verification/Investigation_Budget.thy ===== *)
theory Investigation_Budget
  imports Investigation_Model
begin

text \<open>
  Budgets of an investigation run (\<open>accelerator/investigation_runtime.py\<close>): the default frame, the
  limits a snapshot may lower, the reserves kept back for verification and synthesis, and the test
  whether a budget is exhausted.
\<close>

section \<open>Limits\<close>

definition min_verifier_completion_tokens :: int where
  "min_verifier_completion_tokens = 8192"

definition verifier_timeout_seconds :: int where
  "verifier_timeout_seconds = 120"

definition default_budget :: budget where
  "default_budget =
     [(''max_tool_calls'', 40), (''max_model_calls'', 40), (''max_verifier_calls'', 40),
      (''max_runtime_seconds'', 40 * 300), (''max_input_tokens'', 400000),
      (''max_output_tokens'', 500000), (''verifier_reserved_model_calls'', 2),
      (''verifier_reserved_input_tokens'', 20000),
      (''verifier_reserved_output_tokens'', 2 * min_verifier_completion_tokens),
      (''verifier_reserved_seconds'', 2 * verifier_timeout_seconds), (''max_verifier_reads'', 40)]"

definition usage_keys :: "string list" where
  "usage_keys = [''tool_calls'', ''model_calls'', ''verifier_calls'', ''input_tokens'',
     ''output_tokens'', ''verifier_reads'', ''provider_attempts'']"

definition initial_usage :: budget where
  "initial_usage = map (\<lambda>k. (k, 0)) usage_keys"

text \<open>\<open>isinstance(value, bool) or not isinstance(value, int) or value < 0\<close>.\<close>

definition limit_value :: "json \<Rightarrow> int option" where
  "limit_value v = (case v of JInt i \<Rightarrow> if i < 0 then None else Some i | _ \<Rightarrow> None)"

text \<open>The loop over the snapshot's limits, then the final check of \<open>budget_from_snapshot\<close>.\<close>

fun apply_limits :: "budget \<Rightarrow> obj \<Rightarrow> (run_error, budget) res" where
  "apply_limits b [] = Inr b"
| "apply_limits b ((k, v) # kvs) =
     (case map_of b k of
        None \<Rightarrow> Inl (run_err ''invalid_budget'')
      | Some cap \<Rightarrow>
          (case limit_value v of
             None \<Rightarrow> Inl (run_err ''invalid_budget'')
           | Some i \<Rightarrow>
               if i > cap then Inl (run_err ''budget_expansion_forbidden'')
               else apply_limits (dict_set b k i) kvs))"

definition budget_from_snapshot :: "obj \<Rightarrow> (run_error, budget) res" where
  "budget_from_snapshot run_limits =
     bindR (apply_limits default_budget run_limits) (\<lambda>b.
       if dget b ''max_verifier_calls'' > dget b ''max_model_calls''
       then Inl (run_err ''invalid_budget'') else Inr b)"

lemma apply_limits_bounds:
  "apply_limits b kvs = Inr b' \<Longrightarrow> (\<forall>k. 0 \<le> dget b k) \<Longrightarrow>
     dict_keys b' = dict_keys b \<and> (\<forall>k. 0 \<le> dget b' k \<and> dget b' k \<le> dget b k)"
proof (induction b kvs rule: apply_limits.induct)
  case (2 b k v kvs)
  then obtain cap i where cap: "map_of b k = Some cap" and i: "limit_value v = Some i" "i \<le> cap"
    and rest: "apply_limits (dict_set b k i) kvs = Inr b'"
    by (auto split: option.splits if_splits)
  have i0: "0 \<le> i" using i(1) by (auto simp: limit_value_def split: json.splits if_splits)
  have keys: "dict_keys (dict_set b k i) = dict_keys b"
    using cap by (induction b) (auto simp: dict_keys_def split: if_splits)
  have "dict_keys b' = dict_keys (dict_set b k i) \<and>
      (\<forall>k'. 0 \<le> dget b' k' \<and> dget b' k' \<le> dget (dict_set b k i) k')"
    using "2.IH" [OF cap i(1)] i(2) i0 rest "2.prems"(2) by simp
  moreover have "dget (dict_set b k i) k' \<le> dget b k'" for k'
    using cap i(2) by (simp add: dget_def)
  ultimately show ?case using keys by (metis order_trans)
qed simp

lemma default_budget_nonneg: "0 \<le> dget default_budget k"
  by (simp add: default_budget_def min_verifier_completion_tokens_def verifier_timeout_seconds_def)

section \<open>Elapsed time and reserves\<close>

text \<open>\<open>max(0, int((now - started_at).total_seconds()))\<close> on microseconds.\<close>

definition elapsed_seconds :: "int \<Rightarrow> run \<Rightarrow> int" where
  "elapsed_seconds now r = max 0 ((now - r_started r) div 1000000)"

record reserve =
  rv_model_calls :: int
  rv_input_tokens :: int
  rv_output_tokens :: int
  rv_seconds :: int

definition proportional :: "int \<Rightarrow> int \<Rightarrow> int \<Rightarrow> int" where
  "proportional amount part whole = (amount * part + whole - 1) div whole"

definition remaining_verifier_reserve :: "run \<Rightarrow> reserve" where
  "remaining_verifier_reserve r = (let
     limits = r_limits r;
     reserved = max 0 (dget limits ''verifier_reserved_model_calls'');
     used = min reserved (dget (r_usage r) ''verifier_calls'');
     remaining = reserved - used in
     if reserved \<le> 0 \<or> remaining \<le> 0
     then \<lparr>rv_model_calls = 0, rv_input_tokens = 0, rv_output_tokens = 0, rv_seconds = 0\<rparr>
     else \<lparr>rv_model_calls = remaining,
           rv_input_tokens = proportional (dget limits ''verifier_reserved_input_tokens'') remaining reserved,
           rv_output_tokens = proportional (dget limits ''verifier_reserved_output_tokens'') remaining reserved,
           rv_seconds = proportional (dget limits ''verifier_reserved_seconds'') remaining reserved\<rparr>)"

definition remaining_synthesis_reserve :: "run \<Rightarrow> reserve" where
  "remaining_synthesis_reserve r = (let
     limits = r_limits r;
     calls = max 1 (dget limits ''max_model_calls'') in
     \<lparr>rv_model_calls = 1,
      rv_input_tokens = proportional (dget limits ''max_input_tokens'') 1 calls,
      rv_output_tokens = proportional (dget limits ''max_output_tokens'') 1 calls,
      rv_seconds = proportional (dget limits ''max_runtime_seconds'') 1 calls\<rparr>)"

definition add_reserve :: "reserve \<Rightarrow> reserve \<Rightarrow> reserve" where
  "add_reserve a b =
     \<lparr>rv_model_calls = rv_model_calls a + rv_model_calls b,
      rv_input_tokens = rv_input_tokens a + rv_input_tokens b,
      rv_output_tokens = rv_output_tokens a + rv_output_tokens b,
      rv_seconds = rv_seconds a + rv_seconds b\<rparr>"

definition budget_exhausted :: "int \<Rightarrow> run \<Rightarrow> bool \<Rightarrow> bool \<Rightarrow> bool" where
  "budget_exhausted now r reserve_verifier reserve_synthesis = (let
     limits = r_limits r; usage = r_usage r in
     if elapsed_seconds now r \<ge> dget limits ''max_runtime_seconds'' then True
     else if dget usage ''tool_calls'' \<ge> dget limits ''max_tool_calls'' then True
     else if dget usage ''model_calls'' \<ge> dget limits ''max_model_calls'' then True
     else if dget usage ''input_tokens'' \<ge> dget limits ''max_input_tokens'' then True
     else if dget usage ''output_tokens'' \<ge> dget limits ''max_output_tokens'' then True
     else if reserve_verifier then
       (let reserve = (if reserve_synthesis
          then add_reserve (remaining_verifier_reserve r) (remaining_synthesis_reserve r)
          else remaining_verifier_reserve r) in
        dget limits ''max_model_calls'' - dget usage ''model_calls'' \<le> rv_model_calls reserve \<or>
        dget limits ''max_input_tokens'' - dget usage ''input_tokens'' \<le> rv_input_tokens reserve \<or>
        dget limits ''max_output_tokens'' - dget usage ''output_tokens'' \<le> rv_output_tokens reserve \<or>
        dget limits ''max_runtime_seconds'' - elapsed_seconds now r \<le> rv_seconds reserve)
     else False)"

lemma proportional_bounds:
  assumes "0 < whole" "0 \<le> part" "part \<le> whole" "0 \<le> amount"
  shows "0 \<le> proportional amount part whole" "proportional amount part whole \<le> amount"
    "amount * part \<le> proportional amount part whole * whole"
proof -
  let ?n = "amount * part + whole - 1"
  have "0 \<le> amount * part" using assms by simp
  then have n: "0 \<le> ?n" using assms(1) by linarith
  show "0 \<le> proportional amount part whole"
    unfolding proportional_def using n assms(1) by (simp add: pos_imp_zdiv_nonneg_iff)
  have "amount * part \<le> amount * whole"
    using assms by (simp add: mult_left_mono)
  then have "?n \<le> amount * whole + (whole - 1)"
    by linarith
  then have "?n div whole \<le> (amount * whole + (whole - 1)) div whole"
    using assms(1) by (rule zdiv_mono1)
  also have "\<dots> = amount"
    using assms(1) by (simp add: div_pos_pos_trivial)
  finally show "proportional amount part whole \<le> amount" by (simp add: proportional_def)
  have "?n - ?n mod whole = ?n div whole * whole"
    by (simp add: minus_mod_eq_div_mult)
  moreover have "?n mod whole \<le> whole - 1"
    using pos_mod_bound [OF assms(1), of ?n] by simp
  ultimately show "amount * part \<le> proportional amount part whole * whole"
    unfolding proportional_def by linarith
qed

lemma remaining_verifier_reserve_bounds:
  assumes "\<And>k. 0 \<le> dget (r_limits r) k" and "0 \<le> dget (r_usage r) ''verifier_calls''"
  shows "rv_model_calls (remaining_verifier_reserve r) \<le> dget (r_limits r) ''verifier_reserved_model_calls''"
    "rv_input_tokens (remaining_verifier_reserve r) \<le> dget (r_limits r) ''verifier_reserved_input_tokens''"
    "rv_output_tokens (remaining_verifier_reserve r) \<le> dget (r_limits r) ''verifier_reserved_output_tokens''"
    "rv_seconds (remaining_verifier_reserve r) \<le> dget (r_limits r) ''verifier_reserved_seconds''"
    "0 \<le> rv_model_calls (remaining_verifier_reserve r)"
    "0 \<le> rv_input_tokens (remaining_verifier_reserve r)"
    "0 \<le> rv_output_tokens (remaining_verifier_reserve r)"
    "0 \<le> rv_seconds (remaining_verifier_reserve r)"
  using assms
  by (auto simp: remaining_verifier_reserve_def Let_def intro!: proportional_bounds)

lemma budget_exhausted_mono:
  "budget_exhausted now r False False \<Longrightarrow> budget_exhausted now r True rs"
  by (auto simp: budget_exhausted_def Let_def split: if_splits)

lemma budget_not_exhausted_tool_calls:
  "\<not> budget_exhausted now r rv rs \<Longrightarrow>
     dget (r_usage r) ''tool_calls'' < dget (r_limits r) ''max_tool_calls''"
  by (auto simp: budget_exhausted_def Let_def split: if_splits)

end
