(* ===== verification/Investigation_Tool_Params.thy ===== *)
theory Investigation_Tool_Params
  imports Investigation_Model
begin

text \<open>
  Validation of tool parameters: \<open>normalize_tool_parameters\<close> of
  \<open>accelerator/investigation_runtime.py\<close> with the contracts of
  \<open>accelerator/investigation_prompts.py\<close>. A model proposes the parameters; only normal forms reach
  the tools, the step key and the loop fingerprint.
\<close>

section \<open>Contracts\<close>

definition allowed_tools :: "string list" where
  "allowed_tools =
     [''list_sources'', ''search_sources'', ''read_source'', ''profile_csv'', ''compare_groups'']"

text \<open>Required and optional parameters of a tool.\<close>

definition tool_contract :: "string \<Rightarrow> string list \<times> string list" where
  "tool_contract tool =
     (if tool = ''search_sources'' then ([''query''], [''cursor'', ''limit''])
      else if tool = ''read_source'' then ([''source_id''], [''cursor'', ''limit'', ''columns''])
      else if tool = ''profile_csv'' then ([''source_id''], [])
      else if tool = ''compare_groups''
      then ([''source_id'', ''group_by'', ''aggregation''], [''value_column'', ''filters'', ''unit_column''])
      else ([], []))"

definition tool_aggregations :: "string list" where
  "tool_aggregations = [''count'', ''sum'', ''mean'', ''median'', ''min'', ''max'']"

definition filter_operators :: "string list" where
  "filter_operators = [''eq'', ''neq'', ''gt'', ''gte'', ''lt'', ''lte'', ''in'', ''not_in'',
     ''is_null'', ''not_null'']"

abbreviation bad_params :: run_error where
  "bad_params \<equiv> run_err ''invalid_tool_parameters''"

section \<open>The local helpers\<close>

definition reject_unknown :: "string \<Rightarrow> obj \<Rightarrow> (run_error, unit) res" where
  "reject_unknown tool params = (case tool_contract tool of (required, optional) \<Rightarrow>
     raise_if (\<not> set (map fst params) \<subseteq> set required \<union> set optional) bad_params)"

definition integer_param ::
    "obj \<Rightarrow> string \<Rightarrow> int \<Rightarrow> int \<Rightarrow> int option \<Rightarrow> (run_error, int) res" where
  "integer_param params name dflt minimum maximum =
     (case jget_or params name (JInt dflt) of
        JInt i \<Rightarrow>
          if i < minimum \<or> (case maximum of None \<Rightarrow> False | Some m \<Rightarrow> i > m)
          then Inl bad_params else Inr i
      | _ \<Rightarrow> Inl bad_params)"

definition nonempty_text :: "obj \<Rightarrow> string \<Rightarrow> (run_error, string) res" where
  "nonempty_text params name =
     (case jget params name of
        JStr s \<Rightarrow> if py_strip s = [] then Inl bad_params else Inr (py_strip s)
      | _ \<Rightarrow> Inl bad_params)"

definition source_id_param :: "string list option \<Rightarrow> obj \<Rightarrow> (run_error, string) res" where
  "source_id_param allowed params =
     bindR (nonempty_text params ''source_id'') (\<lambda>raw.
       (case py_uuid raw of
          None \<Rightarrow> Inl bad_params
        | Some i \<Rightarrow>
            if (case allowed of None \<Rightarrow> False | Some ids \<Rightarrow> i \<notin> set ids) then Inl bad_params
            else Inr i))"

definition column_text :: "json \<Rightarrow> (run_error, string) res" where
  "column_text v = (case v of JStr s \<Rightarrow> if s = [] then Inl bad_params else Inr s | _ \<Rightarrow> Inl bad_params)"

definition columns_param :: "obj \<Rightarrow> (run_error, string list) res" where
  "columns_param params = (case jget_or params ''columns'' (JList []) of
       JList vs \<Rightarrow> bindR (mapR column_text vs) (\<lambda>cs. if distinct cs then Inr cs else Inl bad_params)
     | _ \<Rightarrow> Inl bad_params)"

text \<open>
  One filter. The operator is looked up in a set: a list or an object cannot be hashed and raises
  \<open>TypeError\<close>.
\<close>

definition filter_param :: "json \<Rightarrow> (run_error, json) res" where
  "filter_param item =
     (if \<not> is_mapping item \<or>
         set (map fst (members item)) \<noteq> {''column'', ''operator'', ''value''}
      then Inl bad_params
      else (case jget (members item) ''column'' of
          JStr column \<Rightarrow>
            if py_strip column = [] then Inl bad_params
            else (case jget (members item) ''operator'' of
                JStr operator \<Rightarrow>
                  if operator \<notin> set filter_operators then Inl bad_params
                  else if operator \<in> {''in'', ''not_in''} \<and> \<not> is_list (jget (members item) ''value'')
                  then Inl bad_params
                  else Inr (JObj [(''column'', JStr (py_strip column)), (''operator'', JStr operator),
                                  (''value'', jget (members item) ''value'')])
              | JList _ \<Rightarrow> Inl (Other_Error ''TypeError'')
              | JObj _ \<Rightarrow> Inl (Other_Error ''TypeError'')
              | _ \<Rightarrow> Inl bad_params)
        | _ \<Rightarrow> Inl bad_params))"

definition filters_param :: "obj \<Rightarrow> (run_error, json list) res" where
  "filters_param params = (case jget_or params ''filters'' (JList []) of
       JList vs \<Rightarrow> mapR filter_param vs
     | _ \<Rightarrow> Inl bad_params)"

text \<open>A column that may be null: \<open>value_column\<close> and \<open>unit_column\<close>.\<close>

definition optional_column :: "obj \<Rightarrow> string \<Rightarrow> (run_error, json) res" where
  "optional_column params name = (case jget params name of
       JNull \<Rightarrow> Inr JNull
     | JStr s \<Rightarrow> if py_strip s = [] then Inl bad_params else Inr (JStr (py_strip s))
     | _ \<Rightarrow> Inl bad_params)"

section \<open>The tools\<close>

definition search_params :: "obj \<Rightarrow> (run_error, obj) res" where
  "search_params params =
     bindR (reject_unknown ''search_sources'' params) (\<lambda>_.
     bindR (nonempty_text params ''query'') (\<lambda>query.
     bindR (integer_param params ''cursor'' 0 0 None) (\<lambda>cursor.
     bindR (integer_param params ''limit'' 20 1 (Some 50)) (\<lambda>lim.
     Inr [(''query'', JStr query), (''cursor'', JInt cursor), (''limit'', JInt lim)]))))"

definition read_params :: "string list option \<Rightarrow> obj \<Rightarrow> (run_error, obj) res" where
  "read_params allowed params =
     bindR (reject_unknown ''read_source'' params) (\<lambda>_.
     bindR (columns_param params) (\<lambda>columns.
     bindR (source_id_param allowed params) (\<lambda>source.
     bindR (integer_param params ''cursor'' 0 0 None) (\<lambda>cursor.
     bindR (integer_param params ''limit'' 100 1 (Some 200)) (\<lambda>lim.
     Inr [(''source_id'', JStr source), (''cursor'', JInt cursor), (''limit'', JInt lim),
          (''columns'', JList (map JStr columns))])))))"

definition profile_params :: "string list option \<Rightarrow> obj \<Rightarrow> (run_error, obj) res" where
  "profile_params allowed params =
     bindR (reject_unknown ''profile_csv'' params) (\<lambda>_.
     bindR (source_id_param allowed params) (\<lambda>source. Inr [(''source_id'', JStr source)]))"

definition compare_params :: "string list option \<Rightarrow> obj \<Rightarrow> (run_error, obj) res" where
  "compare_params allowed params =
     bindR (reject_unknown ''compare_groups'' params) (\<lambda>_.
     bindR (filters_param params) (\<lambda>filters.
     bindR (nonempty_text params ''aggregation'') (\<lambda>aggregation.
     bindR (raise_if (aggregation \<notin> set tool_aggregations) bad_params) (\<lambda>_.
     bindR (optional_column params ''value_column'') (\<lambda>value_column.
     bindR (optional_column params ''unit_column'') (\<lambda>unit_column.
     bindR (raise_if (aggregation \<noteq> ''count'' \<and> value_column = JNull) bad_params) (\<lambda>_.
     bindR (source_id_param allowed params) (\<lambda>source.
     bindR (nonempty_text params ''group_by'') (\<lambda>group_by.
     Inr [(''source_id'', JStr source), (''group_by'', JStr group_by),
          (''aggregation'', JStr aggregation), (''value_column'', value_column),
          (''filters'', JList filters), (''unit_column'', unit_column)])))))))))"

definition normalize_tool_parameters ::
    "string \<Rightarrow> json \<Rightarrow> string list option \<Rightarrow> (run_error, obj) res" where
  "normalize_tool_parameters tool raw allowed =
     (if \<not> is_mapping raw then Inl bad_params
      else let params = members raw in
        if tool = ''list_sources'' then (if params \<noteq> [] then Inl bad_params else Inr [])
        else if tool = ''search_sources'' then search_params params
        else if tool = ''read_source'' then read_params allowed params
        else if tool = ''profile_csv'' then profile_params allowed params
        else if tool = ''compare_groups'' then compare_params allowed params
        else Inl (run_err ''tool_not_allowed''))"

section \<open>Normal forms\<close>

lemma integer_param_eq_Inr:
  "integer_param params name dflt lo hi = Inr i \<longleftrightarrow>
     jget_or params name (JInt dflt) = JInt i \<and> lo \<le> i \<and> (case hi of None \<Rightarrow> True | Some m \<Rightarrow> i \<le> m)"
  by (auto simp: integer_param_def split: json.split option.split)

lemma nonempty_text_eq_Inr:
  "nonempty_text params name = Inr t \<longleftrightarrow>
     (\<exists>s. jget params name = JStr s \<and> py_strip s = t \<and> t \<noteq> [])"
  by (auto simp: nonempty_text_def split: json.split)

lemma source_id_param_eq_Inr:
  "source_id_param allowed params = Inr i \<longleftrightarrow>
     (\<exists>t. nonempty_text params ''source_id'' = Inr t \<and> py_uuid t = Some i \<and>
        (case allowed of None \<Rightarrow> True | Some ids \<Rightarrow> i \<in> set ids))"
  by (auto simp: source_id_param_def bindR_eq_Inr split: option.splits if_splits)

lemma optional_column_eq_Inr:
  "optional_column params name = Inr v \<longleftrightarrow>
     jget params name = JNull \<and> v = JNull \<or>
     (\<exists>s. jget params name = JStr s \<and> py_strip s \<noteq> [] \<and> v = JStr (py_strip s))"
  by (auto simp: optional_column_def split: json.split)

lemmas param_inversions =
  bindR_eq_Inr raise_if_eq_Inr integer_param_eq_Inr nonempty_text_eq_Inr source_id_param_eq_Inr
  optional_column_eq_Inr

lemma filter_param_form:
  assumes "filter_param v = Inr w"
  obtains c operator where
    "w = JObj [(''column'', JStr c), (''operator'', JStr operator), (''value'', jget (members v) ''value'')]"
    and "py_strip c = c" "c \<noteq> []" "operator \<in> set filter_operators"
    and "operator \<in> {''in'', ''not_in''} \<Longrightarrow> is_list (jget (members v) ''value'')"
proof -
  from assms have g: "\<not> (\<not> is_mapping v \<or> set (map fst (members v)) \<noteq> {''column'', ''operator'', ''value''})"
    unfolding filter_param_def if_Inl_eq_Inr by blast
  note e = assms [unfolded filter_param_def if_not_P [OF g]]
  from e obtain column where c: "jget (members v) ''column'' = JStr column"
    by (auto split: json.split_asm)
  note e = e [unfolded c json.case]
  from e have c0: "\<not> py_strip column = []" unfolding if_Inl_eq_Inr by blast
  note e = e [unfolded if_not_P [OF c0]]
  from e obtain operator where o: "jget (members v) ''operator'' = JStr operator"
    by (auto split: json.split_asm)
  note e = e [unfolded o json.case]
  from e have o1: "\<not> operator \<notin> set filter_operators" unfolding if_Inl_eq_Inr by blast
  note e = e [unfolded if_not_P [OF o1]]
  from e have o2: "\<not> (operator \<in> {''in'', ''not_in''} \<and> \<not> is_list (jget (members v) ''value''))"
    unfolding if_Inl_eq_Inr by blast
  note e = e [unfolded if_not_P [OF o2]]
  show thesis
    by (rule that [of "py_strip column" operator]) (use e c0 o1 o2 in simp_all)
qed

lemma filter_param_fix: "filter_param v = Inr w \<Longrightarrow> filter_param w = Inr w"
  by (erule filter_param_form) (auto simp: filter_param_def insert_commute)

lemma filters_param_fix:
  assumes "filters_param params = Inr fs" shows "mapR filter_param fs = Inr fs"
proof -
  from assms obtain vs where "mapR filter_param vs = Inr fs"
    by (auto simp: filters_param_def split: json.split_asm)
  then show ?thesis
    by (intro mapR_fix) (blast dest: mapR_Inr_set filter_param_fix)
qed

lemma columns_param_fix:
  "columns_param params = Inr cs \<Longrightarrow> mapR column_text (map JStr cs) = Inr cs \<and> distinct cs"
proof -
  assume "columns_param params = Inr cs"
  then obtain vs where "mapR column_text vs = Inr cs" and d: "distinct cs"
    by (auto simp: columns_param_def bindR_eq_Inr split: json.split_asm if_split_asm)
  then have "\<forall>c\<in>set cs. c \<noteq> []"
    by (auto simp: column_text_def dest!: mapR_Inr_set split: json.split_asm if_split_asm)
  then have "mapR column_text (map JStr cs) = Inr cs"
    by (induction cs) (auto simp: column_text_def)
  with d show ?thesis by simp
qed

lemma source_id_param_fix:
  assumes "source_id_param allowed params = Inr i"
  shows "source_id_param allowed ((''source_id'', JStr i) # ps) = Inr i"
proof -
  from assms obtain t where "py_uuid t = Some i" "case allowed of None \<Rightarrow> True | Some ids \<Rightarrow> i \<in> set ids"
    by (auto simp: source_id_param_eq_Inr)
  with py_uuid_text [of t i] py_uuid_idem [of t i] show ?thesis
    by (simp add: source_id_param_eq_Inr nonempty_text_eq_Inr)
qed

lemma search_params_fix: "search_params params = Inr p \<Longrightarrow> search_params p = Inr p"
  by (auto simp: search_params_def param_inversions reject_unknown_def tool_contract_def)

lemma profile_params_fix: "profile_params allowed params = Inr p \<Longrightarrow> profile_params allowed p = Inr p"
  by (auto simp: profile_params_def bindR_eq_Inr reject_unknown_def tool_contract_def
     dest: source_id_param_fix)

lemma read_params_fix:
  assumes "read_params allowed params = Inr p" shows "read_params allowed p = Inr p"
proof -
  from assms obtain cs i c l where p: "p = [(''source_id'', JStr i), (''cursor'', JInt c),
      (''limit'', JInt l), (''columns'', JList (map JStr cs))]"
    and cs: "columns_param params = Inr cs" and i: "source_id_param allowed params = Inr i"
    and n: "0 \<le> c" "1 \<le> l" "l \<le> 200"
    by (auto simp: read_params_def bindR_eq_Inr integer_param_eq_Inr)
  have "columns_param p = Inr cs"
    using columns_param_fix [OF cs] by (simp add: columns_param_def p)
  moreover have "source_id_param allowed p = Inr i"
    unfolding p by (rule source_id_param_fix [OF i])
  ultimately show ?thesis
    using n by (simp add: read_params_def reject_unknown_def tool_contract_def integer_param_def p)
qed

lemma nonempty_text_fix:
  "nonempty_text params name = Inr t \<Longrightarrow> jget p name = JStr t \<Longrightarrow> nonempty_text p name = Inr t"
  by (auto simp: nonempty_text_eq_Inr)

lemma optional_column_fix:
  "optional_column params name = Inr v \<Longrightarrow> jget p name = v \<Longrightarrow> optional_column p name = Inr v"
  by (auto simp: optional_column_eq_Inr)

lemma compare_params_fix:
  assumes "compare_params allowed params = Inr p" shows "compare_params allowed p = Inr p"
proof -
  from assms obtain i g a vc fs uc where p: "p = [(''source_id'', JStr i), (''group_by'', JStr g),
      (''aggregation'', JStr a), (''value_column'', vc), (''filters'', JList fs), (''unit_column'', uc)]"
    and i: "source_id_param allowed params = Inr i" and fs: "filters_param params = Inr fs"
    and g: "nonempty_text params ''group_by'' = Inr g" and a: "nonempty_text params ''aggregation'' = Inr a"
    and vc: "optional_column params ''value_column'' = Inr vc"
    and uc: "optional_column params ''unit_column'' = Inr uc"
    and c: "a \<in> set tool_aggregations" "a = ''count'' \<or> vc \<noteq> JNull"
    by (auto simp: compare_params_def bindR_eq_Inr raise_if_eq_Inr)
  have "filters_param p = Inr fs"
    using filters_param_fix [OF fs] by (simp add: filters_param_def p)
  moreover have "source_id_param allowed p = Inr i"
    unfolding p by (rule source_id_param_fix [OF i])
  moreover note nonempty_text_fix [OF g, of p] nonempty_text_fix [OF a, of p]
    optional_column_fix [OF vc, of p] optional_column_fix [OF uc, of p]
  ultimately show ?thesis
    using c by (simp add: compare_params_def reject_unknown_def tool_contract_def raise_if_def p)
qed

lemma normalize_tool_parameters_fix:
  "normalize_tool_parameters tool raw allowed = Inr p \<Longrightarrow>
     normalize_tool_parameters tool (JObj p) allowed = Inr p"
  by (auto simp: normalize_tool_parameters_def Let_def search_params_fix read_params_fix
      profile_params_fix compare_params_fix split: if_split_asm)

text \<open>
  \<open>params_ok\<close>: what a tool may rely on. Sources are canonical identifiers of the bound snapshot,
  cursors and limits lie in their ranges, a search has a query.
\<close>

definition bounded_window :: "obj \<Rightarrow> int \<Rightarrow> bool" where
  "bounded_window p most \<longleftrightarrow>
     (\<exists>c l. jget p ''cursor'' = JInt c \<and> jget p ''limit'' = JInt l \<and> 0 \<le> c \<and> 1 \<le> l \<and> l \<le> most)"

definition bound_source :: "string list option \<Rightarrow> obj \<Rightarrow> bool" where
  "bound_source allowed p \<longleftrightarrow>
     (\<exists>i. jget p ''source_id'' = JStr i \<and> py_uuid i = Some i \<and>
        (case allowed of None \<Rightarrow> True | Some ids \<Rightarrow> i \<in> set ids))"

definition params_ok :: "string \<Rightarrow> string list option \<Rightarrow> obj \<Rightarrow> bool" where
  "params_ok tool allowed p \<longleftrightarrow>
     tool \<in> set allowed_tools \<and>
     (if tool = ''list_sources'' then p = []
      else if tool = ''search_sources'' then (\<exists>q. jget p ''query'' = JStr q \<and> q \<noteq> []) \<and> bounded_window p 50
      else bound_source allowed p \<and> (tool = ''read_source'' \<longrightarrow> bounded_window p 200))"

lemma bound_sourceI:
  "source_id_param allowed params = Inr i \<Longrightarrow> bound_source allowed ((''source_id'', JStr i) # ps)"
  by (auto simp: source_id_param_eq_Inr bound_source_def dest: py_uuid_idem)

lemma normalize_tool_parameters_ok:
  "normalize_tool_parameters tool raw allowed = Inr p \<Longrightarrow> params_ok tool allowed p"
  by (auto simp: normalize_tool_parameters_def Let_def params_ok_def allowed_tools_def search_params_def
      read_params_def profile_params_def compare_params_def bindR_eq_Inr integer_param_eq_Inr
      nonempty_text_eq_Inr bounded_window_def intro: bound_sourceI split: if_split_asm)

section \<open>Properties\<close>

text \<open>
  C20. Tool parameters that pass validation are in normal form: every bound the tools rely on holds,
  and validating them again changes nothing, so the step key and the loop fingerprint do not depend
  on how the model spelled them.
\<close>

theorem tool_parameters_normal_form:
  assumes "normalize_tool_parameters tool raw allowed = Inr p"
  shows "normalize_tool_parameters tool (JObj p) allowed = Inr p \<and> params_ok tool allowed p"
  using normalize_tool_parameters_fix [OF assms] normalize_tool_parameters_ok [OF assms] by simp

definition sample_read :: json where
  "sample_read = JObj [(''limit'', JInt 5),
     (''source_id'', JStr '' 12345678123456781234567812345ABC '')]"

theorem tool_parameters_normal_form_witness:
  "\<exists>p. normalize_tool_parameters ''read_source'' sample_read
          (Some [''12345678-1234-5678-1234-567812345abc'']) = Inr p \<and>
     normalize_tool_parameters ''read_source'' (JObj p)
          (Some [''12345678-1234-5678-1234-567812345abc'']) = Inr p \<and>
     params_ok ''read_source'' (Some [''12345678-1234-5678-1234-567812345abc'']) p"
proof -
  have n: "normalize_tool_parameters ''read_source'' sample_read
      (Some [''12345678-1234-5678-1234-567812345abc'']) =
    Inr [(''source_id'', JStr ''12345678-1234-5678-1234-567812345abc''), (''cursor'', JInt 0),
      (''limit'', JInt 5), (''columns'', JList [])]"
    by code_simp
  show ?thesis using n tool_parameters_normal_form [OF n] by blast
qed

end
