(* ===== verification/Python_Time.thy ===== *)
theory Python_Time
  imports Python_Values
begin

text \<open>
  The text of a time: \<open>isoformat()\<close> of a \<open>datetime\<close> in UTC, given in microseconds since 1970, in the
  proleptic Gregorian calendar.
\<close>

text \<open>
  Year, month and day of a day number, counting days in years that begin in March, so that the leap
  day is the last of its year.
\<close>

definition civil_date :: "int \<Rightarrow> int \<times> int \<times> int" where
  "civil_date day = (let
     z = day + 719468;
     era = z div 146097;
     doe = z mod 146097;
     yoe = (doe - doe div 1460 + doe div 36524 - doe div 146096) div 365;
     doy = doe - (365 * yoe + yoe div 4 - yoe div 100);
     mp = (5 * doy + 2) div 153;
     m = (if mp < 10 then mp + 3 else mp - 9) in
     (yoe + era * 400 + (if m \<le> 2 then 1 else 0), m, doy - (153 * mp + 2) div 5 + 1))"

definition pad_digits :: "nat \<Rightarrow> int \<Rightarrow> string" where
  "pad_digits k n = (let t = dec_digits n in replicate (k - length t) CHR ''0'' @ t)"

definition isoformat :: "int \<Rightarrow> string" where
  "isoformat t = (let
     seconds = t div 1000000;
     micros = t mod 1000000;
     (y, m, d) = civil_date (seconds div 86400);
     s = seconds mod 86400 in
     pad_digits 4 y @ ''-'' @ pad_digits 2 m @ ''-'' @ pad_digits 2 d @ ''T'' @
     pad_digits 2 (s div 3600) @ '':'' @ pad_digits 2 (s mod 3600 div 60) @ '':'' @ pad_digits 2 (s mod 60) @
     (if micros = 0 then [] else ''.'' @ pad_digits 6 micros) @ ''+00:00'')"

lemma isoformat_samples:
  "isoformat 0 = ''1970-01-01T00:00:00+00:00''" "isoformat 951782400000007 = ''2000-02-29T00:00:00.000007+00:00''"
  "isoformat 1767225599000000 = ''2025-12-31T23:59:59+00:00''"
  by code_simp+

end
