(* ===== verification/Investigation_Release.thy ===== *)
theory Investigation_Release
  imports Investigation_Budget Investigation_Claims Investigation_Tool_Params Python_Time
begin

text \<open>
  What a run freezes of the release that starts it (\<open>base_execution_snapshot\<close> of
  \<open>accelerator/investigation_runtime.py\<close>): versions, limits of the model calls, prompts, tool contracts
  and the domain objects as they were. The instruction texts, the configured model and the versions of
  Python, Django and the libraries come from the environment.
\<close>

section \<open>Constants of the release\<close>

definition loop_version :: string where "loop_version = ''vs1-agent-loop-v21''"
definition policy_version :: string where "policy_version = ''vs1-stop-policy-v6''"
definition budget_version :: string where "budget_version = ''vs1-budget-v7''"
definition fixed_route_version :: string where "fixed_route_version = ''vs1-fixed-route-v1''"
definition tool_schema_version :: string where "tool_schema_version = ''vs1-tool-schema-v3''"
definition tool_version :: string where "tool_version = ''vs1-source-tools-v1''"
definition transport_version :: string where "transport_version = ''vs1-openrouter-deepinfra-fp8-v4''"

definition context_tokens :: int where "context_tokens = 1048576"
definition completion_tokens :: int where "completion_tokens = 131072"
definition endpoint_model :: string where "endpoint_model = ''deepseek/deepseek-v4.1-flash''"

definition endpoint_capability :: obj where
  "endpoint_capability = [(''version'', JStr transport_version), (''model'', JStr endpoint_model),
     (''provider'', JStr ''deepinfra/fp8''), (''context_tokens'', JInt context_tokens),
     (''completion_tokens'', JInt completion_tokens)]"

text \<open>\<open>MODEL_CALL_LIMITS\<close>: seconds and output tokens of one call, by role.\<close>

definition role_timeout :: "model_role \<Rightarrow> int" where
  "role_timeout role = (case role of Planner \<Rightarrow> 90 | Synthesizer \<Rightarrow> 270 | Verifier \<Rightarrow> verifier_timeout_seconds)"

definition role_max_tokens :: "model_role \<Rightarrow> int" where
  "role_max_tokens role = (case role of Planner \<Rightarrow> 16384 | Synthesizer \<Rightarrow> 32768 | Verifier \<Rightarrow> 16384)"

definition role_text :: "model_role \<Rightarrow> string" where
  "role_text role = (case role of
       Planner \<Rightarrow> ''planner'' | Synthesizer \<Rightarrow> ''synthesizer'' | Verifier \<Rightarrow> ''verifier'')"

definition role_limits :: obj where
  "role_limits = map (\<lambda>role. (role_text role,
     JObj [(''timeout_seconds'', JInt (role_timeout role)), (''max_output_tokens'', JInt (role_max_tokens role))]))
     [Planner, Synthesizer, Verifier]"

definition provider_policy :: obj where
  "provider_policy = [(''zdr'', JBool True), (''data_collection'', JStr ''deny''),
     (''order'', JList [JStr ''deepinfra/fp8'']), (''allow_fallbacks'', JBool False),
     (''require_parameters'', JBool True)]"

definition prompt_version :: "model_role \<Rightarrow> string" where
  "prompt_version role = (case role of
       Planner \<Rightarrow> ''vs1-planner-v19'' | Synthesizer \<Rightarrow> ''vs1-synthesis-v16'' | Verifier \<Rightarrow> ''vs1-verifier-v8'')"

definition schema_version :: "model_role \<Rightarrow> string" where
  "schema_version role = (case role of
       Planner \<Rightarrow> ''vs1-planner-schema-v16'' | Synthesizer \<Rightarrow> ''vs1-synthesis-schema-v6''
     | Verifier \<Rightarrow> ''vs1-verifier-schema-v5'')"

text \<open>Version, schema and instruction hash of the earlier prompts that may still run.\<close>

definition legacy_synthesis :: "string \<times> string \<times> string" where
  "legacy_synthesis = (''vs1-synthesis-v14'', ''vs1-synthesis-schema-v4'',
     ''ba440dace644c62ea68489ecf5bc78e9093937131b77edb80cc9e765c7b35d48'')"

definition legacy_verifier :: "string \<times> string \<times> string" where
  "legacy_verifier = (''vs1-verifier-v6'', schema_version Verifier,
     ''48ca272bd0cabfbb09101e299a097cedfafb3a8db0a63f4fa8f9f33926a76335'')"

text \<open>\<open>TOOL_PARAMETER_CONTRACTS\<close>.\<close>

definition tool_contract_json :: "string \<Rightarrow> string \<times> json" where
  "tool_contract_json tool = (case tool_contract tool of (required, optional) \<Rightarrow>
     (tool, JObj ([(''required'', JList (map JStr required)), (''optional'', JList (map JStr optional))] @
       (if tool = ''compare_groups''
        then [(''aggregations'', JList (map JStr tool_aggregations)),
          (''value_column_required_except'', JList [JStr ''count'']),
          (''filter_fields'', JList [JStr ''column'', JStr ''operator'', JStr ''value'']),
          (''filter_operators'', JList (map JStr filter_operators))]
        else []))))"

definition tool_parameter_contracts :: obj where
  "tool_parameter_contracts = map tool_contract_json allowed_tools"

definition obligation_json :: "obligation \<Rightarrow> json" where
  "obligation_json ob = JObj
     [(''obligation_id'', JStr (ob_id ob)), (''snapshot_id'', JStr (ob_snapshot ob)),
      (''manifest_hash'', JStr (ob_manifest_hash ob)), (''source_id'', JStr (ob_source ob)),
      (''source_revision_hash'', JStr (ob_source_hash ob)),
      (''case_key_column'', JStr (ob_column ob)), (''case_keys'', JList (map JStr (ob_keys ob))),
      (''mapping_dimension'', JStr (ob_dimension ob)), (''exhaustive'', JBool True)]"

text \<open>\<open>str(snapshot.process_analysis_id)\<close>.\<close>

definition id_text :: "string option \<Rightarrow> string" where
  "id_text i = (case i of None \<Rightarrow> ''None'' | Some s \<Rightarrow> s)"

definition opt_int :: "int option \<Rightarrow> json" where
  "opt_int n = (case n of None \<Rightarrow> JNull | Some i \<Rightarrow> JInt i)"

definition budget_json :: "budget \<Rightarrow> json" where
  "budget_json b = JObj (map (\<lambda>(k, v). (k, JInt v)) b)"

section \<open>The domain objects\<close>

definition option_columns :: "string list" where
  "option_columns = [''id'', ''updated_at'', ''name'', ''option_type'', ''recommendation'', ''evaluation_status'',
     ''evidence_basis'', ''description'', ''expected_value'', ''bottleneck_coverage'', ''feasibility'',
     ''data_requirements'', ''application_impact'', ''integration_effort'', ''integration_impact'',
     ''technology_constraints'', ''risks'', ''architecture_fit'', ''time_to_value'', ''contains_ai_component'']"

definition with_content_hash :: "env \<Rightarrow> obj \<Rightarrow> json" where
  "with_content_hash env payload =
     JObj (payload @ [(''content_hash'', JStr (content_hash (e_hash env) (JObj payload)))])"

definition domain_materialization_snapshot :: "env \<Rightarrow> process \<Rightarrow> json" where
  "domain_materialization_snapshot env p = with_content_hash env
     [(''process'', JObj
        [(''id'', JStr (proc_id p)), (''version'', JInt (proc_version p)),
         (''updated_at'', JStr (isoformat (proc_updated p))),
         (''diagnostic_observations'', jget (proc_texts p) ''diagnostic_observations''),
         (''cause_hypotheses'', jget (proc_texts p) ''cause_hypotheses''),
         (''baseline_metrics'', jget (proc_texts p) ''baseline_metrics'')]),
      (''solution_options'', JList (map (\<lambda>opt. JObj (map (\<lambda>k. (k, jget opt k)) option_columns)) (proc_options p)))]"

definition historical_domain_materialization_snapshot :: "env \<Rightarrow> snapshot \<Rightarrow> json" where
  "historical_domain_materialization_snapshot env snap = (let ctx = members (snap_context snap) in
     with_content_hash env
     [(''process'', JObj
        [(''id'', JStr (id_text (snap_process snap))), (''version'', opt_int (snap_process_version snap)),
         (''updated_at'', JStr (isoformat (snap_created snap))),
         (''diagnostic_observations'', JStr (str_at ctx ''diagnostic_observations'')),
         (''cause_hypotheses'', JStr (str_at ctx ''cause_hypotheses'')),
         (''baseline_metrics'', JStr (str_at ctx ''baseline_metrics''))]),
      (''solution_options'', JList [])])"

section \<open>The frozen snapshot\<close>

definition instruction_hash :: "env \<Rightarrow> string \<Rightarrow> string" where
  "instruction_hash env s = e_hash env s"

definition frozen_prompt :: "env \<Rightarrow> model_role \<Rightarrow> json" where
  "frozen_prompt env role = JObj
     [(''prompt_version'', JStr (prompt_version role)),
      (''instruction_hash'', JStr (instruction_hash env (e_instruction env role))),
      (''instruction_template'', JStr (e_instruction env role)),
      (''schema_version'', JStr (schema_version role))]"

definition frozen_campaign :: "campaign option \<Rightarrow> json" where
  "frozen_campaign campaign = (case campaign of
       None \<Rightarrow> JNull
     | Some c \<Rightarrow> JObj
        [(''id'', JStr (cp_id c)), (''key'', JStr (cp_key c)), (''revision'', JInt (cp_revision c)),
         (''limits'', budget_json (cp_limits c)), (''pricing_version'', JStr (cp_pricing_version c)),
         (''currency'', JStr (cp_currency c))])"

definition frozen_transport :: "env \<Rightarrow> json" where
  "frozen_transport env = JObj
     [(''provider'', JStr ''openrouter''), (''provider_policy'', JObj provider_policy),
      (''requested_model'', JStr (e_model env)), (''temperature'', JFloat ''0.1''),
      (''reasoning_effort'', JStr ''medium''), (''endpoint_capability'', JObj endpoint_capability),
      (''role_limits'', JObj role_limits)]"

definition frozen_tools :: json where
  "frozen_tools = JObj
     [(''allowlist'', JList (map JStr (sort allowed_tools))), (''schema_version'', JStr tool_schema_version),
      (''implementation_version'', JStr tool_version), (''parameter_contracts'', JObj tool_parameter_contracts)]"

definition base_execution_snapshot ::
    "env \<Rightarrow> snapshot \<Rightarrow> budget \<Rightarrow> process \<Rightarrow> string \<Rightarrow> campaign option \<Rightarrow> obj \<Rightarrow> bool \<Rightarrow> bool \<Rightarrow>
      obligation list \<Rightarrow> obj" where
  "base_execution_snapshot env snap limits p mode campaign metadata brief_required replay obs =
     [(''runtime'', e_runtime env), (''loop_version'', JStr loop_version),
      (''adoption_contract_version'', JStr ''2.0''), (''policy_version'', JStr policy_version),
      (''budget_version'', JStr budget_version), (''budget_limits'', budget_json limits),
      (''execution_mode'', JStr mode),
      (''fixed_route_version'', if mode = ''fixed'' then JStr fixed_route_version else JNull),
      (''evidence_metadata'', JObj metadata), (''decision_brief_required'', JBool brief_required),
      (''historical_snapshot_replay'', JBool replay),
      (''structured_mapping_obligations'', JList (map obligation_json obs)),
      (''evidence_campaign'', frozen_campaign campaign),
      (''domain_materialization_base'', if replay then historical_domain_materialization_snapshot env snap
         else domain_materialization_snapshot env p),
      (''source_snapshot_id'', JStr (snap_id snap)), (''manifest_hash'', JStr (snap_manifest_hash snap)),
      (''model_transport'', frozen_transport env), (''process_version'', opt_int (snap_process_version snap)),
      (''planner'', frozen_prompt env Planner), (''synthesizer'', frozen_prompt env Synthesizer),
      (''verifier'', frozen_prompt env Verifier), (''tools'', frozen_tools)]"

end
