(* ===== verification/Investigation_Runtime.thy ===== *)
theory Investigation_Runtime
  imports Investigation_Claims Investigation_Release
begin

text \<open>
  The operations on a run (\<open>accelerator/investigation_runtime.py\<close>): start, recovery, abort, human
  input, the planner's state, counterevidence, source relevance and the materialised brief. An
  operation is a transaction: it returns the new database with its value, or an exception, and then
  the database is rolled back. The row lock it takes first serialises the transactions of a run.
\<close>

type_synonym 'a txn = "(run_error, db \<times> 'a) res"

section \<open>Starting a run\<close>

definition normalize_idempotency_key :: "json \<Rightarrow> (run_error, string) res" where
  "normalize_idempotency_key value = (let key = text_of value in
     if key = [] \<or> length key > 64 then Inl (run_err ''invalid_idempotency_key'') else Inr key)"

definition contract_payload :: "snapshot \<Rightarrow> budget \<Rightarrow> obligation list \<Rightarrow> json" where
  "contract_payload snap b obs = JObj
     [(''decision_question'', JStr (snap_question snap)),
      (''process_analysis_id'', JStr (id_text (snap_process snap))),
      (''process_version'', opt_int (snap_process_version snap)),
      (''manifest_hash'', JStr (snap_manifest_hash snap)),
      (''policy_version'', JStr policy_version),
      (''budget_version'', JStr budget_version),
      (''budget_limits'', JObj (map (\<lambda>(k, v). (k, JInt v)) b)),
      (''structured_mapping_obligations'', JList (map obligation_json obs)),
      (''required_areas'', JList (map JStr claim_areas))]"

record start_request =
  sr_snapshot :: json
  sr_key :: json
  sr_campaign :: "json option"
  sr_mode :: string
  sr_metadata :: obj
  sr_brief_required :: bool
  sr_replay :: bool
  sr_obligations :: "json list"

record handle =
  h_run :: string
  h_token :: string
  h_generation :: int
  h_status :: run_status
  h_reused :: bool

definition handle_of :: "run \<Rightarrow> bool \<Rightarrow> handle" where
  "handle_of r reused = \<lparr>h_run = r_id r, h_token = r_token r, h_generation = r_generation r,
     h_status = r_status r, h_reused = reused\<rparr>"

text \<open>\<open>can_edit_value_stream\<close> reads attributes of the actor, which \<open>None\<close> does not have.\<close>

definition actor_edits :: "user option \<Rightarrow> process \<Rightarrow> (run_error, bool) res" where
  "actor_edits actor p = (case actor of
       None \<Rightarrow> Inl (Other_Error ''AttributeError'')
     | Some u \<Rightarrow> Inr (can_edit_value_stream u (proc_owner p)))"

text \<open>\<open>_authorized_snapshot\<close> of \<open>investigation_tools.py\<close>.\<close>

definition snapshot_access :: "db \<Rightarrow> user option \<Rightarrow> string option \<Rightarrow> (run_error, snapshot) res" where
  "snapshot_access d actor k =
     (case Option.bind k (\<lambda>s. find (\<lambda>x. snap_id x = s) (db_snapshots d)) of
        None \<Rightarrow> Inl Permission_Denied
      | Some snap \<Rightarrow>
          (case Option.bind (snap_process snap) (get_process d) of
             None \<Rightarrow> Inl Permission_Denied
           | Some p \<Rightarrow>
               bindR (raise_if (\<not> proc_draft p) Permission_Denied) (\<lambda>_.
               (case get_folder d (snap_folder snap) of
                  None \<Rightarrow> Inl (Other_Error ''DoesNotExist'')
                | Some f \<Rightarrow>
                    bindR (raise_if (\<not> fo_active f) Permission_Denied) (\<lambda>_.
                    bindR (raise_if (fo_process f \<noteq> snap_process snap) Permission_Denied) (\<lambda>_.
                    bindR (actor_edits actor p) (\<lambda>ok.
                    bindR (raise_if (\<not> ok) Permission_Denied) (\<lambda>_. Inr snap))))))))"

definition authorized_snapshot :: "env \<Rightarrow> db \<Rightarrow> user option \<Rightarrow> json \<Rightarrow> (run_error, snapshot) res" where
  "authorized_snapshot env d actor i = bindR (e_pk env i) (snapshot_access d actor)"

text \<open>\<open>snapshot_mapping_obligations or requested_mapping_obligations\<close>, which may not conflict.\<close>

definition effective_obligations :: "snapshot \<Rightarrow> json list \<Rightarrow> (run_error, obligation list) res" where
  "effective_obligations snap raw =
     bindR (structured_mapping_obligations_from_snapshot snap) (\<lambda>frozen.
     bindR (normalize_structured_mapping_obligations snap (JList raw)) (\<lambda>requested.
     if frozen \<noteq> [] \<and> requested \<noteq> [] \<and> frozen \<noteq> requested
     then Inl (run_err ''snapshot_mapping_contract_conflict'')
     else Inr (if frozen \<noteq> [] then frozen else requested)))"

definition start_campaign ::
    "env \<Rightarrow> db \<Rightarrow> process \<Rightarrow> json option \<Rightarrow> (run_error, string option) res" where
  "start_campaign env d p c = (case c of
       None \<Rightarrow> Inr None
     | Some v \<Rightarrow>
         bindR (e_pk env v) (\<lambda>k.
         (case Option.bind k (find_campaign d) of
            None \<Rightarrow> Inl (run_err ''evidence_budget_required'')
          | Some cp \<Rightarrow>
              if cp_process cp \<noteq> proc_id p then Inl (run_err ''invalid_evidence_budget'')
              else Inr (Some (cp_id cp)))))"

definition empty_register_hash :: "env \<Rightarrow> string" where
  "empty_register_hash env = register_hash env [] [] 0"

definition new_run ::
    "env \<Rightarrow> db \<Rightarrow> process \<Rightarrow> snapshot \<Rightarrow> int \<Rightarrow> string \<Rightarrow> string \<Rightarrow> string option \<Rightarrow> start_request \<Rightarrow>
      budget \<Rightarrow> obligation list \<Rightarrow> string \<Rightarrow> run" where
  "new_run env d p snap version key mode campaign request limits obs contract =
     \<lparr>r_id = fresh env d, r_process = proc_id p, r_snapshot = snap, r_campaign = campaign,
      r_mode = mode, r_key = key, r_status = Running,
      r_process_version = version, r_loop_version = loop_version, r_policy_version = policy_version,
      r_budget_version = budget_version,
      r_execution = base_execution_snapshot env snap limits p mode
        (Option.bind campaign (find_campaign d)) (sr_metadata request)
        (sr_brief_required request) (sr_replay request) obs,
      r_question = snap_question snap,
      r_contract_hash = contract, r_manifest_hash = snap_manifest_hash snap, r_limits = limits,
      r_usage = initial_usage, r_fingerprint = None, r_repeat = 0,
      r_brief_required = sr_brief_required request, r_replay = sr_replay request,
      r_obligations = obs, r_claims = [], r_relevance = [], r_register_revision = 1,
      r_register_hash = empty_register_hash env, r_brief = [], r_brief_revision = 1,
      r_brief_hash = brief_hash env [], r_data_check = False, r_counter_search = False,
      r_counter_processed = False, r_relevance_complete = False, r_streak = 0,
      r_token = fresh env (draw d), r_generation = 1, r_reason = [], r_clarification = [],
      r_started = db_now d, r_finished = None, r_last_progress = None, r_steps = [], r_calls = [],
      r_reports = [], r_inputs = [], r_briefs = []\<rparr>"

text \<open>\<open>evidence_campaign_id is not None\<close> on a run.\<close>

definition is_evidence_run :: "run \<Rightarrow> bool" where
  "is_evidence_run r \<longleftrightarrow> r_campaign r \<noteq> None"

definition same_run :: "db \<Rightarrow> process \<Rightarrow> string \<Rightarrow> run option" where
  "same_run d p key = find (\<lambda>r. r_process r = proc_id p \<and> r_key r = key) (db_runs d)"

definition active_run :: "db \<Rightarrow> process \<Rightarrow> bool \<Rightarrow> run option" where
  "active_run d p evidence =
     find (\<lambda>r. r_process r = proc_id p \<and> is_active r \<and> is_evidence_run r = evidence) (db_runs d)"

text \<open>Checks before the transaction: a historical replay is reserved for real post-fix evidence.\<close>

definition replay_allowed :: "start_request \<Rightarrow> string \<Rightarrow> string \<Rightarrow> bool" where
  "replay_allowed request mode phase \<longleftrightarrow>
     mode = ''real'' \<and> phase = ''post_fix'' \<and> sr_campaign request \<noteq> None"

text \<open>
  A snapshot without process version cannot be stored in a run: the insertion violates NOT NULL, and
  the handler of \<open>IntegrityError\<close>, finding no run that competes, reports a reservation by nobody.
\<close>

definition create_run ::
    "env \<Rightarrow> db \<Rightarrow> process \<Rightarrow> snapshot \<Rightarrow> string \<Rightarrow> start_request \<Rightarrow> budget \<Rightarrow> obligation list \<Rightarrow>
      string \<Rightarrow> bool \<Rightarrow> handle txn" where
  "create_run env d p snap key request limits obs contract real_evidence = (let
     mode = py_casefold (py_strip
       (if sr_mode request = [] then ''adaptive'' else sr_mode request)) in
     bindR (raise_if (mode \<notin> {''adaptive'', ''fixed''}) (run_err ''invalid_execution_mode'')) (\<lambda>_.
     bindR (start_campaign env d p (sr_campaign request)) (\<lambda>campaign.
     bindR (raise_if ((mode = ''fixed'' \<or> real_evidence) \<and> campaign = None)
              (run_err ''evidence_budget_required'')) (\<lambda>_.
     (case snap_process_version snap of
        None \<Rightarrow> Inl (Run_Error ''active_run_exists'' None)
      | Some version \<Rightarrow>
          (let r = new_run env d p snap version key mode campaign request limits obs contract in
           Inr ((draw (draw d))\<lparr>db_runs := db_runs d @ [r]\<rparr>, handle_of r False)))))))"

text \<open>\<open>phase\<close> or \<open>evidence_phase\<close>, and the provider mode of the evidence metadata.\<close>

definition evidence_phase :: "start_request \<Rightarrow> string" where
  "evidence_phase request = py_casefold (text_of
     (json_or (jget (sr_metadata request) ''phase'') (jget (sr_metadata request) ''evidence_phase'')))"

definition evidence_provider_mode :: "start_request \<Rightarrow> string" where
  "evidence_provider_mode request = py_casefold (text_at (sr_metadata request) ''provider_mode'')"

text \<open>Everything \<open>start_investigation\<close> checks before it looks at the runs of the process.\<close>

definition start_scope ::
    "env \<Rightarrow> db \<Rightarrow> user option \<Rightarrow> start_request \<Rightarrow>
      (run_error, string \<times> snapshot \<times> budget \<times> process \<times> obligation list) res" where
  "start_scope env d actor request =
     bindR (normalize_idempotency_key (sr_key request)) (\<lambda>key.
     bindR (authorized_snapshot env d actor (sr_snapshot request)) (\<lambda>snap.
     bindR (budget_from_snapshot (snap_run_limits snap)) (\<lambda>limits.
     bindR (raise_if (sr_replay request \<and> \<not> replay_allowed request (evidence_provider_mode request)
              (evidence_phase request)) (run_err ''historical_snapshot_replay_forbidden'')) (\<lambda>_.
     (case Option.bind (snap_process snap) (get_process d) of
        None \<Rightarrow> Inl (Other_Error ''DoesNotExist'')
      | Some p \<Rightarrow>
          bindR (actor_edits actor p) (\<lambda>ok.
          bindR (raise_if (\<not> proc_draft p \<or> \<not> ok) Permission_Denied) (\<lambda>_.
          bindR (raise_if (\<not> folder_active d (snap_folder snap)) Permission_Denied) (\<lambda>_.
          bindR (raise_if (Some (proc_version p) \<noteq> snap_process_version snap \<and> \<not> sr_replay request)
                   (run_err ''process_version_conflict'')) (\<lambda>_.
          bindR (effective_obligations snap (sr_obligations request)) (\<lambda>obs.
          Inr (key, snap, limits, p, obs)))))))))))"

text \<open>The run of the idempotency key, or a new one when no run of the same purpose is active.\<close>

definition reserve_run ::
    "env \<Rightarrow> db \<Rightarrow> user option \<Rightarrow> start_request \<Rightarrow> string \<Rightarrow> snapshot \<Rightarrow> budget \<Rightarrow> process \<Rightarrow>
      obligation list \<Rightarrow> handle txn" where
  "reserve_run env d actor request key snap limits p obs = (let
     contract = content_hash (e_hash env) (contract_payload snap limits obs);
     evidence = (sr_campaign request \<noteq> None) in
     (case same_run d p key of
        Some same \<Rightarrow>
          if is_evidence_run same \<noteq> evidence
          then Inl (Run_Error ''idempotency_scope_conflict'' (Some (r_id same)))
          else if \<not> actor_can_edit_run d actor same then Inl Permission_Denied
          else if r_contract_hash same \<noteq> contract
          then Inl (Run_Error ''idempotency_contract_conflict'' (Some (r_id same)))
          else Inr (d, handle_of same True)
      | None \<Rightarrow>
          (case active_run d p evidence of
             Some r \<Rightarrow> Inl (Run_Error ''active_run_exists'' (Some (r_id r)))
           | None \<Rightarrow>
               create_run env d p snap key request limits obs contract
                 (evidence_provider_mode request = ''real'' \<and> evidence_phase request \<noteq> []))))"

definition start_investigation :: "env \<Rightarrow> db \<Rightarrow> user option \<Rightarrow> start_request \<Rightarrow> handle txn" where
  "start_investigation env d actor request =
     bindR (start_scope env d actor request) (\<lambda>(key, snap, limits, p, obs).
       reserve_run env d actor request key snap limits p obs)"

section \<open>Executors and status\<close>

text \<open>A new executor: \<open>executor_generation += 1; executor_token = uuid.uuid4()\<close>.\<close>

definition new_executor :: "env \<Rightarrow> db \<Rightarrow> run \<Rightarrow> run" where
  "new_executor env d r = r\<lparr>r_generation := r_generation r + 1, r_token := fresh env d\<rparr>"

definition recover_investigation :: "env \<Rightarrow> db \<Rightarrow> user option \<Rightarrow> string \<Rightarrow> handle txn" where
  "recover_investigation env d actor i =
     bindR (locked_run d actor i) (\<lambda>r.
     bindR (assert_active r) (\<lambda>_.
     bindR (raise_if (r_status r = Waiting_Human) (run_err ''human_input_required'')) (\<lambda>_.
     (let r' = new_executor env d r in Inr (save_run (draw d) r', handle_of r' False)))))"

definition abort_investigation :: "env \<Rightarrow> db \<Rightarrow> user option \<Rightarrow> string \<Rightarrow> run txn" where
  "abort_investigation env d actor i =
     bindR (locked_run d actor i) (\<lambda>r.
     if \<not> is_active r then Inr (d, r)
     else (let r' = new_executor env d (r\<lparr>r_status := Aborted, r_finished := Some (db_now d)\<rparr>) in
       Inr (save_run (draw d) r', r')))"

definition next_input :: "run \<Rightarrow> int" where
  "next_input r = fold (\<lambda>i m. max m (in_revision i)) (r_inputs r) 0 + 1"

definition continue_with_human_input ::
    "env \<Rightarrow> db \<Rightarrow> user option \<Rightarrow> string \<Rightarrow> obj \<Rightarrow> handle txn" where
  "continue_with_human_input env d actor i payload =
     bindR (locked_run d actor i) (\<lambda>r.
     bindR (raise_if (r_status r \<noteq> Waiting_Human) (run_err ''not_waiting_human'')) (\<lambda>_.
     bindR (raise_if (payload = []) (run_err ''empty_human_input'')) (\<lambda>_.
     (let revision = \<lparr>in_id = fresh env d, in_revision = next_input r, in_payload = payload,
            in_hash = content_hash (e_hash env) (JObj payload), in_created = db_now d\<rparr>;
          inputs = r_inputs r @ [revision];
          r' = new_executor env (draw d)
            (r\<lparr>r_inputs := inputs, r_register_revision := r_register_revision r + 1,
               r_register_hash := register_hash env (r_claims r) (r_relevance r) (length inputs),
               r_status := Running, r_reason := [], r_clarification := []\<rparr>) in
      Inr (save_run (draw (draw d)) r', handle_of r' False)))))"

text \<open>The body the operations share that end a run as failed.\<close>

definition close_failed :: "env \<Rightarrow> db \<Rightarrow> run \<Rightarrow> string \<Rightarrow> obj \<Rightarrow> run" where
  "close_failed env d r reason payload = new_executor env d
     (r\<lparr>r_status := Failed, r_reason := reason, r_clarification := payload,
        r_finished := Some (db_now d)\<rparr>)"

definition fail_run_technical ::
    "env \<Rightarrow> db \<Rightarrow> user option \<Rightarrow> string \<Rightarrow> string \<Rightarrow> string \<Rightarrow> string \<Rightarrow> run txn" where
  "fail_run_technical env d actor i token code impact =
     bindR (executor_run d actor i token) (\<lambda>r.
     (let r' = close_failed env d r ''technical_failure''
        [(''error_code'', JStr code), (''impact'', JStr impact),
         (''required_action'', JStr (''Tool-/Schema-Vertrag technisch pr'' @ u_umlaut @
            ''fen; keinen fachlichen Schluss ableiten.''))] in
      Inr (save_run (draw d) r', r')))"

section \<open>Steps of a run\<close>

text \<open>The steps of a run are kept in the order of their sequence.\<close>

definition successful :: "run \<Rightarrow> step list" where
  "successful r = filter (\<lambda>s. st_status s = Step_Success) (r_steps r)"

definition save_step :: "run \<Rightarrow> step \<Rightarrow> run" where
  "save_step r s = r\<lparr>r_steps := update_where (\<lambda>x. st_sequence x = st_sequence s) (\<lambda>_. s) (r_steps r)\<rparr>"

definition get_step :: "run \<Rightarrow> int \<Rightarrow> step option" where
  "get_step r n = find (\<lambda>s. st_sequence s = n) (r_steps r)"

definition has_csv :: "run \<Rightarrow> bool" where
  "has_csv r \<longleftrightarrow> (\<exists>s\<in>set (snap_sources (r_snapshot r)). src_type s = ''csv'')"

definition observed_sources :: "step list \<Rightarrow> string list" where
  "observed_sources ss = map (\<lambda>s. str_at (st_parameters s) ''source_id'')
     (filter (\<lambda>s. st_tool s \<in> {''read_source'', ''profile_csv'', ''compare_groups''}) ss)"

definition covers_source :: "step \<Rightarrow> bool" where
  "covers_source s \<longleftrightarrow>
     st_tool s = ''read_source'' \<and> jget (members (st_payload s)) ''next_cursor'' = JNull \<or>
     st_tool s \<in> {''profile_csv'', ''compare_groups''}"

definition investigation_evidence_complete :: "run \<Rightarrow> bool" where
  "investigation_evidence_complete r = (let
     covered = map (\<lambda>s. str_at (st_parameters s) ''source_id'') (filter covers_source (successful r)) in
     if \<not> ((r_data_check r \<or> \<not> has_csv r) \<and> r_counter_search r \<and> r_counter_processed r) then False
     else source_ids r \<noteq> [] \<and> set (source_ids r) \<subseteq> set covered)"

section \<open>The planner's state\<close>

definition progress_kinds :: "string list" where
  "progress_kinds = [''none'', ''evidence'', ''refutation'', ''contradiction'', ''coverage'']"

text \<open>The register, when the planner proposes one.\<close>

definition apply_register :: "env \<Rightarrow> db \<Rightarrow> run \<Rightarrow> json list option \<Rightarrow> (run_error, run) res" where
  "apply_register env d r claims = (case claims of
       None \<Rightarrow> Inr r
     | Some raws \<Rightarrow>
         bindR (normalize_claim_register env d r raws) (\<lambda>normalized. Inr
           (if content_hash (e_hash env) (claims_json (r_claims r)) \<noteq>
               content_hash (e_hash env) (claims_json normalized)
            then r\<lparr>r_claims := normalized, r_register_revision := r_register_revision r + 1,
                   r_register_hash :=
                     register_hash env normalized (r_relevance r) (length (r_inputs r))\<rparr>
            else r)))"

text \<open>The brief, when the planner proposes one.\<close>

definition apply_brief :: "env \<Rightarrow> db \<Rightarrow> run \<Rightarrow> obj option \<Rightarrow> (run_error, run) res" where
  "apply_brief env d r brief = (case brief of
       None \<Rightarrow> Inr r
     | Some payload \<Rightarrow>
         bindR (normalize_decision_brief_payload env d r payload) (\<lambda>normalized. Inr
           (if brief_hash env normalized \<noteq> r_brief_hash r
            then r\<lparr>r_brief := normalized, r_brief_revision := r_brief_revision r + 1,
                   r_brief_hash := brief_hash env normalized\<rparr>
            else r)))"

text \<open>The latest successful step takes the progress the planner reports for it.\<close>

definition label_latest_step :: "run \<Rightarrow> string \<Rightarrow> obj \<Rightarrow> run" where
  "label_latest_step r kind payload =
     (case first_opt (rev (successful r)) of
        None \<Rightarrow> r
      | Some s \<Rightarrow>
          if kind \<in> set progress_kinds \<and> (kind \<noteq> ''none'' \<or> st_progress_kind s = ''none'')
          then save_step r (s\<lparr>st_progress_kind := kind, st_progress_payload := payload\<rparr>)
          else r)"

text \<open>
  The streak of actions without progress: \<open>r\<close> is the run before, \<open>r1\<close> with the new register, \<open>r2\<close> with
  the new brief. A revision number moves exactly when its part changed.
\<close>

definition note_progress :: "env \<Rightarrow> int \<Rightarrow> run \<Rightarrow> run \<Rightarrow> run \<Rightarrow> string \<Rightarrow> obj \<Rightarrow> run" where
  "note_progress env now r r1 r2 kind payload = (let
     register_changed = (r_register_revision r1 \<noteq> r_register_revision r);
     brief_changed = (r_brief_revision r2 \<noteq> r_brief_revision r1) in
     if brief_changed \<or> meaningful_register_change env (r_claims r) (r_claims r2) \<or>
        kind \<in> {''evidence'', ''refutation'', ''contradiction'', ''coverage''} \<and>
          py_truthy (jget payload ''coverage_change'')
     then r2\<lparr>r_streak := 0, r_last_progress := Some now\<rparr>
     else if register_changed \<or> brief_changed \<or> kind = ''none''
     then r2\<lparr>r_streak := r_streak r2 + 1\<rparr>
     else r2)"

definition apply_planner_state ::
    "env \<Rightarrow> db \<Rightarrow> user option \<Rightarrow> string \<Rightarrow> string \<Rightarrow> json list option \<Rightarrow> obj option \<Rightarrow> string \<Rightarrow> obj \<Rightarrow>
      run txn" where
  "apply_planner_state env d actor i token claims brief kind payload =
     bindR (executor_run d actor i token) (\<lambda>r.
     bindR (apply_register env d r claims) (\<lambda>r1.
     bindR (apply_brief env d r1 brief) (\<lambda>r2.
     (let r' = label_latest_step (note_progress env (db_now d) r r1 r2 kind payload) kind payload in
      Inr (save_run d r', r')))))"

section \<open>Counterevidence\<close>

definition counter_markers :: "string list" where
  "counter_markers = [''gegen'', ''counter'', ''wider'', ''alternative'', ''nicht'']"

definition is_counter_search :: "step \<Rightarrow> bool" where
  "is_counter_search s \<longleftrightarrow> st_tool s = ''search_sources'' \<and>
     (\<exists>m\<in>set counter_markers. str_contains m (py_casefold (str_at (st_parameters s) ''query'')))"

definition to_int :: "json \<Rightarrow> (run_error, int) res" where
  "to_int v = (case py_int v of Inl e \<Rightarrow> Inl (Other_Error e) | Inr i \<Rightarrow> Inr i)"

text \<open>\<open>hit.get(...)\<close> needs a mapping; a locator names a line or a row.\<close>

definition hit_position :: "json \<Rightarrow> (run_error, string \<times> int option) res" where
  "hit_position hit =
     (if \<not> is_mapping hit then Inl (Other_Error ''AttributeError'')
      else let f = members hit; locator = json_or (jget f ''locator'') (JObj []) in
        if \<not> is_mapping locator then Inl (Other_Error ''AttributeError'')
        else Inr (str_at f ''source_id'',
          as_int (jget_or (members locator) ''line'' (jget (members locator) ''row''))))"

text \<open>A read covers a position of its source: \<open>cursor < position <= cursor + limit\<close>.\<close>

definition read_covers :: "string \<Rightarrow> int option \<Rightarrow> step \<Rightarrow> (run_error, bool) res" where
  "read_covers source position s =
     (if str_at (st_parameters s) ''source_id'' \<noteq> source then Inr False
      else
        bindR (to_int (jget_or (st_parameters s) ''cursor'' (JInt 0))) (\<lambda>cursor.
        bindR (to_int (jget_or (st_parameters s) ''limit'' (JInt 100))) (\<lambda>lim.
        Inr (case position of None \<Rightarrow> False | Some n \<Rightarrow> cursor < n \<and> n \<le> cursor + lim))))"

definition hit_read :: "step list \<Rightarrow> json \<Rightarrow> (run_error, bool) res" where
  "hit_read reads hit =
     bindR (hit_position hit) (\<lambda>(source, position). anyR (read_covers source position) reads)"

text \<open>The hits of the counterevidence searches.\<close>

definition search_hits :: "step \<Rightarrow> (run_error, json list) res" where
  "search_hits s = py_list (jget_or (members (st_payload s)) ''hits'' (JList []))"

definition unread_hits :: "run \<Rightarrow> (run_error, json list) res" where
  "unread_hits r = (let
     searches = filter is_counter_search (successful r);
     reads = filter (\<lambda>s. st_tool s = ''read_source'') (successful r) in
     concatR (\<lambda>s. bindR (search_hits s) (\<lambda>hits.
       concatR (\<lambda>hit. bindR (hit_read reads hit) (\<lambda>ok. Inr (if ok then [] else [hit]))) hits)) searches)"

definition mark_counterevidence_processed ::
    "db \<Rightarrow> user option \<Rightarrow> string \<Rightarrow> string \<Rightarrow> run txn" where
  "mark_counterevidence_processed d actor i token =
     bindR (executor_run d actor i token) (\<lambda>r.
     bindR (raise_if (\<not> r_counter_search r) (run_err ''counterevidence_missing'')) (\<lambda>_.
     bindR (unread_hits r) (\<lambda>unread.
     bindR (raise_if (unread \<noteq> []) (run_err ''counterevidence_unread'')) (\<lambda>_.
     (let r' = r\<lparr>r_counter_processed := True\<rparr> in Inr (save_run d r', r'))))))"

section \<open>Source relevance\<close>

text \<open>One iteration of the loop over the supplied classifications.\<close>

definition relevance_item ::
    "env \<Rightarrow> db \<Rightarrow> run \<Rightarrow> string list \<Rightarrow> string \<times> obj \<Rightarrow> (run_error, string \<times> json) res" where
  "relevance_item env d r observed kv = (case kv of (source, f) \<Rightarrow>
     bindR (case jget f ''relevant'' of JBool b \<Rightarrow> Inr b
            | _ \<Rightarrow> Inl (run_err ''invalid_source_relevance'')) (\<lambda>relevant.
     bindR (raise_if (relevant \<and> source \<notin> set observed) (run_err ''source_relevance_unobserved''))
       (\<lambda>_.
     (let reason = text_at f ''reason''; reference = jget f ''reference'' in
      bindR (if reference = JNull then Inr True
             else if \<not> is_mapping reference then Inr False
             else reference_valid env d r (members reference)) (\<lambda>ok.
      bindR (raise_if (\<not> ok) (run_err ''invalid_source_relevance'')) (\<lambda>_.
      Inr (source, JObj ([(''relevant'', JBool relevant)] @
             (if reason \<noteq> [] then [(''reason'', JStr reason)] else []) @
             (if is_mapping reference then [(''reference'', reference)] else [])))))))))"

definition set_source_relevance ::
    "env \<Rightarrow> db \<Rightarrow> user option \<Rightarrow> string \<Rightarrow> string \<Rightarrow> (string, obj) dict \<Rightarrow> run txn" where
  "set_source_relevance env d actor i token supplied =
     bindR (executor_run d actor i token) (\<lambda>r.
     bindR (snapshot_access d actor (Some (snap_id (r_snapshot r)))) (\<lambda>snap.
     bindR (raise_if (set (dict_keys supplied) \<noteq> set (map src_id (snap_sources snap)))
              (run_err ''source_relevance_incomplete'')) (\<lambda>_.
     bindR (mapR (relevance_item env d r (observed_sources (successful r))) supplied) (\<lambda>normalized.
     (let r' = r\<lparr>r_relevance := normalized, r_relevance_complete := True,
                 r_register_revision := r_register_revision r + 1,
                 r_register_hash := register_hash env (r_claims r) normalized (length (r_inputs r))\<rparr> in
      Inr (save_run d r', r'))))))"

section \<open>The materialised brief\<close>

definition next_brief :: "run \<Rightarrow> int" where
  "next_brief r = fold (\<lambda>b m. max m (br_revision b)) (r_briefs r) 0 + 1"

definition materialize_brief_revision ::
    "db \<Rightarrow> user option \<Rightarrow> string \<Rightarrow> json \<Rightarrow> int \<Rightarrow> brief_revision txn" where
  "materialize_brief_revision d actor i operation_key expected =
     bindR (locked_run d actor i) (\<lambda>r.
     bindR (normalize_idempotency_key operation_key) (\<lambda>key.
     (case find (\<lambda>b. br_key b = key) (r_briefs r) of
        Some b \<Rightarrow> Inr (d, b)
      | None \<Rightarrow>
          (case get_process d (r_process r) of
             None \<Rightarrow> Inl (Other_Error ''DoesNotExist'')
           | Some p \<Rightarrow>
               bindR (raise_if (proc_version p \<noteq> expected \<or> r_process_version r \<noteq> expected)
                        (run_err ''process_version_conflict'')) (\<lambda>_.
               bindR (raise_if (r_status r \<noteq> Ready) (run_err ''ready_required'')) (\<lambda>_.
               (let b = \<lparr>br_revision = next_brief r, br_payload = r_brief r,
                         br_hash = r_brief_hash r, br_key = key,
                         br_process_version = r_process_version r\<rparr>;
                    r' = r\<lparr>r_briefs := r_briefs r @ [b]\<rparr> in
                Inr (save_run d r', b))))))))"

end
