(* ===== verification/Investigation_Steps.thy ===== *)
theory Investigation_Steps
  imports Investigation_Runtime Investigation_Tool_Params
begin

text \<open>
  Tool steps (\<open>execute_tool_step\<close> of \<open>accelerator/investigation_runtime.py\<close>). A step has a first
  transaction that books the call and creates or revives the step, the call of the tool outside any
  transaction, and a second transaction that stores the result or the failure. Between the two
  transactions other operations run; the executor's generation and token tell whether the result is
  stale. The tool itself is the argument \<open>run_tool\<close>.
\<close>

section \<open>Coverage\<close>

definition value_hash :: "env \<Rightarrow> json \<Rightarrow> string" where
  "value_hash env v = content_hash (e_hash env) v"

text \<open>The items or hits of the earlier steps of the tool, by hash.\<close>

definition seen_values :: "env \<Rightarrow> step list \<Rightarrow> string \<Rightarrow> string list" where
  "seen_values env ss key =
     concat (map (\<lambda>s. map (value_hash env) (items (jget (members (st_payload s)) key))) ss)"

definition new_tool_coverage :: "env \<Rightarrow> run \<Rightarrow> step \<Rightarrow> json \<Rightarrow> bool" where
  "new_tool_coverage env r s payload = (let
     earlier = filter (\<lambda>p. st_sequence p \<noteq> st_sequence s \<and> st_tool p = st_tool s) (successful r) in
     if st_tool s \<notin> {''read_source'', ''search_sources'', ''profile_csv'', ''compare_groups''} then False
     else if st_tool s = ''read_source'' then (let
        new = items (jget (members payload) ''items'');
        same = filter (\<lambda>p. py_eq (jget (st_parameters p) ''source_id'')
                 (jget (st_parameters s) ''source_id'')) earlier in
        \<exists>v\<in>set new. value_hash env v \<notin> set (seen_values env same ''items''))
     else if st_tool s = ''search_sources'' then
        (\<exists>v\<in>set (items (jget (members payload) ''hits'')).
           value_hash env v \<notin> set (seen_values env earlier ''hits''))
     else py_truthy payload \<and>
       \<not> (\<exists>p\<in>set earlier. py_eq (JObj (st_parameters p)) (JObj (st_parameters s))))"

section \<open>Booking a call\<close>

definition step_key :: "env \<Rightarrow> run \<Rightarrow> string \<Rightarrow> obj \<Rightarrow> string" where
  "step_key env r tool params = content_hash (e_hash env) (JObj
     [(''tool'', JStr tool), (''parameters'', JObj params), (''manifest_hash'', JStr (r_manifest_hash r))])"

text \<open>The budget part of the first transaction: the counters after the call is booked.\<close>

definition book_call :: "int \<Rightarrow> run \<Rightarrow> string \<Rightarrow> bool \<Rightarrow> (run_error, budget) res" where
  "book_call now r tool verifier_read =
     (if verifier_read then
        (if tool \<noteq> ''read_source'' then Inl (run_err ''verifier_tool_not_allowed'')
         else if dget (r_usage r) ''verifier_reads'' \<ge> dget (r_limits r) ''max_verifier_reads''
         then Inl (run_err ''budget_exhausted'')
         else Inr (bump (r_usage r) ''verifier_reads''))
      else
        (if dget (r_usage r) ''tool_calls'' \<ge> dget (r_limits r) ''max_tool_calls''
         then Inl (run_err ''budget_exhausted'')
         else if budget_exhausted now r True False then Inl (run_err ''budget_exhausted'')
         else Inr (bump (r_usage r) ''tool_calls'')))"

definition next_sequence :: "run \<Rightarrow> int" where
  "next_sequence r = fold (\<lambda>s m. max m (st_sequence s)) (r_steps r) 0 + 1"

definition new_step ::
    "int \<Rightarrow> run \<Rightarrow> string \<Rightarrow> string \<Rightarrow> obj \<Rightarrow> string \<Rightarrow> string \<Rightarrow> step" where
  "new_step now r key tool params target finding =
     \<lparr>st_sequence = next_sequence r, st_key = key, st_claim = take 100 target,
      st_finding = finding, st_tool = tool, st_parameters = params, st_status = Step_Running,
      st_attempts = 1, st_history = [], st_generation = r_generation r, st_payload = JObj [],
      st_hash = [], st_result_ref = JObj [], st_progress_kind = ''none'', st_progress_payload = [],
      st_error = [], st_started = now, st_finished = None\<rparr>"

definition step_status_text :: "step_status \<Rightarrow> string" where
  "step_status_text s = (case s of
       Step_Running \<Rightarrow> ''running'' | Step_Success \<Rightarrow> ''success''
     | Step_Failed \<Rightarrow> ''failed'' | Step_Discarded \<Rightarrow> ''discarded'')"

text \<open>The history of a step that is tried again: the last attempt is closed, a new one opened.\<close>

definition reopened_history :: "int \<Rightarrow> step \<Rightarrow> attempt list" where
  "reopened_history now s =
     (case st_history s of
        [] \<Rightarrow> [\<lparr>at_number = st_attempts s, at_status = step_status_text (st_status s),
               at_started = st_started s, at_finished = st_finished s, at_error = st_error s\<rparr>]
      | _ \<Rightarrow> butlast (st_history s) @
          [(last (st_history s))\<lparr>at_status := step_status_text (st_status s),
             at_finished := st_finished s, at_error := st_error s\<rparr>]) @
     [\<lparr>at_number = st_attempts s + 1, at_status = ''running'', at_started = now,
       at_finished = None, at_error = []\<rparr>]"

definition transient_tool_codes :: "string list" where
  "transient_tool_codes = [''source_path_unreadable'']"

definition reopen_step :: "int \<Rightarrow> run \<Rightarrow> step \<Rightarrow> step" where
  "reopen_step now r s = s\<lparr>st_history := reopened_history now s, st_status := Step_Running,
     st_attempts := st_attempts s + 1, st_error := [], st_finished := None,
     st_generation := r_generation r\<rparr>"

text \<open>
  The first transaction yields the stored step of a call that already succeeded, or the number of
  the step that now runs.
\<close>

datatype begun = Already step | Started int

definition begin_tool_step ::
    "env \<Rightarrow> db \<Rightarrow> user option \<Rightarrow> string \<Rightarrow> string \<Rightarrow> string \<Rightarrow> obj \<Rightarrow> string \<Rightarrow> string \<Rightarrow> bool \<Rightarrow> begun txn" where
  "begin_tool_step env d actor i token tool params target finding verifier_read =
     bindR (executor_run d actor i token) (\<lambda>r.
     bindR (raise_if (r_status r \<noteq> Running) (run_err ''human_input_required'')) (\<lambda>_.
     bindR (raise_if ((case get_process d (r_process r) of None \<Rightarrow> False
              | Some p \<Rightarrow> proc_version p \<noteq> r_process_version r) \<and> \<not> r_replay r)
              (run_err ''process_version_conflict'')) (\<lambda>_.
     (let key = step_key env r tool params;
          existing = find (\<lambda>s. st_key s = key) (r_steps r) in
      (case existing of
         Some s \<Rightarrow>
           if st_status s = Step_Success then Inr (d, Already s)
           else
             bindR (book_call (db_now d) r tool verifier_read) (\<lambda>usage.
             bindR (raise_if (st_status s \<noteq> Step_Failed \<or> st_attempts s \<ge> 2 \<or>
                      st_error s \<notin> set transient_tool_codes) (run_err ''retry_exhausted'')) (\<lambda>_.
             Inr (save_run d (save_step (r\<lparr>r_usage := usage\<rparr>) (reopen_step (db_now d) r s)),
                  Started (st_sequence s))))
       | None \<Rightarrow>
           bindR (book_call (db_now d) r tool verifier_read) (\<lambda>usage.
           (let s = new_step (db_now d) r key tool params target finding in
            Inr (save_run d (r\<lparr>r_usage := usage, r_steps := r_steps r @ [s]\<rparr>),
                 Started (st_sequence s)))))))))"

section \<open>Storing the outcome\<close>

text \<open>\<open>str(getattr(exc, "code", "tool_failure"))[:50]\<close>.\<close>

definition error_code_text :: "run_error \<Rightarrow> string" where
  "error_code_text e = take 50 (case e of
       Run_Error c _ \<Rightarrow> c | Tool_Error c \<Rightarrow> c | _ \<Rightarrow> ''tool_failure'')"

definition owns_run :: "run \<Rightarrow> int \<Rightarrow> string \<Rightarrow> bool" where
  "owns_run r generation token \<longleftrightarrow> r_generation r = generation \<and> r_token r = token"

definition fail_tool_step ::
    "db \<Rightarrow> user option \<Rightarrow> string \<Rightarrow> string \<Rightarrow> int \<Rightarrow> int \<Rightarrow> run_error \<Rightarrow> unit txn" where
  "fail_tool_step d actor i token seq generation e =
     bindR (locked_run d actor i) (\<lambda>r.
     (case get_step r seq of
        None \<Rightarrow> Inl (Other_Error ''DoesNotExist'')
      | Some s \<Rightarrow> Inr
          (if owns_run r generation token
           then save_run d (save_step r (s\<lparr>st_status := Step_Failed, st_finished := Some (db_now d),
                  st_error := error_code_text e\<rparr>))
           else d, ())))"

definition discarded_step :: "int \<Rightarrow> step \<Rightarrow> step" where
  "discarded_step now s =
     s\<lparr>st_status := Step_Discarded, st_finished := Some now, st_error := ''stale_executor''\<rparr>"

definition result_id_ref :: "json \<Rightarrow> json" where
  "result_id_ref payload = JObj [(''tool_result_id'', jget (members payload) ''result_id'')]"

text \<open>The step and the run after a result that is not stale.\<close>

definition stored_step :: "env \<Rightarrow> int \<Rightarrow> step \<Rightarrow> bool \<Rightarrow> json \<Rightarrow> step" where
  "stored_step env now s coverage payload =
     s\<lparr>st_status := Step_Success, st_payload := payload, st_hash := value_hash env payload,
       st_result_ref := (if st_tool s \<in> {''profile_csv'', ''compare_groups''}
         then result_id_ref payload else st_result_ref s),
       st_progress_kind := (if coverage then ''coverage'' else st_progress_kind s),
       st_progress_payload :=
         (if coverage then [(''coverage_change'', JBool True)] else st_progress_payload s),
       st_finished := Some now\<rparr>"

definition observed_run :: "int \<Rightarrow> run \<Rightarrow> string \<Rightarrow> bool \<Rightarrow> bool \<Rightarrow> json \<Rightarrow> run" where
  "observed_run now r tool verifier_read coverage payload = (let search = (tool = ''search_sources'') in
     r\<lparr>r_streak := (if coverage then 0 else if \<not> verifier_read then r_streak r + 1 else r_streak r),
       r_last_progress := (if coverage then Some now else r_last_progress r),
       r_data_check := (if tool \<in> {''profile_csv'', ''compare_groups''} then True else r_data_check r),
       r_counter_search := (if search then True else r_counter_search r),
       r_counter_processed := (if search then \<not> py_truthy (jget (members payload) ''hits'')
         else r_counter_processed r)\<rparr>)"

text \<open>The second transaction; the value says whether the result was stale.\<close>

definition finish_tool_step ::
    "env \<Rightarrow> db \<Rightarrow> user option \<Rightarrow> string \<Rightarrow> string \<Rightarrow> int \<Rightarrow> int \<Rightarrow> bool \<Rightarrow> json \<Rightarrow> (bool \<times> step) txn" where
  "finish_tool_step env d actor i token seq generation verifier_read payload =
     bindR (locked_run d actor i) (\<lambda>r.
     (case get_step r seq of
        None \<Rightarrow> Inl (Other_Error ''DoesNotExist'')
      | Some s \<Rightarrow>
          (if \<not> owns_run r generation token \<or> r_status r \<noteq> Running
           then (let s' = discarded_step (db_now d) s in
             Inr (save_run d (save_step r s'), (True, s')))
           else (let
             coverage = (\<not> verifier_read \<and> new_tool_coverage env r s payload);
             s' = stored_step env (db_now d) s coverage payload;
             r' = observed_run (db_now d) r (st_tool s) verifier_read coverage payload in
             Inr (save_run d (save_step r' s'), (False, s'))))))"

section \<open>The whole step\<close>

text \<open>
  Committing a transaction, and the outcome of code that is not one transaction: the database as the
  transactions before an exception left it, with the exception or the value.
\<close>

type_synonym 'a run_io = "db \<times> (run_error, 'a) res"

definition commit :: "db \<Rightarrow> 'a txn \<Rightarrow> 'a run_io" where
  "commit d t = (case t of Inl e \<Rightarrow> (d, Inl e) | Inr (d', x) \<Rightarrow> (d', Inr x))"

definition andthen :: "'a run_io \<Rightarrow> (db \<Rightarrow> 'a \<Rightarrow> 'b run_io) \<Rightarrow> 'b run_io" where
  "andthen m f = (case m of (d, Inl e) \<Rightarrow> (d, Inl e) | (d, Inr x) \<Rightarrow> f d x)"

lemma andthen_simps [simp]:
  "andthen (d, Inl e) f = (d, Inl e)" "andthen (d, Inr x) f = f d x"
  by (simp_all add: andthen_def)

lemma commit_simps [simp]:
  "commit d (Inl e) = (d, Inl e)" "commit d (Inr (d', x)) = (d', Inr x)"
  by (simp_all add: commit_def)

text \<open>\<open>run_tool\<close>: the tool on the database it finds; the database it leaves carries what ran meanwhile.\<close>

type_synonym tool_runner = "db \<Rightarrow> user option \<Rightarrow> string \<Rightarrow> string \<Rightarrow> obj \<Rightarrow> json run_io"

definition snapshot_source_ids :: "db \<Rightarrow> string \<Rightarrow> string list" where
  "snapshot_source_ids d i = (case get_run d i of None \<Rightarrow> [] | Some r \<Rightarrow> source_ids r)"

definition invalid_parameters_impact :: string where
  "invalid_parameters_impact = ''Die Untersuchung wurde wegen ung'' @ u_umlaut @
     ''ltiger Werkzeugparameter beendet.''"

definition execute_tool_step ::
    "env \<Rightarrow> tool_runner \<Rightarrow> db \<Rightarrow> user option \<Rightarrow> string \<Rightarrow> string \<Rightarrow> string \<Rightarrow> json \<Rightarrow> string \<Rightarrow> string \<Rightarrow>
      bool \<Rightarrow> step run_io" where
  "execute_tool_step env run_tool d actor i token tool parameters target finding verifier_read =
     (if tool \<notin> set allowed_tools then (d, Inl (run_err ''tool_not_allowed''))
      else (case normalize_tool_parameters tool parameters (Some (snapshot_source_ids d i)) of
        Inl e \<Rightarrow>
          if e = bad_params
          then andthen (commit d (fail_run_technical env d actor i token ''invalid_tool_parameters''
                 invalid_parameters_impact)) (\<lambda>d' _. (d', Inl e))
          else (d, Inl e)
      | Inr params \<Rightarrow>
          andthen (commit d (begin_tool_step env d actor i token tool params target finding
            verifier_read)) (\<lambda>d1 b.
          (case b of
             Already s \<Rightarrow> (d1, Inr s)
           | Started seq \<Rightarrow> (let
               generation = (case get_run d1 i of None \<Rightarrow> 0 | Some r \<Rightarrow> r_generation r) in
               (case run_tool d1 actor i tool params of
                  (d2, Inl e) \<Rightarrow>
                    andthen (commit d2 (fail_tool_step d2 actor i token seq generation e))
                      (\<lambda>d3 _. (d3, Inl e))
                | (d2, Inr payload) \<Rightarrow>
                    andthen (commit d2 (finish_tool_step env d2 actor i token seq generation
                      verifier_read payload)) (\<lambda>d3 (stale, s).
                    if stale then (d3, Inl (run_err ''stale_executor'')) else (d3, Inr s))))))))"

end
