(* ===== verification/Investigation_Run_Policy.thy ===== *)
theory Investigation_Run_Policy
  imports Investigation_Steps
begin

text \<open>
  The stop policy on a run (\<open>accelerator/investigation_runtime.py\<close>): the checks, the latest verifier
  verdict and the policy state a run gives, and the verdict of the policy.
\<close>

definition policy_checks :: "run \<Rightarrow> policy_check list" where
  "policy_checks r = map (\<lambda>c.
     \<lparr>pc_claim_id = cl_id c, pc_area = cl_area c, pc_claim_kind = cl_kind c,
      pc_critical = cl_critical c, pc_status = cl_status c, pc_evidence_refs = cl_evidence c,
      pc_counterevidence_refs = cl_counter c, pc_remaining_assumption = cl_assumption c,
      pc_references_valid = cl_references_valid c, pc_change_guard_valid = cl_change_guard_valid c,
      pc_used_as_premise = cl_premise c, pc_metadata = cl_metadata c\<rparr>) (r_claims r)"

text \<open>The reports of a run are kept in the order of their revision.\<close>

definition latest_report :: "run \<Rightarrow> report option" where
  "latest_report r = first_opt (rev (r_reports r))"

definition latest_verifier_state :: "run \<Rightarrow> verifier_state option" where
  "latest_verifier_state r = map_option (\<lambda>p.
     \<lparr>vs_success = rp_success p, vs_critical_findings = rp_critical p, vs_bound_hashes = rp_hashes p,
      vs_source_references_valid = rp_references_valid p,
      vs_checked_critical_claims = rp_checked p\<rparr>) (latest_report r)"

definition run_aborted :: "run \<Rightarrow> bool" where
  "run_aborted r \<longleftrightarrow> r_status r = Aborted"

text \<open>
  \<open>policy_state_for_run\<close> with its keyword arguments: the external gap when the caller knows it, and
  the four flags.
\<close>

definition policy_state_for_run ::
    "env \<Rightarrow> db \<Rightarrow> run \<Rightarrow> bool option \<Rightarrow> bool \<Rightarrow> bool \<Rightarrow> bool \<Rightarrow> bool \<Rightarrow> (run_error, policy_state) res" where
  "policy_state_for_run env d r gap permission tradeoff technical retry =
     bindR (decision_blocking_missing_evidence d r) (\<lambda>detected.
     bindR (decision_brief_blockers env d r) (\<lambda>brief. Inr
       \<lparr>ps_checks = policy_checks r,
        ps_data_check_executed = (r_data_check r \<or> \<not> has_csv r),
        ps_counterevidence_search_executed = r_counter_search r,
        ps_counterevidence_hits_processed = r_counter_processed r,
        ps_source_relevance_complete = r_relevance_complete r,
        ps_contract_hash = r_contract_hash r, ps_manifest_hash = r_manifest_hash r,
        ps_register_hash = r_register_hash r, ps_brief_hash = r_brief_hash r,
        ps_brief_blockers = brief, ps_verifier = latest_verifier_state r,
        ps_external_critical_gap = (case gap of None \<Rightarrow> detected \<noteq> None | Some b \<Rightarrow> b),
        ps_permission_or_scope_block = permission, ps_value_tradeoff = tradeoff,
        ps_budget_exhausted = budget_exhausted (db_now d) r False False,
        ps_technical_failure =
          (technical \<or> r_status r = Failed \<and> r_reason r = reason_value TECHNICAL_FAILURE),
        ps_retry_available = retry, ps_no_progress_streak = r_streak r,
        ps_repair_available = True, ps_question_narrowed = False,
        ps_aborted = run_aborted r\<rparr>))"

definition evaluate_run_policy ::
    "env \<Rightarrow> db \<Rightarrow> run \<Rightarrow> bool \<Rightarrow> bool \<Rightarrow> (run_error, policy_decision) res" where
  "evaluate_run_policy env d r technical retry =
     bindR (policy_state_for_run env d r None False False technical retry) (\<lambda>s. Inr (evaluate_policy s))"

definition pre_verifier_blockers_for_run :: "env \<Rightarrow> db \<Rightarrow> run \<Rightarrow> (run_error, string list) res" where
  "pre_verifier_blockers_for_run env d r =
     bindR (policy_state_for_run env d r None False False False False)
       (\<lambda>s. Inr (pre_verifier_blockers s))"

section \<open>What READY means for a run\<close>

text \<open>
  \<open>run_ready env d r\<close>: the contract of a decision package on the rows themselves. No decision-critical
  column is missing, the brief has no blocker, every evidence claim is grounded, every source is
  classified, and the latest verifier report is a success bound to the hashes of the run.
\<close>

definition grounded_claim :: "claim \<Rightarrow> bool" where
  "grounded_claim c \<longleftrightarrow>
     (cl_status c = ''supported'' \<longrightarrow> cl_evidence c \<noteq> []) \<and>
     (cl_status c = ''refuted'' \<longrightarrow> (cl_counter c \<noteq> [] \<or> cl_evidence c \<noteq> []) \<and> \<not> cl_premise c) \<and>
     cl_references_valid c \<and> cl_change_guard_valid c"

definition evidence_claims :: "run \<Rightarrow> claim list" where
  "evidence_claims r = filter (\<lambda>c. is_evidence_claim (cl_area c) (cl_kind c)) (r_claims r)"

definition report_binds :: "run \<Rightarrow> report \<Rightarrow> bool" where
  "report_binds r p \<longleftrightarrow> map_of (rp_hashes p) =
     map_of [(''contract'', r_contract_hash r), (''manifest'', r_manifest_hash r),
             (''register'', r_register_hash r), (''brief'', r_brief_hash r)]"

definition accepting_report :: "run \<Rightarrow> report \<Rightarrow> bool" where
  "accepting_report r p \<longleftrightarrow>
     rp_success p \<and> rp_critical p = 0 \<and> rp_references_valid p \<and> report_binds r p \<and>
     (\<forall>c\<in>set (evidence_claims r). cl_critical c \<longrightarrow> cl_id c \<in> set (rp_checked p))"

definition run_ready :: "env \<Rightarrow> db \<Rightarrow> run \<Rightarrow> bool" where
  "run_ready env d r \<longleftrightarrow>
     decision_blocking_missing_evidence d r = Inr None \<and>
     decision_brief_blockers env d r = Inr [] \<and>
     evidence_claims r \<noteq> [] \<and> (\<forall>c\<in>set (evidence_claims r). grounded_claim c) \<and>
     r_relevance_complete r \<and>
     (\<exists>p. latest_report r = Some p \<and> accepting_report r p)"

lemma evidence_checks_run:
  "ps_checks s = policy_checks r \<Longrightarrow>
     evidence_checks s = policy_checks (r\<lparr>r_claims := evidence_claims r\<rparr>)"
  by (simp add: evidence_checks_def policy_checks_def evidence_claims_def filter_map o_def)

lemma evidence_check_conv:
  "(\<forall>c\<in>set (policy_checks r). sound_check c) \<longleftrightarrow> (\<forall>c\<in>set (r_claims r). grounded_claim c)"
  by (simp add: policy_checks_def sound_check_def grounded_claim_def)

lemma critical_claim_ids_run:
  "ps_checks s = policy_checks r \<Longrightarrow>
     critical_claim_ids s = map cl_id (filter cl_critical (evidence_claims r))"
  by (simp add: critical_claim_ids_def policy_checks_def evidence_claims_def filter_map o_def
      conj_commute)

lemma evaluate_run_policy_ready_iff:
  "(\<exists>p. evaluate_run_policy env d r technical retry = Inr p \<and> pd_outcome p = READY_FOR_DECISION) \<longleftrightarrow>
     run_ready env d r"
proof (cases "policy_state_for_run env d r None False False technical retry")
  case (Inl e)
  then show ?thesis
    by (auto simp: evaluate_run_policy_def run_ready_def policy_state_for_run_def bindR_eq_Inl)
next
  case (Inr s)
  then obtain detected brief where
    m: "decision_blocking_missing_evidence d r = Inr detected"
    and b: "decision_brief_blockers env d r = Inr brief"
    and checks: "ps_checks s = policy_checks r"
    and s: "ps_source_relevance_complete s = r_relevance_complete r"
      "ps_brief_blockers s = brief" "ps_verifier s = latest_verifier_state r"
      "ps_external_critical_gap s = (detected \<noteq> None)" "\<not> ps_question_narrowed s"
      "current_hashes s = [(''contract'', r_contract_hash r), (''manifest'', r_manifest_hash r),
             (''register'', r_register_hash r), (''brief'', r_brief_hash r)]"
    by (auto simp: policy_state_for_run_def bindR_eq_Inr current_hashes_def)
  have v: "(\<exists>v. ps_verifier s = Some v \<and> verified_package s v) \<longleftrightarrow>
      (\<exists>p. latest_report r = Some p \<and> accepting_report r p)"
    using critical_claim_ids_run [OF checks] s(3,6)
    by (auto simp: latest_verifier_state_def verified_package_def accepting_report_def report_binds_def
        image_subset_iff)
  have pkg: "sound_package s \<longleftrightarrow> brief = [] \<and> evidence_claims r \<noteq> [] \<and>
      (\<forall>c\<in>set (evidence_claims r). grounded_claim c) \<and> r_relevance_complete r"
    using evidence_checks_run [OF checks] evidence_check_conv [of "r\<lparr>r_claims := evidence_claims r\<rparr>"] s
    by (auto simp: sound_package_def policy_checks_def)
  have "evaluate_run_policy env d r technical retry = Inr (evaluate_policy s)"
    by (simp add: evaluate_run_policy_def Inr)
  then show ?thesis
    using m b v pkg s(4)
    by (auto simp: run_ready_def evaluate_policy_ready_iff readiness_blockers_Nil_iff)
qed

end
