(* ===== verification/Investigation_Loop.thy ===== *)
theory Investigation_Loop
  imports Investigation_Run_Policy
begin

text \<open>
  The investigation loop (\<open>accelerator/investigation_loop.py\<close>): one iteration that routes a run to the
  verifier, the synthesizer or the planner and applies the action, and the loop that repeats it until
  the run leaves \<open>running\<close>. The three model roles and the tools are arguments, as in the code; they
  act on the database and may raise.

  A Python run object keeps the columns it was loaded with; the related rows (steps, calls, reports,
  inputs) are queried. \<open>with_rows d r\<close> is the object \<open>r\<close> with the related rows of the database.
\<close>

section \<open>Actions and results\<close>

record planner_action =
  pa_action :: string
  pa_target :: string
  pa_finding :: string
  pa_tool :: string
  pa_parameters :: json
  pa_claims :: "json list option"
  pa_brief :: "obj option"
  pa_relevance :: "(string, obj) dict"
  pa_progress_kind :: string
  pa_progress_payload :: obj
  pa_reason :: string
  pa_clarification :: obj

record advance_result =
  ar_run :: string
  ar_status :: run_status
  ar_policy :: policy_decision
  ar_step :: "int option"

text \<open>\<open>planner\<close>, \<open>synthesizer\<close> and \<open>verifier\<close> as the loop calls them.\<close>

type_synonym action_role = "db \<Rightarrow> user option \<Rightarrow> run \<Rightarrow> string \<Rightarrow> planner_action run_io"
type_synonym verifier_role = "db \<Rightarrow> user option \<Rightarrow> run \<Rightarrow> string \<Rightarrow> report run_io"

record roles =
  ro_planner :: action_role
  ro_synthesizer :: action_role
  ro_verifier :: verifier_role
  ro_tool :: tool_runner

definition transient_provider_codes :: "string list" where
  "transient_provider_codes = [''timeout'', ''provider_unavailable'', ''rate_limit'',
     ''invalid_response'', ''provider_response_malformed'', ''empty_response'']"

definition budget_codes :: "string list" where
  "budget_codes = [''budget_exhausted'', ''completion_budget_exhausted'', ''input_budget_exhausted'',
     ''context_capacity_exhausted'', ''runtime_capacity_exhausted'', ''evidence_budget_exhausted'']"

definition provider_codes :: "string list" where
  "provider_codes = transient_provider_codes @
     [''invalid_response'', ''provider_error'', ''provider_schema_unsupported'', ''output_truncated'']"

definition with_rows :: "db \<Rightarrow> run \<Rightarrow> run" where
  "with_rows d r = (case get_run d (r_id r) of
       None \<Rightarrow> r
     | Some c \<Rightarrow> r\<lparr>r_steps := r_steps c, r_calls := r_calls c, r_reports := r_reports c,
                   r_inputs := r_inputs c, r_briefs := r_briefs c\<rparr>)"

text \<open>\<open>run.refresh_from_db()\<close>, and evaluation of the policy in the middle of an operation.\<close>

definition refresh :: "db \<Rightarrow> string \<Rightarrow> run run_io" where
  "refresh d i = (case get_run d i of
       None \<Rightarrow> (d, Inl (Other_Error ''DoesNotExist'')) | Some r \<Rightarrow> (d, Inr r))"

definition result_for :: "env \<Rightarrow> db \<Rightarrow> run \<Rightarrow> run_status \<Rightarrow> int option \<Rightarrow> advance_result run_io" where
  "result_for env d r status s =
     (d, bindR (evaluate_run_policy env d r False False) (\<lambda>p. Inr
       \<lparr>ar_run = r_id r, ar_status = status, ar_policy = p, ar_step = s\<rparr>))"

section \<open>Ending or pausing a run\<close>

definition set_waiting_human ::
    "db \<Rightarrow> user option \<Rightarrow> string \<Rightarrow> string \<Rightarrow> string \<Rightarrow> obj \<Rightarrow> run txn" where
  "set_waiting_human d actor i token reason payload =
     bindR (raise_if (reason \<notin> set (map reason_value reason_codes)) (run_err ''invalid_reason_code''))
       (\<lambda>_.
     bindR (executor_run d actor i token) (\<lambda>r.
     (let r' = r\<lparr>r_status := Waiting_Human, r_reason := reason, r_clarification := payload\<rparr> in
      Inr (save_run d r', r'))))"

definition set_ready :: "env \<Rightarrow> db \<Rightarrow> user option \<Rightarrow> string \<Rightarrow> string \<Rightarrow> run txn" where
  "set_ready env d actor i token =
     bindR (executor_run d actor i token) (\<lambda>r.
     bindR (evaluate_run_policy env d r False False) (\<lambda>decision.
     bindR (raise_if (pd_outcome decision \<noteq> READY_FOR_DECISION) (run_err ''ready_blocked'')) (\<lambda>_.
     (let r' = new_executor env d (r\<lparr>r_status := Ready, r_finished := Some (db_now d)\<rparr>) in
      Inr (save_run (draw d) r', r')))))"

definition planner_contract_payload :: "string \<Rightarrow> obj" where
  "planner_contract_payload code =
     [(''error_code'', JStr code),
      (''impact'', JStr (''Die Untersuchung wurde wegen eines ung'' @ u_umlaut @
         ''ltigen Planner-Vertrags beendet.'')),
      (''required_action'', JStr (''Planner-/Schema-Vertrag technisch pr'' @ u_umlaut @
         ''fen; keinen fachlichen Schluss ableiten.''))]"

definition set_failed_planner_contract ::
    "env \<Rightarrow> db \<Rightarrow> user option \<Rightarrow> string \<Rightarrow> string \<Rightarrow> string \<Rightarrow> run txn" where
  "set_failed_planner_contract env d actor i token code =
     bindR (executor_run d actor i token) (\<lambda>r.
     (let r' = close_failed env d r (reason_value TECHNICAL_FAILURE) (planner_contract_payload code) in
      Inr (save_run (draw d) r', r')))"

text \<open>\<open>{"error_code": ..., "impact": ..., "required_action": ..., **details}\<close>.\<close>

definition failure_payload :: "string \<Rightarrow> string \<Rightarrow> string \<Rightarrow> obj \<Rightarrow> obj" where
  "failure_payload code impact action details = dict_of
     ([(''error_code'', JStr code), (''impact'', JStr impact), (''required_action'', JStr action)] @
      details)"

definition set_failed_runtime ::
    "env \<Rightarrow> db \<Rightarrow> user option \<Rightarrow> string \<Rightarrow> string \<Rightarrow> string \<Rightarrow> obj \<Rightarrow> run txn" where
  "set_failed_runtime env d actor i token reason payload =
     bindR (executor_run d actor i token) (\<lambda>r.
     (let r' = close_failed env d r reason payload in Inr (save_run (draw d) r', r')))"

definition fail_runtime ::
    "env \<Rightarrow> db \<Rightarrow> user option \<Rightarrow> string \<Rightarrow> string \<Rightarrow> obj \<Rightarrow> advance_result run_io" where
  "fail_runtime env d actor i token payload =
     andthen (commit d (set_failed_runtime env d actor i token (reason_value TECHNICAL_FAILURE) payload))
       (\<lambda>d' r. result_for env d' r (r_status r) None)"

definition wait_for_human ::
    "env \<Rightarrow> db \<Rightarrow> user option \<Rightarrow> string \<Rightarrow> string \<Rightarrow> string \<Rightarrow> obj \<Rightarrow> advance_result run_io" where
  "wait_for_human env d actor i token reason payload =
     andthen (commit d (set_waiting_human d actor i token reason payload))
       (\<lambda>d' r. result_for env d' r (r_status r) None)"

text \<open>\<open>_apply_detected_missing_evidence_boundary\<close>: \<open>None\<close> when no boundary applies.\<close>

definition missing_evidence_boundary ::
    "env \<Rightarrow> db \<Rightarrow> user option \<Rightarrow> run \<Rightarrow> string \<Rightarrow> policy_decision \<Rightarrow> advance_result option run_io" where
  "missing_evidence_boundary env d actor r token decision =
     (if r_status r \<noteq> Running \<or> pd_outcome decision \<noteq> HUMAN_CLARIFICATION \<or>
         pd_reason_code decision \<noteq> Some MISSING_EVIDENCE
      then (d, Inr None)
      else
        andthen (d, decision_blocking_missing_evidence d r) (\<lambda>d gap.
        (case gap of
           None \<Rightarrow> (d, Inr None)
         | Some payload \<Rightarrow>
             andthen (wait_for_human env d actor (r_id r) token (reason_value MISSING_EVIDENCE) payload)
               (\<lambda>d' a. (d', Inr (Some a))))))"

section \<open>Planner contract\<close>

definition clarify_reasons :: "string list" where
  "clarify_reasons = map reason_value
     [MISSING_EVIDENCE, FIXED_ROUTE_BOUNDARY, PERMISSION_OR_SCOPE, VALUE_TRADEOFF]"

text \<open>\<open>_planner_contract_error\<close>; only an \<open>InvestigationRunError\<close> of the normaliser is caught.\<close>

definition planner_contract_error :: "run \<Rightarrow> planner_action \<Rightarrow> (run_error, run_error option) res" where
  "planner_contract_error r a =
     (if pa_action a \<notin> {''tool'', ''synthesize'', ''investigate'', ''clarify''}
      then Inr (Some (run_err ''invalid_planner_action''))
      else if pa_action a = ''synthesize'' \<and> (pa_tool a \<noteq> [] \<or> py_truthy (pa_parameters a))
      then Inr (Some (run_err ''invalid_planner_action''))
      else if pa_action a = ''tool'' \<and> pa_tool a \<notin> set allowed_tools
      then Inr (Some (run_err ''tool_not_allowed''))
      else
        bindR (if pa_action a = ''tool''
               then (case normalize_tool_parameters (pa_tool a) (pa_parameters a) (Some (source_ids r)) of
                       Inl (Run_Error c i) \<Rightarrow> Inr (Some (Run_Error c i))
                     | Inl e \<Rightarrow> Inl e
                     | Inr p \<Rightarrow> Inr None)
               else Inr None) (\<lambda>invalid.
        if invalid \<noteq> None then Inr invalid
        else if pa_progress_kind a \<notin> set progress_kinds
        then Inr (Some (run_err ''invalid_progress_kind''))
        else if pa_action a = ''clarify'' \<and> pa_reason a \<notin> set clarify_reasons
        then Inr (Some (run_err ''invalid_reason_code''))
        else Inr None))"

section \<open>Provider failures\<close>

text \<open>The model calls of a run are kept in the order of their creation.\<close>

fun failures_until_success :: "model_call list \<Rightarrow> int" where
  "failures_until_success [] = 0"
| "failures_until_success (c # cs) =
     (if mc_status c = Call_Success then 0
      else (if mc_status c = Call_Failed then 1 else 0) + failures_until_success cs)"

definition provider_failures_for_role :: "run \<Rightarrow> model_role \<Rightarrow> int" where
  "provider_failures_for_role r role =
     failures_until_success (filter (\<lambda>c. mc_role c = role) (rev (r_calls r)))"

definition latest_call :: "run \<Rightarrow> model_call option" where
  "latest_call r = first_opt (rev (r_calls r))"

definition latest_structured_contract_failure :: "run \<Rightarrow> (model_call \<times> string \<times> string) option" where
  "latest_structured_contract_failure r = (case latest_call r of
       None \<Rightarrow> None
     | Some c \<Rightarrow>
         if mc_status c \<noteq> Call_Failed \<or> mc_error c \<noteq> ''invalid_response'' then None
         else (let code = text_at (mc_diagnostics c) ''structured_contract_error_code'' in
           if code = [] then None
           else Some (c, code, text_at (mc_diagnostics c) ''structured_contract_error'')))"

definition role_retry_due :: "run \<Rightarrow> model_role \<Rightarrow> bool" where
  "role_retry_due r role = (case latest_call r of
       None \<Rightarrow> False
     | Some c \<Rightarrow> mc_role c = role \<and> mc_status c = Call_Failed \<and>
         mc_error c \<in> set transient_provider_codes \<and> provider_failures_for_role r role \<le> 1)"

definition synthesizer_retry_due :: "run \<Rightarrow> bool" where
  "synthesizer_retry_due r = role_retry_due r Synthesizer"

definition verifier_retry_due :: "run \<Rightarrow> bool" where
  "verifier_retry_due r = role_retry_due r Verifier"

text \<open>A retry is reported with the policy under \<open>technical_failure=True, retry_available=True\<close>.\<close>

definition retry_result :: "env \<Rightarrow> db \<Rightarrow> run \<Rightarrow> advance_result run_io" where
  "retry_result env d r =
     (d, bindR (evaluate_run_policy env d r True True) (\<lambda>p. Inr
       \<lparr>ar_run = r_id r, ar_status = r_status r, ar_policy = p, ar_step = None\<rparr>))"

definition handle_provider_failure ::
    "env \<Rightarrow> db \<Rightarrow> user option \<Rightarrow> string \<Rightarrow> string \<Rightarrow> string \<Rightarrow> advance_result run_io" where
  "handle_provider_failure env d actor i token code =
     andthen (refresh d i) (\<lambda>d r. (let
       role = (case latest_call r of None \<Rightarrow> Planner | Some c \<Rightarrow> mc_role c);
       failures = provider_failures_for_role r role in
       (case latest_structured_contract_failure r of
          Some (call, contract_code, detail) \<Rightarrow>
            if failures \<le> 1 then retry_result env d r
            else fail_runtime env d actor i token (failure_payload ''structured_contract_error''
              ''Die Modellantwort verletzt wiederholt den strukturierten Untersuchungsvertrag.''
              (''Prompt-/Schema-Vertrag der betroffenen Modellrolle technisch pr'' @ u_umlaut @ ''fen.'')
              [(''attempts'', JInt failures), (''model_role'', JStr (role_text (mc_role call))),
               (''contract_error_code'', JStr contract_code), (''contract_error'', JStr detail)])
        | None \<Rightarrow>
            if code \<in> set transient_provider_codes \<and> failures \<le> 1 then retry_result env d r
            else fail_runtime env d actor i token (failure_payload code
              ''Die Untersuchung ist wegen eines technischen Providerfehlers beendet.''
              (''Provider-/Transportfehler technisch pr'' @ u_umlaut @ ''fen.'')
              [(''attempts'', JInt failures), (''model_role'', JStr (role_text role))]))))"

definition handle_budget_exhaustion ::
    "env \<Rightarrow> db \<Rightarrow> user option \<Rightarrow> string \<Rightarrow> string \<Rightarrow> string \<Rightarrow> advance_result run_io" where
  "handle_budget_exhaustion env d actor i token code =
     wait_for_human env d actor i token (reason_value BUDGET_EXHAUSTED)
       [(''error_code'', JStr code),
        (''impact'', JStr (''Die Untersuchung ist vor erfolgreicher Verifikation unvollst'' @
           [CHR 0xE4] @ ''ndig.'')),
        (''required_action'', JStr ''Budget-/Betriebsentscheidung durch einen Menschen.'')]"

text \<open>The \<open>except InvestigationRunError\<close> around a call of a model role.\<close>

definition role_error ::
    "env \<Rightarrow> db \<Rightarrow> user option \<Rightarrow> string \<Rightarrow> string \<Rightarrow> run_error \<Rightarrow> advance_result run_io" where
  "role_error env d actor i token e = (case e of
       Run_Error code _ \<Rightarrow>
         if code \<in> set budget_codes then
           andthen (refresh d i) (\<lambda>d r. handle_budget_exhaustion env d actor i token code)
         else if code \<in> set provider_codes then handle_provider_failure env d actor i token code
         else (d, Inl e)
     | _ \<Rightarrow> (d, Inl e))"

section \<open>Repetition\<close>

definition step_state_json :: "step \<Rightarrow> json" where
  "step_state_json s = JObj [(''step_key'', JStr (st_key s)), (''result_hash'', JStr (st_hash s)),
     (''status'', JStr (step_status_text (st_status s)))]"

definition report_json :: "report \<Rightarrow> json" where
  "report_json p = JObj
     [(''success'', JBool (rp_success p)), (''critical_findings'', JInt (rp_critical p)),
      (''findings'', rp_findings p), (''source_references_valid'', JBool (rp_references_valid p)),
      (''checked_critical_claims'', JList (map JStr (rp_checked p)))]"

text \<open>The inputs of a run are kept in the order of their creation.\<close>

definition latest_input :: "run \<Rightarrow> input_revision option" where
  "latest_input r = first_opt (rev (r_inputs r))"

text \<open>The parameters in normal form, or as they are when an \<open>InvestigationRunError\<close> rejects them.\<close>

definition fingerprint_parameters :: "planner_action \<Rightarrow> (run_error, json) res" where
  "fingerprint_parameters a = (case normalize_tool_parameters (pa_tool a) (pa_parameters a) None of
       Inr p \<Rightarrow> Inr (JObj p)
     | Inl (Run_Error _ _) \<Rightarrow> Inr (pa_parameters a)
     | Inl e \<Rightarrow> Inl e)"

definition action_state_fingerprint ::
    "env \<Rightarrow> run \<Rightarrow> planner_action \<Rightarrow> (run_error, string option) res" where
  "action_state_fingerprint env r a =
     (if pa_action a \<notin> {''tool'', ''synthesize''} then Inr None
      else
        bindR (if pa_action a = ''tool''
               then bindR (fingerprint_parameters a) (\<lambda>p. Inr
                 [(''action'', JStr (pa_action a)), (''tool_name'', JStr (pa_tool a)), (''parameters'', p)])
               else Inr [(''action'', JStr (pa_action a))]) (\<lambda>action. Inr (Some
        (content_hash (e_hash env) (JObj
          [(''action'', JObj action),
           (''state'', JObj
             [(''register_hash'', JStr (r_register_hash r)), (''brief_hash'', JStr (r_brief_hash r)),
              (''tool_state'', JList (map step_state_json (r_steps r))),
              (''verifier'', (case latest_report r of None \<Rightarrow> JNull | Some p \<Rightarrow> report_json p)),
              (''input_revision'', JStr (case latest_input r of None \<Rightarrow> [] | Some i \<Rightarrow> in_id i))])])))))"

definition record_action_state_repeat ::
    "env \<Rightarrow> db \<Rightarrow> user option \<Rightarrow> string \<Rightarrow> string \<Rightarrow> planner_action \<Rightarrow> (run \<times> int) txn" where
  "record_action_state_repeat env d actor i token a =
     bindR (executor_run d actor i token) (\<lambda>r.
     bindR (action_state_fingerprint env r a) (\<lambda>fingerprint.
     (let count = (case fingerprint of
            None \<Rightarrow> 0
          | Some f \<Rightarrow> if r_fingerprint r = Some f then r_repeat r + 1 else 1);
          r' = r\<lparr>r_fingerprint := fingerprint, r_repeat := count\<rparr> in
      Inr (save_run d r', (r', count)))))"

definition max_identical_repeats :: int where
  "max_identical_repeats = 3"

definition max_syntheses_without_ground_truth :: int where
  "max_syntheses_without_ground_truth = 2"

section \<open>What is due\<close>

text \<open>
  \<open>order_by("-finished_at").first()\<close>: rows without a time sort first. \<open>None\<close>: no row, or its time is
  missing.
\<close>

definition latest_time :: "int option list \<Rightarrow> int option" where
  "latest_time ts =
     (if ts = [] \<or> None \<in> set ts then None else Some (fold max (map the ts) (the (hd ts))))"

definition syntheses :: "run \<Rightarrow> model_call list" where
  "syntheses r = filter (\<lambda>c. mc_role c = Synthesizer \<and> mc_status c = Call_Success) (r_calls r)"

definition latest_synthesis_at :: "run \<Rightarrow> int option" where
  "latest_synthesis_at r = latest_time (map mc_finished (syntheses r))"

definition after :: "int option \<Rightarrow> int \<Rightarrow> bool" where
  "after t u \<longleftrightarrow> (case t of None \<Rightarrow> False | Some t \<Rightarrow> t > u)"

definition latest_ground_truth_at :: "run \<Rightarrow> int" where
  "latest_ground_truth_at r = fold max
     ((case latest_time (map st_finished (successful r)) of None \<Rightarrow> [] | Some t \<Rightarrow> [t]) @
      (case latest_time (map (\<lambda>i. Some (in_created i)) (r_inputs r)) of None \<Rightarrow> [] | Some t \<Rightarrow> [t]) @
      (case latest_time (map (\<lambda>p. Some (rp_created p)) (r_reports r)) of None \<Rightarrow> [] | Some t \<Rightarrow> [t]))
     (r_started r)"

definition successful_syntheses_since_ground_truth :: "run \<Rightarrow> int" where
  "successful_syntheses_since_ground_truth r =
     int (length (filter (\<lambda>c. after (mc_finished c) (latest_ground_truth_at r)) (syntheses r)))"

definition verification_due :: "env \<Rightarrow> db \<Rightarrow> run \<Rightarrow> (run_error, bool) res" where
  "verification_due env d r =
     bindR (pre_verifier_blockers_for_run env d r) (\<lambda>blockers.
     if blockers \<noteq> [] then Inr False
     else
       bindR (evaluate_run_policy env d r False False) (\<lambda>p.
       if set (pd_blockers p) \<inter> {''verifier_missing'', ''verifier_stale''} = {} then Inr False
       else Inr (case latest_synthesis_at r of
           None \<Rightarrow> False
         | Some t \<Rightarrow>
             \<not> ((\<exists>s\<in>set (successful r). after (st_finished s) t) \<or>
                (\<exists>i\<in>set (r_inputs r). in_created i > t)))))"

definition pre_verifier_repair_due :: "env \<Rightarrow> db \<Rightarrow> run \<Rightarrow> (run_error, bool) res" where
  "pre_verifier_repair_due env d r =
     bindR (pre_verifier_blockers_for_run env d r) (\<lambda>blockers.
     if blockers = [] then Inr False
     else Inr (case latest_synthesis_at r of
         None \<Rightarrow> False
       | Some t \<Rightarrow> (r_counter_search r \<or> length (syntheses r) \<ge> 2) \<and> latest_ground_truth_at r \<le> t))"

definition verifier_repair_due :: "run \<Rightarrow> bool" where
  "verifier_repair_due r = (case latest_report r of
       None \<Rightarrow> False
     | Some p \<Rightarrow>
         if rp_success p then False
         else if \<not> dict_eq (rp_hashes p)
             [(''contract'', r_contract_hash r), (''manifest'', r_manifest_hash r),
              (''register'', r_register_hash r), (''brief'', r_brief_hash r)] then False
         else \<not> (\<exists>c\<in>set (syntheses r). mc_created c > rp_created p))"

definition try_mark_counterevidence_processed ::
    "db \<Rightarrow> user option \<Rightarrow> run \<Rightarrow> string \<Rightarrow> unit run_io" where
  "try_mark_counterevidence_processed d actor r token =
     (if \<not> r_counter_search r \<or> r_counter_processed r then (d, Inr ())
      else (case mark_counterevidence_processed d actor (r_id r) token of
          Inr (d', _) \<Rightarrow> (d', Inr ())
        | Inl (Run_Error code i) \<Rightarrow>
            (d, if code = ''counterevidence_unread'' then Inr () else Inl (Run_Error code i))
        | Inl e \<Rightarrow> (d, Inl e)))"

section \<open>One iteration\<close>

definition advance_verification ::
    "env \<Rightarrow> roles \<Rightarrow> db \<Rightarrow> user option \<Rightarrow> run \<Rightarrow> string \<Rightarrow> advance_result run_io" where
  "advance_verification env ro d actor r token =
     (case ro_verifier ro d actor r token of
        (d1, Inl e) \<Rightarrow> role_error env d1 actor (r_id r) token e
      | (d1, Inr report) \<Rightarrow>
          andthen (refresh d1 (r_id r)) (\<lambda>d1 r1.
          andthen (d1, evaluate_run_policy env d1 r1 False False) (\<lambda>d1 decision.
          if pd_outcome decision = READY_FOR_DECISION then
            andthen (commit d1 (set_ready env d1 actor (r_id r) token)) (\<lambda>d2 ready.
              (d2, Inr \<lparr>ar_run = r_id ready, ar_status = r_status ready, ar_policy = decision,
                        ar_step = None\<rparr>))
          else result_for env d1 r1 Running None)))"

text \<open>The part after the action is chosen: a planner contract, then the action.\<close>

definition apply_tool ::
    "env \<Rightarrow> roles \<Rightarrow> db \<Rightarrow> user option \<Rightarrow> string \<Rightarrow> string \<Rightarrow> planner_action \<Rightarrow> advance_result run_io" where
  "apply_tool env ro d actor i token a =
     andthen (execute_tool_step env (ro_tool ro) d actor i token (pa_tool a) (pa_parameters a)
       (pa_target a) (pa_finding a) False) (\<lambda>d1 s.
     andthen (refresh d1 i) (\<lambda>d1 r1.
     andthen (if pa_tool a \<in> {''read_source'', ''search_sources''}
              then andthen (try_mark_counterevidence_processed d1 actor r1 token)
                     (\<lambda>d2 _. refresh d2 i)
              else (d1, Inr r1)) (\<lambda>d2 r2.
     result_for env d2 r2 (r_status r2) (Some (st_sequence s)))))"

definition no_progress_payload :: "int \<Rightarrow> obj" where
  "no_progress_payload count = failure_payload ''no_progress_loop''
     (''Derselbe Aktions-/Zustands-Fingerprint wurde wiederholt ohne neue Evidenz oder '' @
      ''Zustands'' @ [CHR 0xE4] @ ''nderung erzeugt.'')
     (''Planner-/Loop-Verhalten technisch pr'' @ u_umlaut @ ''fen.'')
     [(''repeat_count'', JInt count)]"

definition apply_recorded_action ::
    "env \<Rightarrow> roles \<Rightarrow> db \<Rightarrow> user option \<Rightarrow> run \<Rightarrow> string \<Rightarrow> planner_action \<Rightarrow> advance_result run_io" where
  "apply_recorded_action env ro d actor r token a =
     andthen (commit d (record_action_state_repeat env d actor (r_id r) token a)) (\<lambda>d1 (r1, count).
     if count > max_identical_repeats
     then fail_runtime env d1 actor (r_id r1) token (no_progress_payload count)
     else if pa_action a = ''tool'' then apply_tool env ro d1 actor (r_id r1) token a
     else if pa_action a = ''synthesize'' then
       andthen (d1, pre_verifier_blockers_for_run env d1 r1) (\<lambda>d1 blockers.
       if blockers \<noteq> [] then result_for env d1 r1 (r_status r1) None
       else advance_verification env ro d1 actor r1 token)
     else if pa_action a = ''clarify'' then
       wait_for_human env d1 actor (r_id r1) token
         (if pa_reason a = [] then reason_value MISSING_EVIDENCE else pa_reason a) (pa_clarification a)
     else (d1, Inl (Other_Error ''AssertionError'')))"

text \<open>A synthesis stores the package and the relevance first, and may meet the evidence boundary.\<close>

definition store_package ::
    "env \<Rightarrow> db \<Rightarrow> user option \<Rightarrow> run \<Rightarrow> string \<Rightarrow> planner_action \<Rightarrow>
      (run \<times> advance_result option) run_io" where
  "store_package env d actor r token a =
     andthen (commit d (apply_planner_state env d actor (r_id r) token (pa_claims a) (pa_brief a)
       ''none'' [])) (\<lambda>d1 _.
     andthen (if pa_relevance a \<noteq> []
              then andthen (commit d1 (set_source_relevance env d1 actor (r_id r) token (pa_relevance a)))
                     (\<lambda>d2 _. (d2, Inr ()))
              else (d1, Inr ())) (\<lambda>d2 _.
     andthen (refresh d2 (r_id r)) (\<lambda>d2 r2.
     andthen (d2, evaluate_run_policy env d2 r2 False False) (\<lambda>d2 decision.
     andthen (missing_evidence_boundary env d2 actor r2 token decision) (\<lambda>d3 boundary.
     (d3, Inr (r2, boundary)))))))"

definition apply_action ::
    "env \<Rightarrow> roles \<Rightarrow> db \<Rightarrow> user option \<Rightarrow> run \<Rightarrow> string \<Rightarrow> planner_action \<Rightarrow> advance_result run_io" where
  "apply_action env ro d actor r token a =
     andthen (d, planner_contract_error r a) (\<lambda>d invalid.
     (case invalid of
        Some e \<Rightarrow>
          andthen (commit d (set_failed_planner_contract env d actor (r_id r) token (err_code e)))
            (\<lambda>d' _. (d', Inl e))
      | None \<Rightarrow>
          if pa_action a = ''synthesize'' then
            andthen (store_package env d actor r token a) (\<lambda>d1 (r1, boundary).
            (case boundary of
               Some result \<Rightarrow> (d1, Inr result)
             | None \<Rightarrow> apply_recorded_action env ro d1 actor r1 token a))
          else if pa_action a = ''investigate'' then
            result_for env d (with_rows d r) (r_status r) None
          else apply_recorded_action env ro d actor r token a))"

definition nonconvergence_payload :: "string list \<Rightarrow> int \<Rightarrow> obj" where
  "nonconvergence_payload blockers passes = failure_payload ''pre_verifier_nonconvergence''
     (''Das Decision Package erf'' @ u_umlaut @ ''llt nach einer fokussierten Reparatur '' @
      ''weiterhin nicht den deterministischen Pr'' @ u_umlaut @ ''fvertrag.'')
     (''Synthese-/Paketvertrag anhand der dokumentierten Blocker pr'' @ u_umlaut @ ''fen; '' @
      ''keine weiteren identischen Reparaturrunden starten.'')
     [(''pre_verifier_blockers'', JList (map JStr blockers)),
      (''synthesis_passes_without_ground_truth'', JInt passes)]"

text \<open>The routing of a running run whose budget is not exhausted.\<close>

definition route_run ::
    "env \<Rightarrow> roles \<Rightarrow> db \<Rightarrow> user option \<Rightarrow> run \<Rightarrow> string \<Rightarrow> advance_result run_io" where
  "route_run env ro d actor r token =
     andthen (d, if verifier_retry_due r then Inr True
                 else bindR (verification_due env d r) (\<lambda>due. Inr (due \<and> \<not> verifier_repair_due r)))
       (\<lambda>d verify.
     if verify then advance_verification env ro d actor r token
     else
       andthen (d, pre_verifier_repair_due env d r) (\<lambda>d repair.
       if repair \<and> successful_syntheses_since_ground_truth r \<ge> max_syntheses_without_ground_truth then
         andthen (d, pre_verifier_blockers_for_run env d r) (\<lambda>d blockers.
         fail_runtime env d actor (r_id r) token
           (nonconvergence_payload blockers (successful_syntheses_since_ground_truth r)))
       else (let role = (if verifier_repair_due r \<or> synthesizer_retry_due r \<or> repair
                then ro_synthesizer ro else ro_planner ro) in
         (case role d actor r token of
            (d1, Inl e) \<Rightarrow> role_error env d1 actor (r_id r) token e
          | (d1, Inr a) \<Rightarrow> apply_action env ro d1 actor r token a))))"

definition advance_investigation ::
    "env \<Rightarrow> roles \<Rightarrow> db \<Rightarrow> user option \<Rightarrow> string \<Rightarrow> string \<Rightarrow> advance_result run_io" where
  "advance_investigation env ro d actor i token =
     andthen (refresh d i) (\<lambda>d r.
     andthen (d, raise_if (\<not> actor_can_edit_run d actor r) Permission_Denied) (\<lambda>d _.
     andthen (d, assert_active r) (\<lambda>d _.
     andthen (d, assert_executor r token) (\<lambda>d _.
     if r_status r = Waiting_Human then result_for env d r (r_status r) None
     else
       andthen (d, evaluate_run_policy env d r False False) (\<lambda>d decision.
       andthen (missing_evidence_boundary env d actor r token decision) (\<lambda>d boundary.
       (case boundary of
          Some result \<Rightarrow> (d, Inr result)
        | None \<Rightarrow>
            if pd_outcome decision = READY_FOR_DECISION then
              andthen (commit d (set_ready env d actor i token)) (\<lambda>d1 ready.
                (d1, Inr \<lparr>ar_run = r_id ready, ar_status = r_status ready, ar_policy = decision,
                          ar_step = None\<rparr>))
            else if budget_exhausted (db_now d) r False False
            then handle_budget_exhaustion env d actor i token ''budget_exhausted''
            else route_run env ro d actor r token)))))))"

section \<open>The loop\<close>

text \<open>\<open>for _index in range(max_iterations)\<close>: \<open>None\<close> when no iteration left \<open>running\<close>.\<close>

fun iterate ::
    "env \<Rightarrow> roles \<Rightarrow> user option \<Rightarrow> string \<Rightarrow> string \<Rightarrow> nat \<Rightarrow> db \<Rightarrow> advance_result option run_io" where
  "iterate env ro actor i token 0 d = (d, Inr None)"
| "iterate env ro actor i token (Suc n) d =
     andthen (advance_investigation env ro d actor i token) (\<lambda>d' result.
     if ar_status result \<noteq> Running then (d', Inr (Some result))
     else iterate env ro actor i token n d')"

definition iteration_guard_payload :: obj where
  "iteration_guard_payload = failure_payload ''iteration_guard''
     ''Die technische Iterationsgrenze wurde ohne terminalen Zustand erreicht.''
     (''Planner-/Loop-Verhalten technisch pr'' @ u_umlaut @ ''fen.'') []"

definition run_until_boundary ::
    "env \<Rightarrow> roles \<Rightarrow> db \<Rightarrow> user option \<Rightarrow> string \<Rightarrow> string \<Rightarrow> int \<Rightarrow> advance_result run_io" where
  "run_until_boundary env ro d actor i token max_iterations =
     (if max_iterations < 1 \<or> max_iterations > 128
      then (d, Inl (run_err ''invalid_iteration_limit''))
      else
        andthen (iterate env ro actor i token (nat max_iterations) d) (\<lambda>d' result.
        (case result of
           Some a \<Rightarrow> (d', Inr a)
         | None \<Rightarrow>
             andthen (refresh d' i) (\<lambda>d' r.
             fail_runtime env d' actor (r_id r) token iteration_guard_payload))))"

end
