(* ===== verification/Investigation_Invariants.thy ===== *)
theory Investigation_Invariants
  imports Investigation_Loop Content_Binding
begin

text \<open>
  What every transaction on a run keeps. \<open>run_ok\<close> is the invariant of a run, \<open>evolves\<close> the relation
  between a run before and after a transaction, \<open>run_operation\<close> the interface every transaction of the
  runtime and the loop implements: it changes one run, along \<open>evolves\<close>.
\<close>

section \<open>The contract of a run\<close>

text \<open>The fields \<open>InvestigationRun.save\<close> declares immutable, and the keys of the row.\<close>

definition same_contract :: "run \<Rightarrow> run \<Rightarrow> bool" where
  "same_contract r r' \<longleftrightarrow>
     r_id r' = r_id r \<and> r_process r' = r_process r \<and> r_snapshot r' = r_snapshot r \<and>
     r_campaign r' = r_campaign r \<and> r_mode r' = r_mode r \<and> r_key r' = r_key r \<and>
     r_process_version r' = r_process_version r \<and> r_loop_version r' = r_loop_version r \<and>
     r_policy_version r' = r_policy_version r \<and> r_budget_version r' = r_budget_version r \<and>
     r_execution r' = r_execution r \<and> r_question r' = r_question r \<and>
     r_contract_hash r' = r_contract_hash r \<and> r_manifest_hash r' = r_manifest_hash r \<and>
     r_limits r' = r_limits r \<and> r_brief_required r' = r_brief_required r \<and>
     r_replay r' = r_replay r \<and> r_obligations r' = r_obligations r \<and> r_started r' = r_started r"

text \<open>What a run decided: its status and its package.\<close>

definition same_package :: "run \<Rightarrow> run \<Rightarrow> bool" where
  "same_package r r' \<longleftrightarrow>
     r_status r' = r_status r \<and> r_claims r' = r_claims r \<and> r_relevance r' = r_relevance r \<and>
     r_register_revision r' = r_register_revision r \<and> r_register_hash r' = r_register_hash r \<and>
     r_brief r' = r_brief r \<and> r_brief_revision r' = r_brief_revision r \<and>
     r_brief_hash r' = r_brief_hash r \<and> r_inputs r' = r_inputs r \<and> r_reason r' = r_reason r \<and>
     r_clarification r' = r_clarification r \<and> r_finished r' = r_finished r \<and>
     r_relevance_complete r' = r_relevance_complete r"

definition budget_ok :: "run \<Rightarrow> bool" where
  "budget_ok r \<longleftrightarrow> (\<forall>k. 0 \<le> dget (r_limits r) k \<and> dget (r_limits r) k \<le> dget default_budget k) \<and>
     (\<forall>k. 0 \<le> dget (r_usage r) k) \<and>
     dget (r_usage r) ''tool_calls'' \<le> dget (r_limits r) ''max_tool_calls'' \<and>
     dget (r_usage r) ''verifier_reads'' \<le> dget (r_limits r) ''max_verifier_reads''"

definition hashes_ok :: "env \<Rightarrow> run \<Rightarrow> bool" where
  "hashes_ok env r \<longleftrightarrow> r_brief_hash r = brief_hash env (r_brief r) \<and>
     r_register_hash r = register_hash env (r_claims r) (r_relevance r) (length (r_inputs r))"

definition run_ok :: "env \<Rightarrow> run \<Rightarrow> bool" where
  "run_ok env r \<longleftrightarrow>
     budget_ok r \<and> hashes_ok env r \<and> distinct (map cl_id (r_claims r)) \<and>
     distinct (map st_sequence (r_steps r)) \<and>
     (is_active r \<longleftrightarrow> r_finished r = None) \<and> obligations_ok (r_snapshot r) (r_obligations r)"

text \<open>
  \<open>evolves env d r r'\<close>: the frozen contract is kept, the invariant is kept, the executor generation
  grows with every new token, a finished run keeps its package, counters only grow, critical claims
  survive, and a run becomes READY only with a package that satisfies \<open>run_ready\<close>.
\<close>

definition evolves :: "env \<Rightarrow> db \<Rightarrow> run \<Rightarrow> run \<Rightarrow> bool" where
  "evolves env d r r' \<longleftrightarrow>
     same_contract r r' \<and> (run_ok env r \<longrightarrow> run_ok env r') \<and>
     r_generation r \<le> r_generation r' \<and>
     (r_generation r' = r_generation r \<longrightarrow> r_token r' = r_token r) \<and>
     (\<not> is_active r \<longrightarrow> same_package r r') \<and>
     (\<forall>k. dget (r_usage r) k \<le> dget (r_usage r') k) \<and>
     (distinct (map cl_id (r_claims r)) \<longrightarrow> criticals_survive (r_claims r) (r_claims r')) \<and>
     (r_status r' = Ready \<and> r_status r \<noteq> Ready \<longrightarrow> run_ready env d r)"

lemma criticals_survive_refl: "criticals_survive cs cs"
  by (auto simp: criticals_survive_def claim_survives_def)

lemma evolves_refl: "evolves env d r r"
  by (simp add: evolves_def same_contract_def same_package_def criticals_survive_refl)

section \<open>Bundles\<close>

lemmas run_parts = same_contract_def same_package_def budget_ok_def hashes_ok_def run_ok_def
  is_active_iff

text \<open>A change of an active run that leaves the claims, the status, the executor and the usage.\<close>

lemma evolves_rotate:
  assumes "is_active r" and "r_status r' = Aborted \<or> r_status r' = Failed" and "r_finished r' \<noteq> None"
    and "same_contract r r'" and "r_generation r < r_generation r'" and "r_usage r' = r_usage r"
    and "r_claims r' = r_claims r" "r_relevance r' = r_relevance r" "r_brief r' = r_brief r"
    "r_brief_hash r' = r_brief_hash r" "r_register_hash r' = r_register_hash r"
    "r_inputs r' = r_inputs r" "r_steps r' = r_steps r"
  shows "evolves env d r r'"
  using assms by (auto simp: evolves_def run_parts criticals_survive_refl)

section \<open>Changing one run\<close>

definition draws :: "nat \<Rightarrow> db \<Rightarrow> db" where
  "draws n d = d\<lparr>db_next := db_next d + n\<rparr>"

lemma draws_simps: "d = draws 0 d" "draw d = draws 1 d" "draw (draw d) = draws 2 d"
  by (simp_all add: draws_def draw_def)

text \<open>
  A transaction on the run \<open>i\<close> leaves the database, or saves that run after drawing identifiers; a
  new token is one of those drawn.
\<close>

definition touches :: "env \<Rightarrow> string \<Rightarrow> db \<Rightarrow> db \<Rightarrow> bool" where
  "touches env i d d' \<longleftrightarrow> d' = d \<or>
     (\<exists>r r' n. get_run d i = Some r \<and> evolves env d r r' \<and> d' = save_run (draws n d) r' \<and>
        (r_token r' = r_token r \<or> (\<exists>m. db_next d \<le> m \<and> m < db_next d + n \<and> r_token r' = e_uuid env m)))"

lemma touches_saveI:
  "get_run d i = Some r \<Longrightarrow> evolves env d r r' \<Longrightarrow> r_token r' = r_token r \<Longrightarrow>
     touches env i d (save_run d r')"
  "get_run d i = Some r \<Longrightarrow> evolves env d r r' \<Longrightarrow> r_token r' = fresh env d \<Longrightarrow>
     touches env i d (save_run (draw d) r')"
  "get_run d i = Some r \<Longrightarrow> evolves env d r r' \<Longrightarrow> r_token r' = fresh env (draw d) \<Longrightarrow>
     touches env i d (save_run (draw (draw d)) r')"
proof -
  assume g: "get_run d i = Some r" and e: "evolves env d r r'"
  show "r_token r' = r_token r \<Longrightarrow> touches env i d (save_run d r')"
    using g e unfolding touches_def by (metis draws_simps(1))
  show "r_token r' = fresh env d \<Longrightarrow> touches env i d (save_run (draw d) r')"
    using g e unfolding touches_def fresh_def
    by (metis draws_simps(2) le_refl less_add_one)
  show "r_token r' = fresh env (draw d) \<Longrightarrow> touches env i d (save_run (draw (draw d)) r')"
    using g e unfolding touches_def fresh_def draw_simps
    by (metis draws_simps(3) add_2_eq_Suc' le_SucI le_refl lessI)
qed

lemma touches_refl [simp]: "touches env i d d"
  by (simp add: touches_def)

lemma token_simps [simp]:
  "r_token (new_executor env d r) = fresh env d"
  "r_token (close_failed env d r reason payload) = fresh env d"
  by (simp_all add: new_executor_def close_failed_def)

lemma evolves_recover:
  "is_active r \<Longrightarrow> evolves env d r (new_executor env d r)"
  by (auto simp: evolves_def run_parts new_executor_def criticals_survive_refl)

lemma evolves_close_failed: "is_active r \<Longrightarrow> evolves env d r (close_failed env d r reason payload)"
  by (rule evolves_rotate) (simp_all add: close_failed_def new_executor_def same_contract_def)

lemma evolves_abort:
  "is_active r \<Longrightarrow> evolves env d r (new_executor env d (r\<lparr>r_status := Aborted, r_finished := Some t\<rparr>))"
  by (rule evolves_rotate) (simp_all add: new_executor_def same_contract_def)

lemma evolves_ready:
  assumes "is_active r" "run_ready env d r"
  shows "evolves env d r (new_executor env d (r\<lparr>r_status := Ready, r_finished := Some t\<rparr>))"
  using assms by (auto simp: evolves_def run_parts new_executor_def criticals_survive_refl)

lemma evolves_waiting:
  "is_active r \<Longrightarrow> evolves env d r (r\<lparr>r_status := Waiting_Human, r_reason := t, r_clarification := p\<rparr>)"
  by (auto simp: evolves_def run_parts criticals_survive_refl)

lemma evolves_continue:
  assumes "r_status r = Waiting_Human"
  shows "evolves env d r (new_executor env d'
            (r\<lparr>r_inputs := inputs, r_register_revision := n,
               r_register_hash := register_hash env (r_claims r) (r_relevance r) (length inputs),
               r_status := Running, r_reason := [], r_clarification := []\<rparr>))"
  using assms by (auto simp: evolves_def run_parts new_executor_def criticals_survive_refl)

lemma map_save_step: "map st_sequence (r_steps (save_step r s)) = map st_sequence (r_steps r)"
  unfolding save_step_def by (simp, rule map_update_where) simp

text \<open>Steps, books and flags do not touch the rest of an active run.\<close>

lemma evolves_steps:
  assumes "same_contract r r'" "same_package r r'" "r_generation r' = r_generation r"
    "r_token r' = r_token r"
    "distinct (map st_sequence (r_steps r)) \<longrightarrow> distinct (map st_sequence (r_steps r'))"
    "\<forall>k. dget (r_usage r) k \<le> dget (r_usage r') k" "budget_ok r \<longrightarrow> budget_ok r'"
  shows "evolves env d r r'"
  using assms
  by (auto simp: evolves_def same_contract_def same_package_def hashes_ok_def run_ok_def
      is_active_iff criticals_survive_refl)

lemma apply_registerE:
  assumes "apply_register env d r claims = Inr r1"
  obtains cs n h where "r1 = r\<lparr>r_claims := cs, r_register_revision := n, r_register_hash := h\<rparr>"
    "h = register_hash env cs (r_relevance r) (length (r_inputs r)) \<or>
       cs = r_claims r \<and> h = r_register_hash r"
    "distinct (map cl_id (r_claims r)) \<longrightarrow>
       distinct (map cl_id cs) \<and> criticals_survive (r_claims r) cs"
proof (cases claims)
  case None
  then show thesis
    using assms that [where cs = "r_claims r" and n = "r_register_revision r" and h = "r_register_hash r"]
    by (simp add: apply_register_def criticals_survive_refl)
next
  case (Some raws)
  with assms obtain cs where cs: "normalize_claim_register env d r raws = Inr cs"
    and r1: "r1 = (if content_hash (e_hash env) (claims_json (r_claims r)) \<noteq>
               content_hash (e_hash env) (claims_json cs)
            then r\<lparr>r_claims := cs, r_register_revision := r_register_revision r + 1,
                   r_register_hash := register_hash env cs (r_relevance r) (length (r_inputs r))\<rparr>
            else r)"
    by (auto simp: apply_register_def bindR_eq_Inr)
  show thesis
  proof (cases "content_hash (e_hash env) (claims_json (r_claims r)) \<noteq>
      content_hash (e_hash env) (claims_json cs)")
    case True
    show thesis
      by (rule that) (use r1 True normalize_claim_register_distinct [OF cs]
          normalize_claim_register_guarded [OF cs] in auto)
  next
    case False
    show thesis
      by (rule that [where cs = "r_claims r" and n = "r_register_revision r" and h = "r_register_hash r"])
        (use r1 False criticals_survive_refl in auto)
  qed
qed

lemma apply_briefE:
  assumes "apply_brief env d r brief = Inr r1"
  obtains p n h where "r1 = r\<lparr>r_brief := p, r_brief_revision := n, r_brief_hash := h\<rparr>"
    "h = brief_hash env p \<or> p = r_brief r \<and> h = r_brief_hash r"
proof (cases "r1 = r")
  case True
  show thesis by (rule that [where p = "r_brief r" and n = "r_brief_revision r" and h = "r_brief_hash r"]) (use True in auto)
next
  case False
  with assms obtain p where "r1 = r\<lparr>r_brief := p, r_brief_revision := r_brief_revision r + 1,
                   r_brief_hash := brief_hash env p\<rparr>"
    by (auto simp: apply_brief_def bindR_eq_Inr split: option.split_asm if_split_asm)
  then show thesis by (rule that) auto
qed

lemma label_latest_stepE:
  obtains ss where "label_latest_step r kind payload = r\<lparr>r_steps := ss\<rparr>"
    "map st_sequence ss = map st_sequence (r_steps r)"
proof (cases "first_opt (rev (successful r))")
  case None
  show thesis by (rule that [of "r_steps r"]) (simp_all add: label_latest_step_def None)
next
  case (Some s)
  let ?s = "s\<lparr>st_progress_kind := kind, st_progress_payload := payload\<rparr>"
  show thesis
    by (rule that [of "r_steps (label_latest_step r kind payload)"])
      (use map_save_step [of r ?s] in \<open>auto simp: label_latest_step_def Some save_step_def\<close>)
qed

lemma note_progressE:
  obtains n t where "note_progress env now r r1 r2 kind payload = r2\<lparr>r_streak := n, r_last_progress := t\<rparr>"
proof -
  have "note_progress env now r r1 r2 kind payload = r2\<lparr>r_streak := r_streak
      (note_progress env now r r1 r2 kind payload), r_last_progress :=
      r_last_progress (note_progress env now r r1 r2 kind payload)\<rparr>"
    by (simp add: note_progress_def Let_def)
  then show thesis by (rule that)
qed

lemma touches_planner:
  assumes "apply_planner_state env d actor i token claims brief kind payload = Inr (d', x)"
  shows "touches env i d d'"
proof -
  from assms obtain r r1 r2 where get: "get_run d i = Some r" and act: "is_active r"
    and r1: "apply_register env d r claims = Inr r1" and r2: "apply_brief env d r1 brief = Inr r2"
    and d': "d' = save_run d (label_latest_step
      (note_progress env (db_now d) r r1 r2 kind payload) kind payload)"
    by (auto simp: apply_planner_state_def bindR_eq_Inr executor_run_eq_Inr Let_def)
  obtain cs n h where c: "r1 = r\<lparr>r_claims := cs, r_register_revision := n, r_register_hash := h\<rparr>"
    "h = register_hash env cs (r_relevance r) (length (r_inputs r)) \<or>
       cs = r_claims r \<and> h = r_register_hash r"
    "distinct (map cl_id (r_claims r)) \<longrightarrow>
       distinct (map cl_id cs) \<and> criticals_survive (r_claims r) cs"
    by (rule apply_registerE [OF r1])
  obtain p m g where b: "r2 = r1\<lparr>r_brief := p, r_brief_revision := m, r_brief_hash := g\<rparr>"
    "g = brief_hash env p \<or> p = r_brief r1 \<and> g = r_brief_hash r1"
    by (rule apply_briefE [OF r2])
  obtain k t where s: "note_progress env (db_now d) r r1 r2 kind payload =
      r2\<lparr>r_streak := k, r_last_progress := t\<rparr>"
    by (rule note_progressE)
  obtain ss where l: "label_latest_step (r2\<lparr>r_streak := k, r_last_progress := t\<rparr>) kind payload =
      r2\<lparr>r_streak := k, r_last_progress := t, r_steps := ss\<rparr>"
    "map st_sequence ss = map st_sequence (r_steps (r2\<lparr>r_streak := k, r_last_progress := t\<rparr>))"
    by (rule label_latest_stepE)
  have "evolves env d r (r2\<lparr>r_streak := k, r_last_progress := t, r_steps := ss\<rparr>)"
    using act c b l(2) by (auto simp: evolves_def run_parts)
  then show ?thesis
    unfolding d' s l(1) by (rule touches_saveI(1) [OF get]) (simp add: c(1) b(1))
qed

section \<open>Every transaction implements the interface\<close>

lemma touches_recover: "recover_investigation env d actor i = Inr (d', x) \<Longrightarrow> touches env i d d'"
  by (auto simp: recover_investigation_def bindR_eq_Inr assert_active_def raise_if_eq_Inr Let_def
      locked_run_eq_Inr intro!: touches_saveI evolves_recover)

lemma touches_abort: "abort_investigation env d actor i = Inr (d', x) \<Longrightarrow> touches env i d d'"
  by (auto simp: abort_investigation_def bindR_eq_Inr Let_def locked_run_eq_Inr
      intro!: touches_saveI evolves_abort split: if_split_asm)

lemma touches_continue:
  "continue_with_human_input env d actor i payload = Inr (d', x) \<Longrightarrow> touches env i d d'"
  by (auto simp: continue_with_human_input_def bindR_eq_Inr raise_if_eq_Inr Let_def locked_run_eq_Inr
      intro!: touches_saveI evolves_continue [where inputs = "_ @ [_]", simplified])

lemma touches_fail_technical:
  "fail_run_technical env d actor i token code impact = Inr (d', x) \<Longrightarrow> touches env i d d'"
  by (auto simp: fail_run_technical_def bindR_eq_Inr Let_def executor_run_eq_Inr
      intro!: touches_saveI evolves_close_failed)

lemma touches_failed_runtime:
  "set_failed_runtime env d actor i token reason payload = Inr (d', x) \<Longrightarrow> touches env i d d'"
  by (auto simp: set_failed_runtime_def bindR_eq_Inr Let_def executor_run_eq_Inr
      intro!: touches_saveI evolves_close_failed)

lemma touches_failed_contract:
  "set_failed_planner_contract env d actor i token code = Inr (d', x) \<Longrightarrow> touches env i d d'"
  by (auto simp: set_failed_planner_contract_def bindR_eq_Inr Let_def executor_run_eq_Inr
      intro!: touches_saveI evolves_close_failed)

lemma touches_waiting:
  "set_waiting_human d actor i token reason payload = Inr (d', x) \<Longrightarrow> touches env i d d'"
  by (auto simp: set_waiting_human_def bindR_eq_Inr raise_if_eq_Inr Let_def executor_run_eq_Inr
      intro!: touches_saveI evolves_waiting)

lemma touches_ready: "set_ready env d actor i token = Inr (d', x) \<Longrightarrow> touches env i d d'"
proof -
  assume "set_ready env d actor i token = Inr (d', x)"
  then obtain r p where get: "get_run d i = Some r" and act: "is_active r"
    and p: "evaluate_run_policy env d r False False = Inr p" "pd_outcome p = READY_FOR_DECISION"
    and d': "d' = save_run (draw d)
      (new_executor env d (r\<lparr>r_status := Ready, r_finished := Some (db_now d)\<rparr>))"
    by (auto simp: set_ready_def bindR_eq_Inr raise_if_eq_Inr Let_def executor_run_eq_Inr)
  from p have "run_ready env d r"
    using evaluate_run_policy_ready_iff by blast
  then show ?thesis
    unfolding d' by (intro touches_saveI(2) [OF get] evolves_ready act token_simps(1))
qed

lemma touches_mark: "mark_counterevidence_processed d actor i token = Inr (d', x) \<Longrightarrow> touches env i d d'"
  by (auto simp: mark_counterevidence_processed_def bindR_eq_Inr raise_if_eq_Inr Let_def
      executor_run_eq_Inr intro!: touches_saveI evolves_steps simp: same_contract_def same_package_def
      budget_ok_def)

lemma evolves_relevance:
  assumes "is_active r"
  shows "evolves env d r (r\<lparr>r_relevance := rel, r_relevance_complete := True, r_register_revision := n,
           r_register_hash := register_hash env (r_claims r) rel (length (r_inputs r))\<rparr>)"
  using assms by (auto simp: evolves_def run_parts criticals_survive_refl)

lemma touches_relevance:
  "set_source_relevance env d actor i token supplied = Inr (d', x) \<Longrightarrow> touches env i d d'"
  by (auto simp: set_source_relevance_def bindR_eq_Inr raise_if_eq_Inr Let_def executor_run_eq_Inr
      intro!: touches_saveI evolves_relevance)

lemma touches_brief:
  assumes "materialize_brief_revision d actor i key expected = Inr (d', x)"
  shows "touches env i d d'"
proof -
  from assms obtain r k where get: "get_run d i = Some r" and k: "normalize_idempotency_key key = Inr k"
    by (auto simp: materialize_brief_revision_def bindR_eq_Inr locked_run_eq_Inr)
  show ?thesis
  proof (cases "find (\<lambda>b. br_key b = k) (r_briefs r)")
    case None
    with assms get k obtain bs where "d' = save_run d (r\<lparr>r_briefs := bs\<rparr>)"
      by (auto simp: materialize_brief_revision_def bindR_eq_Inr locked_run_eq_Inr Let_def
          split: option.split_asm)
    then show ?thesis
      by (auto intro!: touches_saveI(1) [OF get] evolves_steps
          simp: same_contract_def same_package_def budget_ok_def)
  next
    case (Some b)
    with assms get k show ?thesis
      by (simp add: materialize_brief_revision_def bindR_eq_Inr locked_run_eq_Inr)
  qed
qed

lemma touches_repeat:
  "record_action_state_repeat env d actor i token a = Inr (d', x) \<Longrightarrow> touches env i d d'"
  by (auto simp: record_action_state_repeat_def bindR_eq_Inr Let_def executor_run_eq_Inr
      budget_ok_def same_contract_def same_package_def intro!: touches_saveI evolves_steps)

lemma book_call_ok:
  assumes "book_call now r tool v = Inr u"
  shows "dget (r_usage r) k \<le> dget u k" "budget_ok r \<Longrightarrow> budget_ok (r\<lparr>r_usage := u, r_steps := ss\<rparr>)"
  using assms by (auto simp: book_call_def budget_ok_def split: if_split_asm)

lemma next_sequence_fresh: "next_sequence r \<notin> set (map st_sequence (r_steps r))"
  using fold_max_ge [of "r_steps r" st_sequence 0] by (fastforce simp: next_sequence_def)

lemma same_parts_save_step [simp]:
  "same_contract r (save_step r' s) = same_contract r r'" "same_package r (save_step r' s) = same_package r r'"
  "r_usage (save_step r s) = r_usage r" "r_generation (save_step r s) = r_generation r"
  "r_token (save_step r s) = r_token r" "budget_ok (save_step r s) = budget_ok r"
  "r_status (save_step r s) = r_status r"
  by (simp_all add: save_step_def same_contract_def same_package_def budget_ok_def)

lemma evolves_save_step:
  assumes "same_contract r r'" "same_package r r'" "r_generation r' = r_generation r"
    "r_token r' = r_token r" "r_steps r' = r_steps r"
    "\<forall>k. dget (r_usage r) k \<le> dget (r_usage r') k" "budget_ok r \<longrightarrow> budget_ok r'"
  shows "evolves env d r (save_step r' s)"
  by (rule evolves_steps) (use assms map_save_step [of r' s] in auto)

lemma touches_begin:
  assumes "begin_tool_step env d actor i token tool params target finding v = Inr (d', x)"
  shows "touches env i d d'"
proof -
  from assms obtain r where get: "get_run d i = Some r"
    by (auto simp: begin_tool_step_def bindR_eq_Inr executor_run_eq_Inr)
  show ?thesis
  proof (cases "find (\<lambda>s. st_key s = step_key env r tool params) (r_steps r)")
    case None
    with assms get obtain u where u: "book_call (db_now d) r tool v = Inr u"
      and d': "d' = save_run d (r\<lparr>r_usage := u, r_steps := r_steps r @
        [new_step (db_now d) r (step_key env r tool params) tool params target finding]\<rparr>)"
      by (auto simp: begin_tool_step_def bindR_eq_Inr executor_run_eq_Inr Let_def)
    show ?thesis
      unfolding d'
      by (intro touches_saveI(1) [OF get] evolves_steps)
        (use book_call_ok [OF u] next_sequence_fresh [of r] in
          \<open>auto simp: same_contract_def same_package_def new_step_def\<close>)
  next
    case (Some s)
    show ?thesis
    proof (cases "st_status s = Step_Success")
      case True
      with assms get Some show ?thesis
        by (auto simp: begin_tool_step_def bindR_eq_Inr executor_run_eq_Inr Let_def)
    next
      case False
      with assms get Some obtain u where u: "book_call (db_now d) r tool v = Inr u"
        and d': "d' = save_run d (save_step (r\<lparr>r_usage := u\<rparr>) (reopen_step (db_now d) r s))"
        by (auto simp: begin_tool_step_def bindR_eq_Inr executor_run_eq_Inr Let_def)
      show ?thesis
        unfolding d'
        by (intro touches_saveI(1) [OF get] evolves_save_step)
          (use book_call_ok(1) [OF u] book_call_ok(2) [OF u, where ss = "r_steps r"] in
            \<open>auto simp: same_contract_def same_package_def\<close>)
    qed
  qed
qed

lemma touches_fail_step:
  assumes "fail_tool_step d actor i token seq generation e = Inr (d', x)"
  shows "touches env i d d'"
proof -
  from assms obtain r where get: "get_run d i = Some r"
    by (auto simp: fail_tool_step_def bindR_eq_Inr locked_run_eq_Inr)
  show ?thesis
  proof (cases "get_step r seq")
    case (Some s)
    from assms get Some have "d' = d \<or> (\<exists>s'. d' = save_run d (save_step r s'))"
      by (cases "owns_run r generation token") (auto simp: fail_tool_step_def bindR_eq_Inr locked_run_eq_Inr)
    then show ?thesis
      by (auto intro!: touches_saveI(1) [OF get] evolves_save_step
          simp: same_contract_def same_package_def)
  qed (use assms get in \<open>simp add: fail_tool_step_def bindR_eq_Inr locked_run_eq_Inr\<close>)
qed

lemma observed_run_same:
  "same_contract r (observed_run now r tool v coverage payload)"
  "same_package r (observed_run now r tool v coverage payload)"
  "r_generation (observed_run now r tool v coverage payload) = r_generation r"
  "r_token (observed_run now r tool v coverage payload) = r_token r"
  "r_steps (observed_run now r tool v coverage payload) = r_steps r"
  "r_usage (observed_run now r tool v coverage payload) = r_usage r"
  "budget_ok (observed_run now r tool v coverage payload) = budget_ok r"
  by (simp_all add: observed_run_def Let_def same_contract_def same_package_def budget_ok_def)

lemma touches_finish:
  assumes "finish_tool_step env d actor i token seq generation v payload = Inr (d', x)"
  shows "touches env i d d'"
proof -
  from assms obtain r where get: "get_run d i = Some r"
    by (auto simp: finish_tool_step_def bindR_eq_Inr locked_run_eq_Inr)
  show ?thesis
  proof (cases "get_step r seq")
    case (Some s)
    show ?thesis
    proof (cases "\<not> owns_run r generation token \<or> r_status r \<noteq> Running")
      case True
      with assms get Some have "d' = save_run d (save_step r (discarded_step (db_now d) s))"
        by (simp add: finish_tool_step_def bindR_eq_Inr locked_run_eq_Inr Let_def)
      then show ?thesis
        by (auto intro!: touches_saveI(1) [OF get] evolves_save_step
            simp: same_contract_def same_package_def)
    next
      case False
      let ?c = "\<not> v \<and> new_tool_coverage env r s payload"
      from False assms get Some have "d' = save_run d (save_step
          (observed_run (db_now d) r (st_tool s) v ?c payload) (stored_step env (db_now d) s ?c payload))"
        by (simp add: finish_tool_step_def bindR_eq_Inr locked_run_eq_Inr Let_def)
      then show ?thesis
        by (auto intro!: touches_saveI(1) [OF get] evolves_save_step simp: observed_run_same)
    qed
  qed (use assms get in \<open>simp add: finish_tool_step_def bindR_eq_Inr locked_run_eq_Inr\<close>)
qed

section \<open>The invariant of the database\<close>

text \<open>
  \<open>drawn\<close>: an identifier \<open>uuid.uuid4()\<close> already returned. At most one active run per process and
  purpose, and per process and idempotency key.
\<close>

definition drawn :: "env \<Rightarrow> db \<Rightarrow> string \<Rightarrow> bool" where
  "drawn env d s \<longleftrightarrow> (\<exists>n<db_next d. s = e_uuid env n)"

definition rivals :: "run \<Rightarrow> run \<Rightarrow> bool" where
  "rivals r r' \<longleftrightarrow> r_process r = r_process r' \<and>
     (is_active r \<and> is_active r' \<and> is_evidence_run r = is_evidence_run r' \<or> r_key r = r_key r')"

definition db_ok :: "env \<Rightarrow> db \<Rightarrow> bool" where
  "db_ok env d \<longleftrightarrow>
     distinct (map r_id (db_runs d)) \<and>
     (\<forall>r\<in>set (db_runs d). run_ok env r \<and> drawn env d (r_id r) \<and> drawn env d (r_token r)) \<and>
     (\<forall>r\<in>set (db_runs d). \<forall>r'\<in>set (db_runs d). rivals r r' \<longrightarrow> r_id r = r_id r')"

lemma drawn_mono:
  assumes "drawn env d s" "db_next d \<le> db_next d'" shows "drawn env d' s"
proof -
  from assms(1) obtain n where "n < db_next d" "s = e_uuid env n" by (auto simp: drawn_def)
  with assms(2) have "n < db_next d' \<and> s = e_uuid env n" by simp
  then show ?thesis unfolding drawn_def by blast
qed

lemma evolves_active: "evolves env d r r' \<Longrightarrow> is_active r' \<Longrightarrow> is_active r"
  by (auto simp: evolves_def same_package_def is_active_iff)

lemma evolves_rivals:
  assumes ev: "evolves env d r r'" and rv: "rivals r' s"
  shows "rivals r s"
proof -
  have "r_process r' = r_process r" "r_key r' = r_key r" "r_campaign r' = r_campaign r"
    using ev by (simp_all add: evolves_def same_contract_def)
  with rv evolves_active [OF ev] show ?thesis
    by (auto simp: rivals_def is_evidence_run_def)
qed

lemma rivals_sym: "rivals r s = rivals s r"
  by (auto simp: rivals_def)

lemma draws_db [simp]:
  "db_runs (draws n d) = db_runs d" "db_next (draws n d) = db_next d + n"
  "get_run (draws n d) i = get_run d i" "db_now (draws n d) = db_now d"
  by (simp_all add: draws_def get_run_def)

lemma get_run_unique:
  "distinct (map r_id (db_runs d)) \<Longrightarrow> r \<in> set (db_runs d) \<Longrightarrow> get_run d (r_id r) = Some r"
  unfolding get_run_def by (rule distinct_map_find)

lemma touches_db_ok:
  assumes t: "touches env i d d'" and ok: "db_ok env d"
  shows "db_ok env d'"
proof (cases "d' = d")
  case False
  with t obtain r r' n where get: "get_run d i = Some r" and ev: "evolves env d r r'"
    and d': "d' = save_run (draws n d) r'"
    and tok: "r_token r' = r_token r \<or> (\<exists>m. db_next d \<le> m \<and> m < db_next d + n \<and> r_token r' = e_uuid env m)"
    by (auto simp: touches_def)
  have r: "r \<in> set (db_runs d)" "r_id r = i" using get_run_SomeD [OF get] by auto
  have id: "r_id r' = r_id r" using ev by (simp add: evolves_def same_contract_def)
  have next_le: "db_next d \<le> db_next d'" by (simp add: d')
  have ok': "run_ok env r'" "drawn env d' (r_id r')" "drawn env d' (r_token r')"
    using ok r ev id tok drawn_mono [OF _ next_le, of env]
    by (auto simp: db_ok_def evolves_def) (auto simp: drawn_def d')
  have old: "x = r' \<or> x \<in> set (db_runs d) \<and> r_id x \<noteq> r_id r'" if "x \<in> set (db_runs d')" for x
    using in_save_run [of x "draws n d" r'] that by (auto simp: d')
  have rv: "r_id x = r_id y" if "x \<in> set (db_runs d')" "y \<in> set (db_runs d')" "rivals x y" for x y
    using old [OF that(1)] old [OF that(2)] that(3) ok r id evolves_rivals [OF ev] rivals_sym
    unfolding db_ok_def by metis
  have "run_ok env x \<and> drawn env d' (r_id x) \<and> drawn env d' (r_token x)" if "x \<in> set (db_runs d')" for x
    using old [OF that] ok ok' drawn_mono [OF _ next_le] by (auto simp: db_ok_def)
  with rv ok show ?thesis
    by (auto simp: db_ok_def d')
qed (use ok in simp)

lemma touches_finished:
  assumes "touches env i d d'" and "get_run d j = Some r" and "\<not> is_active r"
  shows "\<exists>r'. get_run d' j = Some r' \<and> same_package r r'"
proof (cases "d' = d")
  case True
  with assms(2) show ?thesis by (simp add: same_package_def)
next
  case False
  with assms(1) obtain s s' n where get: "get_run d i = Some s" and ev: "evolves env d s s'"
    and d': "d' = save_run (draws n d) s'"
    by (auto simp: touches_def)
  have id: "r_id s' = i"
    using ev get_run_SomeD [OF get] by (simp add: evolves_def same_contract_def)
  show ?thesis
  proof (cases "j = i")
    case True
    then have "s = r" using get assms(2) by simp
    with ev assms(3) have "same_package r s'" by (simp add: evolves_def)
    moreover have "get_run d' j = Some s'"
      using get_run_save_run [of "draws n d" s'] id True get by (simp add: d')
    ultimately show ?thesis by blast
  next
    case False
    then show ?thesis
      using get_run_save_run_other [of j s' "draws n d"] id assms(2) by (simp add: d' same_package_def)
  qed
qed

lemma touches_other:
  assumes t: "touches env i d d'" and j: "j \<noteq> i"
  shows "get_run d' j = get_run d j"
proof (cases "d' = d")
  case False
  with t obtain r r' n where get: "get_run d i = Some r" and ev: "evolves env d r r'"
    and d': "d' = save_run (draws n d) r'"
    by (auto simp: touches_def)
  have "r_id r' = i"
    using ev get_run_SomeD [OF get] by (simp add: evolves_def same_contract_def)
  with j show ?thesis by (simp add: d' get_run_save_run_other)
qed simp

section \<open>The interface of a transaction\<close>

locale run_operation =
  fixes env :: env and i :: string and op :: "db \<Rightarrow> 'a txn"
  assumes touches: "op d = Inr (d', x) \<Longrightarrow> touches env i d d'"

begin

lemma keeps_db_ok: "db_ok env d \<Longrightarrow> op d = Inr (d', x) \<Longrightarrow> db_ok env d'"
  using touches touches_db_ok by blast

lemma keeps_finished:
  "get_run d j = Some r \<Longrightarrow> \<not> is_active r \<Longrightarrow> op d = Inr (d', x) \<Longrightarrow>
     \<exists>r'. get_run d' j = Some r' \<and> same_package r r'"
  using touches touches_finished by blast

lemma keeps_others: "j \<noteq> i \<Longrightarrow> op d = Inr (d', x) \<Longrightarrow> get_run d' j = get_run d j"
  using touches touches_other by blast

end

interpretation recover_op: run_operation env i "\<lambda>d. recover_investigation env d actor i" for env i actor
  by unfold_locales (rule touches_recover)

interpretation abort_op: run_operation env i "\<lambda>d. abort_investigation env d actor i" for env i actor
  by unfold_locales (rule touches_abort)

interpretation continue_op: run_operation env i "\<lambda>d. continue_with_human_input env d actor i payload"
  for env i actor payload
  by unfold_locales (rule touches_continue)

interpretation planner_op: run_operation env i
  "\<lambda>d. apply_planner_state env d actor i token claims brief kind payload"
  for env i actor token claims brief kind payload
  by unfold_locales (rule touches_planner)

interpretation relevance_op: run_operation env i "\<lambda>d. set_source_relevance env d actor i token supplied"
  for env i actor token supplied
  by unfold_locales (rule touches_relevance)

interpretation begin_op: run_operation env i
  "\<lambda>d. begin_tool_step env d actor i token tool params target finding v"
  for env i actor token tool params target finding v
  by unfold_locales (rule touches_begin)

interpretation finish_op: run_operation env i
  "\<lambda>d. finish_tool_step env d actor i token seq generation v payload"
  for env i actor token seq generation v payload
  by unfold_locales (rule touches_finish)

interpretation ready_op: run_operation env i "\<lambda>d. set_ready env d actor i token" for env i actor token
  by unfold_locales (rule touches_ready)

interpretation failed_op: run_operation env i
  "\<lambda>d. set_failed_runtime env d actor i token reason payload" for env i actor token reason payload
  by unfold_locales (rule touches_failed_runtime)

interpretation waiting_op: run_operation env i "\<lambda>d. set_waiting_human d actor i token reason payload"
  for env i actor token reason payload
  by unfold_locales (rule touches_waiting)

interpretation mark_op: run_operation env i "\<lambda>d. mark_counterevidence_processed d actor i token"
  for env i actor token
  by unfold_locales (rule touches_mark)

interpretation brief_op: run_operation env i "\<lambda>d. materialize_brief_revision d actor i key expected"
  for env i actor key expected
  by unfold_locales (rule touches_brief)

interpretation repeat_op: run_operation env i "\<lambda>d. record_action_state_repeat env d actor i token a"
  for env i actor token a
  by unfold_locales (rule touches_repeat)

interpretation fail_step_op: run_operation env i "\<lambda>d. fail_tool_step d actor i token seq generation e"
  for env i actor token seq generation e
  by unfold_locales (rule touches_fail_step)

interpretation fail_technical_op: run_operation env i
  "\<lambda>d. fail_run_technical env d actor i token code impact" for env i actor token code impact
  by unfold_locales (rule touches_fail_technical)

interpretation failed_contract_op: run_operation env i
  "\<lambda>d. set_failed_planner_contract env d actor i token code" for env i actor token code
  by unfold_locales (rule touches_failed_contract)

section \<open>Starting a run\<close>

lemma budget_from_snapshot_bounds:
  "budget_from_snapshot raw = Inr b \<Longrightarrow>
     (\<forall>k. 0 \<le> dget b k \<and> dget b k \<le> dget default_budget k) \<and>
     dict_keys b = dict_keys default_budget \<and>
     dget b ''max_verifier_calls'' \<le> dget b ''max_model_calls''"
  using apply_limits_bounds [of default_budget raw] default_budget_nonneg
  by (auto simp: budget_from_snapshot_def bindR_eq_Inr split: if_split_asm)

lemma effective_obligations_ok: "effective_obligations snap raw = Inr obs \<Longrightarrow> obligations_ok snap obs"
  by (auto simp: effective_obligations_def bindR_eq_Inr split: if_split_asm
      intro: normalize_obligations_ok obligations_from_snapshot_ok)

lemma dget_initial_usage: "dget initial_usage k = 0"
  by (simp add: initial_usage_def usage_keys_def)

lemma new_run_ok:
  assumes "budget_from_snapshot raw = Inr limits" and "obligations_ok snap obs"
  shows "run_ok env (new_run env d p snap version key mode campaign request limits obs contract)"
  using assms(2) budget_from_snapshot_bounds [OF assms(1)]
  by (simp add: run_ok_def budget_ok_def hashes_ok_def new_run_def dget_initial_usage is_active_iff
      empty_register_hash_def)

text \<open>A successful start either returns the run of the key, or appends a new run without a rival.\<close>

lemma start_cases:
  assumes "start_investigation env d actor request = Inr (d', h)"
  obtains (reused) r where "d' = d" "h = handle_of r True" "r \<in> set (db_runs d)"
  | (created) r p where "d' = (draw (draw d))\<lparr>db_runs := db_runs d @ [r]\<rparr>" "h = handle_of r False"
      "r_id r = fresh env d" "r_token r = fresh env (draw d)" "run_ok env r" "r_status r = Running"
      "r_process r = proc_id p" "same_run d p (r_key r) = None"
      "active_run d p (is_evidence_run r) = None"
proof -
  from assms obtain key snap limits p obs where
    sc: "start_scope env d actor request = Inr (key, snap, limits, p, obs)"
    and rest: "reserve_run env d actor request key snap limits p obs = Inr (d', h)"
    by (auto simp: start_investigation_def bindR_eq_Inr)
  have lim: "budget_from_snapshot (snap_run_limits snap) = Inr limits"
    and obs: "effective_obligations snap (sr_obligations request) = Inr obs"
    using sc by (auto simp: start_scope_def bindR_eq_Inr split: option.split_asm)
  note rest = rest [unfolded reserve_run_def Let_def]
  show thesis
  proof (cases "same_run d p key")
    case (Some same)
    then have "same \<in> set (db_runs d)"
      by (auto simp: same_run_def dest: find_SomeD)
    with rest Some show thesis
      by (intro reused) (auto split: if_split_asm)
  next
    case None
    note n = None
    show thesis
    proof (cases "active_run d p (sr_campaign request \<noteq> None)")
      case None
      with rest n obtain mode campaign contract version where
        c: "start_campaign env d p (sr_campaign request) = Inr campaign"
        and d': "d' = (draw (draw d))\<lparr>db_runs := db_runs d @
          [new_run env d p snap version key mode campaign request limits obs contract]\<rparr>"
        and h: "h = handle_of (new_run env d p snap version key mode campaign request limits obs contract) False"
        by (auto simp: Let_def create_run_def bindR_eq_Inr split: option.split_asm)
      have "(campaign \<noteq> None) = (sr_campaign request \<noteq> None)"
        using c by (auto simp: start_campaign_def bindR_eq_Inr split: option.split_asm if_split_asm)
      then show thesis
        using None n by (intro created [OF d' h])
          (simp_all add: new_run_ok [OF lim effective_obligations_ok [OF obs]],
           simp_all add: new_run_def is_evidence_run_def)
    qed (use rest n in simp)
  qed
qed

lemma start_db_ok:
  assumes s: "start_investigation env d actor request = Inr (d', h)" and ok: "db_ok env d"
    and inj: "inj (e_uuid env)"
  shows "db_ok env d'"
  using s
proof (cases rule: start_cases)
  case (created r p)
  have fresh: "\<not> drawn env d (r_id r)"
    using inj by (auto simp: created(3) fresh_def drawn_def dest: injD)
  then have new: "r_id r \<notin> r_id ` set (db_runs d)"
    using ok by (auto simp: db_ok_def)
  have "drawn env d' (r_id r)" "drawn env d' (r_token r)"
    unfolding drawn_def created fresh_def draw_simps by (auto intro: exI [of _ "db_next d"] exI [of _ "Suc (db_next d)"])
  moreover have "drawn env d s \<Longrightarrow> drawn env d' s" for s
    by (erule drawn_mono) (simp add: created)
  moreover have none: "\<not> rivals r x" if "x \<in> set (db_runs d)" for x
    using that created(7-9) created(6)
    by (auto simp: rivals_def same_run_def active_run_def find_None_iff is_active_iff)
  moreover have "\<not> rivals x r" if "x \<in> set (db_runs d)" for x
    using none [OF that] by (simp add: rivals_sym)
  ultimately show ?thesis
    using ok new created(1,5) by (auto simp: db_ok_def)
qed (use ok in simp)

end
