(* ===== verification/Investigation_System.thy ===== *)
theory Investigation_System
  imports Investigation_Invariants
begin

text \<open>
  The runtime as a transition system. \<open>run_step\<close> has one rule per transaction of the runtime and the
  loop, with any arguments, and rules for what happens around them: time passes, other tables change,
  a model call is booked or a verifier report stored. Transactions of any number of executors and
  users interleave in any order. The invariant holds in every reachable database.
\<close>

section \<open>Steps\<close>

text \<open>What the model roles store: calls, reports and counters other than those of the tools.\<close>

definition model_activity :: "run \<Rightarrow> run \<Rightarrow> bool" where
  "model_activity r r' \<longleftrightarrow>
     (\<exists>calls reports usage. r' = r\<lparr>r_calls := calls, r_reports := reports, r_usage := usage\<rparr> \<and>
        (\<forall>k. dget (r_usage r) k \<le> dget usage k) \<and>
        dget usage ''tool_calls'' = dget (r_usage r) ''tool_calls'' \<and>
        dget usage ''verifier_reads'' = dget (r_usage r) ''verifier_reads'')"

inductive run_step :: "env \<Rightarrow> db \<Rightarrow> db \<Rightarrow> bool" for env :: env where
  start: "start_investigation env d actor request = Inr (d', h) \<Longrightarrow> run_step env d d'"
| recover: "recover_investigation env d actor i = Inr (d', h) \<Longrightarrow> run_step env d d'"
| abort: "abort_investigation env d actor i = Inr (d', r) \<Longrightarrow> run_step env d d'"
| human: "continue_with_human_input env d actor i payload = Inr (d', h) \<Longrightarrow> run_step env d d'"
| fail_technical: "fail_run_technical env d actor i token code impact = Inr (d', r) \<Longrightarrow> run_step env d d'"
| fail_runtime: "set_failed_runtime env d actor i token reason payload = Inr (d', r) \<Longrightarrow> run_step env d d'"
| fail_contract: "set_failed_planner_contract env d actor i token code = Inr (d', r) \<Longrightarrow> run_step env d d'"
| wait: "set_waiting_human d actor i token reason payload = Inr (d', r) \<Longrightarrow> run_step env d d'"
| ready: "set_ready env d actor i token = Inr (d', r) \<Longrightarrow> run_step env d d'"
| planner: "apply_planner_state env d actor i token claims brief kind payload = Inr (d', r) \<Longrightarrow>
    run_step env d d'"
| counterevidence: "mark_counterevidence_processed d actor i token = Inr (d', r) \<Longrightarrow> run_step env d d'"
| relevance: "set_source_relevance env d actor i token supplied = Inr (d', r) \<Longrightarrow> run_step env d d'"
| brief: "materialize_brief_revision d actor i key expected = Inr (d', b) \<Longrightarrow> run_step env d d'"
| begin_step: "begin_tool_step env d actor i token tool params target finding v = Inr (d', b) \<Longrightarrow>
    run_step env d d'"
| fail_step: "fail_tool_step d actor i token seq generation e = Inr (d', u) \<Longrightarrow> run_step env d d'"
| finish_step: "finish_tool_step env d actor i token seq generation v payload = Inr (d', s) \<Longrightarrow>
    run_step env d d'"
| repeat: "record_action_state_repeat env d actor i token a = Inr (d', n) \<Longrightarrow> run_step env d d'"
| model: "get_run d i = Some r \<Longrightarrow> model_activity r r' \<Longrightarrow> run_step env d (save_run d r')"
| clock: "db_now d \<le> t \<Longrightarrow> run_step env d (d\<lparr>db_now := t\<rparr>)"
| tables: "db_next d \<le> n \<Longrightarrow> run_step env d (d\<lparr>db_next := n, db_processes := ps, db_folders := fs,
    db_snapshots := ss, db_captures := as, db_campaigns := cs, db_results := rs\<rparr>)"

abbreviation run_steps :: "env \<Rightarrow> db \<Rightarrow> db \<Rightarrow> bool" where
  "run_steps env \<equiv> (run_step env)\<^sup>*\<^sup>*"

definition initial_db :: "db \<Rightarrow> bool" where
  "initial_db d \<longleftrightarrow> db_runs d = []"

text \<open>Every step touches one run, starts one, or leaves the runs.\<close>

lemma evolves_model:
  assumes "model_activity r r'" shows "evolves env d r r'" "r_token r' = r_token r"
proof -
  obtain calls reports usage where r': "r' = r\<lparr>r_calls := calls, r_reports := reports, r_usage := usage\<rparr>"
    and up: "\<forall>k. dget (r_usage r) k \<le> dget usage k"
    and eq: "dget usage ''tool_calls'' = dget (r_usage r) ''tool_calls''"
      "dget usage ''verifier_reads'' = dget (r_usage r) ''verifier_reads''"
    using assms by (auto simp: model_activity_def)
  have "budget_ok r \<longrightarrow> budget_ok r'"
    using up eq unfolding budget_ok_def r' by (auto intro: order_trans)
  then show "evolves env d r r'" using up eq
    by (intro evolves_steps) (simp_all add: r' same_contract_def same_package_def)
  show "r_token r' = r_token r" by (simp add: r')
qed

lemma run_step_cases:
  assumes "run_step env d d'"
  obtains (touched) i where "touches env i d d'"
  | (started) actor request h where "start_investigation env d actor request = Inr (d', h)"
  | (around) "db_runs d' = db_runs d" "db_next d \<le> db_next d'"
  using assms
proof cases
  case (model i r r')
  show thesis
    by (rule touched [of i]) (use model evolves_model in \<open>auto intro: touches_saveI(1)\<close>)
qed (use touched started around in \<open>auto intro: recover_op.touches abort_op.touches continue_op.touches
    fail_technical_op.touches failed_op.touches failed_contract_op.touches waiting_op.touches
    ready_op.touches planner_op.touches mark_op.touches relevance_op.touches brief_op.touches
    begin_op.touches fail_step_op.touches finish_op.touches repeat_op.touches\<close>)

section \<open>The invariant\<close>

lemma db_ok_around:
  "db_runs d' = db_runs d \<Longrightarrow> db_next d \<le> db_next d' \<Longrightarrow> db_ok env d \<Longrightarrow> db_ok env d'"
  by (auto simp: db_ok_def intro: drawn_mono)

lemma run_step_db_ok:
  assumes "run_step env d d'" and "db_ok env d" and "inj (e_uuid env)"
  shows "db_ok env d'"
  using assms(1)
proof (cases rule: run_step_cases)
  case (touched i)
  then show ?thesis using assms(2) by (rule touches_db_ok)
next
  case (started actor request h)
  then show ?thesis using assms(2,3) by (rule start_db_ok)
next
  case around
  then show ?thesis using assms(2) db_ok_around by blast
qed

lemma initial_db_ok: "initial_db d \<Longrightarrow> db_ok env d"
  by (simp add: initial_db_def db_ok_def)

lemma run_steps_db_ok:
  "run_steps env d d' \<Longrightarrow> db_ok env d \<Longrightarrow> inj (e_uuid env) \<Longrightarrow> db_ok env d'"
  by (induction rule: rtranclp_induct) (auto intro: run_step_db_ok)

lemma reachable_ok:
  "run_steps env d0 d \<Longrightarrow> initial_db d0 \<Longrightarrow> inj (e_uuid env) \<Longrightarrow> db_ok env d"
  using run_steps_db_ok initial_db_ok by blast

section \<open>One run over time\<close>

text \<open>
  \<open>run_evolution\<close> relates a run to a later state of it: the contract is the same, the generation has
  not shrunk, a finished run kept its package, and the counters only grew.
\<close>

definition run_evolution :: "run \<Rightarrow> run \<Rightarrow> bool" where
  "run_evolution r r' \<longleftrightarrow> same_contract r r' \<and> r_generation r \<le> r_generation r' \<and>
     (\<not> is_active r \<longrightarrow> same_package r r') \<and>
     (\<forall>k. dget (r_usage r) k \<le> dget (r_usage r') k)"

lemma run_evolution_refl: "run_evolution r r"
  by (simp add: run_evolution_def same_contract_def same_package_def)

lemma run_evolution_trans:
  assumes "run_evolution r s" "run_evolution s t" shows "run_evolution r t"
proof -
  have "\<not> is_active r \<Longrightarrow> same_package r t"
  proof -
    assume n: "\<not> is_active r"
    then have rs: "same_package r s" using assms(1) by (simp add: run_evolution_def)
    with n have "\<not> is_active s" by (simp add: is_active_iff same_package_def)
    then have "same_package s t" using assms(2) by (simp add: run_evolution_def)
    with rs show "same_package r t" by (simp add: same_package_def)
  qed
  moreover have "same_contract r t"
    using assms by (simp add: run_evolution_def same_contract_def)
  moreover have "\<forall>k. dget (r_usage r) k \<le> dget (r_usage t) k"
    using assms unfolding run_evolution_def by (meson order_trans)
  ultimately show ?thesis using assms by (auto simp: run_evolution_def)
qed

lemma evolves_evolution: "evolves env d r r' \<Longrightarrow> run_evolution r r'"
  by (simp add: evolves_def run_evolution_def)

lemma touches_evolution:
  assumes t: "touches env i d d'" and g: "get_run d j = Some r"
  shows "\<exists>r'. get_run d' j = Some r' \<and> run_evolution r r'"
proof (cases "d' = d \<or> j \<noteq> i")
  case True
  then show ?thesis using touches_other [OF t] g run_evolution_refl by metis
next
  case False
  with t obtain s s' n where get: "get_run d i = Some s" and ev: "evolves env d s s'"
    and d': "d' = save_run (draws n d) s'"
    by (auto simp: touches_def)
  have id: "r_id s' = i"
    using ev get_run_SomeD [OF get] by (simp add: evolves_def same_contract_def)
  then have "get_run d' i = Some s'"
    using get_run_save_run [of "draws n d" s'] get by (simp add: d')
  then show ?thesis using False get g evolves_evolution [OF ev] by simp
qed

lemma run_step_evolution:
  assumes "run_step env d d'" and "get_run d j = Some r"
  shows "\<exists>r'. get_run d' j = Some r' \<and> run_evolution r r'"
  using assms(1)
proof (cases rule: run_step_cases)
  case (touched i)
  then show ?thesis using assms(2) by (rule touches_evolution)
next
  case (started actor request h)
  then have "get_run d' j = Some r"
    using assms(2) by (cases rule: start_cases) (auto simp: get_run_def find_append_case)
  then show ?thesis using run_evolution_refl by blast
next
  case around
  then show ?thesis using assms(2) run_evolution_refl by (auto simp: get_run_def)
qed

lemma run_steps_evolution:
  assumes "run_steps env d d'" and "get_run d j = Some r"
  shows "\<exists>r'. get_run d' j = Some r' \<and> run_evolution r r'"
  using assms
proof (induction rule: rtranclp_induct)
  case base
  then show ?case using run_evolution_refl by blast
next
  case (step d1 d2)
  then obtain r1 where "get_run d1 j = Some r1" "run_evolution r r1" by blast
  with run_step_evolution [OF step.hyps(2)] show ?case
    using run_evolution_trans by blast
qed

section \<open>Executor tokens\<close>

text \<open>\<open>token_since env n s\<close>: an identifier drawn when \<open>n\<close> were drawn already, or later.\<close>

definition token_since :: "env \<Rightarrow> nat \<Rightarrow> string \<Rightarrow> bool" where
  "token_since env n s \<longleftrightarrow> (\<exists>m\<ge>n. s = e_uuid env m)"

lemma touches_token_since:
  assumes t: "touches env j d d'" and g: "get_run d i = Some r"
    and s: "token_since env n (r_token r)" and n: "n \<le> db_next d"
  shows "\<exists>r'. get_run d' i = Some r' \<and> token_since env n (r_token r') \<and> n \<le> db_next d'"
proof (cases "d' = d \<or> i \<noteq> j")
  case True
  have "db_next d \<le> db_next d'" using t by (auto simp: touches_def)
  with True touches_other [OF t, of i] g s n show ?thesis by (auto simp del: touches_def)
next
  case False
  with t obtain q q' k where get: "get_run d j = Some q" and ev: "evolves env d q q'"
    and d': "d' = save_run (draws k d) q'"
    and tok: "r_token q' = r_token q \<or> (\<exists>m. db_next d \<le> m \<and> m < db_next d + k \<and> r_token q' = e_uuid env m)"
    by (auto simp: touches_def)
  have q: "q = r" using get g False by simp
  have "r_id q' = j"
    using ev get_run_SomeD [OF get] by (simp add: evolves_def same_contract_def)
  then have "get_run d' i = Some q'"
    using get_run_save_run [of "draws k d" q'] get False by (simp add: d')
  moreover have "token_since env n (r_token q')"
    using tok s n unfolding q token_since_def by (metis order_trans)
  moreover have "n \<le> db_next d'" using n by (simp add: d')
  ultimately show ?thesis by blast
qed

lemma run_step_token_since:
  assumes "run_step env d d'" and g: "get_run d i = Some r"
    and s: "token_since env n (r_token r)" and n: "n \<le> db_next d"
  shows "\<exists>r'. get_run d' i = Some r' \<and> token_since env n (r_token r') \<and> n \<le> db_next d'"
  using assms(1)
proof (cases rule: run_step_cases)
  case (touched j)
  then show ?thesis using g s n by (rule touches_token_since)
next
  case (started actor request h)
  then have "get_run d' i = Some r \<and> n \<le> db_next d'"
    using g n by (cases rule: start_cases) (auto simp: get_run_def find_append_case)
  then show ?thesis using s by blast
next
  case around
  then show ?thesis using g s n by (auto simp: get_run_def)
qed

lemma run_steps_token_since:
  assumes "run_steps env d d'" and "get_run d i = Some r"
    and "token_since env n (r_token r)" and "n \<le> db_next d"
  shows "\<exists>r'. get_run d' i = Some r' \<and> token_since env n (r_token r') \<and> n \<le> db_next d'"
  using assms
proof (induction rule: rtranclp_induct)
  case base
  then show ?case by blast
next
  case (step d1 d2)
  then obtain r1 where "get_run d1 i = Some r1" "token_since env n (r_token r1)" "n \<le> db_next d1"
    by blast
  from run_step_token_since [OF step.hyps(2) this] show ?case .
qed

text \<open>What a run's executors held before is not drawn again.\<close>

lemma drawn_not_since:
  "drawn env d s \<Longrightarrow> inj (e_uuid env) \<Longrightarrow> \<not> token_since env (db_next d) s"
  by (auto simp: drawn_def token_since_def dest: injD)

text \<open>The transactions that hand a run to a new executor, or close it.\<close>

definition rotates :: "env \<Rightarrow> db \<Rightarrow> string \<Rightarrow> db \<Rightarrow> bool" where
  "rotates env d i d' \<longleftrightarrow>
     (\<exists>actor h. recover_investigation env d actor i = Inr (d', h)) \<or>
     (\<exists>actor payload h. continue_with_human_input env d actor i payload = Inr (d', h)) \<or>
     (\<exists>actor r. abort_investigation env d actor i = Inr (d', r) \<and> d' \<noteq> d) \<or>
     (\<exists>actor token code impact r. fail_run_technical env d actor i token code impact = Inr (d', r)) \<or>
     (\<exists>actor token r. set_ready env d actor i token = Inr (d', r))"

lemma token_new_executor: "db_next d \<le> db_next d' \<Longrightarrow> token_since env (db_next d) (r_token (new_executor env d' r))"
  by (auto simp: new_executor_def token_since_def fresh_def)

lemma rotates_token:
  assumes "rotates env d i d'"
  shows "run_step env d d' \<and> (\<exists>r'. get_run d' i = Some r' \<and> token_since env (db_next d) (r_token r')) \<and>
    db_next d \<le> db_next d'"
proof -
  have new: "get_run (save_run e (new_executor env f r')) i = Some (new_executor env f r') \<and>
      token_since env (db_next d) (r_token (new_executor env f r'))"
    if "get_run d i = Some r" "r_id r' = r_id r" "db_next d \<le> db_next f" "db_runs e = db_runs d" for e f r r'
  proof -
    have "r_id (new_executor env f r') = i"
      using that(2) get_run_SomeD [OF that(1)] by (simp add: new_executor_def)
    moreover have "get_run e i = Some r" using that(1,4) by (simp add: get_run_def)
    ultimately show ?thesis
      using get_run_save_run [of e "new_executor env f r'"] token_new_executor [OF that(3)] by simp
  qed
  from assms show ?thesis
    unfolding rotates_def
  proof (elim disjE exE conjE)
    fix actor h assume a: "recover_investigation env d actor i = Inr (d', h)"
    then obtain r where "get_run d i = Some r" "d' = save_run (draw d) (new_executor env d r)"
      by (auto simp: recover_investigation_def bindR_eq_Inr locked_run_eq_Inr Let_def)
    with new [of r r d "draw d"] run_step.recover [OF a] show ?thesis by auto
  next
    fix actor payload h assume a: "continue_with_human_input env d actor i payload = Inr (d', h)"
    then obtain r inputs n g where "get_run d i = Some r" "d' = save_run (draw (draw d))
      (new_executor env (draw d) (r\<lparr>r_inputs := inputs, r_register_revision := n, r_register_hash := g,
        r_status := Running, r_reason := [], r_clarification := []\<rparr>))"
      unfolding continue_with_human_input_def bindR_eq_Inr locked_run_eq_Inr Let_def by fastforce
    with new [of r "r\<lparr>r_inputs := inputs, r_register_revision := n, r_register_hash := g,
        r_status := Running, r_reason := [], r_clarification := []\<rparr>" "draw d" "draw (draw d)"]
      run_step.human [OF a] show ?thesis by auto
  next
    fix actor r assume a: "abort_investigation env d actor i = Inr (d', r)" "d' \<noteq> d"
    then obtain q where "get_run d i = Some q" "d' = save_run (draw d) (new_executor env d
      (q\<lparr>r_status := Aborted, r_finished := Some (db_now d)\<rparr>))"
      by (auto simp: abort_investigation_def bindR_eq_Inr locked_run_eq_Inr Let_def split: if_split_asm)
    with new [of q "q\<lparr>r_status := Aborted, r_finished := Some (db_now d)\<rparr>" d "draw d"] run_step.abort [OF a(1)]
    show ?thesis by auto
  next
    fix actor token code impact r assume a: "fail_run_technical env d actor i token code impact = Inr (d', r)"
    then obtain q p where "get_run d i = Some q" "d' = save_run (draw d) (new_executor env d
      (q\<lparr>r_status := Failed, r_reason := ''technical_failure'', r_clarification := p, r_finished := Some (db_now d)\<rparr>))"
      by (auto simp: fail_run_technical_def close_failed_def bindR_eq_Inr executor_run_eq_Inr Let_def)
    with new [of q "q\<lparr>r_status := Failed, r_reason := ''technical_failure'', r_clarification := p, r_finished := Some (db_now d)\<rparr>" d "draw d"] run_step.fail_technical [OF a]
    show ?thesis by auto
  next
    fix actor token r assume a: "set_ready env d actor i token = Inr (d', r)"
    then obtain q where "get_run d i = Some q" "d' = save_run (draw d) (new_executor env d
      (q\<lparr>r_status := Ready, r_finished := Some (db_now d)\<rparr>))"
      by (auto simp: set_ready_def bindR_eq_Inr executor_run_eq_Inr Let_def)
    with new [of q "q\<lparr>r_status := Ready, r_finished := Some (db_now d)\<rparr>" d "draw d"] run_step.ready [OF a]
    show ?thesis by auto
  qed
qed

text \<open>So an executor that lost its run never gets it back.\<close>

lemma fenced_token:
  assumes ok: "db_ok env d" and inj: "inj (e_uuid env)" and g: "get_run d i = Some r"
    and rot: "rotates env d i d1" and st: "run_steps env d1 d2"
  shows "\<exists>r2. get_run d2 i = Some r2 \<and> r_token r2 \<noteq> r_token r"
proof -
  from rotates_token [OF rot] obtain r1 where "get_run d1 i = Some r1"
    "token_since env (db_next d) (r_token r1)" "db_next d \<le> db_next d1"
    by blast
  from run_steps_token_since [OF st this] obtain r2 where r2: "get_run d2 i = Some r2"
    "token_since env (db_next d) (r_token r2)"
    by blast
  have "drawn env d (r_token r)"
    using ok get_run_SomeD [OF g] by (auto simp: db_ok_def)
  with drawn_not_since inj r2 show ?thesis by metis
qed

end
