(* ===== verification/Investigation_Sample.thy ===== *)
theory Investigation_Sample
  imports Investigation_System
begin

text \<open>
  A concrete process with a folder, a snapshot of two sources, its owner, and the database after the
  owner started a run: the inputs at which the properties of the runtime are applied. The hash is a
  cheap stand-in that keeps three characters; the theorems hold for any.
\<close>

definition sample_env :: env where
  "sample_env = \<lparr>e_hash = (\<lambda>s. take 3 (rev s)),
     e_pk = (\<lambda>v. case v of JStr s \<Rightarrow> Inr (Some s) | _ \<Rightarrow> Inr None),
     e_uuid = (\<lambda>n. replicate (Suc n) CHR ''u''), e_collation = (\<lambda>s. s),
     e_instruction = (\<lambda>role. case role of Planner \<Rightarrow> ''plan'' | Synthesizer \<Rightarrow> ''write'' | Verifier \<Rightarrow> ''check''),
     e_model = [], e_runtime = JObj []\<rparr>"

definition sample_actor :: "user option" where
  "sample_actor = Some \<lparr>u_id = Some 1, u_authenticated = True, u_active = True,
     u_superuser = False, u_anonymized = False, u_groups = [group_business_owner]\<rparr>"

definition sample_csv :: source where
  "sample_csv = \<lparr>src_id = ''s1'', src_filename = ''costs.csv'', src_type = ''csv'',
     src_content = ''id,cost'' @ [lf] @ ''a,5'' @ [lf] @ ''b,7'' @ [lf], src_sha256 = ''h1'',
     src_columns = [''id'', ''cost''], src_row_count = Some 2, src_column_count = Some 2,
     src_size = 16, src_mtime = Some 900000, src_duplicate_of = None\<rparr>"

definition sample_text :: source where
  "sample_text = \<lparr>src_id = ''s2'', src_filename = ''notes.txt'', src_type = ''txt'',
     src_content = ''first'' @ [lf] @ ''second'' @ [lf], src_sha256 = ''h2'',
     src_columns = [], src_row_count = None, src_column_count = None, src_size = 13,
     src_mtime = Some 900000, src_duplicate_of = None\<rparr>"

definition sample_snapshot :: snapshot where
  "sample_snapshot = \<lparr>snap_id = ''n1'', snap_process = Some ''p1'', snap_capture = None,
     snap_revision = 1, snap_folder = ''f1'',
     snap_sources = [sample_csv, sample_text], snap_manifest_hash = ''m1'',
     snap_question = ''Why?'', snap_process_version = Some 3,
     snap_run_limits = [(''max_tool_calls'', JInt 5)], snap_context = JObj [],
     snap_created = 900000\<rparr>"

definition sample_db0 :: db where
  "sample_db0 = \<lparr>db_now = 1000000, db_next = 0,
     db_processes = [\<lparr>proc_id = ''p1'', proc_draft = True, proc_version = 3, proc_owner = Some 1,
       proc_stage = ''g1'', proc_stream = ''v1'', proc_texts = [(''name'', JStr ''Billing'')],
       proc_updated = 900000, proc_options = []\<rparr>],
     db_folders = [\<lparr>fo_id = ''f1'', fo_process = Some ''p1'', fo_capture = None, fo_name = ''files'',
       fo_root = ''/data'', fo_active = True\<rparr>],
     db_snapshots = [sample_snapshot], db_captures = [], db_campaigns = [], db_results = [], db_runs = []\<rparr>"

definition sample_request :: start_request where
  "sample_request = \<lparr>sr_snapshot = JStr ''n1'', sr_key = JStr ''key'', sr_campaign = None,
     sr_mode = [], sr_metadata = [], sr_brief_required = True, sr_replay = False, sr_obligations = []\<rparr>"

definition sample_run :: run where
  "sample_run = \<lparr>r_id = ''u'', r_process = ''p1'', r_snapshot = sample_snapshot, r_campaign = None,
     r_mode = ''adaptive'', r_key = ''key'', r_status = Running, r_process_version = 3,
     r_loop_version = loop_version, r_policy_version = policy_version, r_budget_version = budget_version,
     r_execution = base_execution_snapshot sample_env sample_snapshot ((''max_tool_calls'', 5) # tl default_budget)
       (hd (db_processes sample_db0)) ''adaptive'' None [] True False [],
     r_question = ''Why?'', r_contract_hash = ''}]['', r_manifest_hash = ''m1'',
     r_limits = (''max_tool_calls'', 5) # tl default_budget, r_usage = initial_usage,
     r_fingerprint = None, r_repeat = 0, r_brief_required = True, r_replay = False,
     r_obligations = [], r_claims = [], r_relevance = [], r_register_revision = 1,
     r_register_hash = ''}}{'', r_brief = [], r_brief_revision = 1, r_brief_hash = ''}{'',
     r_data_check = False, r_counter_search = False, r_counter_processed = False,
     r_relevance_complete = False, r_streak = 0, r_token = ''uu'', r_generation = 1, r_reason = [],
     r_clarification = [], r_started = 1000000, r_finished = None, r_last_progress = None,
     r_steps = [], r_calls = [], r_reports = [], r_inputs = [], r_briefs = []\<rparr>"

definition sample_db :: db where
  "sample_db = sample_db0\<lparr>db_next := 2, db_runs := [sample_run]\<rparr>"

lemma sample_start:
  "start_investigation sample_env sample_db0 sample_actor sample_request =
     Inr (sample_db, \<lparr>h_run = ''u'', h_token = ''uu'', h_generation = 1, h_status = Running,
       h_reused = False\<rparr>)"
  by code_simp

lemma inj_sample_uuid: "inj (e_uuid sample_env)"
  by (simp add: inj_def sample_env_def)

lemma initial_sample_db0: "initial_db sample_db0"
  by (simp add: initial_db_def sample_db0_def)

lemma sample_db_steps: "run_steps sample_env sample_db0 sample_db"
  using run_step.start [OF sample_start] by blast

lemma sample_db_ok: "db_ok sample_env sample_db"
  using reachable_ok [OF sample_db_steps initial_sample_db0 inj_sample_uuid] .

lemma sample_run: "get_run sample_db ''u'' = Some sample_run"
  by (simp add: get_run_def sample_db_def sample_run_def)

text \<open>A transaction that is known to succeed, by its result.\<close>

definition result_db :: "db \<Rightarrow> 'a txn \<Rightarrow> db" where
  "result_db d t = (case t of Inr (d', x) \<Rightarrow> d' | Inl e \<Rightarrow> d)"

definition succeeds :: "'a txn \<Rightarrow> bool" where
  "succeeds t = (case t of Inr x \<Rightarrow> True | Inl e \<Rightarrow> False)"

lemma succeedsD: "succeeds t \<Longrightarrow> \<exists>x. t = Inr (result_db d t, x)"
  by (auto simp: succeeds_def result_db_def split: sum.splits)

lemma map_sum_InrD: "map_sum id f t = Inr y \<Longrightarrow> \<exists>x. t = Inr x \<and> f x = y"
  by (cases t) auto

text \<open>The run with a call in flight, after its recovery, and aborted.\<close>

definition sample_begin :: "begun txn" where
  "sample_begin = begin_tool_step sample_env sample_db sample_actor ''u'' ''uu'' ''search_sources''
     [(''query'', JStr ''alternative''), (''limit'', JInt 5)] ''c1'' [] False"

definition sample_busy :: db where
  "sample_busy = result_db sample_db sample_begin"

definition sample_recovery :: "handle txn" where
  "sample_recovery = recover_investigation sample_env sample_busy sample_actor ''u''"

definition sample_recovered :: db where
  "sample_recovered = result_db sample_busy sample_recovery"

definition sample_aborted :: db where
  "sample_aborted = result_db sample_db (abort_investigation sample_env sample_db sample_actor ''u'')"

lemma sample_busy: "\<exists>b. sample_begin = Inr (sample_busy, b)"
proof -
  have "succeeds sample_begin" by code_simp
  then show ?thesis unfolding sample_busy_def by (rule succeedsD)
qed

lemma sample_recovered: "\<exists>h. sample_recovery = Inr (sample_recovered, h)"
proof -
  have "succeeds sample_recovery" by code_simp
  then show ?thesis unfolding sample_recovered_def by (rule succeedsD)
qed

lemma sample_aborted: "\<exists>r. abort_investigation sample_env sample_db sample_actor ''u'' = Inr (sample_aborted, r)"
proof -
  have "succeeds (abort_investigation sample_env sample_db sample_actor ''u'')" by code_simp
  then show ?thesis unfolding sample_aborted_def by (rule succeedsD)
qed

lemma sample_busy_steps: "run_steps sample_env sample_db sample_busy"
  using sample_busy run_step.begin_step unfolding sample_begin_def by (metis r_into_rtranclp)

lemma sample_aborted_steps: "run_steps sample_env sample_db sample_aborted"
  using sample_aborted run_step.abort by (metis r_into_rtranclp)

text \<open>A run whose package a verifier accepted, and the database that holds it.\<close>

definition sample_claim :: claim where
  "sample_claim = \<lparr>cl_id = ''c1'', cl_statement = ''Costs rose'', cl_area = ''problem_context'',
     cl_kind = ''fact'', cl_critical = True, cl_status = ''supported'',
     cl_evidence = [[(''source_id'', JStr ''s1'')]], cl_counter = [], cl_assumption = [],
     cl_references_valid = True, cl_change_guard_valid = True, cl_premise = False, cl_metadata = []\<rparr>"

definition sample_report :: "run \<Rightarrow> report" where
  "sample_report r = \<lparr>rp_revision = 1, rp_success = True, rp_findings = JList [], rp_critical = 0,
     rp_references_valid = True, rp_checked = [''c1''],
     rp_hashes = [(''contract'', r_contract_hash r), (''manifest'', r_manifest_hash r),
       (''register'', r_register_hash r), (''brief'', r_brief_hash r)], rp_created = 1000000, rp_call = ''q1'', rp_generation = 1\<rparr>"

definition sample_package :: run where
  "sample_package = (let r = sample_run\<lparr>r_brief_required := False, r_claims := [sample_claim],
     r_register_hash := register_hash sample_env [sample_claim] [] 0, r_relevance_complete := True\<rparr> in
     r\<lparr>r_reports := [sample_report r]\<rparr>)"

definition sample_package_db :: db where
  "sample_package_db = save_run sample_db sample_package"

definition sample_ready :: db where
  "sample_ready = result_db sample_package_db (set_ready sample_env sample_package_db sample_actor ''u'' ''uu'')"

lemma sample_package: "get_run sample_package_db ''u'' = Some sample_package"
proof -
  have "r_id sample_package = ''u''" by code_simp
  then show ?thesis
    using get_run_save_run [of sample_db sample_package] sample_run by (simp add: sample_package_db_def)
qed

lemma sample_ready: "\<exists>r. set_ready sample_env sample_package_db sample_actor ''u'' ''uu'' = Inr (sample_ready, r)"
proof -
  have "succeeds (set_ready sample_env sample_package_db sample_actor ''u'' ''uu'')" by code_simp
  then show ?thesis unfolding sample_ready_def by (rule succeedsD)
qed

text \<open>A hash without collisions, where a witness needs one.\<close>

definition strict_env :: env where
  "strict_env = sample_env\<lparr>e_hash := (\<lambda>s. s)\<rparr>"

definition strict_package :: run where
  "strict_package = sample_package\<lparr>r_brief_hash := brief_hash strict_env [],
     r_register_hash := register_hash strict_env [sample_claim] [] 0\<rparr>"

lemma strict_package_ok: "run_ok strict_env strict_package"
proof -
  have "budget_ok sample_run"
    using sample_db_ok get_run_SomeD [OF sample_run] by (simp add: db_ok_def run_ok_def)
  moreover have "obligations_ok sample_snapshot []" by (simp add: obligations_ok_def)
  ultimately show ?thesis
    by (simp add: strict_package_def sample_package_def Let_def sample_run_def run_ok_def budget_ok_def
        hashes_ok_def is_active_iff)
qed

text \<open>A successful step.\<close>

definition sample_step :: "int \<Rightarrow> string \<Rightarrow> obj \<Rightarrow> json \<Rightarrow> step" where
  "sample_step n tool params payload = \<lparr>st_sequence = n, st_key = int_text n, st_claim = ''c1'',
     st_finding = [], st_tool = tool, st_parameters = params, st_status = Step_Success,
     st_attempts = 1, st_history = [], st_generation = 1, st_payload = payload, st_hash = ''h'',
     st_result_ref = JObj [], st_progress_kind = ''none'', st_progress_payload = [], st_error = [],
     st_started = 1000000, st_finished = Some 1000000\<rparr>"

end
