(* ===== verification/Investigation_Properties.thy ===== *)
theory Investigation_Properties
  imports Investigation_Sample
begin

text \<open>
  What the runtime guarantees about runs: properties of single operations, and of every database the
  transactions reach. The concrete inputs come from \<open>Investigation_Sample\<close>.
\<close>

section \<open>Starting a run\<close>

text \<open>Only the tables around the runs decide the scope of a start.\<close>

lemma start_scope_cong:
  "db_processes d' = db_processes d \<Longrightarrow> db_folders d' = db_folders d \<Longrightarrow>
     db_snapshots d' = db_snapshots d \<Longrightarrow> start_scope env d' actor request = start_scope env d actor request"
  by (simp add: start_scope_def authorized_snapshot_def snapshot_access_def [abs_def] get_process_def
      [abs_def] get_folder_def folder_active_def cong: option.case_cong)

text \<open>What a start that passed its checks knows.\<close>

lemma start_scopeD:
  assumes "start_scope env d actor request = Inr (key, snap, limits, p, obs)"
  shows "\<exists>u. actor = Some u \<and> can_edit_value_stream u (proc_owner p)"
    "proc_draft p" "folder_active d (snap_folder snap)"
    "\<exists>i. snap_process snap = Some i \<and> get_process d i = Some p" 
  using assms
  by (auto simp: start_scope_def bindR_eq_Inr raise_if_eq_Inr actor_edits_def
      split: option.split_asm bind_split_asm)

text \<open>A start that creates a run: what the row holds, and the scope it was created in.\<close>

lemma start_createdD:
  assumes s: "start_investigation env d actor request = Inr (d', h)" and new: "\<not> h_reused h"
  obtains key snap limits p obs r where
    "start_scope env d actor request = Inr (key, snap, limits, p, obs)"
    "same_run d p key = None" "d' = (draw (draw d))\<lparr>db_runs := db_runs d @ [r]\<rparr>" "h = handle_of r False"
    "r_process r = proc_id p" "r_key r = key" "r_snapshot r = snap"
    "is_evidence_run r = (sr_campaign request \<noteq> None)"
    "r_contract_hash r = content_hash (e_hash env) (contract_payload snap limits obs)"
proof -
  from s obtain key snap limits p obs where
    sc: "start_scope env d actor request = Inr (key, snap, limits, p, obs)"
    and rest: "reserve_run env d actor request key snap limits p obs = Inr (d', h)"
    by (auto simp: start_investigation_def bindR_eq_Inr)
  note rest = rest [unfolded reserve_run_def Let_def]
  have none: "same_run d p key = None" "active_run d p (sr_campaign request \<noteq> None) = None"
    using rest new by (auto simp: handle_of_def split: option.split_asm if_split_asm)
  with rest obtain mode campaign version where
    c: "start_campaign env d p (sr_campaign request) = Inr campaign"
    and d': "d' = (draw (draw d))\<lparr>db_runs := db_runs d @ [new_run env d p snap version key mode campaign
      request limits obs (content_hash (e_hash env) (contract_payload snap limits obs))]\<rparr>"
    and h: "h = handle_of (new_run env d p snap version key mode campaign request limits obs
      (content_hash (e_hash env) (contract_payload snap limits obs))) False"
    by (auto simp: Let_def create_run_def bindR_eq_Inr split: option.split_asm)
  have "(campaign \<noteq> None) = (sr_campaign request \<noteq> None)"
    using c by (auto simp: start_campaign_def bindR_eq_Inr split: option.split_asm if_split_asm)
  then show thesis
    by (intro that [OF sc none(1) d' h]) (simp_all add: new_run_def is_evidence_run_def)
qed

text \<open>
  Starting is idempotent: when a start succeeds and the same request is made again in the database
  it left, the second call returns the run of the first, marked as reused, and changes nothing.
\<close>

theorem start_idempotent:
  assumes s: "start_investigation env d actor request = Inr (d', h)" and pk: "actor_has_pk actor"
  shows "start_investigation env d' actor request = Inr (d', h\<lparr>h_reused := True\<rparr>)"
proof (cases "h_reused h")
  case True
  with s have "d' = d" "h\<lparr>h_reused := True\<rparr> = h"
    by (cases rule: start_cases; simp add: handle_of_def)+
  with s show ?thesis by simp
next
  case False
  obtain key snap limits p obs r where
    sc: "start_scope env d actor request = Inr (key, snap, limits, p, obs)" and none: "same_run d p key = None"
    and d': "d' = (draw (draw d))\<lparr>db_runs := db_runs d @ [r]\<rparr>" and h: "h = handle_of r False"
    and r: "r_process r = proc_id p" "r_key r = key" "r_snapshot r = snap"
      "is_evidence_run r = (sr_campaign request \<noteq> None)"
      "r_contract_hash r = content_hash (e_hash env) (contract_payload snap limits obs)"
    by (rule start_createdD [OF s False])
  have scope: "start_scope env d' actor request = Inr (key, snap, limits, p, obs)"
    using start_scope_cong [of d' d env actor request] sc by (simp add: d')
  have same: "same_run d' p key = Some r"
    using none r(1,2) by (simp add: same_run_def d' find_append_case)
  have tables: "get_process d' = get_process d" "folder_active d' = folder_active d"
    by (simp_all add: get_process_def [abs_def] folder_active_def [abs_def] get_folder_def d')
  obtain i where i: "snap_process snap = Some i" "get_process d i = Some p" using start_scopeD [OF sc] by blast
  then have "proc_id p = i" by (auto simp: get_process_def dest: find_SomeD)
  with i have "actor_can_edit_run d actor r"
    using start_scopeD(1-3) [OF sc] pk r(1,3) by (auto simp: actor_can_edit_run_def actor_has_pk_def)
  then have "actor_can_edit_run d' actor r" unfolding actor_can_edit_run_def tables .
  then show ?thesis
    unfolding start_investigation_def scope
    using r by (simp add: reserve_run_def same h handle_of_def)
qed

theorem start_idempotent_witness:
  "\<exists>h. start_investigation sample_env sample_db0 sample_actor sample_request = Inr (sample_db, h) \<and>
     start_investigation sample_env sample_db sample_actor sample_request =
       Inr (sample_db, h\<lparr>h_reused := True\<rparr>)"
proof -
  obtain h where s: "start_investigation sample_env sample_db0 sample_actor sample_request = Inr (sample_db, h)"
    using sample_start by blast
  have "actor_has_pk sample_actor" by code_simp
  from start_idempotent [OF s this] s show ?thesis by blast
qed

section \<open>Every reachable database\<close>

text \<open>
  C2. Mutual exclusion: in every database the transactions reach from an empty one, in any
  interleaving of any number of users and executors, two active runs of the same process and purpose
  (with or without an evidence campaign) are one run.
\<close>

theorem one_active_run:
  assumes "initial_db d0" and "run_steps env d0 d" and "inj (e_uuid env)"
    and "r \<in> set (db_runs d)" and "r' \<in> set (db_runs d)" and "r_process r = r_process r'"
    and "is_active r" and "is_active r'" and "is_evidence_run r = is_evidence_run r'"
  shows "r = r'"
proof -
  have ok: "db_ok env d" using reachable_ok [OF assms(2,1,3)] .
  have "rivals r r'" using assms by (simp add: rivals_def)
  with ok assms(4,5) have "r_id r = r_id r'" by (auto simp: db_ok_def)
  moreover have "get_run d (r_id r) = Some r" "get_run d (r_id r') = Some r'"
    using ok assms(4,5) get_run_unique unfolding db_ok_def by blast+
  ultimately show ?thesis by (metis option.inject)
qed

theorem one_active_run_witness:
  "hd (db_runs sample_db) = sample_run \<and> is_active sample_run"
proof -
  have mem: "hd (db_runs sample_db) \<in> set (db_runs sample_db)" "sample_run \<in> set (db_runs sample_db)"
    using get_run_SomeD [OF sample_run] by (auto simp: sample_db_def)
  have same: "r_process (hd (db_runs sample_db)) = r_process sample_run"
    "is_evidence_run (hd (db_runs sample_db)) = is_evidence_run sample_run"
    "is_active (hd (db_runs sample_db))" "is_active sample_run"
    by code_simp+
  show ?thesis
    using one_active_run [OF initial_sample_db0 sample_db_steps inj_sample_uuid mem same(1,3,4,2)] same(4) by blast
qed

text \<open>
  C14. The budget holds in every reachable database: the booked tool calls stay within the limit of the
  run, which stays within the default frame of forty, and the same holds for the reads of the verifier.
\<close>

theorem reachable_budget:
  assumes "initial_db d0" and "run_steps env d0 d" and "inj (e_uuid env)" and "r \<in> set (db_runs d)"
  shows "0 \<le> dget (r_usage r) ''tool_calls'' \<and>
    dget (r_usage r) ''tool_calls'' \<le> dget (r_limits r) ''max_tool_calls'' \<and>
    dget (r_limits r) ''max_tool_calls'' \<le> 40 \<and>
    dget (r_usage r) ''verifier_reads'' \<le> dget (r_limits r) ''max_verifier_reads'' \<and>
    dget (r_limits r) ''max_verifier_reads'' \<le> 40"
proof -
  have "budget_ok r"
    using reachable_ok [OF assms(2,1,3)] assms(4) by (simp add: db_ok_def run_ok_def)
  moreover have "dget default_budget ''max_tool_calls'' = 40" "dget default_budget ''max_verifier_reads'' = 40"
    by (simp_all add: default_budget_def)
  ultimately show ?thesis unfolding budget_ok_def by metis
qed

theorem reachable_budget_witness:
  "dget (r_limits sample_run) ''max_tool_calls'' = 5 \<and>
   dget (r_usage sample_run) ''tool_calls'' \<le> dget (r_limits sample_run) ''max_tool_calls''"
proof -
  have mem: "sample_run \<in> set (db_runs sample_db)" using get_run_SomeD [OF sample_run] by blast
  have "dget (r_limits sample_run) ''max_tool_calls'' = 5" by code_simp
  with reachable_budget [OF initial_sample_db0 sample_db_steps inj_sample_uuid mem] show ?thesis by simp
qed

text \<open>
  C16. The stored hashes are true in every reachable database: the brief hash of a run is the hash of its
  brief, and the register hash is the hash of its claims, its source relevance and its input count,
  whatever transactions changed them. The stop policy and the verifier compare these hashes.
\<close>

theorem reachable_hashes:
  assumes "initial_db d0" and "run_steps env d0 d" and "inj (e_uuid env)" and "r \<in> set (db_runs d)"
  shows "r_brief_hash r = brief_hash env (r_brief r) \<and>
    r_register_hash r = register_hash env (r_claims r) (r_relevance r) (length (r_inputs r))"
  using reachable_ok [OF assms(2,1,3)] assms(4) by (simp add: db_ok_def run_ok_def hashes_ok_def)

theorem reachable_hashes_witness:
  "r_brief_hash sample_run = brief_hash sample_env (r_brief sample_run) \<and>
   r_brief_hash sample_run = ''}{''"
proof -
  have mem: "sample_run \<in> set (db_runs sample_db)" using get_run_SomeD [OF sample_run] by blast
  have "r_brief_hash sample_run = ''}{''" by code_simp
  with reachable_hashes [OF initial_sample_db0 sample_db_steps inj_sample_uuid mem] show ?thesis by simp
qed

section \<open>One run over time\<close>

text \<open>
  The contract of a run is immutable and its counters only grow: whatever transactions run, the run
  keeps its process, snapshot, question, limits, obligations, contract and manifest hashes and its
  start, and no usage counter falls.
\<close>

theorem contract_immutable:
  assumes "run_steps env d d'" and "get_run d i = Some r"
  shows "\<exists>r'. get_run d' i = Some r' \<and> same_contract r r' \<and>
    (\<forall>k. dget (r_usage r) k \<le> dget (r_usage r') k)"
  using run_steps_evolution [OF assms] by (auto simp: run_evolution_def)

theorem contract_immutable_witness:
  "\<exists>r'. get_run sample_busy ''u'' = Some r' \<and> same_contract sample_run r'"
  using contract_immutable [OF sample_busy_steps sample_run] by blast

text \<open>
  C9. A finished run is frozen: once a run is ready, aborted or failed, no transaction changes its
  status, claims, relevance, brief, inputs, hashes, reason or end, so a decision rests on the package
  that was judged.
\<close>

theorem finished_run_frozen:
  assumes "run_steps env d d'" and "get_run d i = Some r" and "\<not> is_active r"
  shows "\<exists>r'. get_run d' i = Some r' \<and> same_package r r' \<and> \<not> is_active r'"
  using run_steps_evolution [OF assms(1,2)] assms(3)
  by (auto simp: run_evolution_def same_package_def is_active_iff)

theorem finished_run_frozen_witness:
  "\<exists>r r'. get_run sample_aborted ''u'' = Some r \<and> r_status r = Aborted \<and>
     get_run (sample_aborted\<lparr>db_now := 2000000\<rparr>) ''u'' = Some r' \<and> same_package r r'"
proof -
  have "map_option r_status (get_run sample_aborted ''u'') = Some Aborted" by code_simp
  then obtain r where r: "get_run sample_aborted ''u'' = Some r" "r_status r = Aborted" by blast
  then have n: "\<not> is_active r" by (simp add: is_active_iff)
  have "db_now sample_aborted = 1000000" by code_simp
  then have s: "run_steps sample_env sample_aborted (sample_aborted\<lparr>db_now := 2000000\<rparr>)"
    by (intro r_into_rtranclp run_step.clock) simp
  from finished_run_frozen [OF s r(1) n] r show ?thesis by blast
qed

text \<open>
  C1. No path to READY around the policy: if any transaction turns a run that was not ready into a ready
  one, then in the database before it the run satisfied the whole contract of a decision package: no
  missing decision data, no blocker in the brief, every evidence claim grounded, every source
  classified, and a latest verifier report that accepts exactly the stored hashes.
\<close>

theorem ready_only_with_package:
  assumes "run_step env d d'" and "get_run d i = Some r" and "r_status r \<noteq> Ready"
    and "get_run d' i = Some r'" and "r_status r' = Ready"
  shows "run_ready env d r"
  using assms(1)
proof (cases rule: run_step_cases)
  case (touched j)
  show ?thesis
  proof (cases "d' = d \<or> i \<noteq> j")
    case True
    with touches_other [OF touched, of i] assms show ?thesis by auto
  next
    case False
    with touched obtain q q' k where get: "get_run d j = Some q" and ev: "evolves env d q q'"
      and d': "d' = save_run (draws k d) q'"
      by (auto simp: touches_def)
    have "r_id q' = j"
      using ev get_run_SomeD [OF get] by (simp add: evolves_def same_contract_def)
    then have "get_run d' i = Some q'"
      using get_run_save_run [of "draws k d" q'] get False by (simp add: d')
    with ev get False assms show ?thesis by (simp add: evolves_def)
  qed
next
  case (started actor request h)
  then have "get_run d' i = Some r"
    using assms(2) by (cases rule: start_cases) (auto simp: get_run_def find_append_case)
  with assms show ?thesis by simp
next
  case around
  then show ?thesis using assms by (simp add: get_run_def)
qed

theorem ready_only_with_package_witness:
  "run_ready sample_env sample_package_db sample_package \<and> r_status sample_package = Running"
proof -
  obtain x where x: "set_ready sample_env sample_package_db sample_actor ''u'' ''uu'' = Inr (sample_ready, x)"
    using sample_ready by blast
  have "map_option r_status (get_run sample_ready ''u'') = Some Ready" by code_simp
  then obtain r' where r': "get_run sample_ready ''u'' = Some r'" "r_status r' = Ready" by blast
  have n: "r_status sample_package = Running" by code_simp
  then have "r_status sample_package \<noteq> Ready" by simp
  from ready_only_with_package [OF run_step.ready [OF x] sample_package this r'] n show ?thesis by simp
qed

section \<open>Executors\<close>

text \<open>
  C3. Fencing: after a recovery, a human answer, an abort, a technical failure or the close of a run, the
  executor that held it before can never act on it again, whatever transactions follow: every
  operation that needs an executor refuses its token.
\<close>

theorem old_executor_fenced:
  assumes "initial_db d0" and "run_steps env d0 d" and "inj (e_uuid env)"
    and "get_run d i = Some r" and "rotates env d i d1" and "run_steps env d1 d2"
  shows "executor_run d2 actor i (r_token r) \<in>
    {Inl Permission_Denied, Inl (run_err ''run_terminal''), Inl (run_err ''stale_executor'')}"
proof -
  obtain r2 where r2: "get_run d2 i = Some r2" "r_token r2 \<noteq> r_token r"
    using fenced_token [OF reachable_ok [OF assms(2,1,3)] assms(3-6)] by blast
  then show ?thesis
    by (simp add: executor_run_def locked_run_def assert_active_def assert_executor_def raise_if_def)
qed

lemma sample_rotates: "rotates sample_env sample_busy ''u'' sample_recovered"
  using sample_recovered by (auto simp: rotates_def sample_recovery_def)

lemma sample_busy_reached: "run_steps sample_env sample_db0 sample_busy"
  using sample_db_steps sample_busy_steps by (rule rtranclp_trans)

theorem old_executor_fenced_witness:
  "executor_run sample_recovered sample_actor ''u'' ''uu'' = Inl (run_err ''stale_executor'') \<and>
   (\<exists>r. executor_run sample_busy sample_actor ''u'' ''uu'' = Inr r)"
proof -
  have "executor_run sample_busy sample_actor ''u'' ''uu'' \<noteq> Inl Permission_Denied"
    "map_sum id r_token (executor_run sample_busy sample_actor ''u'' ''uu'') = Inr ''uu''"
    "executor_run sample_recovered sample_actor ''u'' ''uu'' \<notin>
       {Inl Permission_Denied, Inl (run_err ''run_terminal'')}"
    by code_simp+
  moreover from this(2) obtain r where r: "executor_run sample_busy sample_actor ''u'' ''uu'' = Inr r" "r_token r = ''uu''"
    by (cases "executor_run sample_busy sample_actor ''u'' ''uu''") auto
  moreover from r(1) have "get_run sample_busy ''u'' = Some r" by (simp add: executor_run_eq_Inr)
  from old_executor_fenced [OF initial_sample_db0 sample_busy_reached inj_sample_uuid this sample_rotates
      rtranclp.rtrancl_refl, of sample_actor] r
  have "executor_run sample_recovered sample_actor ''u'' ''uu'' \<in>
    {Inl Permission_Denied, Inl (run_err ''run_terminal''), Inl (run_err ''stale_executor'')}" by simp
  ultimately show ?thesis by blast
qed

text \<open>
  C8. A result that arrives too late is discarded: when the run of a step was handed to a new executor
  meanwhile, storing the result marks the step as discarded with the code \<open>stale_executor\<close> and changes
  nothing else: not the other steps, the payload, the flags, the counters or the other runs.
\<close>

theorem late_result_discarded:
  assumes "initial_db d0" and "run_steps env d0 d" and "inj (e_uuid env)"
    and "get_run d i = Some r" and "rotates env d i d1" and "run_steps env d1 d2"
    and "finish_tool_step env d2 actor i (r_token r) seq generation v payload = Inr (d3, (stale, s))"
  shows "stale \<and> (\<exists>r2 s2. get_run d2 i = Some r2 \<and> get_step r2 seq = Some s2 \<and>
    s = s2\<lparr>st_status := Step_Discarded, st_finished := Some (db_now d2), st_error := ''stale_executor''\<rparr> \<and>
    d3 = save_run d2 (save_step r2 s))"
proof -
  obtain r2 where r2: "get_run d2 i = Some r2" "r_token r2 \<noteq> r_token r"
    using fenced_token [OF reachable_ok [OF assms(2,1,3)] assms(3-6)] by blast
  from assms(7) r2 obtain s2 where "get_step r2 seq = Some s2"
    by (cases "get_step r2 seq") (auto simp: finish_tool_step_def bindR_eq_Inr locked_run_eq_Inr)
  with assms(7) r2 show ?thesis
    by (auto simp: finish_tool_step_def bindR_eq_Inr locked_run_eq_Inr owns_run_def discarded_step_def Let_def)
qed

definition sample_late :: "(bool \<times> step) txn" where
  "sample_late = finish_tool_step sample_env sample_recovered sample_actor ''u'' ''uu'' 1 1 False
     (JObj [(''hits'', JList [])])"

theorem late_result_discarded_witness:
  "\<exists>d3 s. sample_late = Inr (d3, (True, s)) \<and> st_status s = Step_Discarded"
proof -
  have "succeeds sample_late" by code_simp
  then obtain d3 stale s where l: "sample_late = Inr (d3, (stale, s))"
    by (metis succeedsD surj_pair)
  have "map_option r_token (get_run sample_busy ''u'') = Some ''uu''" by code_simp
  then obtain r where r: "get_run sample_busy ''u'' = Some r" "r_token r = ''uu''" by blast
  have "finish_tool_step sample_env sample_recovered sample_actor ''u'' (r_token r) 1 1 False
     (JObj [(''hits'', JList [])]) = Inr (d3, (stale, s))"
    using l r(2) by (simp add: sample_late_def)
  from late_result_discarded [OF initial_sample_db0 sample_busy_reached inj_sample_uuid r(1) sample_rotates
      rtranclp.rtrancl_refl this]
  have "stale" "st_status s = Step_Discarded" by auto
  with l show ?thesis by auto
qed

section \<open>Human input\<close>







section \<open>Operations of an executor\<close>







end
