(* ===== verification/Investigation_Package_Properties.thy ===== *)
theory Investigation_Package_Properties
  imports Investigation_Sample
begin

text \<open>
  What the runtime guarantees about a decision package: the budget frame, the mapping obligations, the
  brief, the claim register and the source relevance.
\<close>

section \<open>Budget\<close>

text \<open>
  A snapshot can only tighten the default budget: every limit it yields lies between zero and the
  default, the keys are exactly the default ones, and verifier calls do not exceed model calls.
\<close>

theorem snapshot_budget_within_default:
  assumes "budget_from_snapshot raw = Inr b"
  shows "dict_keys b = dict_keys default_budget \<and> 0 \<le> dget b k \<and> dget b k \<le> dget default_budget k \<and>
    dget b ''max_verifier_calls'' \<le> dget b ''max_model_calls''"
  using budget_from_snapshot_bounds [OF assms] by blast

theorem snapshot_budget_within_default_witness:
  "\<exists>b. budget_from_snapshot [(''max_tool_calls'', JInt 7)] = Inr b \<and> dget b ''max_tool_calls'' = 7 \<and>
     dget b ''max_model_calls'' \<le> dget default_budget ''max_model_calls'' \<and>
     budget_from_snapshot [(''max_tool_calls'', JInt 41)] = Inl (run_err ''budget_expansion_forbidden'')"
proof -
  have e: "map_sum id (\<lambda>b. dget b ''max_tool_calls'') (budget_from_snapshot [(''max_tool_calls'', JInt 7)]) = Inr 7"
    "budget_from_snapshot [(''max_tool_calls'', JInt 41)] = Inl (run_err ''budget_expansion_forbidden'')"
    by code_simp+
  then obtain b where b: "budget_from_snapshot [(''max_tool_calls'', JInt 7)] = Inr b" "dget b ''max_tool_calls'' = 7"
    by (cases "budget_from_snapshot [(''max_tool_calls'', JInt 7)]") auto
  with e(2) snapshot_budget_within_default [OF b(1)] show ?thesis by blast
qed

definition reserve_le :: "reserve \<Rightarrow> reserve \<Rightarrow> bool" where
  "reserve_le a b \<longleftrightarrow> rv_model_calls a \<le> rv_model_calls b \<and> rv_input_tokens a \<le> rv_input_tokens b \<and>
     rv_output_tokens a \<le> rv_output_tokens b \<and> rv_seconds a \<le> rv_seconds b"

definition full_reserve :: "run \<Rightarrow> reserve" where
  "full_reserve r = \<lparr>rv_model_calls = dget (r_limits r) ''verifier_reserved_model_calls'',
     rv_input_tokens = dget (r_limits r) ''verifier_reserved_input_tokens'',
     rv_output_tokens = dget (r_limits r) ''verifier_reserved_output_tokens'',
     rv_seconds = dget (r_limits r) ''verifier_reserved_seconds''\<rparr>"

definition no_reserve :: reserve where
  "no_reserve = \<lparr>rv_model_calls = 0, rv_input_tokens = 0, rv_output_tokens = 0, rv_seconds = 0\<rparr>"

lemma proportional_mono: "0 < w \<Longrightarrow> 0 \<le> a \<Longrightarrow> p \<le> q \<Longrightarrow> proportional a p w \<le> proportional a q w"
  using mult_left_mono [of p q a] unfolding proportional_def by (intro zdiv_mono1) simp_all

lemma proportional_whole: "0 < w \<Longrightarrow> proportional a w w = a"
proof -
  assume w: "0 < w"
  have "(a * w + (w - 1)) div w = a" using w by (simp add: div_pos_pos_trivial)
  then show ?thesis by (simp add: proportional_def algebra_simps)
qed

text \<open>The reserve as a function of the verifier calls left.\<close>

definition reserve_for :: "budget \<Rightarrow> int \<Rightarrow> reserve" where
  "reserve_for limits left = (let reserved = dget limits ''verifier_reserved_model_calls'' in
     if left \<le> 0 then no_reserve
     else \<lparr>rv_model_calls = left,
       rv_input_tokens = proportional (dget limits ''verifier_reserved_input_tokens'') left reserved,
       rv_output_tokens = proportional (dget limits ''verifier_reserved_output_tokens'') left reserved,
       rv_seconds = proportional (dget limits ''verifier_reserved_seconds'') left reserved\<rparr>)"

lemma remaining_reserve_for:
  assumes "\<forall>k. 0 \<le> dget (r_limits r) k" and "0 \<le> dget (r_usage r) ''verifier_calls''"
  shows "remaining_verifier_reserve r = reserve_for (r_limits r)
    (dget (r_limits r) ''verifier_reserved_model_calls'' - dget (r_usage r) ''verifier_calls'')"
  using assms(1) [rule_format, of "''verifier_reserved_model_calls''"] assms(2)
  by (auto simp: remaining_verifier_reserve_def reserve_for_def Let_def no_reserve_def min_def max_def)

lemma reserve_for_mono:
  assumes "\<forall>k. 0 \<le> dget limits k" and "m \<le> n" and "n \<le> dget limits ''verifier_reserved_model_calls''"
  shows "reserve_le (reserve_for limits m) (reserve_for limits n)"
proof -
  let ?w = "dget limits ''verifier_reserved_model_calls''"
  have z: "proportional a 0 w = 0" if "0 < w" for a w :: int
    using that by (simp add: proportional_def div_pos_pos_trivial)
  have "proportional a 0 ?w \<le> proportional a n ?w" if "0 < n" "0 \<le> a" for a
    using that assms(3) by (intro proportional_mono) auto
  moreover have "proportional a m ?w \<le> proportional a n ?w" if "0 < n" "0 \<le> a" for a
    using that assms(2,3) by (intro proportional_mono) auto
  ultimately show ?thesis
    using assms z [of ?w] by (auto simp: reserve_le_def reserve_for_def no_reserve_def Let_def)
qed

lemma reserve_for_full:
  assumes "\<forall>k. 0 \<le> dget (r_limits r) k" and "0 < dget (r_limits r) ''verifier_reserved_model_calls''"
  shows "reserve_for (r_limits r) (dget (r_limits r) ''verifier_reserved_model_calls'') = full_reserve r"
  using assms by (simp add: reserve_for_def full_reserve_def proportional_whole Let_def)

text \<open>
  The reserve kept back for the verifier is bounded and released: it never exceeds the reserved
  amounts, it is complete while no verifier call was made, a further verifier call never raises it,
  and it is zero once the reserved calls are used.
\<close>

theorem verifier_reserve_released:
  assumes "\<forall>k. 0 \<le> dget (r_limits r) k" and "0 \<le> dget (r_usage r) ''verifier_calls''"
    and "0 < dget (r_limits r) ''verifier_reserved_model_calls''"
  shows "reserve_le no_reserve (remaining_verifier_reserve r) \<and>
    reserve_le (remaining_verifier_reserve r) (full_reserve r) \<and>
    (dget (r_usage r) ''verifier_calls'' = 0 \<longrightarrow> remaining_verifier_reserve r = full_reserve r) \<and>
    reserve_le (remaining_verifier_reserve (r\<lparr>r_usage := bump (r_usage r) ''verifier_calls''\<rparr>))
      (remaining_verifier_reserve r) \<and>
    (dget (r_limits r) ''verifier_reserved_model_calls'' \<le> dget (r_usage r) ''verifier_calls'' \<longrightarrow>
      remaining_verifier_reserve r = no_reserve)"
proof -
  let ?w = "dget (r_limits r) ''verifier_reserved_model_calls''" and ?u = "dget (r_usage r) ''verifier_calls''"
  note r = remaining_reserve_for [OF assms(1,2)] and mono = reserve_for_mono [OF assms(1)]
  have none: "reserve_for (r_limits r) n = no_reserve" if "n \<le> 0" for n
    using that by (simp add: reserve_for_def)
  have "reserve_le (reserve_for (r_limits r) (?w - ?u)) (reserve_for (r_limits r) ?w)"
    "reserve_le (reserve_for (r_limits r) (?w - (?u + 1))) (reserve_for (r_limits r) (?w - ?u))"
    "reserve_le (reserve_for (r_limits r) (min 0 (?w - ?u))) (reserve_for (r_limits r) (?w - ?u))"
    using assms(2) by (auto intro!: mono)
  moreover have "remaining_verifier_reserve (r\<lparr>r_usage := bump (r_usage r) ''verifier_calls''\<rparr>) =
      reserve_for (r_limits r) (?w - (?u + 1))"
    using remaining_reserve_for [of "r\<lparr>r_usage := bump (r_usage r) ''verifier_calls''\<rparr>"] assms(1,2) by simp
  ultimately show ?thesis
    using none [of "min 0 (?w - ?u)"] none [of "?w - ?u"] reserve_for_full [OF assms(1,3)]
    by (auto simp: r)
qed

theorem verifier_reserve_released_witness:
  "remaining_verifier_reserve sample_run = full_reserve sample_run \<and>
   rv_seconds (remaining_verifier_reserve sample_run) = 240 \<and>
   rv_seconds (remaining_verifier_reserve
     (sample_run\<lparr>r_usage := bump (r_usage sample_run) ''verifier_calls''\<rparr>)) = 120"
proof -
  have n: "\<forall>k. 0 \<le> dget (r_limits sample_run) k"
    by (simp add: sample_run_def default_budget_def min_verifier_completion_tokens_def
        verifier_timeout_seconds_def)
  have e: "dget (r_usage sample_run) ''verifier_calls'' = 0"
    "dget (r_limits sample_run) ''verifier_reserved_model_calls'' = 2"
    "rv_seconds (remaining_verifier_reserve sample_run) = 240"
    "rv_seconds (remaining_verifier_reserve
       (sample_run\<lparr>r_usage := bump (r_usage sample_run) ''verifier_calls''\<rparr>)) = 120"
    by code_simp+
  with verifier_reserve_released [OF n] show ?thesis by simp
qed

section \<open>Mapping obligations\<close>

text \<open>
  C13. The mapping check is exact: a run has no mapping blocker exactly when every obligation has one
  mapping whose assignments cover its case keys once each, every assignment has a value and valid
  references, one of them pointing at the row of that case, and no mapping is left over.
\<close>

theorem mapping_blockers_exact:
  "structured_mapping_blockers env d r = Inr [] \<longleftrightarrow> mapping_complete env d r"
  by (rule structured_mapping_blockers_Nil_iff)

text \<open>
  The obligations a start accepts are bound to the snapshot: distinct identifiers in order, each one
  a CSV source of the snapshot by identifier and content hash, a column of it, and case keys in order
  that each name exactly one row.
\<close>

theorem start_obligations_bound:
  assumes "effective_obligations snap raw = Inr obs"
  shows "obligations_ok snap obs"
  using assms by (rule effective_obligations_ok)

definition sample_raw_obligation :: json where
  "sample_raw_obligation = JObj [(''obligation_id'', JStr '' o1 ''), (''source_id'', JStr ''s1''),
     (''case_key_column'', JStr ''id''), (''case_keys'', JList [JStr ''b'', JStr '' a'']),
     (''mapping_dimension'', JStr ''cause''), (''exhaustive'', JBool True)]"

theorem start_obligations_bound_witness:
  "\<exists>obs. effective_obligations sample_snapshot [sample_raw_obligation] = Inr obs \<and>
     map ob_keys obs = [[''a'', ''b'']] \<and> obligations_ok sample_snapshot obs"
proof -
  have n: "map_sum id (map ob_keys) (normalize_structured_mapping_obligations sample_snapshot
      (JList [sample_raw_obligation])) = Inr [[''a'', ''b'']]"
    "structured_mapping_obligations_from_snapshot sample_snapshot = Inr []"
    by code_simp+
  then have "map_sum id (map ob_keys) (effective_obligations sample_snapshot [sample_raw_obligation]) =
      Inr [[''a'', ''b'']]"
    by (cases "normalize_structured_mapping_obligations sample_snapshot (JList [sample_raw_obligation])")
      (simp_all add: effective_obligations_def)
  from map_sum_InrD [OF this] show ?thesis
    by (elim exE conjE) (intro exI conjI, assumption+, rule start_obligations_bound, assumption)
qed

section \<open>The brief\<close>

text \<open>
  The stored brief only carries grounded calculations: for a run that needs a brief, normalisation
  yields a payload whose calculations have no blocker, is a fixed point of normalisation, and leaves
  every other member as proposed.
\<close>

theorem normalized_brief_grounded:
  assumes "normalize_decision_brief_payload env d r p = Inr q" and "r_brief_required r"
  shows "grounded_calculations env d r q \<and> normalize_decision_brief_payload env d r q = Inr q \<and>
    (k = ''calculations'' \<or> jget q k = jget p k)"
  using normalize_brief_grounded [OF assms] normalize_brief_fix [OF assms] normalize_brief_other [OF assms(1)]
  by blast

definition sample_result :: tool_result where
  "sample_result = \<lparr>tr_id = ''t1'', tr_snapshot = ''n1'', tr_source = ''s1'', tr_requested_by = Some 1,
     tr_tool = ''profile_csv'', tr_version = [], tr_source_hash = ''h1'',
     tr_parameters = [], tr_population = JObj [], tr_missing_values = [], tr_payload = JObj [],
     tr_excluded = JList [], tr_group_sizes = [], tr_units = []\<rparr>"

definition sample_calculation :: "string \<Rightarrow> json" where
  "sample_calculation i = JObj [(''title'', JStr ''mean''), (''summary'', JStr ''6''), (''limits'', JStr ''n = 2''), (''population'', JObj []),
     (''tool_result_id'', JStr i), (''revision_hash'', JStr ''h1''),
     (''reference'', JObj [(''tool_result_id'', JStr i), (''revision_hash'', JStr ''h1'')])]"

definition sample_brief :: obj where
  "sample_brief = [(''note'', JStr ''x''), (''calculations'', JList [sample_calculation ''t1'', sample_calculation ''t2''])]"

definition sample_results_db :: db where
  "sample_results_db = sample_db\<lparr>db_results := [sample_result]\<rparr>"

theorem normalized_brief_grounded_witness:
  "\<exists>q. normalize_decision_brief_payload sample_env sample_results_db sample_run sample_brief = Inr q \<and>
     jget q ''calculations'' = JList [sample_calculation ''t1''] \<and>
     grounded_calculations sample_env sample_results_db sample_run q"
proof -
  have n: "normalize_decision_brief_payload sample_env sample_results_db sample_run sample_brief =
      Inr [(''note'', JStr ''x''), (''calculations'', JList [sample_calculation ''t1''])]"
    "r_brief_required sample_run"
    by code_simp+
  from normalized_brief_grounded [OF n, of "''calculations''"] n(1) show ?thesis by simp
qed

section \<open>The planner's state\<close>

text \<open>
  C11. A critical claim cannot be dropped or rewritten: when the planner's state is applied, every
  critical claim of the register before survives in the stored run, under its identifier with its
  statement, or replaced by exactly one critical claim of the same area and kind; and the hashes of
  the stored run are those of its new register and brief.
\<close>

theorem planner_keeps_critical_claims:
  assumes "apply_planner_state env d actor i token claims brief kind payload = Inr (d', r')"
    and "get_run d i = Some r" and "run_ok env r"
  shows "get_run d' i = Some r' \<and> criticals_survive (r_claims r) (r_claims r') \<and> hashes_ok env r' \<and>
    r_status r' = r_status r"
proof -
  from assms(1,2) obtain r1 r2 where r1: "apply_register env d r claims = Inr r1"
    and r2: "apply_brief env d r1 brief = Inr r2"
    and r': "r' = label_latest_step (note_progress env (db_now d) r r1 r2 kind payload) kind payload"
    and d': "d' = save_run d r'"
    by (auto simp: apply_planner_state_def bindR_eq_Inr executor_run_eq_Inr Let_def)
  obtain cs n h where c: "r1 = r\<lparr>r_claims := cs, r_register_revision := n, r_register_hash := h\<rparr>"
    "h = register_hash env cs (r_relevance r) (length (r_inputs r)) \<or> cs = r_claims r \<and> h = r_register_hash r"
    "distinct (map cl_id (r_claims r)) \<longrightarrow> distinct (map cl_id cs) \<and> criticals_survive (r_claims r) cs"
    by (rule apply_registerE [OF r1])
  obtain p m g where b: "r2 = r1\<lparr>r_brief := p, r_brief_revision := m, r_brief_hash := g\<rparr>"
    "g = brief_hash env p \<or> p = r_brief r1 \<and> g = r_brief_hash r1"
    by (rule apply_briefE [OF r2])
  obtain k t where s: "note_progress env (db_now d) r r1 r2 kind payload =
      r2\<lparr>r_streak := k, r_last_progress := t\<rparr>"
    by (rule note_progressE)
  obtain ss where l: "r' = r2\<lparr>r_streak := k, r_last_progress := t, r_steps := ss\<rparr>"
    unfolding r' s by (rule label_latest_stepE [of "r2\<lparr>r_streak := k, r_last_progress := t\<rparr>" kind payload]) simp
  have "r_id r' = i" using get_run_SomeD [OF assms(2)] by (simp add: l b(1) c(1))
  then have "get_run d' i = Some r'" using get_run_save_run [of d r'] assms(2) by (simp add: d')
  moreover have "criticals_survive (r_claims r) (r_claims r') \<and> r_status r' = r_status r"
    using assms(3) c(3) by (simp add: l b(1) c(1) run_ok_def)
  moreover have "hashes_ok env r"
    using assms(3) by (simp add: run_ok_def)
  then have "hashes_ok env r'"
    using c(2) b(2) by (elim disjE conjE) (simp_all add: l b(1) c(1) hashes_ok_def)
  ultimately show ?thesis by blast
qed

definition sample_raw_claim :: "string \<Rightarrow> json" where
  "sample_raw_claim i = JObj [(''claim_id'', JStr i), (''statement'', JStr ''Costs rose''),
     (''area'', JStr ''problem_context''), (''claim_kind'', JStr ''fact''), (''status'', JStr ''open'')]"

definition sample_planned :: "json list \<Rightarrow> run txn" where
  "sample_planned claims = apply_planner_state strict_env (save_run sample_db strict_package) sample_actor
     ''u'' ''uu'' (Some claims) None ''none'' []"

theorem planner_keeps_critical_claims_witness:
  "\<exists>d' r'. sample_planned [sample_raw_claim ''c1'', sample_raw_claim ''c2''] = Inr (d', r') \<and>
     length (r_claims r') = 2 \<and> criticals_survive [sample_claim] (r_claims r') \<and>
     sample_planned [sample_raw_claim ''c2''] = Inl (run_err ''critical_claim_guard'')"
proof -
  have e: "map_sum id (\<lambda>(d, r). length (r_claims r))
      (sample_planned [sample_raw_claim ''c1'', sample_raw_claim ''c2'']) = Inr 2"
    "sample_planned [sample_raw_claim ''c2''] = Inl (run_err ''critical_claim_guard'')"
    by code_simp+
  then obtain d' r' where p: "sample_planned [sample_raw_claim ''c1'', sample_raw_claim ''c2''] = Inr (d', r')"
    "length (r_claims r') = 2"
    by (cases "sample_planned [sample_raw_claim ''c1'', sample_raw_claim ''c2'']") auto
  have g: "get_run (save_run sample_db strict_package) ''u'' = Some strict_package"
    using get_run_save_run [of sample_db strict_package] sample_run
    by (simp add: strict_package_def sample_package_def Let_def sample_run_def)
  have "r_claims strict_package = [sample_claim]"
    by (simp add: strict_package_def sample_package_def Let_def)
  with planner_keeps_critical_claims [OF p(1) [unfolded sample_planned_def] g strict_package_ok] e p show ?thesis
    by auto
qed

section \<open>Source relevance\<close>

definition relevance_sound :: "env \<Rightarrow> db \<Rightarrow> run \<Rightarrow> obj \<Rightarrow> bool" where
  "relevance_sound env d r rel \<longleftrightarrow>
     (\<forall>(source, v)\<in>set rel. \<exists>f b. v = JObj f \<and> jget f ''relevant'' = JBool b \<and>
        (b \<longrightarrow> source \<in> set (observed_sources (successful r))) \<and>
        (jget f ''reference'' = JNull \<or>
         is_mapping (jget f ''reference'') \<and>
           reference_valid env d r (members (jget f ''reference'')) = Inr True))"

lemma relevance_itemD:
  assumes "relevance_item env d r observed kv = Inr sv"
  shows "fst sv = fst kv \<and> (\<exists>f b. snd sv = JObj f \<and> jget f ''relevant'' = JBool b \<and>
    (b \<longrightarrow> fst sv \<in> set observed) \<and>
    (jget f ''reference'' = JNull \<or> is_mapping (jget f ''reference'') \<and>
       reference_valid env d r (members (jget f ''reference'')) = Inr True))"
proof -
  obtain source f where kv: "kv = (source, f)" by (cases kv)
  from assms obtain b where b: "jget f ''relevant'' = JBool b"
    by (auto simp: relevance_item_def kv bindR_eq_Inr split: json.split_asm)
  let ?ref = "jget f ''reference''"
  from assms b have o: "b \<longrightarrow> source \<in> set observed"
    and v: "?ref = JNull \<or> is_mapping ?ref \<and> reference_valid env d r (members ?ref) = Inr True"
    and sv: "sv = (source, JObj ([(''relevant'', JBool b)] @
             (if text_at f ''reason'' \<noteq> [] then [(''reason'', JStr (text_at f ''reason''))] else []) @
             (if is_mapping ?ref then [(''reference'', ?ref)] else [])))"
    by (auto simp: relevance_item_def kv bindR_eq_Inr raise_if_eq_Inr Let_def split: if_split_asm)
  let ?f = "[(''relevant'', JBool b)] @
             (if text_at f ''reason'' \<noteq> [] then [(''reason'', JStr (text_at f ''reason''))] else []) @
             (if is_mapping ?ref then [(''reference'', ?ref)] else [])"
  have "jget ?f ''relevant'' = JBool b" by simp
  moreover have "jget ?f ''reference'' = (if is_mapping ?ref then ?ref else JNull)" by simp
  ultimately show ?thesis using o v sv by (auto simp: kv)
qed

text \<open>
  C19. A classification of the sources is complete and evidence-based: when it is stored, it names every
  source of the snapshot exactly, each source classified as relevant was observed by a successful
  step, every reference given is valid, and the register hash is recomputed over the classification.
\<close>

theorem source_relevance_sound:
  assumes "set_source_relevance env d actor i token supplied = Inr (d', r')"
    and "get_run d i = Some r" and "find (\<lambda>s. snap_id s = snap_id (r_snapshot r)) (db_snapshots d) = Some (r_snapshot r)"
  shows "get_run d' i = Some r' \<and> r_relevance_complete r' \<and>
    set (dict_keys (r_relevance r')) = set (source_ids r') \<and> relevance_sound env d r' (r_relevance r') \<and>
    r_register_hash r' = register_hash env (r_claims r') (r_relevance r') (length (r_inputs r'))"
proof -
  let ?observed = "observed_sources (successful r)"
  from assms(1,2) obtain snap rel where snap: "snapshot_access d actor (Some (snap_id (r_snapshot r))) = Inr snap"
    and keys: "set (dict_keys supplied) = set (map src_id (snap_sources snap))"
    and rel: "mapR (relevance_item env d r ?observed) supplied = Inr rel"
    and r': "r' = r\<lparr>r_relevance := rel, r_relevance_complete := True,
                 r_register_revision := r_register_revision r + 1,
                 r_register_hash := register_hash env (r_claims r) rel (length (r_inputs r))\<rparr>"
    and d': "d' = save_run d r'"
    by (auto simp: set_source_relevance_def bindR_eq_Inr raise_if_eq_Inr executor_run_eq_Inr Let_def)
  have "snap = r_snapshot r"
    using snap assms(3) by (auto simp: snapshot_access_def bindR_eq_Inr split: option.split_asm)
  moreover have all: "list_all2 (\<lambda>kv sv. relevance_item env d r ?observed kv = Inr sv) supplied rel"
    using rel by (simp add: mapR_eq_Inr)
  then have "map fst rel = map fst supplied"
    by (induction rule: list_all2_induct) (auto dest: relevance_itemD)
  ultimately have k: "set (dict_keys rel) = set (source_ids r)"
    using keys by (simp add: dict_keys_def source_ids_def)
  have "relevance_sound env d r' rel"
    unfolding relevance_sound_def
  proof (intro ballI)
    fix sv assume "sv \<in> set rel"
    with all obtain kv where "relevance_item env d r ?observed kv = Inr sv"
      by (induction rule: list_all2_induct) auto
    from relevance_itemD [OF this] show "case sv of (source, v) \<Rightarrow> \<exists>f b. v = JObj f \<and> jget f ''relevant'' = JBool b \<and>
        (b \<longrightarrow> source \<in> set (observed_sources (successful r'))) \<and>
        (jget f ''reference'' = JNull \<or>
         is_mapping (jget f ''reference'') \<and>
           reference_valid env d r' (members (jget f ''reference'')) = Inr True)"
      using reference_valid_cong [of r' r d d env] by (cases sv) (auto simp: r' successful_def)
  qed
  moreover have "r_id r' = i" using get_run_SomeD [OF assms(2)] by (simp add: r')
  then have "get_run d' i = Some r'" using get_run_save_run [of d r'] assms(2) by (simp add: d')
  ultimately show ?thesis using k by (simp add: r' source_ids_def)
qed

definition sample_observed :: run where
  "sample_observed = sample_run\<lparr>r_steps := [sample_step 1 ''profile_csv'' [(''source_id'', JStr ''s1'')] (JObj [])]\<rparr>"

definition sample_classified :: "bool \<Rightarrow> run txn" where
  "sample_classified b = set_source_relevance sample_env (save_run sample_db sample_observed) sample_actor
     ''u'' ''uu'' [(''s2'', [(''relevant'', JBool b)]), (''s1'', [(''relevant'', JBool True)])]"

theorem source_relevance_sound_witness:
  "\<exists>d' r'. sample_classified False = Inr (d', r') \<and> r_relevance_complete r' \<and>
     relevance_sound sample_env (save_run sample_db sample_observed) r' (r_relevance r') \<and>
     sample_classified True = Inl (run_err ''source_relevance_unobserved'')"
proof -
  have e: "succeeds (sample_classified False)"
    "sample_classified True = Inl (run_err ''source_relevance_unobserved'')"
    by code_simp+
  from e(1) obtain d' r' where c: "sample_classified False = Inr (d', r')" by (metis succeedsD)
  have g: "get_run (save_run sample_db sample_observed) ''u'' = Some sample_observed"
    using get_run_save_run [of sample_db sample_observed] sample_run
    by (simp add: sample_observed_def sample_run_def)
  have s: "find (\<lambda>s. snap_id s = snap_id (r_snapshot sample_observed))
      (db_snapshots (save_run sample_db sample_observed)) = Some (r_snapshot sample_observed)"
    by (simp add: sample_observed_def sample_run_def sample_db_def sample_db0_def)
  from source_relevance_sound [OF c [unfolded sample_classified_def] g s] c e(2) show ?thesis by blast
qed

end
