(* ===== verification/Investigation_Loop_Properties.thy ===== *)
theory Investigation_Loop_Properties
  imports Investigation_Sample
begin

text \<open>
  What tool steps and the investigation loop guarantee: a booked call is made at most once, an exhausted
  budget stops the tools, the loop only moves a run by transactions, and what it reports is what the
  database holds.
\<close>

section \<open>Tool steps\<close>

text \<open>
  An exhausted tool budget stops the tools: when the calls of a run reached its limit, a step of the
  planner either returns a result stored before or an error, and neither the tool nor the database is
  touched, whatever the tool would do.
\<close>

theorem exhausted_budget_stops_tools:
  assumes "get_run d i = Some r" and "dget (r_limits r) ''max_tool_calls'' \<le> dget (r_usage r) ''tool_calls''"
    and "normalize_tool_parameters tool parameters (Some (source_ids r)) = Inr params"
  shows "fst (execute_tool_step env run_tool d actor i token tool parameters target finding False) = d \<and>
    execute_tool_step env run_tool d actor i token tool parameters target finding False =
    execute_tool_step env run_tool' d actor i token tool parameters target finding False"
proof (cases "begin_tool_step env d actor i token tool params target finding False")
  case (Inl e)
  then show ?thesis using assms by (simp add: execute_tool_step_def snapshot_source_ids_def)
next
  case (Inr db)
  obtain d1 b where db: "db = (d1, b)" by (cases db)
  have "book_call (db_now d) r tool False = Inl (run_err ''budget_exhausted'')"
    using assms(2) by (simp add: book_call_def)
  then have "d1 = d \<and> (\<exists>s. b = Already s)"
    using Inr assms(1) unfolding db
    by (auto simp: begin_tool_step_def bindR_eq_Inr executor_run_eq_Inr Let_def
        split: option.split_asm if_split_asm)
  then show ?thesis
    using Inr assms(1,3) by (auto simp: db execute_tool_step_def snapshot_source_ids_def)
qed

lemma find_update_where:
  "find P xs = Some x \<Longrightarrow> Q x \<Longrightarrow> P y \<Longrightarrow> find P (update_where Q (\<lambda>_. y) xs) = Some y"
  by (induction xs) (auto split: if_splits)

text \<open>What the first transaction of a new call leaves.\<close>

lemma begin_startedD:
  assumes b: "begin_tool_step env d actor i token tool params target finding v = Inr (d1, Started seq)"
    and g: "get_run d i = Some r"
  shows "\<exists>r1 s. d1 = save_run d r1 \<and> get_run d1 i = Some r1 \<and> same_contract r r1 \<and>
    r_status r1 = Running \<and> r_token r1 = token \<and> r_generation r1 = r_generation r \<and>
    get_step r1 seq = Some s \<and> st_sequence s = seq \<and> st_key s = step_key env r tool params \<and>
    find (\<lambda>x. st_key x = step_key env r tool params) (r_steps r1) = Some s"
proof -
  let ?key = "step_key env r tool params"
  have run: "r_token r = token" "r_status r = Running" "r_id r = i"
    using b g get_run_SomeD [OF g] by (auto simp: begin_tool_step_def bindR_eq_Inr executor_run_eq_Inr raise_if_eq_Inr)
  have get: "get_run (save_run d r1) i = Some r1" if "r_id r1 = r_id r" for r1
    using get_run_save_run [of d r1] g that run(3) by simp
  show ?thesis
  proof (cases "find (\<lambda>x. st_key x = ?key) (r_steps r)")
    case None
    let ?s = "new_step (db_now d) r ?key tool params target finding"
    from b g None obtain u where d1: "d1 = save_run d (r\<lparr>r_usage := u, r_steps := r_steps r @ [?s]\<rparr>)"
      and seq: "seq = st_sequence ?s"
      by (auto simp: begin_tool_step_def bindR_eq_Inr executor_run_eq_Inr Let_def)
    have "find (\<lambda>x. st_sequence x = seq) (r_steps r) = None"
      using next_sequence_fresh [of r] by (force simp: find_None_iff seq new_step_def)
    then have "get_step (r\<lparr>r_usage := u, r_steps := r_steps r @ [?s]\<rparr>) seq = Some ?s"
      by (simp add: get_step_def find_append_case seq)
    moreover have "find (\<lambda>x. st_key x = ?key) (r_steps r @ [?s]) = Some ?s"
      using None by (simp add: find_append_case new_step_def)
    ultimately show ?thesis
      by (intro exI [of _ "r\<lparr>r_usage := u, r_steps := r_steps r @ [?s]\<rparr>"] exI [of _ ?s])
        (use run d1 get in \<open>simp add: same_contract_def seq new_step_def\<close>)
  next
    case (Some s)
    let ?s = "reopen_step (db_now d) r s"
    from b g Some obtain u where d1: "d1 = save_run d (save_step (r\<lparr>r_usage := u\<rparr>) ?s)" and seq: "seq = st_sequence s"
      by (auto simp: begin_tool_step_def bindR_eq_Inr executor_run_eq_Inr Let_def split: if_split_asm)
    have s: "st_sequence ?s = st_sequence s" "st_key ?s = ?key" "s \<in> set (r_steps r)"
      using find_SomeD [OF Some] by (simp_all add: reopen_step_def)
    then obtain x where x: "find (\<lambda>x. st_sequence x = seq) (r_steps r) = Some x"
      by (cases "find (\<lambda>x. st_sequence x = seq) (r_steps r)") (auto simp: find_None_iff seq)
    then have "get_step (save_step (r\<lparr>r_usage := u\<rparr>) ?s) seq = Some ?s"
      using find_update_where [OF x, of "\<lambda>x. st_sequence x = seq" ?s] find_SomeD [OF x] s(1)
      by (simp add: get_step_def save_step_def seq)
    moreover have "find (\<lambda>x. st_key x = ?key) (r_steps (save_step (r\<lparr>r_usage := u\<rparr>) ?s)) = Some ?s"
      using Some s by (auto simp: save_step_def intro!: find_update_where)
    ultimately show ?thesis
      by (intro exI [of _ "save_step (r\<lparr>r_usage := u\<rparr>) ?s"] exI [of _ ?s])
        (use run d1 get s in \<open>simp add: same_contract_def save_step_def seq\<close>)
  qed
qed

text \<open>The tool itself only adds stored results; it does not run other transactions.\<close>

definition tool_isolated :: "tool_runner \<Rightarrow> bool" where
  "tool_isolated run_tool \<longleftrightarrow>
     (\<forall>d actor i tool params. \<exists>n rs res. db_next d \<le> n \<and>
       run_tool d actor i tool params = (d\<lparr>db_next := n, db_results := rs\<rparr>, res))"

lemma repeated_step:
  assumes g: "get_run d i = Some r" and k: "find (\<lambda>x. st_key x = step_key env r tool params) (r_steps r) = Some s"
    and s: "st_status s = Step_Success" and e: "actor_can_edit_run d actor r" "r_token r = token" "r_status r = Running"
    and v: "\<not> ((case get_process d (r_process r) of None \<Rightarrow> False
              | Some p \<Rightarrow> proc_version p \<noteq> r_process_version r) \<and> \<not> r_replay r)"
    and t: "tool \<in> set allowed_tools" "normalize_tool_parameters tool parameters (Some (source_ids r)) = Inr params"
  shows "execute_tool_step env run_tool d actor i token tool parameters target finding w = (d, Inr s)"
proof -
  have "executor_run d actor i token = Inr r"
    using g e by (simp add: executor_run_eq_Inr is_active_iff)
  then have "begin_tool_step env d actor i token tool params target finding w = Inr (d, Already s)"
    using k s e(3) v by (simp add: begin_tool_step_def raise_if_def Let_def)
  then show ?thesis
    using t g by (simp add: execute_tool_step_def snapshot_source_ids_def)
qed

text \<open>What a call that passed the first transaction knows of its run.\<close>

lemma begin_runD:
  assumes "begin_tool_step env d actor i token tool params target finding v = Inr (d1, b)"
  shows "\<exists>r. get_run d i = Some r \<and> actor_can_edit_run d actor r \<and> r_token r = token \<and> r_status r = Running \<and>
    \<not> ((case get_process d (r_process r) of None \<Rightarrow> False
        | Some p \<Rightarrow> proc_version p \<noteq> r_process_version r) \<and> \<not> r_replay r)"
  using assms by (auto simp: begin_tool_step_def bindR_eq_Inr executor_run_eq_Inr raise_if_eq_Inr)

lemma begin_alreadyD:
  assumes "begin_tool_step env d actor i token tool params target finding v = Inr (d1, Already s)"
    and "get_run d i = Some r"
  shows "d1 = d \<and> find (\<lambda>x. st_key x = step_key env r tool params) (r_steps r) = Some s \<and>
    st_status s = Step_Success"
  using assms by (auto simp: begin_tool_step_def bindR_eq_Inr executor_run_eq_Inr Let_def
      split: option.split_asm if_split_asm)

lemma actor_can_edit_run_cong:
  assumes "db_processes d' = db_processes d" "db_folders d' = db_folders d"
    and "r_process r' = r_process r" "r_snapshot r' = r_snapshot r"
  shows "actor_can_edit_run d' actor r' = actor_can_edit_run d actor r"
proof -
  have tables: "get_process d' = get_process d" "folder_active d' = folder_active d"
    using assms(1,2) by (simp_all add: get_process_def [abs_def] folder_active_def [abs_def] get_folder_def)
  show ?thesis unfolding actor_can_edit_run_def tables assms(3,4) ..
qed

text \<open>A result stored by the second transaction leaves the step as the successful one of its key.\<close>

lemma finish_storedD:
  assumes f: "finish_tool_step env d actor i token seq (r_generation r1) v payload = Inr (d', (False, s))"
    and g: "get_run d i = Some r1" and run: "r_status r1 = Running" "r_token r1 = token"
    and s1: "get_step r1 seq = Some s1" "st_sequence s1 = seq"
      "find (\<lambda>x. st_key x = st_key s1) (r_steps r1) = Some s1"
  shows "\<exists>r'. get_run d' i = Some r' \<and> same_contract r1 r' \<and> r_status r' = Running \<and> r_token r' = token \<and>
    find (\<lambda>x. st_key x = st_key s1) (r_steps r') = Some s \<and> st_status s = Step_Success \<and>
    db_processes d' = db_processes d \<and> db_folders d' = db_folders d"
proof -
  let ?c = "\<not> v \<and> new_tool_coverage env r1 s1 payload"
  let ?s = "stored_step env (db_now d) s1 ?c payload"
  let ?r = "save_step (observed_run (db_now d) r1 (st_tool s1) v ?c payload) ?s"
  have s: "s = ?s" "d' = save_run d ?r"
    using f g s1(1) run
    by (auto simp: finish_tool_step_def bindR_eq_Inr locked_run_eq_Inr owns_run_def Let_def split: if_split_asm)
  have same: "st_key ?s = st_key s1" "st_status ?s = Step_Success" "st_sequence ?s = seq"
    using s1(2) by (simp_all add: stored_step_def)
  have steps: "r_steps ?r = update_where (\<lambda>x. st_sequence x = seq) (\<lambda>_. ?s) (r_steps r1)"
    using same(3) by (simp add: save_step_def observed_run_def Let_def)
  have k: "find (\<lambda>x. st_key x = st_key s1) (r_steps ?r) = Some ?s"
    unfolding steps using s1(3,2) same(1) by (rule find_update_where)
  have c: "same_contract r1 ?r" "r_status ?r = Running" "r_token ?r = token"
    using run by (simp_all add: observed_run_def Let_def same_contract_def save_step_def)
  have "r_id ?r = i" using c(1) get_run_SomeD [OF g] by (simp add: same_contract_def)
  then have "get_run d' i = Some ?r"
    using get_run_save_run [of d ?r] g by (simp add: s(2))
  with c k same(2) show ?thesis by (intro exI [of _ ?r]) (simp add: s)
qed

text \<open>A successful execution leaves its step as the stored result of the call.\<close>

lemma executed_stepD:
  assumes e: "execute_tool_step env run_tool d actor i token tool parameters target finding v = (d', Inr s)"
    and iso: "tool_isolated run_tool"
  shows "\<exists>r r' params. get_run d i = Some r \<and> get_run d' i = Some r' \<and> same_contract r r' \<and>
    actor_can_edit_run d actor r \<and> r_status r' = Running \<and> r_token r' = token \<and>
    db_processes d' = db_processes d \<and> db_folders d' = db_folders d \<and>
    \<not> ((case get_process d (r_process r) of None \<Rightarrow> False
        | Some p \<Rightarrow> proc_version p \<noteq> r_process_version r) \<and> \<not> r_replay r) \<and>
    tool \<in> set allowed_tools \<and>
    normalize_tool_parameters tool parameters (Some (source_ids r)) = Inr params \<and>
    find (\<lambda>x. st_key x = step_key env r tool params) (r_steps r') = Some s \<and> st_status s = Step_Success"
proof -
  from e have allowed: "tool \<in> set allowed_tools" by (auto simp: execute_tool_step_def split: if_split_asm)
  from e allowed obtain params where
    n: "normalize_tool_parameters tool parameters (Some (snapshot_source_ids d i)) = Inr params"
    by (auto simp: execute_tool_step_def commit_def split: sum.split_asm if_split_asm)
  from e allowed n obtain d1 b where
    b: "begin_tool_step env d actor i token tool params target finding v = Inr (d1, b)"
    by (cases "begin_tool_step env d actor i token tool params target finding v")
      (auto simp: execute_tool_step_def)
  from begin_runD [OF b] obtain r where g: "get_run d i = Some r" and edit: "actor_can_edit_run d actor r"
    and run: "r_token r = token" "r_status r = Running"
    and ver: "\<not> ((case get_process d (r_process r) of None \<Rightarrow> False
              | Some p \<Rightarrow> proc_version p \<noteq> r_process_version r) \<and> \<not> r_replay r)"
    by blast
  have n': "normalize_tool_parameters tool parameters (Some (source_ids r)) = Inr params"
    using n g by (simp add: snapshot_source_ids_def)
  show ?thesis
  proof (cases b)
    case (Already s0)
    with begin_alreadyD [of env d actor i token tool params target finding v d1 s0 r] b g e allowed n
    have "d' = d" "find (\<lambda>x. st_key x = step_key env r tool params) (r_steps r) = Some s" "st_status s = Step_Success"
      by (auto simp: execute_tool_step_def)
    then show ?thesis
      using g edit run ver allowed n' by (intro exI [of _ r] exI [of _ params]) (simp add: same_contract_def)
  next
    case (Started seq)
    from begin_startedD [OF b [unfolded Started] g] obtain r1 s1 where
      d1: "d1 = save_run d r1" and g1: "get_run d1 i = Some r1" and c: "same_contract r r1"
      and r1: "r_status r1 = Running" "r_token r1 = token"
      and s1: "get_step r1 seq = Some s1" "st_sequence s1 = seq" "st_key s1 = step_key env r tool params"
        "find (\<lambda>x. st_key x = step_key env r tool params) (r_steps r1) = Some s1"
      by blast
    obtain n rs res where t: "run_tool d1 actor i tool params = (d1\<lparr>db_next := n, db_results := rs\<rparr>, res)"
      using iso unfolding tool_isolated_def by blast
    from e allowed n g b Started t g1 obtain payload where res: "res = Inr payload"
      by (cases res) (auto simp: execute_tool_step_def snapshot_source_ids_def commit_def andthen_def
          split: sum.split_asm)
    have f: "finish_tool_step env (d1\<lparr>db_next := n, db_results := rs\<rparr>) actor i token seq (r_generation r1) v payload =
        Inr (d', (False, s))"
      using e allowed n g b Started t g1 res
      by (auto simp: execute_tool_step_def snapshot_source_ids_def commit_def andthen_def
          split: sum.split_asm prod.split_asm if_split_asm)
    have "get_run (d1\<lparr>db_next := n, db_results := rs\<rparr>) i = Some r1" using g1 by (simp add: get_run_def)
    from finish_storedD [OF f this r1 s1(1,2) s1(4) [folded s1(3)]] s1(3) obtain r' where
      "get_run d' i = Some r'" "same_contract r1 r'" "r_status r' = Running" "r_token r' = token"
      "find (\<lambda>x. st_key x = step_key env r tool params) (r_steps r') = Some s" "st_status s = Step_Success"
      "db_processes d' = db_processes d1" "db_folders d' = db_folders d1"
      by auto
    moreover from this(2) c have "same_contract r r'" by (simp add: same_contract_def)
    ultimately show ?thesis
      using g edit ver allowed n' by (intro exI [of _ r] exI [of _ r'] exI [of _ params]) (simp add: d1)
  qed
qed

text \<open>
  C7. A tool call is made once: when a step succeeded (with a tool that only stores results), asking for
  the same call again returns the same stored step, calls no tool, books nothing and leaves the
  database as it is, whichever claim it is made for and whoever the tool would be now.
\<close>

theorem tool_step_idempotent:
  assumes "execute_tool_step env run_tool d actor i token tool parameters target finding v = (d', Inr s)"
    and "tool_isolated run_tool"
  shows "execute_tool_step env run_tool' d' actor i token tool parameters target' finding' v' = (d', Inr s)"
proof -
  from executed_stepD [OF assms] obtain r r' params where g: "get_run d' i = Some r'" and c: "same_contract r r'"
    and edit: "actor_can_edit_run d actor r" and run: "r_token r' = token" "r_status r' = Running"
    and tables: "db_processes d' = db_processes d" "db_folders d' = db_folders d"
    and ver: "\<not> ((case get_process d (r_process r) of None \<Rightarrow> False
        | Some p \<Rightarrow> proc_version p \<noteq> r_process_version r) \<and> \<not> r_replay r)"
    and allowed: "tool \<in> set allowed_tools"
    and n: "normalize_tool_parameters tool parameters (Some (source_ids r)) = Inr params"
    and k: "find (\<lambda>x. st_key x = step_key env r tool params) (r_steps r') = Some s" "st_status s = Step_Success"
    by blast
  have parts: "r_process r' = r_process r" "r_snapshot r' = r_snapshot r" "r_replay r' = r_replay r"
    "r_process_version r' = r_process_version r" "r_manifest_hash r' = r_manifest_hash r"
    using c by (simp_all add: same_contract_def)
  have "get_process d' = get_process d" using tables by (simp add: get_process_def [abs_def])
  with ver have ver': "\<not> ((case get_process d' (r_process r') of None \<Rightarrow> False
        | Some p \<Rightarrow> proc_version p \<noteq> r_process_version r') \<and> \<not> r_replay r')"
    unfolding parts by simp
  have edit': "actor_can_edit_run d' actor r'"
    using edit actor_can_edit_run_cong [OF tables parts(1,2)] by simp
  have key: "step_key env r' tool params = step_key env r tool params"
    unfolding step_key_def parts ..
  have n': "normalize_tool_parameters tool parameters (Some (source_ids r')) = Inr params"
    using n unfolding source_ids_def parts .
  show ?thesis
    by (rule repeated_step [OF g _ k(2) edit' run ver' allowed n']) (simp add: key k(1))
qed

section \<open>What the loop reports\<close>

lemma andthen_eq_Inr: "andthen m f = (d', Inr a) \<longleftrightarrow> (\<exists>d1 x. m = (d1, Inr x) \<and> f d1 x = (d', Inr a))"
  by (cases m; cases "snd m") auto

lemma commit_eq_Inr: "commit d t = (d', Inr x) \<longleftrightarrow> t = Inr (d', x)"
  by (auto simp: commit_def split: sum.splits)

lemma pair_res_eq_Inr: "(d, r) = (d', Inr x) \<longleftrightarrow> d' = d \<and> r = Inr x"
  by auto

lemmas run_io_simps = andthen_eq_Inr commit_eq_Inr pair_res_eq_Inr bindR_eq_Inr raise_if_eq_Inr

text \<open>A result other than \<open>running\<close> is the status the database holds for the run.\<close>

definition reports :: "string \<Rightarrow> db \<times> (run_error, advance_result) res \<Rightarrow> bool" where
  "reports i out \<longleftrightarrow> (\<forall>a. snd out = Inr a \<longrightarrow> ar_status a \<noteq> Running \<longrightarrow>
     (\<exists>r. get_run (fst out) i = Some r \<and> r_status r = ar_status a \<and> ar_run a = i))"

lemma reports_simps [simp]:
  "reports i (d, Inl e)"
  "reports i (d, Inr a) \<longleftrightarrow> (ar_status a \<noteq> Running \<longrightarrow>
     (\<exists>r. get_run d i = Some r \<and> r_status r = ar_status a \<and> ar_run a = i))"
  by (simp_all add: reports_def)

lemma reports_andthen:
  "(\<And>d1 x. m = (d1, Inr x) \<Longrightarrow> reports i (f d1 x)) \<Longrightarrow> reports i (andthen m f)"
  by (cases m; cases "snd m") auto

lemma refresh_Inr: "refresh d i = (d1, Inr r) \<longleftrightarrow> d1 = d \<and> get_run d i = Some r"
  by (auto simp: refresh_def split: option.splits)

lemma get_saved:
  "get_run d i = Some r \<Longrightarrow> r_id r' = i \<Longrightarrow> db_runs d' = db_runs d \<Longrightarrow> get_run (save_run d' r') i = Some r'"
  using get_run_save_run [of d' r' r] by (simp add: get_run_def)

lemma reports_result:
  "get_run d i = Some c \<Longrightarrow> st = Running \<or> r_status c = st \<Longrightarrow> r_id r = i \<Longrightarrow>
     reports i (result_for env d r st s)"
  by (auto simp: result_for_def reports_def bindR_eq_Inr)

lemma reports_retry:
  "get_run d i = Some r \<Longrightarrow> reports i (retry_result env d r)"
  using get_run_SomeD [of d i r] by (auto simp: retry_result_def reports_def bindR_eq_Inr)

lemma failed_saved:
  "set_failed_runtime env d actor i token reason payload = Inr (d', r) \<Longrightarrow> get_run d' i = Some r \<and> r_id r = i \<and> r_status r = Failed"
  by (auto simp: set_failed_runtime_def bindR_eq_Inr executor_run_eq_Inr Let_def close_failed_def
      new_executor_def intro!: get_saved dest: get_run_SomeD)

lemma waiting_saved:
  "set_waiting_human d actor i token reason payload = Inr (d', r) \<Longrightarrow> get_run d' i = Some r \<and> r_id r = i"
  by (auto simp: set_waiting_human_def bindR_eq_Inr executor_run_eq_Inr Let_def
      intro!: get_saved dest: get_run_SomeD)

lemma ready_saved:
  "set_ready env d actor i token = Inr (d', r) \<Longrightarrow> get_run d' i = Some r \<and> r_id r = i"
  by (auto simp: set_ready_def bindR_eq_Inr executor_run_eq_Inr Let_def new_executor_def
      intro!: get_saved dest: get_run_SomeD)

lemma recorded_saved:
  "record_action_state_repeat env d actor i token a = Inr (d', (r, n)) \<Longrightarrow>
     get_run d' i = Some r \<and> r_id r = i \<and> is_active r"
  by (auto simp: record_action_state_repeat_def bindR_eq_Inr executor_run_eq_Inr Let_def is_active_def
      intro!: get_saved dest: get_run_SomeD)

lemma reports_fail: "reports i (fail_runtime env d actor i token payload)"
  unfolding fail_runtime_def
  by (rule reports_andthen) (auto simp: commit_eq_Inr dest: failed_saved intro!: reports_result)

lemma reports_wait: "reports i (wait_for_human env d actor i token reason payload)"
  unfolding wait_for_human_def
  by (rule reports_andthen) (auto simp: commit_eq_Inr dest: waiting_saved intro!: reports_result)

lemma reports_budget: "reports i (handle_budget_exhaustion env d actor i token code)"
  unfolding handle_budget_exhaustion_def by (rule reports_wait)

lemma reports_provider: "reports i (handle_provider_failure env d actor i token code)"
  unfolding handle_provider_failure_def
  by (rule reports_andthen)
    (auto simp: refresh_Inr Let_def reports_fail reports_retry split: option.split)

lemma reports_role_error: "reports i (role_error env d actor i token e)"
  unfolding role_error_def
  by (auto intro!: reports_andthen reports_budget reports_provider split: run_error.split)

lemma reports_ready:
  "reports i (andthen (commit d (set_ready env d actor i token)) (\<lambda>d2 ready.
     (d2, Inr \<lparr>ar_run = r_id ready, ar_status = r_status ready, ar_policy = decision, ar_step = None\<rparr>)))"
  by (rule reports_andthen) (auto simp: commit_eq_Inr dest: ready_saved)

lemma reports_verification: "r_id r = i \<Longrightarrow> reports i (advance_verification env ro d actor r token)"
  unfolding advance_verification_def
  by (auto simp: reports_role_error refresh_Inr split: prod.split sum.split
      intro!: reports_andthen reports_ready reports_result dest: get_run_SomeD)

lemma reports_tool: "reports i (apply_tool env ro d actor i token a)"
  unfolding apply_tool_def
  by (auto simp: refresh_Inr run_io_simps split: if_split_asm intro!: reports_andthen reports_result
      dest: get_run_SomeD)

lemma reports_recorded:
  assumes "r_id r = i" shows "reports i (apply_recorded_action env ro d actor r token a)"
  unfolding apply_recorded_action_def assms
proof (rule reports_andthen, clarsimp simp only: commit_eq_Inr prod.case)
  fix d1 r1 n assume "record_action_state_repeat env d actor i token a = Inr (d1, (r1, n))"
  then have r1: "get_run d1 i = Some r1" "r_id r1 = i" using recorded_saved by blast+
  then show "reports i (if max_identical_repeats < n
     then fail_runtime env d1 actor (r_id r1) token (no_progress_payload n)
     else if pa_action a = ''tool'' then apply_tool env ro d1 actor (r_id r1) token a
     else if pa_action a = ''synthesize'' then
       andthen (d1, pre_verifier_blockers_for_run env d1 r1) (\<lambda>d1 blockers.
       if blockers \<noteq> [] then result_for env d1 r1 (r_status r1) None
       else advance_verification env ro d1 actor r1 token)
     else if pa_action a = ''clarify'' then
       wait_for_human env d1 actor (r_id r1) token
         (if pa_reason a = [] then reason_value MISSING_EVIDENCE else pa_reason a) (pa_clarification a)
     else (d1, Inl (Other_Error ''AssertionError'')))"
    by (auto simp: reports_fail reports_tool reports_wait intro!: reports_andthen reports_result
        reports_verification)
qed

lemma with_rows_same [simp]: "r_id (with_rows d r) = r_id r" "r_status (with_rows d r) = r_status r"
  by (simp_all add: with_rows_def split: option.split)

lemma boundary_reports:
  assumes "missing_evidence_boundary env d actor r token decision = (d', Inr (Some a))"
  shows "reports (r_id r) (d', Inr a)"
proof -
  from assms obtain payload where
    w: "wait_for_human env d actor (r_id r) token (reason_value MISSING_EVIDENCE) payload = (d', Inr a)"
    by (auto simp: missing_evidence_boundary_def run_io_simps split: if_split_asm option.split_asm)
  show ?thesis using reports_wait [of "r_id r" env d actor token "reason_value MISSING_EVIDENCE" payload]
    by (simp add: w)
qed

lemma stored_package:
  assumes "store_package env d actor r token a = (d', Inr (r', b))"
  shows "r_id r' = r_id r \<and> (\<forall>x. b = Some x \<longrightarrow> reports (r_id r) (d', Inr x))"
proof -
  from assms obtain d2 decision where "get_run d2 (r_id r) = Some r'"
    and m: "missing_evidence_boundary env d2 actor r' token decision = (d', Inr b)"
    by (auto simp: store_package_def run_io_simps refresh_Inr)
  then have "r_id r' = r_id r" using get_run_SomeD by blast
  with m boundary_reports show ?thesis by (cases b) fastforce+
qed

lemma reports_action:
  assumes i: "r_id r = i" and s: "r_status r = Running"
  shows "reports i (apply_action env ro d actor r token a)"
  unfolding apply_action_def
proof (rule reports_andthen, clarsimp simp only: prod.inject)
  fix d1 invalid
  show "reports i (case invalid of
        Some e \<Rightarrow>
          andthen (commit d1 (set_failed_planner_contract env d1 actor (r_id r) token (err_code e)))
            (\<lambda>d' _. (d', Inl e))
      | None \<Rightarrow>
          if pa_action a = ''synthesize'' then
            andthen (store_package env d1 actor r token a) (\<lambda>d1 (r1, boundary).
            (case boundary of
               Some result \<Rightarrow> (d1, Inr result)
             | None \<Rightarrow> apply_recorded_action env ro d1 actor r1 token a))
          else if pa_action a = ''investigate'' then
            result_for env d1 (with_rows d1 r) (r_status r) None
          else apply_recorded_action env ro d1 actor r token a)"
  proof (cases invalid)
    case None
    have "reports i (andthen (store_package env d1 actor r token a) (\<lambda>d1 (r1, boundary).
            (case boundary of
               Some result \<Rightarrow> (d1, Inr result)
             | None \<Rightarrow> apply_recorded_action env ro d1 actor r1 token a)))"
    proof (rule reports_andthen)
      fix d2 x assume "store_package env d1 actor r token a = (d2, Inr x)"
      moreover obtain r1 b where "x = (r1, b)" by (cases x)
      ultimately show "reports i (case x of (r1, boundary) \<Rightarrow> (case boundary of
               Some result \<Rightarrow> (d2, Inr result)
             | None \<Rightarrow> apply_recorded_action env ro d2 actor r1 token a))"
        using stored_package [of env d1 actor r token a d2 r1 b] i reports_recorded by (cases b) auto
    qed
    moreover have "reports i (result_for env d1 (with_rows d1 r) (r_status r) None)"
      by (auto simp: result_for_def reports_def bindR_eq_Inr s)
    ultimately show ?thesis using None i reports_recorded by simp
  next
    case (Some e)
    have "reports i (andthen m (\<lambda>d' _. (d', Inl e)))" for m :: "run run_io"
      by (rule reports_andthen) simp
    then show ?thesis using Some by simp
  qed
qed

lemma reports_route:
  assumes i: "r_id r = i" and s: "r_status r = Running"
  shows "reports i (route_run env ro d actor r token)"
proof -
  have role: "reports i (case role d' actor r token of
            (d1, Inl e) \<Rightarrow> role_error env d1 actor (r_id r) token e
          | (d1, Inr a) \<Rightarrow> apply_action env ro d1 actor r token a)" for role :: action_role and d'
    using reports_action [OF i s] reports_role_error by (auto simp: i split: prod.split sum.split)
  show ?thesis
    unfolding route_run_def
    by (rule reports_andthen)
      (auto simp: Let_def i role [unfolded i] reports_fail reports_verification [OF i, unfolded i]
        intro!: reports_andthen)
qed

lemma reports_advance: "reports i (advance_investigation env ro d actor i token)"
proof -
  have "reports i (andthen (d, raise_if (\<not> actor_can_edit_run d actor r) Permission_Denied) (\<lambda>d _.
     andthen (d, assert_active r) (\<lambda>d _.
     andthen (d, assert_executor r token) (\<lambda>d _.
     if r_status r = Waiting_Human then result_for env d r (r_status r) None
     else
       andthen (d, evaluate_run_policy env d r False False) (\<lambda>d decision.
       andthen (missing_evidence_boundary env d actor r token decision) (\<lambda>d boundary.
       (case boundary of
          Some result \<Rightarrow> (d, Inr result)
        | None \<Rightarrow>
            if pd_outcome decision = READY_FOR_DECISION then
              andthen (commit d (set_ready env d actor i token)) (\<lambda>d1 ready.
                (d1, Inr \<lparr>ar_run = r_id ready, ar_status = r_status ready, ar_policy = decision,
                          ar_step = None\<rparr>))
            else if budget_exhausted (db_now d) r False False
            then handle_budget_exhaustion env d actor i token ''budget_exhausted''
            else route_run env ro d actor r token))))))) "
    if g: "get_run d i = Some r" for r
  proof -
    have i: "r_id r = i" using get_run_SomeD [OF g] by blast
    show ?thesis
    proof (cases "is_active r")
      case False
      then show ?thesis by (auto simp: assert_active_def intro!: reports_andthen)
    next
      case True
      show ?thesis
      proof (cases "r_status r = Waiting_Human")
        case True
        then show ?thesis using reports_result [OF g _ i] by (auto intro!: reports_andthen)
      next
        case False
        then have s: "r_status r = Running" using True by (simp add: is_active_iff)
        have "reports i (case boundary of
          Some result \<Rightarrow> (d2, Inr result)
        | None \<Rightarrow>
            if pd_outcome decision = READY_FOR_DECISION then
              andthen (commit d2 (set_ready env d2 actor i token)) (\<lambda>d1 ready.
                (d1, Inr \<lparr>ar_run = r_id ready, ar_status = r_status ready, ar_policy = decision,
                          ar_step = None\<rparr>))
            else if budget_exhausted (db_now d2) r False False
            then handle_budget_exhaustion env d2 actor i token ''budget_exhausted''
            else route_run env ro d2 actor r token)"
          if "missing_evidence_boundary env d1 actor r token decision = (d2, Inr boundary)" for d1 d2 decision boundary
          using that boundary_reports [of env d1 actor r token decision d2] i reports_ready reports_budget
            reports_route [OF i s] by (cases boundary) auto
        then show ?thesis using False by (auto intro!: reports_andthen)
      qed
    qed
  qed
  then show ?thesis
    unfolding advance_investigation_def by (intro reports_andthen) (simp add: refresh_Inr)
qed

lemma iterate_reports:
  "iterate env ro actor i token n d = (d', Inr (Some a)) \<Longrightarrow> ar_status a \<noteq> Running \<and> reports i (d', Inr a)"
proof (induction n arbitrary: d)
  case (Suc n)
  then obtain d1 b where adv: "advance_investigation env ro d actor i token = (d1, Inr b)"
    and rest: "(if ar_status b \<noteq> Running then (d1, Inr (Some b)) else iterate env ro actor i token n d1) =
      (d', Inr (Some a))"
    by (auto simp: andthen_eq_Inr)
  show ?case
  proof (cases "ar_status b = Running")
    case True
    with rest Suc.IH show ?thesis by simp
  next
    case False
    with rest adv reports_advance [of i env ro d actor token] show ?thesis by simp
  qed
qed simp

text \<open>
  C4. The loop stops at a boundary and tells the truth about it: whatever the models and tools do, when
  \<open>run_until_boundary\<close> returns, the status it reports is not \<open>running\<close> and is the status the database
  holds for that run (after at most 128 iterations, the guard included).
\<close>

theorem boundary_reported:
  assumes "run_until_boundary env ro d actor i token n = (d', Inr a)"
  shows "ar_status a \<noteq> Running \<and> ar_run a = i \<and>
    (\<exists>r. get_run d' i = Some r \<and> r_status r = ar_status a) \<and> 1 \<le> n \<and> n \<le> 128"
proof -
  have n: "1 \<le> n" "n \<le> 128" using assms by (auto simp: run_until_boundary_def split: if_split_asm)
  with assms obtain d1 result where it: "iterate env ro actor i token (nat n) d = (d1, Inr result)"
    and rest: "(case result of
           Some a \<Rightarrow> (d1, Inr a)
         | None \<Rightarrow>
             andthen (refresh d1 i) (\<lambda>d' r.
             fail_runtime env d' actor (r_id r) token iteration_guard_payload)) = (d', Inr a)"
    by (auto simp: run_until_boundary_def andthen_eq_Inr)
  have "ar_status a \<noteq> Running \<and> reports i (d', Inr a)"
  proof (cases result)
    case (Some b)
    with rest iterate_reports [of env ro actor i token "nat n" d d1 b] it show ?thesis by simp
  next
    case None
    with rest obtain r where g: "get_run d1 i = Some r" and f: "fail_runtime env d1 actor (r_id r) token
        iteration_guard_payload = (d', Inr a)"
      by (auto simp: andthen_eq_Inr refresh_Inr)
    have "r_id r = i" using get_run_SomeD [OF g] by blast
    moreover have "ar_status a = Failed"
      using f by (auto simp: fail_runtime_def run_io_simps result_for_def dest: failed_saved)
    ultimately show ?thesis using reports_fail [of i env d1 actor token iteration_guard_payload] f by simp
  qed
  with n show ?thesis by auto
qed

section \<open>The loop is made of transactions\<close>

text \<open>
  \<open>moves env d out\<close>: the database of an outcome, also of one that raises, is reached from \<open>d\<close> by
  transactions of the runtime.
\<close>

definition moves :: "env \<Rightarrow> db \<Rightarrow> 'a run_io \<Rightarrow> bool" where
  "moves env d out \<longleftrightarrow> run_steps env d (fst out)"

text \<open>What the roles do between two calls of the loop are transactions too, of any users.\<close>

definition roles_sound :: "env \<Rightarrow> roles \<Rightarrow> bool" where
  "roles_sound env ro \<longleftrightarrow>
     (\<forall>d actor r token. moves env d (ro_planner ro d actor r token) \<and>
        moves env d (ro_synthesizer ro d actor r token) \<and> moves env d (ro_verifier ro d actor r token)) \<and>
     (\<forall>d actor i tool params. moves env d (ro_tool ro d actor i tool params))"

lemma moves_refl [simp]: "moves env d (d, x)"
  by (simp add: moves_def)

lemma moves_result [simp]: "moves env d (result_for env d r st s)" "moves env d (retry_result env d r)"
  by (simp_all add: result_for_def retry_result_def)

lemma moves_refresh [simp]: "moves env d (refresh d i)"
  by (simp add: refresh_def split: option.split)

lemma moves_andthen:
  "moves env d m \<Longrightarrow> (\<And>d1 x. m = (d1, Inr x) \<Longrightarrow> moves env d1 (f d1 x)) \<Longrightarrow> moves env d (andthen m f)"
  by (cases m; cases "snd m") (auto simp: moves_def intro: rtranclp_trans)

lemma moves_commit: "(\<And>d' x. t = Inr (d', x) \<Longrightarrow> run_step env d d') \<Longrightarrow> moves env d (commit d t)"
  by (cases t) (auto simp: moves_def)

lemma moves_trans: "moves env d (d1, x) \<Longrightarrow> moves env d1 out \<Longrightarrow> moves env d out"
  by (auto simp: moves_def intro: rtranclp_trans)

lemma moves_change: "moves env d (d1, x) \<Longrightarrow> moves env d (d1, y)"
  by (simp add: moves_def)

lemma moves_fail [simp]: "moves env d (fail_runtime env d actor i token payload)"
  unfolding fail_runtime_def by (intro moves_andthen moves_commit) (auto intro: run_step.fail_runtime)

lemma moves_wait [simp]: "moves env d (wait_for_human env d actor i token reason payload)"
  unfolding wait_for_human_def by (intro moves_andthen moves_commit) (auto intro: run_step.wait)

lemma moves_budget [simp]: "moves env d (handle_budget_exhaustion env d actor i token code)"
  by (simp add: handle_budget_exhaustion_def)

lemma moves_provider [simp]: "moves env d (handle_provider_failure env d actor i token code)"
  unfolding handle_provider_failure_def
  by (intro moves_andthen) (auto simp: Let_def refresh_Inr split: option.split)

lemma moves_role_error [simp]: "moves env d (role_error env d actor i token e)"
  unfolding role_error_def
  by (auto simp: refresh_Inr intro!: moves_andthen split: run_error.split)

lemma moves_ready:
  "moves env d (andthen (commit d (set_ready env d actor i token)) (\<lambda>d2 x. (d2, f x)))"
  by (intro moves_andthen moves_commit) (auto intro: run_step.ready)

lemma moves_boundary [simp]: "moves env d (missing_evidence_boundary env d actor r token decision)"
  unfolding missing_evidence_boundary_def
  by (auto intro!: moves_andthen split: option.split)

lemma moves_verification:
  assumes "roles_sound env ro" shows "moves env d (advance_verification env ro d actor r token)"
proof -
  have v: "moves env d (ro_verifier ro d actor r token)" using assms by (simp add: roles_sound_def)
  obtain d1 x where out: "ro_verifier ro d actor r token = (d1, x)" by (cases "ro_verifier ro d actor r token")
  have "moves env d1 (andthen (refresh d1 (r_id r)) (\<lambda>d1 r1.
          andthen (d1, evaluate_run_policy env d1 r1 False False) (\<lambda>d1 decision.
          if pd_outcome decision = READY_FOR_DECISION then
            andthen (commit d1 (set_ready env d1 actor (r_id r) token)) (\<lambda>d2 ready.
              (d2, Inr \<lparr>ar_run = r_id ready, ar_status = r_status ready, ar_policy = decision,
                        ar_step = None\<rparr>))
          else result_for env d1 r1 Running None)))"
    by (auto simp: refresh_Inr intro!: moves_andthen moves_ready)
  then show ?thesis
    by (auto simp: advance_verification_def out split: sum.split intro: moves_trans [OF v [unfolded out]])
qed

lemma moves_execute:
  assumes "\<And>d actor i tool params. moves env d (run_tool d actor i tool params)"
  shows "moves env d (execute_tool_step env run_tool d actor i token tool parameters target finding v)"
proof -
  have tool: "moves env d1 (case run_tool d1 actor i tool params of
                  (d2, Inl e) \<Rightarrow>
                    andthen (commit d2 (fail_tool_step d2 actor i token seq generation e))
                      (\<lambda>d3 _. (d3, Inl e))
                | (d2, Inr payload) \<Rightarrow>
                    andthen (commit d2 (finish_tool_step env d2 actor i token seq generation v payload)) (\<lambda>d3 (stale, s).
                    if stale then (d3, Inl (run_err ''stale_executor'')) else (d3, Inr s)))" for d1 params seq generation
  proof -
    obtain d2 x where out: "run_tool d1 actor i tool params = (d2, x)" by (cases "run_tool d1 actor i tool params")
    have m: "moves env d1 (d2, x)" using assms out by metis
    have "moves env d2 (andthen (commit d2 (fail_tool_step d2 actor i token seq generation e))
                      (\<lambda>d3 _. (d3, Inl e)))" for e
      by (intro moves_andthen moves_commit) (auto intro: run_step.fail_step)
    moreover have "moves env d2 (andthen (commit d2 (finish_tool_step env d2 actor i token seq generation v payload))
        (\<lambda>d3 (stale, s). if stale then (d3, Inl (run_err ''stale_executor'')) else (d3, Inr s)))" for payload
      by (intro moves_andthen moves_commit) (auto intro: run_step.finish_step)
    ultimately show ?thesis by (auto simp: out split: sum.split intro: moves_trans [OF m])
  qed
  have "moves env d (andthen (commit d (fail_run_technical env d actor i token ''invalid_tool_parameters''
                 invalid_parameters_impact)) (\<lambda>d' _. (d', Inl e)))" for e
    by (intro moves_andthen moves_commit) (auto intro: run_step.fail_technical)
  moreover have "moves env d (commit d (begin_tool_step env d actor i token tool params target finding v))" for params
    by (intro moves_commit) (auto intro: run_step.begin_step)
  ultimately have fail: "\<And>e. moves env d (andthen (commit d (fail_run_technical env d actor i token
      ''invalid_tool_parameters'' invalid_parameters_impact)) (\<lambda>d' _. (d', Inl e)))"
    and begin_step: "\<And>params. moves env d (commit d (begin_tool_step env d actor i token tool params target finding v))"
    by blast+
  show ?thesis
  proof (cases "tool \<in> set allowed_tools")
    case True
    show ?thesis
    proof (cases "normalize_tool_parameters tool parameters (Some (snapshot_source_ids d i))")
      case (Inl e)
      show ?thesis
        using True Inl fail [of e] by (auto simp: execute_tool_step_def)
    next
      case (Inr params)
      show ?thesis
        unfolding execute_tool_step_def Inr sum.case
        using True begin_step tool
        by (auto simp del: andthen_simps commit_simps simp: Let_def split: begun.split intro!: moves_andthen)
    qed
  qed (simp add: execute_tool_step_def)
qed

lemma moves_mark: "moves env d (try_mark_counterevidence_processed d actor r token)"
  unfolding try_mark_counterevidence_processed_def
  by (auto simp: moves_def split: sum.split run_error.split intro!: r_into_rtranclp run_step.counterevidence)

lemma moves_tool:
  assumes "roles_sound env ro" shows "moves env d (apply_tool env ro d actor i token a)"
proof -
  have "moves env d' (ro_tool ro d' actor' j tool params)" for d' actor' j tool params
    using assms by (simp add: roles_sound_def)
  then show ?thesis
    unfolding apply_tool_def
    by (intro moves_andthen moves_execute) (auto simp: refresh_Inr intro!: moves_andthen moves_mark)
qed

lemma moves_recorded:
  assumes "roles_sound env ro" shows "moves env d (apply_recorded_action env ro d actor r token a)"
  unfolding apply_recorded_action_def
  by (intro moves_andthen moves_commit)
    (auto intro: run_step.repeat intro!: moves_andthen moves_tool moves_verification assms)

lemma moves_package: "moves env d (store_package env d actor r token a)"
  unfolding store_package_def
  by (auto intro!: moves_andthen moves_commit simp: refresh_Inr intro: run_step.planner run_step.relevance)

lemma moves_action:
  assumes "roles_sound env ro" shows "moves env d (apply_action env ro d actor r token a)"
  unfolding apply_action_def
  by (rule moves_andthen)
    (auto intro!: moves_andthen moves_commit moves_package moves_recorded assms
      intro: run_step.fail_contract split: option.split)

lemma moves_route:
  assumes "roles_sound env ro" shows "moves env d (route_run env ro d actor r token)"
proof -
  have role: "moves env d (case out of
            (d1, Inl e) \<Rightarrow> role_error env d1 actor (r_id r) token e
          | (d1, Inr a) \<Rightarrow> apply_action env ro d1 actor r token a)" if "moves env d out"
    for d and out :: "planner_action run_io"
    using that moves_action [OF assms] by (cases out) (auto split: sum.split intro: moves_trans)
  have "moves env d (ro_planner ro d actor r token)" "moves env d (ro_synthesizer ro d actor r token)" for d
    using assms by (simp_all add: roles_sound_def)
  then show ?thesis
    unfolding route_run_def
    by (intro moves_andthen)
      (auto simp: Let_def intro!: moves_andthen role moves_verification [OF assms])
qed

lemma moves_advance:
  assumes "roles_sound env ro" shows "moves env d (advance_investigation env ro d actor i token)"
  unfolding advance_investigation_def
  by (intro moves_andthen)
    (auto simp: refresh_Inr intro!: moves_andthen moves_ready moves_route [OF assms] split: option.split)

lemma moves_iterate:
  assumes "roles_sound env ro" shows "moves env d (iterate env ro actor i token n d)"
proof (induction n arbitrary: d)
  case (Suc n)
  then show ?case by (auto intro!: moves_andthen moves_advance [OF assms])
qed simp

lemma moves_loop:
  assumes "roles_sound env ro" shows "moves env d (run_until_boundary env ro d actor i token n)"
  unfolding run_until_boundary_def
  by (auto intro!: moves_andthen moves_iterate [OF assms] simp: refresh_Inr split: option.split)

text \<open>
  C5. The loop refines the transition system: whatever the models answer and whenever they or a tool
  raise, the database \<open>run_until_boundary\<close> leaves, also when it ends in an exception, is reached by
  transactions of the runtime, so every invariant of the reachable databases holds after it.
\<close>

theorem loop_refines_transactions:
  assumes "roles_sound env ro"
  shows "run_steps env d (fst (run_until_boundary env ro d actor i token n))"
  using moves_loop [OF assms] by (simp add: moves_def)

section \<open>Loops without progress\<close>


section \<open>Concrete inputs\<close>

text \<open>A tool that finds nothing, models that do nothing but ask a human, and an action.\<close>

definition sample_tool :: tool_runner where
  "sample_tool d actor i tool params = (d, Inr (JObj [(''hits'', JList [])]))"

definition sample_action :: planner_action where
  "sample_action = \<lparr>pa_action = ''clarify'', pa_target = [], pa_finding = [], pa_tool = [],
     pa_parameters = JObj [], pa_claims = None, pa_brief = None, pa_relevance = [],
     pa_progress_kind = ''none'', pa_progress_payload = [], pa_reason = ''missing_evidence'',
     pa_clarification = []\<rparr>"

definition sample_roles :: roles where
  "sample_roles = \<lparr>ro_planner = (\<lambda>d actor r token. (d, Inr sample_action)),
     ro_synthesizer = (\<lambda>d actor r token. (d, Inr sample_action)),
     ro_verifier = (\<lambda>d actor r token. (d, Inl (run_err ''timeout''))), ro_tool = sample_tool\<rparr>"

definition sample_search :: json where
  "sample_search = JObj [(''query'', JStr ''alternative''), (''limit'', JInt 5)]"

definition sample_call :: "db \<Rightarrow> step run_io" where
  "sample_call d = execute_tool_step sample_env sample_tool d sample_actor ''u'' ''uu'' ''search_sources''
     sample_search ''c1'' [] False"

lemma sample_roles_sound: "roles_sound sample_env sample_roles"
  by (simp add: roles_sound_def sample_roles_def sample_tool_def)

definition sample_exhausted :: run where
  "sample_exhausted = sample_run\<lparr>r_usage := (''tool_calls'', 5) # tl initial_usage\<rparr>"

theorem exhausted_budget_stops_tools_witness:
  "fst (sample_call (save_run sample_db sample_exhausted)) = save_run sample_db sample_exhausted \<and>
   snd (sample_call (save_run sample_db sample_exhausted)) = Inl (run_err ''budget_exhausted'')"
proof -
  have g: "get_run (save_run sample_db sample_exhausted) ''u'' = Some sample_exhausted"
    using sample_run by (rule get_saved) (simp_all add: sample_exhausted_def sample_run_def)
  have u: "dget (r_limits sample_exhausted) ''max_tool_calls'' \<le> dget (r_usage sample_exhausted) ''tool_calls''"
    by code_simp
  have n: "normalize_tool_parameters ''search_sources'' sample_search (Some (source_ids sample_exhausted)) =
      Inr [(''query'', JStr ''alternative''), (''cursor'', JInt 0), (''limit'', JInt 5)]"
    by code_simp
  have "snd (sample_call (save_run sample_db sample_exhausted)) = Inl (run_err ''budget_exhausted'')"
    by code_simp
  with exhausted_budget_stops_tools [OF g u n] show ?thesis unfolding sample_call_def by blast
qed

definition is_returned :: "'a run_io \<Rightarrow> bool" where
  "is_returned out = (case snd out of Inr x \<Rightarrow> True | Inl e \<Rightarrow> False)"

lemma is_returnedD: "is_returned out \<Longrightarrow> \<exists>d x. out = (d, Inr x)"
  by (cases out) (auto simp: is_returned_def split: sum.splits)

theorem tool_step_idempotent_witness:
  "\<exists>d' s. sample_call sample_db = (d', Inr s) \<and> sample_call d' = (d', Inr s)"
proof -
  have "is_returned (sample_call sample_db)" by code_simp
  then obtain d' s where c: "sample_call sample_db = (d', Inr s)" using is_returnedD by blast
  have "\<exists>n rs res. db_next d \<le> n \<and>
      sample_tool d actor i tool params = (d\<lparr>db_next := n, db_results := rs\<rparr>, res)" for d actor i tool params
    by (intro exI [of _ "db_next d"] exI [of _ "db_results d"]) (simp add: sample_tool_def)
  then have "tool_isolated sample_tool" by (simp add: tool_isolated_def)
  from tool_step_idempotent [OF c [unfolded sample_call_def] this] c show ?thesis
    unfolding sample_call_def by blast
qed

definition sample_loop :: "advance_result run_io" where
  "sample_loop = run_until_boundary sample_env sample_roles sample_db sample_actor ''u'' ''uu'' 5"

theorem boundary_reported_witness:
  "\<exists>d' a r. sample_loop = (d', Inr a) \<and> get_run d' ''u'' = Some r \<and> r_status r = ar_status a \<and>
     ar_status a \<noteq> Running"
proof -
  have "is_returned sample_loop" by code_simp
  then obtain d' a where c: "sample_loop = (d', Inr a)" using is_returnedD by blast
  from boundary_reported [OF c [unfolded sample_loop_def]] c show ?thesis by blast
qed

theorem loop_refines_transactions_witness:
  "run_steps sample_env sample_db (fst sample_loop) \<and>
   map_option r_status (get_run (fst sample_loop) ''u'') = Some Waiting_Human"
proof -
  have "map_option r_status (get_run (fst sample_loop) ''u'') = Some Waiting_Human" by code_simp
  with loop_refines_transactions [OF sample_roles_sound] show ?thesis unfolding sample_loop_def by blast
qed




end
