(* ===== verification/Source_Tools.thy ===== *)
theory Source_Tools
  imports Investigation_Runtime Python_Time
begin

text \<open>
  The reading tools of \<open>accelerator/investigation_tools.py\<close>: listing, searching and reading the frozen
  sources of a snapshot. Search and reading return pages bounded by a number of items and a number of
  bytes, with a cursor to the next page. The loop that fills a page is shared; the interface
  \<open>paged\<close> says what following its cursors yields.
\<close>

section \<open>Text\<close>

text \<open>\<open>str.splitlines()\<close>.\<close>

fun split_lines_acc :: "string \<Rightarrow> string \<Rightarrow> string list" where
  "split_lines_acc cur [] = (if cur = [] then [] else [rev cur])"
| "split_lines_acc cur [c] = (if line_end c then [rev cur] else [rev (c # cur)])"
| "split_lines_acc cur (c # e # cs) =
     (if c = cr \<and> e = lf then rev cur # split_lines_acc [] cs
      else if line_end c then rev cur # split_lines_acc [] (e # cs)
      else split_lines_acc (c # cur) (e # cs))"

definition split_lines :: "string \<Rightarrow> string list" where
  "split_lines s = split_lines_acc [] s"

text \<open>\<open>json.dumps(v, ensure_ascii=False)\<close>: members in insertion order, blanks after separators.\<close>

fun json_text :: "json \<Rightarrow> string" where
  "json_text (JList xs) = ''['' @ join '', '' (map json_text xs) @ '']''"
| "json_text (JObj d) =
     ''{'' @ join '', '' (map (\<lambda>kv. json_string (fst kv) @ '': '' @ json_text (snd kv)) d) @ ''}''"
| "json_text v = canonical_json v"

definition json_bytes :: "json \<Rightarrow> int" where
  "json_bytes v = utf8_length (json_text v)"

text \<open>\<open>s.find(sub)\<close>, -1 when there is no occurrence.\<close>

fun str_find :: "string \<Rightarrow> string \<Rightarrow> int" where
  "str_find needle [] = (if needle = [] then 0 else -1)"
| "str_find needle (c # cs) =
     (if starts_with needle (c # cs) then 0
      else (let n = str_find needle cs in if n < 0 then n else n + 1))"

text \<open>Numbering the elements of a list from one: \<open>enumerate(xs, start=1)\<close>.\<close>

definition numbered :: "'a list \<Rightarrow> (int \<times> 'a) list" where
  "numbered xs = zip (map (\<lambda>n. int n + 1) [0..<length xs]) xs"

section \<open>CSV content\<close>

definition bounded_shape :: "string list \<Rightarrow> string list list \<Rightarrow> (run_error, unit) res" where
  "bounded_shape header rows =
     bindR (raise_if (header = [] \<or> [] \<in> set header) (Tool_Error ''invalid_csv_header'')) (\<lambda>_.
     bindR (raise_if (length (remdups header) \<noteq> length header) (Tool_Error ''invalid_csv_header'')) (\<lambda>_.
     bindR (raise_if (int (length header) > 50) (Tool_Error ''csv_column_limit'')) (\<lambda>_.
     bindR (raise_if (int (length rows) > 20000) (Tool_Error ''csv_row_limit'')) (\<lambda>_.
     raise_if (\<exists>row\<in>set rows. length row \<noteq> length header) (Tool_Error ''invalid_csv_shape'')))))"

definition csv_rows :: "string \<Rightarrow> (run_error, string list \<times> string list list) res" where
  "csv_rows content = (case csv_reader_raw content of
       None \<Rightarrow> Inl (Tool_Error ''invalid_csv'')
     | Some [] \<Rightarrow> Inl (Tool_Error ''invalid_csv'')
     | Some (first # rows) \<Rightarrow> (let header = map py_strip first in
         bindR (bounded_shape header rows) (\<lambda>_. Inr (header, rows))))"

lemma csv_rows_InrD:
  assumes "csv_rows content = Inr (header, rows)"
  shows "header \<noteq> []" "distinct header" "\<forall>row\<in>set rows. length row = length header"
    "int (length header) \<le> 50" "int (length rows) \<le> 20000" "[] \<notin> set header"
  using assms
  by (auto simp: csv_rows_def bounded_shape_def Let_def res_simps length_remdups_card_conv
      card_distinct split: option.split_asm list.split_asm)

section \<open>Sources of a snapshot\<close>

definition is_text :: "source \<Rightarrow> bool" where
  "is_text s \<longleftrightarrow> src_type s \<in> {''txt'', ''md''}"

text \<open>\<open>snapshot.sources.order_by("filename", "id")\<close>; the names in a snapshot are distinct.\<close>

definition ordered_sources :: "env \<Rightarrow> snapshot \<Rightarrow> source list" where
  "ordered_sources env snap = sort_key (\<lambda>s. e_collation env (src_filename s)) (sort_key src_id (snap_sources snap))"

text \<open>\<open>_source_for_snapshot\<close>; the identifier is converted to a primary key first.\<close>

definition source_for_snapshot :: "env \<Rightarrow> snapshot \<Rightarrow> json \<Rightarrow> (run_error, source) res" where
  "source_for_snapshot env snap i = bindR (e_pk env i) (\<lambda>k.
     (case Option.bind k (get_source snap) of
        None \<Rightarrow> Inl (Tool_Error ''source_not_found'')
      | Some s \<Rightarrow> Inr s))"

section \<open>Pages\<close>

text \<open>
  The loop of \<open>search_sources\<close> and \<open>read_source\<close>: items are taken until the limit is reached or the next
  one would exceed the bytes of a page; an item too large for a page of its own is an error.
\<close>

fun fill_page :: "('a \<Rightarrow> int) \<Rightarrow> int \<Rightarrow> string \<Rightarrow> int \<Rightarrow> int \<Rightarrow> 'a list \<Rightarrow> 'a list \<Rightarrow> (run_error, 'a list) res" where
  "fill_page weight most code lim used got [] = Inr got"
| "fill_page weight most code lim used got (x # xs) =
     (if int (length got) \<ge> lim then Inr got
      else if got \<noteq> [] \<and> used + weight x > most then Inr got
      else if got = [] \<and> weight x > most then Inl (Tool_Error code)
      else fill_page weight most code lim (used + weight x) (got @ [x]) xs)"

definition page :: "('a \<Rightarrow> int) \<Rightarrow> int \<Rightarrow> string \<Rightarrow> int \<Rightarrow> int \<Rightarrow> 'a list \<Rightarrow> (run_error, 'a list \<times> int option) res" where
  "page weight most code lim cursor available =
     bindR (fill_page weight most code lim 0 [] (drop (nat cursor) available)) (\<lambda>got.
     (let index = cursor + int (length got) in
      Inr (got, if index < int (length available) then Some index else None)))"

text \<open>What a page is: a slice of the available items, not empty when a next page is announced.\<close>

lemma fill_page_take:
  "fill_page weight most code lim used got xs = Inr ys \<Longrightarrow> \<exists>k. ys = got @ take k xs"
proof (induction weight most code lim used got xs rule: fill_page.induct)
  case (1 weight most code lim used got)
  then show ?case by simp
next
  case (2 weight most code lim used got x xs)
  show ?case
  proof (cases "int (length got) \<ge> lim \<or> got \<noteq> [] \<and> used + weight x > most")
    case True
    with "2.prems" have "ys = got @ take 0 (x # xs)" by (auto split: if_split_asm)
    then show ?thesis by blast
  next
    case False
    with 2 obtain k where "ys = (got @ [x]) @ take k xs" by (auto split: if_split_asm)
    then have "ys = got @ take (Suc k) (x # xs)" by simp
    then show ?thesis by blast
  qed
qed

lemma fill_page_nonempty:
  assumes "fill_page weight most code lim used [] (x # xs) = Inr ys" and "1 \<le> lim"
  shows "ys \<noteq> []"
proof -
  from assms have "fill_page weight most code lim (used + weight x) [x] xs = Inr ys"
    by (auto split: if_split_asm)
  then show ?thesis using fill_page_take by fastforce
qed

lemma fill_page_fits:
  assumes "\<forall>x\<in>set xs. weight x \<le> most"
  shows "\<exists>ys. fill_page weight most code lim used got xs = Inr ys"
  using assms by (induction weight most code lim used got xs rule: fill_page.induct) auto

text \<open>Within the bytes of a page the whole window comes back.\<close>

lemma fill_page_window:
  assumes "used + sum_list (map weight xs) \<le> most" and "\<forall>x\<in>set xs. 0 \<le> weight x" and "0 \<le> used"
    and "int (length got) + int (length xs) \<le> lim"
  shows "fill_page weight most code lim used got (xs @ zs) =
    fill_page weight most code lim (used + sum_list (map weight xs)) (got @ xs) zs"
  using assms
proof (induction xs arbitrary: used got)
  case (Cons x xs)
  have "0 \<le> sum_list (map weight xs)" using Cons.prems(2) by (intro sum_list_nonneg) auto
  with Cons.prems have "used + weight x \<le> most" "weight x \<le> most" by auto
  with Cons.prems have "fill_page weight most code lim used got ((x # xs) @ zs) =
      fill_page weight most code lim (used + weight x) (got @ [x]) (xs @ zs)"
    by simp
  also have "\<dots> = fill_page weight most code lim (used + weight x + sum_list (map weight xs)) ((got @ [x]) @ xs) zs"
    by (rule Cons.IH) (use Cons.prems in auto)
  finally show ?case by (simp add: add.assoc)
qed simp

lemma pageD:
  assumes "page weight most code lim cursor available = Inr (xs, n)" and "0 \<le> cursor"
  shows "xs = take (length xs) (drop (nat cursor) available) \<and>
    n = (if cursor + int (length xs) < int (length available) then Some (cursor + int (length xs)) else None)"
proof -
  from assms have f: "fill_page weight most code lim 0 [] (drop (nat cursor) available) = Inr xs"
    and n: "n = (if cursor + int (length xs) < int (length available) then Some (cursor + int (length xs)) else None)"
    by (auto simp: page_def Let_def bindR_eq_Inr)
  from fill_page_take [OF f] obtain k where "xs = take k (drop (nat cursor) available)" by auto
  then have "xs = take (length xs) (drop (nat cursor) available)"
    by (metis append_take_drop_id append_eq_conv_conj)
  with n show ?thesis by simp
qed

lemma page_progress:
  assumes "page weight most code lim cursor available = Inr (xs, Some n)" and "0 \<le> cursor" and "1 \<le> lim"
  shows "xs \<noteq> []"
proof -
  from assms have f: "fill_page weight most code lim 0 [] (drop (nat cursor) available) = Inr xs"
    by (auto simp: page_def Let_def bindR_eq_Inr)
  have "cursor < int (length available)" using pageD [OF assms(1,2)] by (auto split: if_split_asm)
  then obtain y ys where "drop (nat cursor) available = y # ys"
    using assms(2) by (metis drop_eq_Nil2 list.exhaust nat_less_iff not_less)
  with f fill_page_nonempty assms(3) show ?thesis by metis
qed

section \<open>Following the cursors\<close>

text \<open>
  A client that asks for page after page; the number bounds its calls, \<open>None\<close> means that they did not
  suffice.
\<close>

fun follow :: "(int \<Rightarrow> (run_error, 'a list \<times> int option) res) \<Rightarrow> nat \<Rightarrow> int \<Rightarrow> (run_error, 'a list) res option" where
  "follow fetch 0 c = None"
| "follow fetch (Suc k) c = (case fetch c of
       Inl e \<Rightarrow> Some (Inl e)
     | Inr (xs, None) \<Rightarrow> Some (Inr xs)
     | Inr (xs, Some n) \<Rightarrow> map_option (\<lambda>r. bindR r (\<lambda>ys. Inr (xs @ ys))) (follow fetch k n))"

locale paged =
  fixes fetch :: "int \<Rightarrow> (run_error, 'a list \<times> int option) res" and available :: "'a list"
  assumes slice: "fetch c = Inr (xs, n) \<Longrightarrow> 0 \<le> c \<Longrightarrow>
      xs = take (length xs) (drop (nat c) available) \<and>
      n = (if c + int (length xs) < int (length available) then Some (c + int (length xs)) else None)"
    and progress: "fetch c = Inr (xs, Some m) \<Longrightarrow> 0 \<le> c \<Longrightarrow> xs \<noteq> []"
begin

lemma follow_ends:
  assumes "0 \<le> c" and "nat (int (length available) - c) < k"
  shows "\<exists>r. follow fetch k c = Some r \<and> (\<forall>ys. r = Inr ys \<longrightarrow> ys = drop (nat c) available) \<and>
    ((\<forall>i\<ge>0. \<exists>p. fetch i = Inr p) \<longrightarrow> r = Inr (drop (nat c) available))"
  using assms
proof (induction k arbitrary: c)
  case (Suc k)
  show ?case
  proof (cases "fetch c")
    case (Inl e)
    then show ?thesis using Suc.prems(1) by force
  next
    case (Inr p)
    then obtain xs n where f: "fetch c = Inr (xs, n)" by (cases p) auto
    note s = slice [OF f Suc.prems(1)]
    show ?thesis
    proof (cases n)
      case None
      with s have "xs = drop (nat c) available" by (auto split: if_split_asm)
      then show ?thesis using f None by simp
    next
      case (Some m)
      then have xs: "xs \<noteq> []" using progress f Suc.prems(1) by blast
      have m: "m = c + int (length xs)" "m < int (length available)"
        using s Some by (auto split: if_split_asm)
      have "nat (int (length available) - m) < k"
        using Suc.prems xs m by (cases xs) auto
      with Suc.IH [of m] Suc.prems(1) m obtain r where r: "follow fetch k m = Some r"
        "\<forall>ys. r = Inr ys \<longrightarrow> ys = drop (nat m) available"
        "(\<forall>i\<ge>0. \<exists>p. fetch i = Inr p) \<longrightarrow> r = Inr (drop (nat m) available)"
        by auto
      have "nat m = length xs + nat c" using m(1) Suc.prems(1) by simp
      then have all: "xs @ drop (nat m) available = drop (nat c) available"
        using s by (metis append_take_drop_id drop_drop)
      show ?thesis
        using r all by (cases r) (auto simp: f Some)
    qed
  qed
qed simp

lemma follow_from_start:
  "\<exists>r. follow fetch (Suc (length available)) 0 = Some r \<and> (\<forall>ys. r = Inr ys \<longrightarrow> ys = available) \<and>
    ((\<forall>i\<ge>0. \<exists>p. fetch i = Inr p) \<longrightarrow> r = Inr available)"
  using follow_ends [of 0 "Suc (length available)"] by simp

end

text \<open>The checks of the cursor and the limit, in this order.\<close>

definition check_window :: "int \<Rightarrow> int \<Rightarrow> int \<Rightarrow> (run_error, unit) res" where
  "check_window cursor lim most =
     bindR (raise_if (cursor < 0) (Tool_Error ''invalid_cursor'')) (\<lambda>_.
     raise_if (lim < 1 \<or> lim > most) (Tool_Error ''invalid_limit''))"

section \<open>Searching\<close>

definition snippet :: "string \<Rightarrow> string \<Rightarrow> string" where
  "snippet value query = (let
     compact = map (\<lambda>c. if c = cr \<or> c = lf then CHR '' '' else c) value;
     position = str_find (py_casefold query) (py_casefold compact) in
     if position < 0 \<or> int (length compact) \<le> 300 then take 300 compact
     else (let start = max 0 (position - 150); end' = min (int (length compact)) (start + 300) in
       take (nat (end' - start)) (drop (nat start) compact)))"

definition search_hit :: "source \<Rightarrow> obj \<Rightarrow> string \<Rightarrow> json" where
  "search_hit s locator excerpt = JObj
     [(''source_id'', JStr (src_id s)), (''filename'', JStr (src_filename s)),
      (''locator'', JObj locator), (''excerpt'', JStr excerpt)]"

definition text_hits :: "string \<Rightarrow> source \<Rightarrow> json list" where
  "text_hits query s = map (\<lambda>(n, line). search_hit s [(''line'', JInt n)] (snippet line query))
     (filter (\<lambda>(n, line). str_contains (py_casefold query) (py_casefold line))
       (numbered (split_lines (src_content s))))"

definition csv_hits :: "string \<Rightarrow> source \<Rightarrow> (run_error, json list) res" where
  "csv_hits query s = bindR (csv_rows (src_content s)) (\<lambda>(header, rows).
     Inr (concat (map (\<lambda>(n, row).
       map (\<lambda>(column, value).
           search_hit s [(''row'', JInt n), (''column'', JStr column)] (snippet value query))
         (filter (\<lambda>(column, value). str_contains (py_casefold query) (py_casefold value))
           (zip header row))) (numbered rows))))"

definition source_hits :: "string \<Rightarrow> source \<Rightarrow> (run_error, json list) res" where
  "source_hits query s = (if is_text s then Inr (text_hits query s) else csv_hits query s)"

definition all_search_hits :: "env \<Rightarrow> snapshot \<Rightarrow> string \<Rightarrow> (run_error, json list) res" where
  "all_search_hits env snap query = concatR (source_hits query) (ordered_sources env snap)"

definition opt_cursor :: "int option \<Rightarrow> json" where
  "opt_cursor n = (case n of None \<Rightarrow> JNull | Some i \<Rightarrow> JInt i)"

definition search_page :: "env \<Rightarrow> snapshot \<Rightarrow> string \<Rightarrow> int \<Rightarrow> int \<Rightarrow> (run_error, json list \<times> int option \<times> int) res" where
  "search_page env snap q lim cursor =
     bindR (check_window cursor lim 50) (\<lambda>_.
     bindR (all_search_hits env snap q) (\<lambda>hits.
     bindR (page json_bytes 65536 ''hit_too_large'' lim cursor hits) (\<lambda>(got, next').
     Inr (got, next', int (length hits)))))"

definition search_sources ::
    "env \<Rightarrow> db \<Rightarrow> user option \<Rightarrow> json \<Rightarrow> string \<Rightarrow> int \<Rightarrow> int \<Rightarrow> (run_error, json) res" where
  "search_sources env d actor snapshot_id query cursor lim =
     bindR (authorized_snapshot env d actor snapshot_id) (\<lambda>snap.
     (let q = py_strip query in
      bindR (raise_if (q = []) (Tool_Error ''empty_query'')) (\<lambda>_.
      bindR (search_page env snap q lim cursor) (\<lambda>(got, next', total).
      Inr (JObj [(''snapshot_id'', JStr (snap_id snap)), (''query'', JStr q), (''hits'', JList got),
        (''next_cursor'', opt_cursor next'), (''total_matches'', JInt total)])))))"

section \<open>Reading\<close>

definition text_items :: "source \<Rightarrow> json list" where
  "text_items s = map (\<lambda>(n, line). JObj [(''line'', JInt n), (''text'', JStr line)])
     (numbered (split_lines (src_content s)))"

text \<open>\<open>header.index(column)\<close> for a column of the header.\<close>

fun index_of :: "'a \<Rightarrow> 'a list \<Rightarrow> nat" where
  "index_of x [] = 0"
| "index_of x (y # ys) = (if x = y then 0 else Suc (index_of x ys))"

definition row_values :: "string list \<Rightarrow> string list \<Rightarrow> string list \<Rightarrow> obj" where
  "row_values header columns row =
     dict_of (map (\<lambda>column. (column, JStr (row ! index_of column header))) columns)"

definition csv_items :: "source \<Rightarrow> string list \<Rightarrow> (run_error, json list) res" where
  "csv_items s requested = bindR (csv_rows (src_content s)) (\<lambda>(header, rows).
     (let columns = (if requested \<noteq> [] then requested else header) in
      bindR (raise_if (\<not> set columns \<subseteq> set header) (Tool_Error ''missing_column'')) (\<lambda>_.
      Inr (map (\<lambda>(n, row). JObj [(''row'', JInt n), (''values'', JObj (row_values header columns row))])
        (numbered rows)))))"

definition source_items :: "source \<Rightarrow> string list \<Rightarrow> (run_error, json list) res" where
  "source_items s requested = (if is_text s then Inr (text_items s) else csv_items s requested)"

text \<open>\<open>MAX_READ_BYTES = MAX_FILE_BYTES + 64 * 1024\<close>.\<close>

definition max_read_bytes :: int where
  "max_read_bytes = 1048576 + 65536"

definition read_page :: "source \<Rightarrow> string list \<Rightarrow> int \<Rightarrow> int \<Rightarrow> (run_error, json list \<times> int option) res" where
  "read_page s columns lim cursor =
     bindR (check_window cursor lim 200) (\<lambda>_.
     bindR (source_items s columns) (\<lambda>available.
     page json_bytes max_read_bytes ''item_too_large'' lim cursor available))"

definition read_source ::
    "env \<Rightarrow> db \<Rightarrow> user option \<Rightarrow> json \<Rightarrow> json \<Rightarrow> int \<Rightarrow> int \<Rightarrow> string list \<Rightarrow> (run_error, json) res" where
  "read_source env d actor snapshot_id source_id cursor lim columns =
     bindR (authorized_snapshot env d actor snapshot_id) (\<lambda>snap.
     bindR (source_for_snapshot env snap source_id) (\<lambda>s.
     bindR (read_page s columns lim cursor) (\<lambda>(got, next').
     Inr (JObj [(''snapshot_id'', JStr (snap_id snap)), (''source_id'', JStr (src_id s)),
       (''source_type'', JStr (src_type s)), (''items'', JList got),
       (''next_cursor'', opt_cursor next')]))))"

section \<open>Listing\<close>

definition source_descriptor :: "source \<Rightarrow> json" where
  "source_descriptor s = JObj
     [(''source_id'', JStr (src_id s)), (''filename'', JStr (src_filename s)),
      (''source_type'', JStr (src_type s)), (''size_bytes'', JInt (src_size s)),
      (''content_sha256'', JStr (src_sha256 s)),
      (''captured_mtime'', case src_mtime s of None \<Rightarrow> JNull | Some t \<Rightarrow> JStr (isoformat t)),
      (''row_count'', opt_int (src_row_count s)), (''column_count'', opt_int (src_column_count s)),
      (''columns'', JList (map JStr (src_columns s))),
      (''duplicate_of_source_id'', case src_duplicate_of s of None \<Rightarrow> JNull | Some i \<Rightarrow> JStr i)]"

definition list_sources :: "env \<Rightarrow> db \<Rightarrow> user option \<Rightarrow> json \<Rightarrow> (run_error, json) res" where
  "list_sources env d actor snapshot_id =
     bindR (authorized_snapshot env d actor snapshot_id) (\<lambda>snap.
     Inr (JObj [(''snapshot_id'', JStr (snap_id snap)), (''manifest_hash'', JStr (snap_manifest_hash snap)),
       (''sources'', JList (map source_descriptor (ordered_sources env snap)))]))"

section \<open>The pages of the tools\<close>

text \<open>What a tool finds available, nothing when it fails.\<close>

definition or_nil :: "(run_error, 'a list) res \<Rightarrow> 'a list" where
  "or_nil r = (case r of Inl e \<Rightarrow> [] | Inr xs \<Rightarrow> xs)"

definition search_fetch :: "env \<Rightarrow> snapshot \<Rightarrow> string \<Rightarrow> int \<Rightarrow> int \<Rightarrow> (run_error, json list \<times> int option) res" where
  "search_fetch env snap q lim c = bindR (search_page env snap q lim c) (\<lambda>(got, next', total). Inr (got, next'))"

lemma read_page_eq_Inr [res_simps]:
  "read_page s columns lim c = Inr p \<longleftrightarrow> 0 \<le> c \<and> 1 \<le> lim \<and> lim \<le> 200 \<and>
     (\<exists>available. source_items s columns = Inr available \<and>
        page json_bytes max_read_bytes ''item_too_large'' lim c available = Inr p)"
  by (auto simp: read_page_def check_window_def res_simps)

lemma search_fetch_eq_Inr [res_simps]:
  "search_fetch env snap q lim c = Inr p \<longleftrightarrow> 0 \<le> c \<and> 1 \<le> lim \<and> lim \<le> 50 \<and>
     (\<exists>hits. all_search_hits env snap q = Inr hits \<and>
        page json_bytes 65536 ''hit_too_large'' lim c hits = Inr p)"
  by (cases p) (auto simp: search_fetch_def search_page_def check_window_def res_simps)

interpretation reading: paged "read_page s columns lim" "or_nil (source_items s columns)" for s columns lim
  by unfold_locales (auto simp: read_page_eq_Inr or_nil_def dest: pageD page_progress)

interpretation searching: paged "search_fetch env snap q lim" "or_nil (all_search_hits env snap q)" for env snap q lim
  by unfold_locales (auto simp: search_fetch_eq_Inr or_nil_def dest: pageD page_progress)

lemma page_fits:
  assumes "\<forall>x\<in>set available. weight x \<le> most"
  shows "\<exists>p. page weight most code lim c available = Inr p"
proof -
  have "\<forall>x\<in>set (drop (nat c) available). weight x \<le> most"
    using assms by (meson in_set_dropD)
  from fill_page_fits [OF this] obtain ys where
    "fill_page weight most code lim 0 [] (drop (nat c) available) = Inr ys" by blast
  then show ?thesis by (simp add: page_def Let_def)
qed

end
