(* ===== verification/Python_Decimal.thy ===== *)
theory Python_Decimal
  imports Python_Int
begin

text \<open>
  What the program uses of Python's \<open>decimal\<close> and \<open>statistics\<close> modules, in the default context
  (28 digits, exponents between -999999 and 999999, half to even; invalid operations and overflows
  raise). A number is a sign (true when negative), a coefficient that is at least zero and an exponent; \<open>Inl\<close> carries the name of the signal.
\<close>

datatype decimal =
    Fin bool int int
  | Infinite bool
  | Not_Num bool bool string

text \<open>\<open>Not_Num negative signaling payload\<close>.\<close>

type_synonym 'a signal = "(string, 'a) res"

section \<open>Reading a number\<close>

definition is_digit :: "char \<Rightarrow> bool" where
  "is_digit c = (dec_value c \<noteq> None)"

definition digit_value :: "char \<Rightarrow> int" where
  "digit_value c = of_char c - 48"

definition decimal_digits :: "string \<Rightarrow> int" where
  "decimal_digits s = foldl (\<lambda>n c. 10 * n + digit_value c) 0 s"

definition strip_zeros :: "string \<Rightarrow> string" where
  "strip_zeros s = dropWhile (\<lambda>c. c = CHR ''0'') s"

definition split_sign :: "string \<Rightarrow> bool \<times> string" where
  "split_sign s = (case s of
       [] \<Rightarrow> (False, [])
     | c # cs \<Rightarrow> if c = CHR ''-'' then (True, cs) else if c = CHR ''+'' then (False, cs) else (False, s))"

definition exponent_of :: "string \<Rightarrow> int option" where
  "exponent_of s = (case split_sign s of (neg, ds) \<Rightarrow>
     if ds = [] \<or> \<not> list_all is_digit ds then None
     else Some (if neg then - decimal_digits ds else decimal_digits ds))"

definition number_of :: "string \<Rightarrow> (int \<times> int) option" where
  "number_of s = (let
     whole = takeWhile is_digit s;
     rest = dropWhile is_digit s;
     (frac, tail) = (case rest of
         [] \<Rightarrow> ([], [])
       | c # cs \<Rightarrow> if c = CHR ''.'' then (takeWhile is_digit cs, dropWhile is_digit cs) else ([], rest));
     coeff = decimal_digits (whole @ frac) in
     if whole @ frac = [] then None
     else (case tail of
         [] \<Rightarrow> Some (coeff, - int (length frac))
       | c # cs \<Rightarrow>
           if c = CHR ''e'' then map_option (\<lambda>e. (coeff, e - int (length frac))) (exponent_of cs)
           else None))"

definition digit_count :: "int \<Rightarrow> int" where
  "digit_count n = int (length (dec_digits n))"

text \<open>The range in which the conversion of a text is exact.\<close>

definition exact_range :: "int \<Rightarrow> int \<Rightarrow> bool" where
  "exact_range c e \<longleftrightarrow> - 1999999999999999997 \<le> e \<and>
     (if c = 0 then e else digit_count c - 1 + e) \<le> 999999999999999999"

text \<open>\<open>Decimal(s)\<close>: \<open>None\<close> is \<open>InvalidOperation\<close>.\<close>

definition parse_decimal :: "string \<Rightarrow> decimal option" where
  "parse_decimal s = (case split_sign (filter (\<lambda>c. c \<noteq> CHR ''_'') (py_strip s)) of (neg, body) \<Rightarrow>
     (let low = py_casefold body in
      if low = ''inf'' \<or> low = ''infinity'' then Some (Infinite neg)
      else if take 3 low = ''nan'' \<and> list_all is_digit (drop 3 low)
      then Some (Not_Num neg False (strip_zeros (drop 3 low)))
      else if take 4 low = ''snan'' \<and> list_all is_digit (drop 4 low)
      then Some (Not_Num neg True (strip_zeros (drop 4 low)))
      else (case number_of low of
          None \<Rightarrow> None
        | Some (c, e) \<Rightarrow> if exact_range c e then Some (Fin neg c e) else None)))"

section \<open>Writing a number\<close>

definition sign_text :: "bool \<Rightarrow> string" where
  "sign_text neg = (if neg then ''-'' else [])"

definition coeff_text :: "int \<Rightarrow> string" where
  "coeff_text c = dec_digits c"

definition special_text :: "decimal \<Rightarrow> string" where
  "special_text x = (case x of
       Infinite neg \<Rightarrow> sign_text neg @ ''Infinity''
     | Not_Num neg sig payload \<Rightarrow> sign_text neg @ (if sig then ''sNaN'' else ''NaN'') @ payload
     | Fin _ _ _ \<Rightarrow> [])"

text \<open>The digits with a point after the first \<open>n\<close> of them, padded by zeros on either side.\<close>

definition pointed :: "string \<Rightarrow> int \<Rightarrow> string" where
  "pointed ds n =
     (if n \<le> 0 then ''0.'' @ replicate (nat (- n)) CHR ''0'' @ ds
      else if n \<ge> int (length ds) then ds @ replicate (nat (n - int (length ds))) CHR ''0''
      else take (nat n) ds @ ''.'' @ drop (nat n) ds)"

text \<open>\<open>format(x, "f")\<close>; a zero with a positive exponent is written with exponent zero.\<close>

definition fixed_text :: "decimal \<Rightarrow> string" where
  "fixed_text x = (case x of
       Fin neg c e \<Rightarrow> (let e' = (if c = 0 \<and> e > 0 then 0 else e) in
         sign_text neg @ pointed (coeff_text c) (e' + digit_count c))
     | _ \<Rightarrow> special_text x)"

text \<open>\<open>str(x)\<close>: plain digits when the exponent is at most zero and the number not small.\<close>

definition sci_text :: "decimal \<Rightarrow> string" where
  "sci_text x = (case x of
       Fin neg c e \<Rightarrow> (let left = e + digit_count c in
         sign_text neg @
         (if e \<le> 0 \<and> left > -6 then pointed (coeff_text c) left
          else pointed (coeff_text c) 1 @ ''E'' @ (if left - 1 \<ge> 0 then ''+'' else []) @ int_text (left - 1)))
     | _ \<Rightarrow> special_text x)"

lemma parse_samples:
  "parse_decimal '' 1_0.50 '' = Some (Fin False 1050 (- 2))" "parse_decimal ''-.5e+3'' = Some (Fin True 5 2)"
  "parse_decimal ''sNaN012'' = Some (Not_Num False True ''12'')" "parse_decimal ''.'' = None"
  "parse_decimal ''1e'' = None" "parse_decimal ''-INF'' = Some (Infinite True)"
  by code_simp+

lemma text_samples:
  "fixed_text (Fin True 5 2) = ''-500''" "fixed_text (Fin False 1050 (- 2)) = ''10.50''"
  "fixed_text (Fin False 5 (- 3)) = ''0.005''" "fixed_text (Fin False 0 7) = ''0''"
  "sci_text (Fin False 5 2) = ''5E+2''" "sci_text (Fin False 15 (- 9)) = ''1.5E-8''"
  "sci_text (Fin False 0 (- 2)) = ''0.00''"
  by code_simp+

section \<open>Order\<close>

definition signed_coeff :: "bool \<Rightarrow> int \<Rightarrow> int" where
  "signed_coeff neg c = (if neg then - c else c)"

text \<open>\<open>scaled x e\<close>: the finite number in units of ten to the \<open>e\<close>, for \<open>e\<close> at most its exponent.\<close>

definition scaled :: "bool \<Rightarrow> int \<Rightarrow> int \<Rightarrow> int \<Rightarrow> int" where
  "scaled neg c e unit = signed_coeff neg c * 10 ^ nat (e - unit)"

fun dec_less :: "decimal \<Rightarrow> decimal \<Rightarrow> bool signal" where
  "dec_less (Not_Num _ _ _) y = Inl ''InvalidOperation''"
| "dec_less x (Not_Num _ _ _) = Inl ''InvalidOperation''"
| "dec_less (Infinite n) (Infinite m) = Inr (n \<and> \<not> m)"
| "dec_less (Infinite n) (Fin _ _ _) = Inr n"
| "dec_less (Fin _ _ _) (Infinite m) = Inr (\<not> m)"
| "dec_less (Fin n c e) (Fin m d f) =
     Inr (let u = min e f in scaled n c e u < scaled m d f u)"

section \<open>Arithmetic\<close>

definition prec :: int where "prec = 28"
definition e_max :: int where "e_max = 999999"
definition e_tiny :: int where "e_tiny = - 1000026"

definition round_half_even :: "int \<Rightarrow> nat \<Rightarrow> int" where
  "round_half_even c k = (let u = 10 ^ k; q = c div u; r = c mod u in
     if 2 * r > u \<or> 2 * r = u \<and> odd q then q + 1 else q)"

text \<open>Rounding an exact result to the context.\<close>

definition dec_fix :: "bool \<Rightarrow> int \<Rightarrow> int \<Rightarrow> decimal signal" where
  "dec_fix neg c e =
     (if c = 0 then Inr (Fin neg 0 (max e_tiny (min e e_max)))
      else if digit_count c + e - 1 > e_max then Inl ''Overflow''
      else (let low = max e_tiny (digit_count c + e - prec) in
        if e < low
        then (let q = round_half_even c (nat (low - e));
                  (q', e') = (if digit_count q > prec then (q div 10, low + 1) else (q, low)) in
              if digit_count q' + e' - 1 > e_max then Inl ''Overflow'' else Inr (Fin neg q' e'))
        else Inr (Fin neg c e)))"

definition fix_nan :: "bool \<Rightarrow> string \<Rightarrow> decimal" where
  "fix_nan neg payload = Not_Num neg False
     (if int (length payload) > prec then strip_zeros (drop (length payload - nat prec) payload) else payload)"

text \<open>What an operand that is not a number makes of an operation; \<open>None\<close> when there is none.\<close>

definition nan_result :: "decimal \<Rightarrow> decimal \<Rightarrow> decimal signal option" where
  "nan_result x y = (case (x, y) of
       (Not_Num _ True _, _) \<Rightarrow> Some (Inl ''InvalidOperation'')
     | (_, Not_Num _ True _) \<Rightarrow> Some (Inl ''InvalidOperation'')
     | (Not_Num n False p, _) \<Rightarrow> Some (Inr (fix_nan n p))
     | (_, Not_Num m False q) \<Rightarrow> Some (Inr (fix_nan m q))
     | _ \<Rightarrow> None)"

fun add_numbers :: "decimal \<Rightarrow> decimal \<Rightarrow> decimal signal" where
  "add_numbers (Infinite n) (Infinite m) = (if n = m then Inr (Infinite n) else Inl ''InvalidOperation'')"
| "add_numbers (Infinite n) y = Inr (Infinite n)"
| "add_numbers x (Infinite m) = Inr (Infinite m)"
| "add_numbers (Fin n c e) (Fin m d f) = (let u = min e f; s = scaled n c e u + scaled m d f u in
     dec_fix (s < 0 \<or> s = 0 \<and> n \<and> m) \<bar>s\<bar> u)"
| "add_numbers x y = Inl ''InvalidOperation''"

definition dec_add :: "decimal \<Rightarrow> decimal \<Rightarrow> decimal signal" where
  "dec_add x y = (case nan_result x y of Some r \<Rightarrow> r | None \<Rightarrow> add_numbers x y)"

fun dec_negate :: "decimal \<Rightarrow> decimal" where
  "dec_negate (Fin n c e) = Fin (\<not> n) c e"
| "dec_negate (Infinite n) = Infinite (\<not> n)"
| "dec_negate (Not_Num n s p) = Not_Num (\<not> n) s p"

definition dec_sub :: "decimal \<Rightarrow> decimal \<Rightarrow> decimal signal" where
  "dec_sub x y = (case nan_result x y of Some r \<Rightarrow> r | None \<Rightarrow> add_numbers x (dec_negate y))"

text \<open>Trailing zeros of an exact quotient go until the exponent is the ideal one.\<close>

fun drop_zeros :: "nat \<Rightarrow> int \<Rightarrow> int \<Rightarrow> int \<times> int" where
  "drop_zeros 0 c e = (c, e)"
| "drop_zeros (Suc k) c e = (if c mod 10 = 0 then drop_zeros k (c div 10) (e + 1) else (c, e))"

text \<open>Division by a positive integer.\<close>

definition div_coeff :: "int \<Rightarrow> int \<Rightarrow> int \<Rightarrow> int \<times> int" where
  "div_coeff c e n = (let
     shift = digit_count n - digit_count c + prec + 1;
     (num, den) = (if shift \<ge> 0 then (c * 10 ^ nat shift, n) else (c, n * 10 ^ nat (- shift)));
     q = num div den in
     if num mod den \<noteq> 0 then (if q mod 5 = 0 then q + 1 else q, e - shift)
     else drop_zeros (nat shift) q (e - shift))"

definition dec_div_int :: "decimal \<Rightarrow> int \<Rightarrow> decimal signal" where
  "dec_div_int x n = (case x of
       Not_Num _ True _ \<Rightarrow> Inl ''InvalidOperation''
     | Not_Num m False p \<Rightarrow> Inr (fix_nan m p)
     | Infinite m \<Rightarrow> Inr (Infinite m)
     | Fin m c e \<Rightarrow>
         if c = 0 then dec_fix m 0 e else (case div_coeff c e n of (q, f) \<Rightarrow> dec_fix m q f))"

fun mul_numbers :: "decimal \<Rightarrow> decimal \<Rightarrow> decimal signal" where
  "mul_numbers (Infinite n) (Infinite m) = Inr (Infinite (n \<noteq> m))"
| "mul_numbers (Infinite n) (Fin m c e) = (if c = 0 then Inl ''InvalidOperation'' else Inr (Infinite (n \<noteq> m)))"
| "mul_numbers (Fin n c e) (Infinite m) = (if c = 0 then Inl ''InvalidOperation'' else Inr (Infinite (n \<noteq> m)))"
| "mul_numbers (Fin n c e) (Fin m d f) = dec_fix (n \<noteq> m) (c * d) (e + f)"
| "mul_numbers x y = Inl ''InvalidOperation''"

definition dec_mul :: "decimal \<Rightarrow> decimal \<Rightarrow> decimal signal" where
  "dec_mul x y = (case nan_result x y of Some r \<Rightarrow> r | None \<Rightarrow> mul_numbers x y)"

text \<open>\<open>int(x.to_integral_value(rounding="ROUND_CEILING"))\<close>.\<close>

definition dec_ceiling :: "decimal \<Rightarrow> int signal" where
  "dec_ceiling x = (case x of
       Not_Num _ sig _ \<Rightarrow> Inl (if sig then ''InvalidOperation'' else ''ValueError'')
     | Infinite _ \<Rightarrow> Inl ''OverflowError''
     | Fin neg c e \<Rightarrow>
         if e \<ge> 0 then Inr (signed_coeff neg (c * 10 ^ nat e))
         else (let u = 10 ^ nat (- e) in Inr (if neg then - (c div u) else (c + u - 1) div u)))"

lemma arithmetic_samples:
  "dec_add (Fin False 1 0) (Fin True 25 (- 1)) = Inr (Fin True 15 (- 1))"
  "dec_sub (Fin False 5 0) (Fin False 5 0) = Inr (Fin False 0 0)"
  "dec_div_int (Fin False 1 0) 8 = Inr (Fin False 125 (- 3))"
  "dec_div_int (Fin False 2 0) 3 = Inr (Fin False 6666666666666666666666666667 (- 28))"
  "dec_div_int (Fin False 600 (- 1)) 2 = Inr (Fin False 300 (- 1))"
  "dec_mul (Fin False 15 (- 1)) (Fin True 2 1) = Inr (Fin True 30 0)"
  "dec_ceiling (Fin False 21 (- 1)) = Inr 3" "dec_ceiling (Fin True 21 (- 1)) = Inr (- 2)"
  by code_simp+

section \<open>Aggregates\<close>

text \<open>\<open>sum(values, Decimal("0"))\<close>, \<open>min(values)\<close>, \<open>max(values)\<close>.\<close>

fun dec_sum :: "decimal \<Rightarrow> decimal list \<Rightarrow> decimal signal" where
  "dec_sum acc [] = Inr acc"
| "dec_sum acc (x # xs) = bindR (dec_add acc x) (\<lambda>s. dec_sum s xs)"

fun dec_min :: "decimal \<Rightarrow> decimal list \<Rightarrow> decimal signal" where
  "dec_min m [] = Inr m"
| "dec_min m (x # xs) = bindR (dec_less x m) (\<lambda>b. dec_min (if b then x else m) xs)"

fun dec_max :: "decimal \<Rightarrow> decimal list \<Rightarrow> decimal signal" where
  "dec_max m [] = Inr m"
| "dec_max m (x # xs) = bindR (dec_less m x) (\<lambda>b. dec_max (if b then x else m) xs)"

text \<open>\<open>sorted(values)\<close>: stable; with two or more values every value takes part in a comparison.\<close>

fun dec_insert :: "decimal \<Rightarrow> decimal list \<Rightarrow> decimal list signal" where
  "dec_insert x [] = Inr [x]"
| "dec_insert x (y # ys) = bindR (dec_less y x) (\<lambda>b.
     if b then bindR (dec_insert x ys) (\<lambda>zs. Inr (y # zs)) else Inr (x # y # ys))"

fun dec_sort :: "decimal list \<Rightarrow> decimal list signal" where
  "dec_sort [] = Inr []"
| "dec_sort (x # xs) = bindR (dec_sort xs) (dec_insert x)"

text \<open>\<open>statistics.median\<close>.\<close>

definition dec_median :: "decimal list \<Rightarrow> decimal signal" where
  "dec_median values = bindR (dec_sort values) (\<lambda>data. (let n = length data in
     if n = 0 then Inl ''StatisticsError''
     else if odd n then Inr (data ! (n div 2))
     else bindR (dec_add (data ! (n div 2 - 1)) (data ! (n div 2))) (\<lambda>s. dec_div_int s 2)))"

end
