(* ===== verification/Source_Analysis.thy ===== *)
theory Source_Analysis
  imports Source_Tools Python_Decimal Investigation_Steps
begin

text \<open>
  The deterministic analyses of \<open>accelerator/investigation_tools.py\<close>: \<open>profile_csv\<close> and
  \<open>compare_groups\<close> with their stored results, the replay of a result, and \<open>run_tool\<close> of
  \<open>accelerator/investigation_runtime.py\<close>, which the executor calls. Python sets are iterated in an
  arbitrary order; where that order would reach a dictionary the model takes the sorted one, and the
  fingerprint sorts the keys.
\<close>

section \<open>Stored results\<close>

definition num_obj :: "(string \<times> int) list \<Rightarrow> obj" where
  "num_obj kvs = map (\<lambda>(k, n). (k, JInt n)) kvs"

record findings =
  fd_tool :: string
  fd_parameters :: obj
  fd_payload :: json
  fd_population :: obj
  fd_excluded :: "json list"
  fd_group_sizes :: "(string \<times> int) list"
  fd_missing :: "(string \<times> int) list"
  fd_units :: obj

definition result_row :: "env \<Rightarrow> db \<Rightarrow> user option \<Rightarrow> snapshot \<Rightarrow> source \<Rightarrow> findings \<Rightarrow> tool_result" where
  "result_row env d actor snap s f =
     \<lparr>tr_id = fresh env d, tr_snapshot = snap_id snap, tr_source = src_id s,
      tr_requested_by = Option.bind actor u_id, tr_tool = fd_tool f, tr_version = tool_version,
      tr_source_hash = src_sha256 s, tr_parameters = fd_parameters f,
      tr_population = JObj (fd_population f), tr_missing_values = num_obj (fd_missing f),
      tr_payload = fd_payload f, tr_excluded = JList (fd_excluded f),
      tr_group_sizes = num_obj (fd_group_sizes f), tr_units = fd_units f\<rparr>"

definition record_tool_result ::
    "env \<Rightarrow> db \<Rightarrow> user option \<Rightarrow> snapshot \<Rightarrow> source \<Rightarrow> findings \<Rightarrow> tool_result txn" where
  "record_tool_result env d actor snap s f =
     bindR (snapshot_access d actor (Some (snap_id snap))) (\<lambda>_.
     (let row = result_row env d actor snap s f in
      Inr ((draw d)\<lparr>db_results := db_results d @ [row]\<rparr>, row)))"

section \<open>Cell types\<close>

text \<open>\<open>int(raw)\<close> succeeds: at most 4300 digits.\<close>

definition int_parses :: "string \<Rightarrow> bool" where
  "int_parses raw \<longleftrightarrow> int_of_text raw \<noteq> None \<and> int (length (filter is_digit raw)) \<le> 4300"

definition cell_type :: "string \<Rightarrow> string" where
  "cell_type value = (let raw = py_strip value in
     if raw = [] then ''empty''
     else if py_casefold raw \<in> {''true'', ''false'', ''ja'', ''nein''} then ''boolean''
     else if int_parses raw then ''integer''
     else if parse_decimal raw \<noteq> None then ''decimal''
     else ''text'')"

definition column_type :: "string list \<Rightarrow> string" where
  "column_type values = (let
     kinds = remdups (map cell_type (filter (\<lambda>v. py_strip v \<noteq> []) values)) in
     if kinds = [] then ''empty''
     else if set kinds \<subseteq> {''integer''} then ''integer''
     else if set kinds \<subseteq> {''integer'', ''decimal''} then ''decimal''
     else if length kinds = 1 then hd kinds
     else ''mixed'')"

section \<open>Profile of a CSV source\<close>

definition a_umlaut :: string where "a_umlaut = [CHR 0xE4]"

definition column_values :: "string list list \<Rightarrow> nat \<Rightarrow> string list" where
  "column_values rows i = map (\<lambda>row. row ! i) rows"

definition missing_count :: "string list \<Rightarrow> int" where
  "missing_count values = int (length (filter (\<lambda>v. py_strip v = []) values))"

text \<open>The header's columns with their values.\<close>

definition columns_of :: "string list \<Rightarrow> string list list \<Rightarrow> (string \<times> string list) list" where
  "columns_of header rows = map (\<lambda>i. (header ! i, column_values rows i)) [0..<length header]"

definition column_profile :: "int \<Rightarrow> string list \<Rightarrow> json" where
  "column_profile row_count values = (let missing = missing_count values in
     JObj [(''type'', JStr (column_type values)), (''missing'', JInt missing),
       (''non_missing'', JInt (row_count - missing))])"

definition duplicate_rows :: "string list list \<Rightarrow> int" where
  "duplicate_rows rows = int (length rows) - int (length (remdups rows))"

definition profile_findings :: "(string \<times> string list) list \<Rightarrow> int \<Rightarrow> string list" where
  "profile_findings cols duplicates =
     map (\<lambda>(column, _). ''Spalte '' @ [CHR 0x27] @ column @ [CHR 0x27] @ '' enth'' @ a_umlaut @ ''lt gemischte Typen.'')
       (filter (\<lambda>(_, values). column_type values = ''mixed'') cols) @
     (if duplicates \<noteq> 0 then [int_text duplicates @ '' Dublettenzeilen erkannt.''] else [])"

definition row_numbers :: "'a list \<Rightarrow> json list" where
  "row_numbers rows = map (\<lambda>(n, _). JInt n) (numbered rows)"

definition profile_rows :: "string list \<Rightarrow> string list list \<Rightarrow> findings" where
  "profile_rows header rows = (let
     n = int (length rows);
     cols = columns_of header rows;
     duplicates = duplicate_rows rows in
     \<lparr>fd_tool = ''profile_csv'', fd_parameters = [],
      fd_payload = JObj [(''row_count'', JInt n), (''duplicate_rows'', JInt duplicates),
        (''columns'', JObj (map (\<lambda>(c, values). (c, column_profile n values)) cols)),
        (''findings'', JList (map JStr (profile_findings cols duplicates)))],
      fd_population = [(''rows_total'', JInt n), (''included_rows'', JList (row_numbers rows))],
      fd_excluded = [], fd_group_sizes = [],
      fd_missing = map (\<lambda>(c, values). (c, missing_count values)) cols, fd_units = []\<rparr>)"

text \<open>The value returned to the executor, as the JSON text of the step.\<close>

definition profile_result :: "tool_result \<Rightarrow> source \<Rightarrow> findings \<Rightarrow> json" where
  "profile_result row s f = JObj ([(''result_id'', JStr (tr_id row)), (''source_id'', JStr (src_id s)),
     (''source_hash'', JStr (src_sha256 s))] @ members (fd_payload f))"

definition profile_csv :: "env \<Rightarrow> db \<Rightarrow> user option \<Rightarrow> json \<Rightarrow> json \<Rightarrow> (tool_result \<times> json) txn" where
  "profile_csv env d actor snapshot_id source_id =
     bindR (authorized_snapshot env d actor snapshot_id) (\<lambda>snap.
     bindR (source_for_snapshot env snap source_id) (\<lambda>s.
     bindR (raise_if (src_type s \<noteq> ''csv'') (Tool_Error ''wrong_source_type'')) (\<lambda>_.
     bindR (csv_rows (src_content s)) (\<lambda>(header, rows). (let f = profile_rows header rows in
     bindR (record_tool_result env d actor snap s f) (\<lambda>(d', row).
     Inr (d', row, profile_result row s f)))))))"

section \<open>Filters\<close>

record filter_spec =
  fs_column :: string
  fs_operator :: string
  fs_value :: json

text \<open>\<open>_decimal\<close>.\<close>

definition opt_decimal :: "string \<Rightarrow> decimal option" where
  "opt_decimal value = (let raw = py_strip value in if raw = [] then None else parse_decimal raw)"

text \<open>All four comparisons are computed before one is chosen; the pair says (passes, type error).\<close>

definition compare_numbers :: "string \<Rightarrow> decimal \<Rightarrow> decimal \<Rightarrow> (run_error, bool) res" where
  "compare_numbers operator left right =
     bindR (signalR (dec_less right left)) (\<lambda>gt.
     bindR (signalR (dec_less left right)) (\<lambda>lt.
     Inr (if operator = ''gt'' then gt else if operator = ''gte'' then \<not> lt
          else if operator = ''lt'' then lt else \<not> gt)))"

definition passes_filter :: "string \<Rightarrow> filter_spec \<Rightarrow> (run_error, bool \<times> bool) res" where
  "passes_filter value spec = (let operator = fs_operator spec in
     if operator \<notin> set filter_operators then Inl (Tool_Error ''invalid_filter_operator'')
     else if operator = ''is_null'' then Inr (py_strip value = [], False)
     else if operator = ''not_null'' then Inr (py_strip value \<noteq> [], False)
     else if operator \<in> {''eq'', ''neq''} then
       (let matched = (value = py_str (fs_value spec)) in
        Inr (if operator = ''eq'' then matched else \<not> matched, False))
     else if operator \<in> {''in'', ''not_in''} then
       (if \<not> is_list (fs_value spec) then Inl (Tool_Error ''invalid_filter_value'')
        else (let matched = (value \<in> set (map py_str (items (fs_value spec)))) in
          Inr (if operator = ''in'' then matched else \<not> matched, False)))
     else (case parse_decimal (py_str (fs_value spec)) of
         None \<Rightarrow> Inl (Tool_Error ''invalid_filter_value'')
       | Some right \<Rightarrow>
           (case opt_decimal value of
              None \<Rightarrow> Inr (False, True)
            | Some left \<Rightarrow> bindR (compare_numbers operator left right) (\<lambda>b. Inr (b, False)))))"

datatype verdict = Matched | Unmatched | Mistyped

fun row_verdict :: "(string \<Rightarrow> string) \<Rightarrow> filter_spec list \<Rightarrow> (run_error, verdict) res" where
  "row_verdict cell [] = Inr Matched"
| "row_verdict cell (spec # specs) =
     bindR (passes_filter (cell (fs_column spec)) spec) (\<lambda>(passes, type_error).
       if type_error then Inr Mistyped else if \<not> passes then Inr Unmatched else row_verdict cell specs)"

section \<open>Comparing groups\<close>

record comparison =
  cg_group_by :: string
  cg_aggregation :: string
  cg_value_column :: "string option"
  cg_filters :: "filter_spec list"
  cg_unit_column :: "string option"

text \<open>\<open>if column:\<close> for a column that may be absent.\<close>

definition truthy_column :: "string option \<Rightarrow> string list" where
  "truthy_column c = (case c of None \<Rightarrow> [] | Some s \<Rightarrow> if s = [] then [] else [s])"

definition required_columns :: "comparison \<Rightarrow> string list" where
  "required_columns q = sorted_set (cg_group_by q # map fs_column (cg_filters q) @
     truthy_column (cg_value_column q) @ truthy_column (cg_unit_column q))"

definition cell_of :: "string list \<Rightarrow> string list \<Rightarrow> string \<Rightarrow> string" where
  "cell_of header row column = row ! index_of column header"

type_synonym row = "int \<times> string list"

definition judged_rows :: "string list \<Rightarrow> row list \<Rightarrow> filter_spec list \<Rightarrow> (run_error, (row \<times> verdict) list) res" where
  "judged_rows header rows filters =
     mapR (\<lambda>(n, row). bindR (row_verdict (cell_of header row) filters) (\<lambda>v. Inr ((n, row), v))) rows"

definition excluded_row :: "int \<Rightarrow> string \<Rightarrow> json" where
  "excluded_row n reason = JObj [(''row'', JInt n), (''reason'', JStr reason)]"

definition missing_in :: "string list \<Rightarrow> row list \<Rightarrow> string \<Rightarrow> int" where
  "missing_in header rows column =
     missing_count (map (\<lambda>(n, row). cell_of header row column) rows)"

text \<open>Units: the distinct units of the compared rows and the rows without one.\<close>

definition relevant_rows :: "string list \<Rightarrow> comparison \<Rightarrow> row list \<Rightarrow> row list" where
  "relevant_rows header q filtered = (case truthy_column (cg_value_column q) of
       [] \<Rightarrow> filtered
     | column # _ \<Rightarrow> filter (\<lambda>(n, row). py_strip (cell_of header row column) \<noteq> []) filtered)"

definition unit_values :: "string list \<Rightarrow> string \<Rightarrow> row list \<Rightarrow> string list" where
  "unit_values header column rows =
     sorted_set (filter (\<lambda>u. u \<noteq> []) (map (\<lambda>(n, row). py_strip (cell_of header row column)) rows))"

definition missing_unit_rows :: "string list \<Rightarrow> string \<Rightarrow> row list \<Rightarrow> int list" where
  "missing_unit_rows header column rows =
     map fst (filter (\<lambda>(n, row). py_strip (cell_of header row column) = []) rows)"

definition unit_info :: "string \<Rightarrow> string list \<Rightarrow> int list \<Rightarrow> obj" where
  "unit_info column values missing = [(''column'', JStr column), (''values'', JList (map JStr values)),
     (''missing_rows'', JList (map JInt missing))]"

definition unit_findings :: "string list \<Rightarrow> int list \<Rightarrow> row list \<Rightarrow> string list" where
  "unit_findings values missing relevant =
     (if missing \<noteq> [] then [int_text (int (length missing)) @ '' Zeilen haben f'' @ u_umlaut @
        ''r die Wertespalte keine eindeutige Einheit.''] else []) @
     (if values = [] \<and> relevant \<noteq> []
      then [''Einheit f'' @ u_umlaut @ ''r die Wertespalte ist im Vergleichsbestand unklar.''] else []) @
     (if length values > 1
      then [''Einheitenkonflikt: mehrere Einheiten im Vergleichsbestand.''] else [])"

text \<open>What the grouping loop does with a row.\<close>

datatype entry = Counted string | Valued string decimal | Excluded string

definition group_of :: "string list \<Rightarrow> comparison \<Rightarrow> string list \<Rightarrow> string" where
  "group_of header q row = (let g = py_strip (cell_of header row (cg_group_by q)) in
     if g = [] then ''<null>'' else g)"

definition entry_of :: "string list \<Rightarrow> comparison \<Rightarrow> row \<Rightarrow> (run_error, entry) res" where
  "entry_of header q r = (case r of (n, row) \<Rightarrow> (let g = group_of header q row in
     (case cg_value_column q of
        None \<Rightarrow> if cg_aggregation q = ''count'' then Inr (Counted g)
                else Inl (Tool_Error ''missing_value_column'')
      | Some column \<Rightarrow>
          if column = [] then Inl (Other_Error ''KeyError'')
          else (let raw = cell_of header row column in
            if py_strip raw = [] then Inr (Excluded ''missing_value'')
            else if cg_aggregation q = ''count'' then Inr (Counted g)
            else (case opt_decimal raw of
                None \<Rightarrow> Inr (Excluded ''non_numeric_value'')
              | Some x \<Rightarrow> Inr (Valued g x))))))"

definition entry_group :: "entry \<Rightarrow> string option" where
  "entry_group e = (case e of Counted g \<Rightarrow> Some g | Valued g _ \<Rightarrow> Some g | Excluded _ \<Rightarrow> None)"

definition group_values :: "entry list \<Rightarrow> string \<Rightarrow> decimal list" where
  "group_values es g = concat (map (\<lambda>e. case e of Valued h x \<Rightarrow> if h = g then [x] else [] | _ \<Rightarrow> []) es)"

definition aggregate :: "decimal list \<Rightarrow> string \<Rightarrow> (run_error, decimal) res" where
  "aggregate values aggregation =
     (if aggregation = ''sum'' then signalR (dec_sum (Fin False 0 0) values)
      else if aggregation = ''mean'' then
        bindR (signalR (dec_sum (Fin False 0 0) values)) (\<lambda>s. signalR (dec_div_int s (int (length values))))
      else if aggregation = ''median'' then
        bindR (signalR (dec_median values)) (\<lambda>m. (case parse_decimal (sci_text m) of
            None \<Rightarrow> Inl (Other_Error ''InvalidOperation'') | Some x \<Rightarrow> Inr x))
      else if aggregation = ''min'' then signalR (dec_min (hd values) (tl values))
      else if aggregation = ''max'' then signalR (dec_max (hd values) (tl values))
      else Inl (Tool_Error ''invalid_aggregation''))"

record group_row =
  gr_group :: string
  gr_value :: json
  gr_population :: int

definition group_names :: "entry list \<Rightarrow> string list" where
  "group_names es = sorted_set (concat (map (\<lambda>e. case entry_group e of None \<Rightarrow> [] | Some g \<Rightarrow> [g]) es))"

definition group_count :: "entry list \<Rightarrow> string \<Rightarrow> int" where
  "group_count es g = int (length (filter (\<lambda>e. entry_group e = Some g) es))"

definition group_rows :: "comparison \<Rightarrow> entry list \<Rightarrow> (run_error, group_row list) res" where
  "group_rows q es =
     (if cg_aggregation q = ''count''
      then Inr (map (\<lambda>g. \<lparr>gr_group = g, gr_value = JInt (group_count es g), gr_population = group_count es g\<rparr>)
             (group_names es))
      else mapR (\<lambda>g. (let values = group_values es g in
             bindR (aggregate values (cg_aggregation q)) (\<lambda>x.
             Inr \<lparr>gr_group = g, gr_value = JStr (fixed_text x), gr_population = int (length values)\<rparr>)))
           (group_names es))"

definition group_json :: "group_row \<Rightarrow> json" where
  "group_json g = JObj [(''group'', JStr (gr_group g)), (''value'', gr_value g),
     (''population'', JInt (gr_population g))]"

text \<open>
  The difference of two groups; a value whose text is no number is passed over. Subtracting outside
  the numbers raises.
\<close>

definition difference :: "group_row \<Rightarrow> group_row \<Rightarrow> (run_error, json list) res" where
  "difference left right =
     (case (parse_decimal (py_str (gr_value left)), parse_decimal (py_str (gr_value right))) of
        (Some x, Some y) \<Rightarrow>
          bindR (signalR (dec_sub y x)) (\<lambda>delta. Inr [JObj [(''from_group'', JStr (gr_group left)),
            (''to_group'', JStr (gr_group right)), (''delta'', JStr (fixed_text delta))]])
      | _ \<Rightarrow> Inr [])"

fun differences :: "group_row list \<Rightarrow> (run_error, json list) res" where
  "differences [] = Inr []"
| "differences (g # gs) =
     bindR (concatR (difference g) gs) (\<lambda>xs. bindR (differences gs) (\<lambda>ys. Inr (xs @ ys)))"

definition filter_json :: "filter_spec \<Rightarrow> json" where
  "filter_json s = JObj [(''column'', JStr (fs_column s)), (''operator'', JStr (fs_operator s)),
     (''value'', fs_value s)]"

definition opt_str :: "string option \<Rightarrow> json" where
  "opt_str s = (case s of None \<Rightarrow> JNull | Some t \<Rightarrow> JStr t)"

definition comparison_parameters :: "comparison \<Rightarrow> obj" where
  "comparison_parameters q = [(''group_by'', JStr (cg_group_by q)), (''aggregation'', JStr (cg_aggregation q)),
     (''value_column'', opt_str (cg_value_column q)), (''filters'', JList (map filter_json (cg_filters q))),
     (''unit_column'', opt_str (cg_unit_column q))]"

definition population_of :: "int \<Rightarrow> row list \<Rightarrow> int list \<Rightarrow> obj" where
  "population_of n_rows filtered aggregated = [(''rows_total'', JInt n_rows),
     (''filter_matched_rows'', JInt (int (length filtered))),
     (''included_rows'', JList (map (\<lambda>(n, _). JInt n) filtered)),
     (''aggregated_rows'', JList (map JInt aggregated))]"

definition causality_note :: string where
  "causality_note = ''Aggregationen belegen Unterschiede im freigegebenen Bestand, '' @
     ''nicht automatisch Kausalit'' @ a_umlaut @ ''t.''"

definition comparison_payload :: "string \<Rightarrow> json list \<Rightarrow> json list \<Rightarrow> string list \<Rightarrow> json" where
  "comparison_payload status groups diffs notes = JObj
     ([(''status'', JStr status), (''groups'', JList groups), (''differences'', JList diffs),
       (''findings'', JList (map JStr notes))] @
      (if status = ''ok'' then [(''causality_note'', JStr causality_note)] else []))"

text \<open>The rows that reach no group, by reason, and the numbers of those that do.\<close>

definition excluded_entries :: "(row \<times> entry) list \<Rightarrow> json list" where
  "excluded_entries res = concat (map (\<lambda>((n, row), e). case e of Excluded reason \<Rightarrow> [excluded_row n reason] | _ \<Rightarrow> []) res)"

definition aggregated_rows :: "(row \<times> entry) list \<Rightarrow> int list" where
  "aggregated_rows res = concat (map (\<lambda>((n, row), e). case e of Excluded _ \<Rightarrow> [] | _ \<Rightarrow> [n]) res)"

definition closing_notes :: "group_row list \<Rightarrow> (row \<times> entry) list \<Rightarrow> string list" where
  "closing_notes groups res = (let
     bad = length (filter (\<lambda>(_, e). e = Excluded ''non_numeric_value'') res) in
     (if groups = [] then [''Leere Vergleichspopulation nach Filtern und Ausschl'' @ u_umlaut @ ''ssen.''] else []) @
     (if bad \<noteq> 0 then [int_text (int bad) @ '' nichtnumerische Werte ausgeschlossen.''] else []))"

text \<open>The comparison of the matched rows; \<open>notes\<close>, \<open>excluded\<close> and \<open>units\<close> come from the steps before.\<close>

definition compare_matched ::
    "string list \<Rightarrow> comparison \<Rightarrow> int \<Rightarrow> row list \<Rightarrow> (string \<times> int) list \<Rightarrow> string list \<Rightarrow> json list \<Rightarrow> obj \<Rightarrow>
      (run_error, findings) res" where
  "compare_matched header q n_rows filtered missing notes excluded units =
     bindR (mapR (\<lambda>r. bindR (entry_of header q r) (\<lambda>e. Inr (r, e))) filtered) (\<lambda>res.
     bindR (group_rows q (map snd res)) (\<lambda>groups.
     bindR (differences groups) (\<lambda>diffs.
     Inr \<lparr>fd_tool = ''compare_groups'', fd_parameters = comparison_parameters q,
       fd_payload = comparison_payload ''ok'' (map group_json groups) diffs
         (notes @ closing_notes groups res),
       fd_population = population_of n_rows filtered (aggregated_rows res),
       fd_excluded = excluded @ excluded_entries res,
       fd_group_sizes = map (\<lambda>g. (gr_group g, gr_population g)) groups,
       fd_missing = missing, fd_units = units\<rparr>)))"

definition check_columns :: "comparison \<Rightarrow> string list \<Rightarrow> (run_error, unit) res" where
  "check_columns q header =
     bindR (raise_if (\<not> set (required_columns q) \<subseteq> set header) (Tool_Error ''missing_column'')) (\<lambda>_.
     raise_if (cg_aggregation q \<noteq> ''count'' \<and> truthy_column (cg_value_column q) = [])
       (Tool_Error ''missing_value_column''))"

text \<open>Several units block the comparison.\<close>

definition blocked_comparison ::
    "comparison \<Rightarrow> int \<Rightarrow> row list \<Rightarrow> (string \<times> int) list \<Rightarrow> string list \<Rightarrow> json list \<Rightarrow> obj \<Rightarrow> findings" where
  "blocked_comparison q n_rows filtered missing notes excluded units =
     \<lparr>fd_tool = ''compare_groups'', fd_parameters = comparison_parameters q,
      fd_payload = comparison_payload ''blocked'' [] [] notes,
      fd_population = population_of n_rows filtered [], fd_excluded = excluded,
      fd_group_sizes = [], fd_missing = missing, fd_units = units\<rparr>"

definition compare_filtered ::
    "string list \<Rightarrow> comparison \<Rightarrow> int \<Rightarrow> row list \<Rightarrow> string list \<Rightarrow> json list \<Rightarrow> (run_error, findings) res" where
  "compare_filtered header q n_rows filtered notes excluded =
     (let missing = map (\<lambda>c. (c, missing_in header filtered c)) (required_columns q) in
      (case truthy_column (cg_unit_column q) of
         [] \<Rightarrow> compare_matched header q n_rows filtered missing notes excluded []
       | column # _ \<Rightarrow> (let
           relevant = relevant_rows header q filtered;
           values = unit_values header column relevant;
           bare = missing_unit_rows header column relevant;
           notes' = notes @ unit_findings values bare relevant;
           units = unit_info column values bare in
           if length values > 1
           then Inr (blocked_comparison q n_rows filtered missing notes' excluded units)
           else compare_matched header q n_rows filtered missing notes' excluded units)))"

definition matched_rows :: "(row \<times> verdict) list \<Rightarrow> row list" where
  "matched_rows judged = map fst (filter (\<lambda>p. snd p = Matched) judged)"

definition mistyped_rows :: "(row \<times> verdict) list \<Rightarrow> int list" where
  "mistyped_rows judged = map (\<lambda>p. fst (fst p)) (filter (\<lambda>p. snd p = Mistyped) judged)"

definition mistyped_notes :: "int list \<Rightarrow> string list" where
  "mistyped_notes ns = (if ns \<noteq> [] then [int_text (int (length ns)) @
     '' Zeilen wegen nichtnumerischer Filterwerte ausgeschlossen.''] else [])"

definition compare_rows :: "comparison \<Rightarrow> string list \<Rightarrow> string list list \<Rightarrow> (run_error, findings) res" where
  "compare_rows q header rows =
     bindR (check_columns q header) (\<lambda>_.
     bindR (judged_rows header (numbered rows) (cg_filters q)) (\<lambda>judged.
     compare_filtered header q (int (length rows)) (matched_rows judged)
       (mistyped_notes (mistyped_rows judged))
       (map (\<lambda>n. excluded_row n ''filter_type_error'') (mistyped_rows judged))))"

definition comparison_result :: "tool_result \<Rightarrow> source \<Rightarrow> findings \<Rightarrow> json" where
  "comparison_result row s f = JObj [(''result_id'', JStr (tr_id row)), (''source_id'', JStr (src_id s)),
     (''source_hash'', JStr (src_sha256 s)), (''population'', JObj (fd_population f)),
     (''groups'', jget (members (fd_payload f)) ''groups''),
     (''differences'', jget (members (fd_payload f)) ''differences''),
     (''excluded_rows'', JList (fd_excluded f)), (''missing_values'', JObj (num_obj (fd_missing f))),
     (''units'', JObj (fd_units f)), (''findings'', jget (members (fd_payload f)) ''findings'')]"

definition compare_groups ::
    "env \<Rightarrow> db \<Rightarrow> user option \<Rightarrow> json \<Rightarrow> json \<Rightarrow> comparison \<Rightarrow> (tool_result \<times> json) txn" where
  "compare_groups env d actor snapshot_id source_id q =
     bindR (authorized_snapshot env d actor snapshot_id) (\<lambda>snap.
     bindR (source_for_snapshot env snap source_id) (\<lambda>s.
     bindR (raise_if (src_type s \<noteq> ''csv'') (Tool_Error ''wrong_source_type'')) (\<lambda>_.
     bindR (raise_if (cg_aggregation q \<notin> set tool_aggregations) (Tool_Error ''invalid_aggregation'')) (\<lambda>_.
     bindR (csv_rows (src_content s)) (\<lambda>(header, rows).
     bindR (compare_rows q header rows) (\<lambda>f.
     bindR (record_tool_result env d actor snap s f) (\<lambda>(d', row).
     Inr (d', row, comparison_result row s f))))))))"

end
