(* ===== verification/Source_Replay.thy ===== *)
theory Source_Replay
  imports Source_Analysis
begin

text \<open>
  The stored analyses read back (\<open>get_tool_result\<close>), replayed without keeping a second result
  (\<open>replay_tool_result\<close>), and \<open>run_tool\<close>, which dispatches the calls of an executor to the five tools.
\<close>

section \<open>Fingerprints\<close>

definition tool_result_fingerprint :: "tool_result \<Rightarrow> obj" where
  "tool_result_fingerprint r =
     [(''tool_name'', JStr (tr_tool r)), (''tool_version'', JStr (tr_version r)),
      (''source_id'', JStr (tr_source r)), (''source_hash'', JStr (tr_source_hash r)),
      (''parameters'', JObj (tr_parameters r)), (''result_payload'', tr_payload r),
      (''population'', tr_population r), (''excluded_rows'', tr_excluded r),
      (''group_sizes'', JObj (tr_group_sizes r)), (''missing_values'', JObj (tr_missing_values r)),
      (''units'', JObj (tr_units r))]"

definition fingerprint_hash :: "env \<Rightarrow> json \<Rightarrow> string" where
  "fingerprint_hash env v = e_hash env (canonical_json v)"

text \<open>The fields whose hashes differ.\<close>

definition differing_fields :: "env \<Rightarrow> obj \<Rightarrow> obj \<Rightarrow> string list" where
  "differing_fields env expected actual =
     map fst (filter (\<lambda>(k, v). fingerprint_hash env (JObj [(''value'', v)]) \<noteq>
       fingerprint_hash env (JObj [(''value'', jget actual k)])) expected)"

section \<open>Reading results\<close>

definition result_by_id :: "db \<Rightarrow> string \<Rightarrow> tool_result option" where
  "result_by_id d i = find (\<lambda>r. tr_id r = i) (db_results d)"

definition find_result :: "env \<Rightarrow> db \<Rightarrow> json \<Rightarrow> (run_error, tool_result) res" where
  "find_result env d i = bindR (e_pk env i) (\<lambda>k.
     (case Option.bind k (result_by_id d) of None \<Rightarrow> Inl Permission_Denied | Some r \<Rightarrow> Inr r))"

definition get_tool_result :: "env \<Rightarrow> db \<Rightarrow> user option \<Rightarrow> json \<Rightarrow> (run_error, tool_result) res" where
  "get_tool_result env d actor i =
     bindR (find_result env d i) (\<lambda>r.
     bindR (snapshot_access d actor (Some (tr_snapshot r))) (\<lambda>_. Inr r))"

section \<open>Replay\<close>

record replayed =
  rl_result :: string
  rl_tool :: string
  rl_source :: string
  rl_source_hash :: string
  rl_matches :: bool
  rl_stored_hash :: string
  rl_replay_hash :: string
  rl_mismatches :: "string list"

text \<open>The comparison request that stored parameters stand for.\<close>

definition json_opt_str :: "json \<Rightarrow> string option" where
  "json_opt_str v = (case v of JStr s \<Rightarrow> Some s | _ \<Rightarrow> None)"

definition stored_filter :: "obj \<Rightarrow> filter_spec" where
  "stored_filter f = \<lparr>fs_column = str_at f ''column'', fs_operator = str_at f ''operator'',
     fs_value = jget f ''value''\<rparr>"

definition stored_comparison :: "obj \<Rightarrow> comparison" where
  "stored_comparison p = \<lparr>cg_group_by = str_at p ''group_by'', cg_aggregation = str_at p ''aggregation'',
     cg_value_column = json_opt_str (jget p ''value_column''),
     cg_filters = map stored_filter (mappings_in (items (jget_or p ''filters'' (JList [])))),
     cg_unit_column = json_opt_str (jget p ''unit_column'')\<rparr>"

text \<open>The recomputation; its transaction is rolled back, so only the new row is looked at.\<close>

definition recompute :: "env \<Rightarrow> db \<Rightarrow> user option \<Rightarrow> tool_result \<Rightarrow> (run_error, tool_result) res" where
  "recompute env d actor r =
     (if tr_tool r = ''profile_csv''
      then bindR (profile_csv env d actor (JStr (tr_snapshot r)) (JStr (tr_source r))) (\<lambda>(_, row, _). Inr row)
      else if tr_tool r = ''compare_groups''
      then bindR (compare_groups env d actor (JStr (tr_snapshot r)) (JStr (tr_source r))
             (stored_comparison (tr_parameters r))) (\<lambda>(_, row, _). Inr row)
      else Inl (Tool_Error ''tool_not_replayable''))"

text \<open>The source row of a result; the foreign key guarantees that it exists.\<close>

definition result_source :: "db \<Rightarrow> tool_result \<Rightarrow> source option" where
  "result_source d r = Option.bind (find (\<lambda>s. snap_id s = tr_snapshot r) (db_snapshots d))
     (\<lambda>snap. get_source snap (tr_source r))"

definition stale_fields :: "db \<Rightarrow> tool_result \<Rightarrow> string list" where
  "stale_fields d r = (if tr_version r \<noteq> tool_version then [''tool_version''] else []) @
     (if Some (tr_source_hash r) \<noteq> map_option src_sha256 (result_source d r) then [''source_hash''] else [])"

definition replay_tool_result :: "env \<Rightarrow> db \<Rightarrow> user option \<Rightarrow> json \<Rightarrow> (run_error, replayed) res" where
  "replay_tool_result env d actor i =
     bindR (find_result env d i) (\<lambda>r.
     bindR (snapshot_access d actor (Some (tr_snapshot r))) (\<lambda>_.
     (let
       expected = tool_result_fingerprint r;
       stored_hash = fingerprint_hash env (JObj expected);
       answer = (\<lambda>ok replay_hash fields. \<lparr>rl_result = tr_id r, rl_tool = tr_tool r, rl_source = tr_source r,
         rl_source_hash = tr_source_hash r, rl_matches = ok, rl_stored_hash = stored_hash,
         rl_replay_hash = replay_hash, rl_mismatches = fields\<rparr>) in
      (if stale_fields d r \<noteq> [] then Inr (answer False [] (stale_fields d r))
       else bindR (recompute env d actor r) (\<lambda>row. (let
         actual = tool_result_fingerprint row;
         fields = differing_fields env expected actual;
         replay_hash = fingerprint_hash env (JObj actual) in
         Inr (answer (fields = [] \<and> stored_hash = replay_hash) replay_hash (sorted_set fields))))))))"

section \<open>Running a tool\<close>

text \<open>
  \<open>run_tool\<close>. The parameters are in the normal form \<open>normalize_tool_parameters\<close> establishes, which
  has every key with a value of its type.
\<close>

definition int_at :: "obj \<Rightarrow> string \<Rightarrow> int" where
  "int_at p k = (case jget p k of JInt i \<Rightarrow> i | _ \<Rightarrow> 0)"

definition strs_at :: "obj \<Rightarrow> string \<Rightarrow> string list" where
  "strs_at p k = map str_or (items (jget p k))"

definition reading :: "db \<Rightarrow> (run_error, json) res \<Rightarrow> json run_io" where
  "reading d r = (d, r)"

definition analysing :: "db \<Rightarrow> (tool_result \<times> json) txn \<Rightarrow> json run_io" where
  "analysing d t = andthen (commit d t) (\<lambda>d' (row, payload). (d', Inr payload))"

definition run_tool :: "env \<Rightarrow> db \<Rightarrow> user option \<Rightarrow> snapshot \<Rightarrow> string \<Rightarrow> obj \<Rightarrow> json run_io" where
  "run_tool env d actor snap tool params = (let sid = JStr (snap_id snap) in
     if tool = ''list_sources'' then reading d (list_sources env d actor sid)
     else if tool = ''search_sources'' then
       reading d (search_sources env d actor sid (str_at params ''query'') (int_at params ''cursor'')
         (int_at params ''limit''))
     else if tool = ''read_source'' then
       reading d (read_source env d actor sid (jget params ''source_id'') (int_at params ''cursor'')
         (int_at params ''limit'') (strs_at params ''columns''))
     else if tool = ''profile_csv'' then
       analysing d (profile_csv env d actor sid (jget params ''source_id''))
     else if tool = ''compare_groups'' then
       analysing d (compare_groups env d actor sid (jget params ''source_id'') (stored_comparison params))
     else (d, Inl (run_err ''tool_not_allowed'')))"

definition source_tools :: "env \<Rightarrow> tool_runner" where
  "source_tools env d actor i tool params = (case get_run d i of
       None \<Rightarrow> (d, Inl Permission_Denied)
     | Some r \<Rightarrow> run_tool env d actor (r_snapshot r) tool params)"

end
