(* ===== verification/Source_Groups.thy ===== *)
theory Source_Groups
  imports Source_Replay Investigation_Sample
begin

text \<open>
  What a comparison of groups accounts for: every row of the source is filtered out, excluded with a
  reason or counted in exactly one group.
\<close>

section \<open>Groups of entries\<close>

lemma entry_group_simps [simp]:
  "entry_group (Counted g) = Some g" "entry_group (Valued g x) = Some g" "entry_group (Excluded reason) = None"
  by (simp_all add: entry_group_def)


lemma group_names_cover: "e \<in> set es \<Longrightarrow> entry_group e = Some g \<Longrightarrow> g \<in> set (group_names es)"
  by (force simp: group_names_def)


section \<open>Rows with what became of them\<close>







lemma aggregated_rows_simps [simp]:
  "aggregated_rows [] = []"
  "aggregated_rows (((n, row), e) # res) = (if entry_group e = None then [] else [n]) @ aggregated_rows res"
  by (simp_all add: aggregated_rows_def split: entry.split)

lemma excluded_entries_simps [simp]:
  "excluded_entries [] = []"
  "excluded_entries (((n, row), Excluded reason) # res) = excluded_row n reason # excluded_entries res"
  "excluded_entries (((n, row), Counted g) # res) = excluded_entries res"
  "excluded_entries (((n, row), Valued g x) # res) = excluded_entries res"
  by (simp_all add: excluded_entries_def)

lemma excluded_row_inject [simp]: "excluded_row n reason = excluded_row m other \<longleftrightarrow> n = m \<and> reason = other"
  by (simp add: excluded_row_def)





section \<open>The rows of a comparison\<close>


lemma numbered_simps [simp]:
  "map snd (numbered xs) = xs" "map fst (numbered xs) = map (\<lambda>n. int n + 1) [0..<length xs]"
  by (simp_all add: numbered_def)


lemma fst_numbered: "fst ` set (numbered xs) = {1..int (length xs)}"
proof -
  have "fst ` set (numbered xs) = set (map fst (numbered xs))" by (simp only: set_map)
  also have "\<dots> = (\<lambda>n. int n + 1) ` {0..<length xs}" by simp
  also have "\<dots> = {1..int (length xs)}"
  proof (intro equalityI subsetI)
    fix k :: int assume "k \<in> {1..int (length xs)}"
    then have "k = int (nat (k - 1)) + 1" "nat (k - 1) \<in> {0..<length xs}" by auto
    then show "k \<in> (\<lambda>n. int n + 1) ` {0..<length xs}" by blast
  qed auto
  finally show ?thesis .
qed










definition sample_table :: string where
  "sample_table = ''team,cost,day'' @ [lf] @ ''A,5,1'' @ [lf] @ ''B,7.50,2'' @ [lf] @ ''A,,3'' @ [lf] @
     ''A,n/a,4'' @ [lf] @ ''B,1e1,x'' @ [lf] @ ''B,2,9'' @ [lf]"


definition sample_header :: "string list" where
  "sample_header = [''team'', ''cost'', ''day'']"

definition sample_rows :: "string list list" where
  "sample_rows = [[''A'', ''5'', ''1''], [''B'', ''7.50'', ''2''], [''A'', [], ''3''],
     [''A'', ''n/a'', ''4''], [''B'', ''1e1'', ''x''], [''B'', ''2'', ''9'']]"

lemma sample_csv_rows: "csv_rows sample_table = Inr (sample_header, sample_rows)"
  by code_simp


end
