(* ===== verification/Source_Properties.thy ===== *)
theory Source_Properties
  imports Source_Groups Investigation_Loop_Properties
begin

text \<open>
  Properties of the source tools: what pages cover, what the tools may change, and that a stored
  analysis replays.
\<close>

section \<open>Pages\<close>

lemma read_page_fits:
  assumes "source_items s columns = Inr available" and "\<forall>x\<in>set available. json_bytes x \<le> max_read_bytes"
    and "1 \<le> lim" "lim \<le> 200"
  shows "\<forall>i\<ge>0. \<exists>p. read_page s columns lim i = Inr p"
  using assms page_fits [OF assms(2)] by (auto simp: read_page_eq_Inr)

lemma search_fetch_fits:
  assumes "all_search_hits env snap q = Inr hits" and "\<forall>x\<in>set hits. json_bytes x \<le> 65536"
    and "1 \<le> lim" "lim \<le> 50"
  shows "\<forall>i\<ge>0. \<exists>p. search_fetch env snap q lim i = Inr p"
  using assms page_fits [OF assms(2)] by (auto simp: search_fetch_eq_Inr)

text \<open>
  C22. Paging loses nothing and repeats nothing, and ends. A client that reads a source page by page,
  following the cursors, has after at most as many calls as there are items (and one more) exactly
  the items of the source in order; the same holds of the hits of a search. Only an item larger than
  a page of its own would stop it.
\<close>

theorem paging_complete:
  assumes "source_items s columns = Inr available" and "\<forall>x\<in>set available. json_bytes x \<le> max_read_bytes"
    and "1 \<le> lim" "lim \<le> 200"
    and "all_search_hits env snap q = Inr hits" and "\<forall>x\<in>set hits. json_bytes x \<le> 65536"
    and "1 \<le> lim'" "lim' \<le> 50"
  shows "follow (read_page s columns lim) (Suc (length available)) 0 = Some (Inr available) \<and>
    follow (search_fetch env snap q lim') (Suc (length hits)) 0 = Some (Inr hits)"
  using reading.follow_from_start [of s columns lim] read_page_fits [OF assms(1-4)]
    searching.follow_from_start [of env snap q lim'] search_fetch_fits [OF assms(5-8)]
  by (auto simp: or_nil_def assms(1,5))

theorem paging_complete_witness:
  "\<exists>available hits. length available = 2 \<and> length hits = 2 \<and>
     follow (read_page sample_csv [''cost''] 1) 3 0 = Some (Inr available) \<and>
     follow (search_fetch sample_env sample_snapshot ''s'' 1) 3 0 = Some (Inr hits)"
proof -
  let ?a = "or_nil (source_items sample_csv [''cost''])" and ?h = "or_nil (all_search_hits sample_env sample_snapshot ''s'')"
  have a: "source_items sample_csv [''cost''] = Inr ?a \<and> (\<forall>x\<in>set ?a. json_bytes x \<le> max_read_bytes) \<and> length ?a = 2"
    by code_simp
  have h: "all_search_hits sample_env sample_snapshot ''s'' = Inr ?h \<and> (\<forall>x\<in>set ?h. json_bytes x \<le> 65536) \<and> length ?h = 2"
    by code_simp
  have "follow (read_page sample_csv [''cost''] 1) (Suc (length ?a)) 0 = Some (Inr ?a) \<and>
      follow (search_fetch sample_env sample_snapshot ''s'' 1) (Suc (length ?h)) 0 = Some (Inr ?h)"
    by (rule paging_complete) (use a h in simp_all)
  moreover have "Suc (length ?a) = 3" "Suc (length ?h) = 3" using a h by simp_all
  ultimately show ?thesis using a h by metis
qed

section \<open>Read windows and hits\<close>







text \<open>The position of a hit is the number of a line or row of its source.\<close>

lemma hit_position_simps [simp]:
  "hit_position (search_hit s [(''line'', JInt n)] e) = Inr (src_id s, Some n)"
  "hit_position (search_hit s [(''row'', JInt n), (''column'', c)] e) = Inr (src_id s, Some n)"
  by (simp_all add: hit_position_def search_hit_def Let_def json_or_def as_int_def str_at_def)






text \<open>
  Beyond the end of a source a page is empty and names no next one. \<open>investigation_evidence_complete\<close>
  counts such a read as covering its source.
\<close>

lemma read_past_end_covers:
  assumes "source_items s columns = Inr available" and "int (length available) \<le> c" "1 \<le> lim" "lim \<le> 200"
  shows "read_page s columns lim c = Inr ([], None)"
  using assms by (simp add: read_page_eq_Inr page_def)

section \<open>What a tool may change\<close>

lemma snapshot_access_InrD:
  assumes "snapshot_access d actor k = Inr snap"
  shows "k = Some (snap_id snap) \<and> find (\<lambda>x. snap_id x = snap_id snap) (db_snapshots d) = Some snap"
proof -
  from assms obtain i where k: "k = Some i" by (cases k) (auto simp: snapshot_access_def)
  with assms obtain snap' where f: "find (\<lambda>x. snap_id x = i) (db_snapshots d) = Some snap'"
    by (cases "find (\<lambda>x. snap_id x = i) (db_snapshots d)") (auto simp: snapshot_access_def)
  with assms k have "snap' = snap"
    by (auto simp: snapshot_access_def res_simps split: option.split_asm)
  with f k find_SomeD [OF f] show ?thesis by simp
qed

lemma authorized_snapshot_InrD:
  assumes "authorized_snapshot env d actor (JStr i) = Inr snap"
  shows "\<exists>k. e_pk env (JStr i) = Inr k \<and> snapshot_access d actor k = Inr snap \<and>
    k = Some (snap_id snap) \<and> find (\<lambda>x. snap_id x = snap_id snap) (db_snapshots d) = Some snap"
proof -
  from assms obtain k where "e_pk env (JStr i) = Inr k" "snapshot_access d actor k = Inr snap"
    by (auto simp: authorized_snapshot_def bindR_eq_Inr)
  with snapshot_access_InrD [of d actor k snap] show ?thesis by blast
qed

lemma authorized_snapshot_cong:
  assumes "db_snapshots d' = db_snapshots d" "db_processes d' = db_processes d" "db_folders d' = db_folders d"
  shows "authorized_snapshot env d' actor i = authorized_snapshot env d actor i"
proof -
  have tables: "get_process d' = get_process d" "get_folder d' = get_folder d"
    by (simp_all add: fun_eq_iff get_process_def get_folder_def assms)
  have "snapshot_access d' actor k = snapshot_access d actor k" for k
    unfolding snapshot_access_def tables assms(1) ..
  then have "snapshot_access d' actor = snapshot_access d actor" ..
  then show ?thesis by (simp add: authorized_snapshot_def)
qed

lemma source_for_snapshot_InrD:
  "source_for_snapshot env snap v = Inr s \<Longrightarrow>
    e_pk env v = Inr (Some (src_id s)) \<and> get_source snap (src_id s) = Some s \<and> s \<in> set (snap_sources snap)"
  by (auto simp: source_for_snapshot_def bindR_eq_Inr split: option.split_asm bind_split_asm
      dest: get_source_SomeD)

text \<open>An analysis that succeeded: its source, its findings and the row it stored.\<close>

definition analysed :: "env \<Rightarrow> db \<Rightarrow> user option \<Rightarrow> string \<Rightarrow> json \<Rightarrow> db \<Rightarrow> tool_result \<Rightarrow> json \<Rightarrow> bool" where
  "analysed env d actor sid src d' row payload \<longleftrightarrow>
     profile_csv env d actor (JStr sid) src = Inr (d', row, payload) \<or>
     (\<exists>q. compare_groups env d actor (JStr sid) src q = Inr (d', row, payload))"

lemma analysedD:
  assumes "analysed env d actor sid src d' row payload"
  shows "\<exists>snap s f. authorized_snapshot env d actor (JStr sid) = Inr snap \<and>
    source_for_snapshot env snap src = Inr s \<and> row = result_row env d actor snap s f \<and>
    d' = (draw d)\<lparr>db_results := db_results d @ [row]\<rparr> \<and>
    jget (members payload) ''result_id'' = JStr (tr_id row)"
  using assms
  by (auto simp: analysed_def profile_csv_def compare_groups_def record_tool_result_def bindR_eq_Inr Let_def
      profile_result_def comparison_result_def)

lemma commit_txn_cases:
  "(\<exists>e. commit d t = (d, Inl e) \<and> t = Inl e) \<or> (\<exists>d' x. commit d t = (d', Inr x) \<and> t = Inr (d', x))"
  by (cases t) auto

text \<open>A tool call stores at most one result, of the snapshot it was asked about.\<close>

definition stores :: "db \<Rightarrow> string \<Rightarrow> tool_result \<Rightarrow> bool" where
  "stores d sid row \<longleftrightarrow> tr_snapshot row = sid \<and> tr_version row = tool_version \<and>
     (\<exists>snap\<in>set (db_snapshots d). \<exists>s\<in>set (snap_sources snap). snap_id snap = sid \<and>
        tr_source row = src_id s \<and> tr_source_hash row = src_sha256 s)"

lemma analysed_stores:
  assumes "analysed env d actor sid src d' row payload" and "e_pk env (JStr sid) = Inr (Some sid)"
  shows "stores d sid row"
  using analysedD [OF assms(1)] assms(2)
  by (auto simp: stores_def result_row_def
      dest!: authorized_snapshot_InrD source_for_snapshot_InrD find_SomeD intro!: bexI)

lemma run_tool_results:
  assumes pk: "e_pk env (JStr (snap_id snap)) = Inr (Some (snap_id snap))"
  shows "\<exists>res. run_tool env d actor snap tool params = (d, res) \<or>
    (\<exists>row payload. run_tool env d actor snap tool params =
       (d\<lparr>db_next := Suc (db_next d), db_results := db_results d @ [row]\<rparr>, Inr payload) \<and>
       tr_id row = fresh env d \<and> stores d (snap_id snap) row \<and>
       jget (members payload) ''result_id'' = JStr (tr_id row))"
proof -
  have an: "\<exists>res. analysing d t = (d, res) \<or>
      (\<exists>row payload. analysing d t =
         (d\<lparr>db_next := Suc (db_next d), db_results := db_results d @ [row]\<rparr>, Inr payload) \<and>
         tr_id row = fresh env d \<and> stores d (snap_id snap) row \<and>
         jget (members payload) ''result_id'' = JStr (tr_id row))"
    if t: "\<And>d' row payload. t = Inr (d', row, payload) \<Longrightarrow>
      \<exists>src. analysed env d actor (snap_id snap) src d' row payload" for t
  proof (cases t)
    case (Inl e)
    then show ?thesis by (simp add: analysing_def)
  next
    case (Inr p)
    obtain d' row payload where p: "t = Inr (d', row, payload)" using Inr by (cases p) auto
    from t [OF this] obtain src where a: "analysed env d actor (snap_id snap) src d' row payload" by blast
    from analysedD [OF a] obtain snap' s f where "row = result_row env d actor snap' s f"
      "d' = (draw d)\<lparr>db_results := db_results d @ [row]\<rparr>" "jget (members payload) ''result_id'' = JStr (tr_id row)"
      by blast
    then show ?thesis
      using analysed_stores [OF a pk] p
      by (auto simp: analysing_def draw_def result_row_def)
  qed
  note profile = an [of "profile_csv env d actor (JStr (snap_id snap)) (jget params ''source_id'')"]
  note compare = an [of "compare_groups env d actor (JStr (snap_id snap)) (jget params ''source_id'')
    (stored_comparison params)"]
  show ?thesis
    using profile compare unfolding run_tool_def Let_def reading_def analysed_def
    by (cases "tool = ''list_sources''"; cases "tool = ''search_sources''"; cases "tool = ''read_source''";
        cases "tool = ''profile_csv''"; cases "tool = ''compare_groups''") (simp_all, blast+)
qed

text \<open>
  C24. The tools are read-only but for their own results. Whatever the executor asks for, a call of
  \<open>run_tool\<close> leaves the database as it is, or appends one result row with a fresh identifier that the
  returned payload names, of the current tool version and bound to the hash of a source of the run's
  snapshot. (The identifier of the snapshot converts to itself as a primary key.)
\<close>

theorem tools_only_add_results:
  assumes "get_run d i = Some r" and "e_pk env (JStr (snap_id (r_snapshot r))) = Inr (Some (snap_id (r_snapshot r)))"
  shows "\<exists>res. source_tools env d actor i tool params = (d, res) \<or>
    (\<exists>row payload. source_tools env d actor i tool params =
       (d\<lparr>db_next := Suc (db_next d), db_results := db_results d @ [row]\<rparr>, Inr payload) \<and>
       tr_id row = fresh env d \<and> stores d (snap_id (r_snapshot r)) row \<and>
       jget (members payload) ''result_id'' = JStr (tr_id row))"
  using run_tool_results [OF assms(2), of d actor tool params] by (simp add: source_tools_def assms(1))

definition sample_profile :: "json run_io" where
  "sample_profile = source_tools sample_env sample_db sample_actor ''u'' ''profile_csv'' [(''source_id'', JStr ''s1'')]"

theorem tools_only_add_results_witness:
  "\<exists>row payload. sample_profile =
     (sample_db\<lparr>db_next := Suc (db_next sample_db), db_results := db_results sample_db @ [row]\<rparr>, Inr payload) \<and>
     tr_id row = ''uuu'' \<and> stores sample_db ''n1'' row"
proof -
  have n: "snap_id (r_snapshot sample_run) = ''n1''" "fresh sample_env sample_db = ''uuu''"
    "e_pk sample_env (JStr ''n1'') = Inr (Some ''n1'')" by code_simp+
  have "db_next (fst sample_profile) \<noteq> db_next sample_db" by code_simp
  then have no: "sample_profile \<noteq> (sample_db, res)" for res by (metis fst_conv)
  have "\<exists>res. sample_profile = (sample_db, res) \<or> (\<exists>row payload. sample_profile =
      (sample_db\<lparr>db_next := Suc (db_next sample_db), db_results := db_results sample_db @ [row]\<rparr>, Inr payload) \<and>
      tr_id row = fresh sample_env sample_db \<and> stores sample_db (snap_id (r_snapshot sample_run)) row \<and>
      jget (members payload) ''result_id'' = JStr (tr_id row))"
    unfolding sample_profile_def
    by (rule tools_only_add_results [OF sample_run]) (simp add: n)
  then show ?thesis unfolding n using no by blast
qed

text \<open>So the tools satisfy what the loop assumes of them.\<close>

lemma analysing_isolated:
  assumes "\<And>d' row payload. t = Inr (d', row, payload) \<Longrightarrow>
    \<exists>sid src. analysed env d actor sid src d' row payload"
  shows "\<exists>n rs res. db_next d \<le> n \<and> analysing d t = (d\<lparr>db_next := n, db_results := rs\<rparr>, res)"
proof (cases t)
  case (Inl e)
  then have "analysing d t = (d\<lparr>db_next := db_next d, db_results := db_results d\<rparr>, Inl e)"
    by (simp add: analysing_def)
  then show ?thesis by (metis order_refl)
next
  case (Inr p)
  obtain d' row payload where p: "t = Inr (d', row, payload)" using Inr by (cases p) auto
  from assms [OF this] analysedD have "d' = d\<lparr>db_next := Suc (db_next d), db_results := db_results d @ [row]\<rparr>"
    by (fastforce simp: draw_def)
  then have "analysing d t = (d\<lparr>db_next := Suc (db_next d), db_results := db_results d @ [row]\<rparr>, Inr payload)"
    by (simp add: analysing_def p)
  then show ?thesis by (metis le_SucI order_refl)
qed

lemma source_tools_isolated: "tool_isolated (source_tools env)"
proof -
  have same: "\<exists>n rs res'. db_next d \<le> n \<and> (d, res) = (d\<lparr>db_next := n, db_results := rs\<rparr>, res')"
    for d :: db and res :: "(run_error, json) res"
    by (intro exI [of _ "db_next d"] exI [of _ "db_results d"]) simp
  have "\<exists>n rs res. db_next d \<le> n \<and> source_tools env d actor i tool params = (d\<lparr>db_next := n, db_results := rs\<rparr>, res)"
    for d actor i tool params
  proof (cases "get_run d i")
    case None
    then show ?thesis using same by (simp add: source_tools_def)
  next
    case (Some r)
    then have "source_tools env d actor i tool params = run_tool env d actor (r_snapshot r) tool params"
      by (simp add: source_tools_def)
    moreover have "\<exists>n rs res. db_next d \<le> n \<and>
        run_tool env d actor (r_snapshot r) tool params = (d\<lparr>db_next := n, db_results := rs\<rparr>, res)"
      unfolding run_tool_def Let_def reading_def
      by (simp only: split: if_split) (intro conjI impI; (rule same | rule analysing_isolated, auto simp: analysed_def)?)
    ultimately show ?thesis by simp
  qed
  then show ?thesis by (simp add: tool_isolated_def)
qed

section \<open>Replay\<close>

lemma stored_comparison_parameters: "stored_comparison (comparison_parameters q) = q"
proof -
  have "map stored_filter (mappings_in (map filter_json fs)) = fs" for fs
    by (induction fs) (simp_all add: filter_json_def stored_filter_def str_at_def)
  moreover have "json_opt_str (opt_str x) = x" for x
    by (cases x) (simp_all add: json_opt_str_def opt_str_def)
  ultimately show ?thesis
    by (simp add: stored_comparison_def comparison_parameters_def str_at_def)
qed

lemma fingerprint_result_row:
  "tool_result_fingerprint (result_row env d actor snap s f) = tool_result_fingerprint (result_row env' d' actor' snap' s f)"
  by (simp add: tool_result_fingerprint_def result_row_def)

lemma differing_fields_refl: "distinct (map fst kvs) \<Longrightarrow> differing_fields env kvs kvs = []"
  by (auto simp: differing_fields_def filter_empty_conv jget_def)

lemma compare_matched_tool:
  "compare_matched header q n filtered missing remarks excluded units = Inr f \<Longrightarrow>
    fd_tool f = ''compare_groups'' \<and> fd_parameters f = comparison_parameters q"
  by (auto simp: compare_matched_def bindR_eq_Inr)

lemma compare_filtered_tool:
  "compare_filtered header q n filtered remarks excluded = Inr f \<Longrightarrow>
    fd_tool f = ''compare_groups'' \<and> fd_parameters f = comparison_parameters q"
  by (cases "truthy_column (cg_unit_column q)")
    (auto simp: compare_filtered_def Let_def blocked_comparison_def dest!: compare_matched_tool split: if_split_asm)

lemma compare_rows_tool:
  "compare_rows q header rows = Inr f \<Longrightarrow>
    fd_tool f = ''compare_groups'' \<and> fd_parameters f = comparison_parameters q"
  by (auto simp: compare_rows_def bindR_eq_Inr dest: compare_filtered_tool)

text \<open>Recomputing a stored analysis where the snapshot is the same and the actor has access.\<close>

lemma recompute_stored:
  assumes a: "analysed env d actor sid (JStr src) d1 row payload"
    and snap: "authorized_snapshot env d actor (JStr sid) = Inr snap" "authorized_snapshot env d2 actor2 (JStr sid) = Inr snap"
    and pk: "e_pk env (JStr sid) = Inr (Some sid)" "e_pk env (JStr src) = Inr (Some src)"
  shows "\<exists>row2. recompute env d2 actor2 row = Inr row2 \<and> tool_result_fingerprint row2 = tool_result_fingerprint row \<and>
    tr_snapshot row = sid \<and> tr_version row = tool_version \<and>
    (\<exists>s. get_source snap (tr_source row) = Some s \<and> tr_source_hash row = src_sha256 s)"
proof -
  have acc: "snapshot_access d2 actor2 (Some (snap_id snap)) = Inr snap"
    and sid: "snap_id snap = sid"
    using authorized_snapshot_InrD [OF snap(2)] pk(1) by auto
  from a show ?thesis unfolding analysed_def
  proof (elim disjE exE)
    assume p: "profile_csv env d actor (JStr sid) (JStr src) = Inr (d1, row, payload)"
    then obtain s header rows where s: "source_for_snapshot env snap (JStr src) = Inr s" "src_type s = ''csv''"
      "csv_rows (src_content s) = Inr (header, rows)" and row: "row = result_row env d actor snap s (profile_rows header rows)"
      by (auto simp: profile_csv_def snap(1) record_tool_result_def res_simps Let_def)
    have src: "src_id s = src" "get_source snap src = Some s"
      using source_for_snapshot_InrD [OF s(1)] pk(2) by auto
    have t: "tr_tool row = ''profile_csv''" "tr_snapshot row = sid" "tr_source row = src" "tr_version row = tool_version"
      "tr_source_hash row = src_sha256 s"
      by (simp_all add: row result_row_def profile_rows_def Let_def sid src)
    have "recompute env d2 actor2 row = Inr (result_row env d2 actor2 snap s (profile_rows header rows))"
      by (simp add: recompute_def t profile_csv_def snap(2) s record_tool_result_def acc Let_def)
    with t src show ?thesis unfolding row using fingerprint_result_row by auto
  next
    fix q assume p: "compare_groups env d actor (JStr sid) (JStr src) q = Inr (d1, row, payload)"
    then obtain s header rows f where s: "source_for_snapshot env snap (JStr src) = Inr s" "src_type s = ''csv''"
      "cg_aggregation q \<in> set tool_aggregations"
      "csv_rows (src_content s) = Inr (header, rows)" "compare_rows q header rows = Inr f"
      and row: "row = result_row env d actor snap s f"
      by (auto simp: compare_groups_def snap(1) record_tool_result_def res_simps Let_def)
    have src: "src_id s = src" "get_source snap src = Some s"
      using source_for_snapshot_InrD [OF s(1)] pk(2) by auto
    have t: "tr_tool row = ''compare_groups''" "tr_snapshot row = sid" "tr_source row = src" "tr_version row = tool_version"
      "tr_source_hash row = src_sha256 s" "tr_parameters row = comparison_parameters q"
      using compare_rows_tool [OF s(5)] by (simp_all add: row result_row_def sid src)
    have "recompute env d2 actor2 row = Inr (result_row env d2 actor2 snap s f)"
      by (simp add: recompute_def t stored_comparison_parameters compare_groups_def snap(2) s record_tool_result_def acc Let_def)
    with t src show ?thesis unfolding row using fingerprint_result_row by auto
  qed
qed

text \<open>
  C25. A stored analysis replays. The row that a profile or a comparison stored matches when it is
  recomputed later, in whatever state the other tables are then and for whichever actor has access,
  as long as its frozen snapshot is the one of then: the parameters it stored stand for the very
  request, and nothing but the frozen source decides the result.
\<close>

theorem stored_analysis_replays:
  assumes a: "analysed env d actor sid (JStr src) d1 row payload"
    and snap: "authorized_snapshot env d actor (JStr sid) = Inr snap" "authorized_snapshot env d2 actor2 (JStr sid) = Inr snap"
    and pk: "e_pk env (JStr sid) = Inr (Some sid)" "e_pk env (JStr src) = Inr (Some src)"
    and found: "find_result env d2 i = Inr row"
  shows "\<exists>r. replay_tool_result env d2 actor2 i = Inr r \<and> rl_matches r \<and> rl_mismatches r = [] \<and>
    rl_replay_hash r = rl_stored_hash r"
proof -
  from recompute_stored [OF a snap pk] obtain row2 s where
    r: "recompute env d2 actor2 row = Inr row2" "tool_result_fingerprint row2 = tool_result_fingerprint row"
    and t: "tr_snapshot row = sid" "tr_version row = tool_version"
      "get_source snap (tr_source row) = Some s" "tr_source_hash row = src_sha256 s"
    by blast
  have acc: "snapshot_access d2 actor2 (Some sid) = Inr snap" "find (\<lambda>x. snap_id x = sid) (db_snapshots d2) = Some snap"
    using authorized_snapshot_InrD [OF snap(2)] pk(1) by auto
  then have "stale_fields d2 row = []"
    by (simp add: stale_fields_def t result_source_def)
  moreover have "distinct (map fst (tool_result_fingerprint row))"
    by (simp add: tool_result_fingerprint_def)
  ultimately show ?thesis
    by (simp add: replay_tool_result_def found acc t(1) r Let_def differing_fields_refl)
qed

definition sample_compare :: "(tool_result \<times> json) txn" where
  "sample_compare = compare_groups sample_env sample_db sample_actor (JStr ''n1'') (JStr ''s1'')
     \<lparr>cg_group_by = ''id'', cg_aggregation = ''sum'', cg_value_column = Some ''cost'',
      cg_filters = [\<lparr>fs_column = ''cost'', fs_operator = ''gte'', fs_value = JFloat ''5.0''\<rparr>],
      cg_unit_column = None\<rparr>"

lemma not_isl_triple: "\<not> isl t \<Longrightarrow> \<exists>a b c. t = Inr (a, b, c) \<and> projr t = (a, b, c)"
  by (cases t) auto

theorem stored_analysis_replays_witness:
  "\<exists>d1 row payload r. sample_compare = Inr (d1, row, payload) \<and>
     replay_tool_result sample_env (d1\<lparr>db_runs := []\<rparr>) sample_actor (JStr ''uuu'') = Inr r \<and> rl_matches r"
proof -
  have ok: "\<not> isl sample_compare" by code_simp
  have found: "find_result sample_env ((fst (projr sample_compare))\<lparr>db_runs := []\<rparr>) (JStr ''uuu'') =
      Inr (fst (snd (projr sample_compare)))"
    by code_simp
  from not_isl_triple [OF ok] obtain d1 row payload where c: "sample_compare = Inr (d1, row, payload)"
    and p: "projr sample_compare = (d1, row, payload)" by blast
  have f: "find_result sample_env (d1\<lparr>db_runs := []\<rparr>) (JStr ''uuu'') = Inr row"
    using found unfolding p by simp
  have a: "analysed sample_env sample_db sample_actor ''n1'' (JStr ''s1'') d1 row payload"
    using c unfolding analysed_def sample_compare_def by blast
  have tables: "db_snapshots d1 = db_snapshots sample_db \<and> db_processes d1 = db_processes sample_db \<and>
      db_folders d1 = db_folders sample_db"
    using analysedD [OF a] by auto
  have s: "authorized_snapshot sample_env sample_db sample_actor (JStr ''n1'') = Inr sample_snapshot"
    "e_pk sample_env (JStr ''n1'') = Inr (Some ''n1'')" "e_pk sample_env (JStr ''s1'') = Inr (Some ''s1'')"
    by code_simp+
  moreover have "authorized_snapshot sample_env (d1\<lparr>db_runs := []\<rparr>) sample_actor (JStr ''n1'') =
      authorized_snapshot sample_env sample_db sample_actor (JStr ''n1'')"
    by (rule authorized_snapshot_cong) (simp_all add: tables)
  ultimately have "authorized_snapshot sample_env (d1\<lparr>db_runs := []\<rparr>) sample_actor (JStr ''n1'') = Inr sample_snapshot"
    by simp
  from stored_analysis_replays [OF a s(1) this s(2,3) f] c show ?thesis by blast
qed

end
