(* ===== verification/Source_Snapshots.thy ===== *)
theory Source_Snapshots
  imports Source_Tools
begin

text \<open>
  Frozen source snapshots (\<open>accelerator/investigation_tools.py\<close>): the scan of a registered folder, its
  manifest, the mapping scope a human authorises, the snapshot of a process, the snapshot of a
  discovery and its handoff to a process. What the operating system answers about a path is the
  argument \<open>fs\<close>.
\<close>

section \<open>Paths\<close>

text \<open>Splitting at a separator, without empty components and single dots.\<close>

fun split_at :: "(char \<Rightarrow> bool) \<Rightarrow> string \<Rightarrow> string \<Rightarrow> string list" where
  "split_at sep cur [] = [rev cur]"
| "split_at sep cur (c # cs) = (if sep c then rev cur # split_at sep [] cs else split_at sep (c # cur) cs)"

definition components :: "(char \<Rightarrow> bool) \<Rightarrow> string \<Rightarrow> string list" where
  "components sep s = filter (\<lambda>p. p \<noteq> [] \<and> p \<noteq> ''.'') (split_at sep [] s)"

abbreviation backslash :: char where "backslash \<equiv> CHR 0x5C"

definition is_slash :: "char \<Rightarrow> bool" where
  "is_slash c \<longleftrightarrow> c = CHR ''/'' \<or> c = backslash"

text \<open>
  The drive of a Windows path, as \<open>ntpath.splitroot\<close> cuts it off: the share of a UNC path, or a letter
  with a colon.
\<close>

definition unc_drive :: "nat \<Rightarrow> string \<Rightarrow> nat" where
  "unc_drive start s = (let
     server = takeWhile (\<lambda>c. \<not> is_slash c) (drop start s);
     first = start + length server in
     if first \<ge> length s then length s
     else first + 1 + length (takeWhile (\<lambda>c. \<not> is_slash c) (drop (first + 1) s)))"

definition upper_char :: "char \<Rightarrow> char" where
  "upper_char c = (let n = (of_char c :: int) in if 97 \<le> n \<and> n \<le> 122 then char_of (n - 32) else c)"

definition windows_drive :: "string \<Rightarrow> nat" where
  "windows_drive s =
     (if length s \<ge> 2 \<and> is_slash (s ! 0) \<and> is_slash (s ! 1) then
        unc_drive (if map upper_char (map (\<lambda>c. if is_slash c then backslash else c) (take 8 s)) =
          [backslash, backslash, CHR ''?'', backslash] @ ''UNC'' @ [backslash] then 8 else 2) s
      else if length s \<ge> 2 \<and> \<not> is_slash (s ! 0) \<and> s ! 1 = CHR '':'' then 2 else 0)"

definition windows_parts :: "string \<Rightarrow> string list" where
  "windows_parts s = (let n = windows_drive s;
     drive = map (\<lambda>c. if c = CHR ''/'' then backslash else c) (take n s) in
     filter (\<lambda>p. p \<noteq> drive) (components is_slash (drop n s)))"

definition posix_parts :: "string \<Rightarrow> string list" where
  "posix_parts s = filter (\<lambda>p. p \<noteq> [backslash]) (components (\<lambda>c. c = CHR ''/'') s)"

definition path_parts :: "string \<Rightarrow> string list list" where
  "path_parts s = remdups (filter (\<lambda>p. p \<noteq> []) [windows_parts s, posix_parts s])"

lemma path_samples:
  "path_parts (''C:'' @ [backslash] @ ''x'' @ [backslash] @ ''..'') = [[''x'', ''..''], [''C:'' @ [backslash] @ ''x'' @ [backslash] @ ''..'']]"
  "path_parts ''/srv/./data'' = [[''srv'', ''data'']]"
  by code_simp+

section \<open>Scanning a folder\<close>

text \<open>
  What the operating system tells of a directory entry: whether it is a link (\<open>None\<close>: the question
  fails), whether it is a file, its size, time in nanoseconds and time in microseconds with the
  resolved path in the folder or not, and what reading it gives: the number of bytes, the text when
  they are UTF-8, the size and the time afterwards.
\<close>

record stat_info =
  si_size :: int
  si_mtime_ns :: int
  si_mtime :: int
  si_inside :: bool

record read_info =
  ri_length :: int
  ri_text :: "string option"
  ri_size :: int
  ri_mtime_ns :: int

record entry_info =
  en_name :: string
  en_link :: "bool option"
  en_file :: bool
  en_stat :: "stat_info option"
  en_read :: "read_info option"

record root_info =
  ro_link :: "bool option"
  ro_resolved :: bool
  ro_folder :: bool
  ro_entries :: "entry_info list option"

text \<open>
  \<open>fs_below suffix\<close> is the resolved path of a suffix below \<open>BASE_DIR\<close> when it exists there and is a
  folder, \<open>fs_base\<close> tells whether \<open>BASE_DIR\<close> itself resolves.
\<close>

record file_system =
  fs_root :: "string \<Rightarrow> root_info"
  fs_base :: bool
  fs_below :: "string list \<Rightarrow> string option"

record scanned =
  sc_filename :: string
  sc_type :: string
  sc_size :: int
  sc_sha256 :: string
  sc_mtime :: int
  sc_content :: string
  sc_row_count :: "int option"
  sc_column_count :: "int option"
  sc_columns :: "string list"

abbreviation tool_err :: "string \<Rightarrow> run_error" where
  "tool_err c \<equiv> Tool_Error c"

text \<open>\<open>_is_reparse_or_symlink\<close>, with its callers' refusal of a link.\<close>

definition refuse_link :: "bool option \<Rightarrow> (run_error, unit) res" where
  "refuse_link link = (case link of
       None \<Rightarrow> Inl (tool_err ''source_path_unreadable'')
     | Some b \<Rightarrow> raise_if b (tool_err ''reparse_point''))"

definition root_path :: "file_system \<Rightarrow> string \<Rightarrow> (run_error, entry_info list option) res" where
  "root_path fs raw = (let info = fs_root fs raw in
     bindR (raise_if (\<exists>parts\<in>set (path_parts raw). ''..'' \<in> set parts) (tool_err ''path_traversal'')) (\<lambda>_.
     bindR (refuse_link (ro_link info)) (\<lambda>_.
     bindR (raise_if (\<not> ro_resolved info) (tool_err ''source_path_unreadable'')) (\<lambda>_.
     bindR (raise_if (\<not> ro_folder info) (tool_err ''source_path_invalid'')) (\<lambda>_.
     Inr (ro_entries info))))))"

text \<open>\<open>PurePath.suffix\<close>: from the last dot, unless it opens or closes the name.\<close>

definition path_suffix :: "string \<Rightarrow> string" where
  "path_suffix name = (let ext = rev (takeWhile (\<lambda>c. c \<noteq> CHR ''.'') (rev name)) in
     if ext = [] \<or> length ext + 1 \<ge> length name then [] else CHR ''.'' # ext)"

definition source_type_of :: "string \<Rightarrow> string option" where
  "source_type_of name = (let suffix = py_casefold (path_suffix name) in
     if suffix = ''.txt'' then Some ''txt'' else if suffix = ''.md'' then Some ''md''
     else if suffix = ''.csv'' then Some ''csv'' else None)"

definition max_file_bytes :: int where "max_file_bytes = 1048576"
definition max_total_bytes :: int where "max_total_bytes = 5 * 1048576"

text \<open>The checks of one entry up to its size; \<open>used\<close> are the bytes of the entries before it.\<close>

definition admit_entry :: "int \<Rightarrow> entry_info \<Rightarrow> (run_error, string \<times> stat_info) res" where
  "admit_entry used e =
     bindR (refuse_link (en_link e)) (\<lambda>_.
     bindR (raise_if (\<not> en_file e) (tool_err ''nested_directory'')) (\<lambda>_.
     (case source_type_of (en_name e) of
        None \<Rightarrow> Inl (tool_err ''unsupported_type'')
      | Some kind \<Rightarrow>
          (case en_stat e of
             None \<Rightarrow> Inl (tool_err ''source_unreadable'')
           | Some st \<Rightarrow>
               bindR (raise_if (\<not> si_inside st) (tool_err ''path_escape'')) (\<lambda>_.
               bindR (raise_if (si_size st > max_file_bytes) (tool_err ''file_size_limit'')) (\<lambda>_.
               bindR (raise_if (used + si_size st > max_total_bytes) (tool_err ''total_size_limit'')) (\<lambda>_.
               Inr (kind, st))))))))"

text \<open>Reading an admitted entry; its content must be the one that was measured.\<close>

definition read_entry :: "stat_info \<Rightarrow> entry_info \<Rightarrow> (run_error, string) res" where
  "read_entry st e = (case en_read e of
       None \<Rightarrow> Inl (tool_err ''source_unreadable'')
     | Some rd \<Rightarrow>
         bindR (raise_if (si_size st \<noteq> ri_size rd \<or> si_mtime_ns st \<noteq> ri_mtime_ns rd)
                  (tool_err ''source_changed'')) (\<lambda>_.
         bindR (raise_if (ri_length rd \<noteq> si_size st) (tool_err ''source_changed'')) (\<lambda>_.
         (case ri_text rd of None \<Rightarrow> Inl (tool_err ''invalid_utf8'') | Some text' \<Rightarrow> Inr text'))))"

text \<open>The SHA-256 of the bytes is that of their text, which decodes to it.\<close>

definition scan_entry :: "env \<Rightarrow> int \<Rightarrow> entry_info \<Rightarrow> (run_error, scanned) res" where
  "scan_entry env used e =
     bindR (admit_entry used e) (\<lambda>(kind, st).
     bindR (read_entry st e) (\<lambda>content.
     bindR (if kind = ''csv'' then bindR (csv_rows content) (\<lambda>(header, rows). Inr (Some (header, rows)))
            else Inr None) (\<lambda>table.
     Inr \<lparr>sc_filename = en_name e, sc_type = kind, sc_size = si_size st, sc_sha256 = e_hash env content,
       sc_mtime = si_mtime st, sc_content = content,
       sc_row_count = map_option (\<lambda>(header, rows). int (length rows)) table,
       sc_column_count = map_option (\<lambda>(header, rows). int (length header)) table,
       sc_columns = (case table of None \<Rightarrow> [] | Some (header, rows) \<Rightarrow> header)\<rparr>)))"

fun scan_entries :: "env \<Rightarrow> int \<Rightarrow> entry_info list \<Rightarrow> (run_error, scanned list) res" where
  "scan_entries env used [] = Inr []"
| "scan_entries env used (e # es) =
     bindR (scan_entry env used e) (\<lambda>s.
     bindR (scan_entries env (used + sc_size s) es) (\<lambda>ss. Inr (s # ss)))"

definition scan_folder :: "env \<Rightarrow> file_system \<Rightarrow> string \<Rightarrow> (run_error, scanned list) res" where
  "scan_folder env fs raw =
     bindR (root_path fs raw) (\<lambda>listing.
     (case listing of
        None \<Rightarrow> Inl (tool_err ''source_path_unreadable'')
      | Some es \<Rightarrow>
          bindR (raise_if (length es > 12) (tool_err ''file_count_limit'')) (\<lambda>_.
          scan_entries env 0 (sort_key (\<lambda>e. py_casefold (en_name e)) es))))"

section \<open>Manifest\<close>

definition manifest_entry ::
    "string \<Rightarrow> string \<Rightarrow> int \<Rightarrow> string \<Rightarrow> int option \<Rightarrow> int option \<Rightarrow> string list \<Rightarrow> json" where
  "manifest_entry name kind bytes sha rows cols names = JObj
     [(''filename'', JStr name), (''source_type'', JStr kind), (''size_bytes'', JInt bytes),
      (''content_sha256'', JStr sha), (''row_count'', opt_int rows), (''column_count'', opt_int cols),
      (''columns'', JList (map JStr names))]"

definition scanned_entry :: "scanned \<Rightarrow> json" where
  "scanned_entry s = manifest_entry (sc_filename s) (sc_type s) (sc_size s) (sc_sha256 s)
     (sc_row_count s) (sc_column_count s) (sc_columns s)"

definition manifest_hash :: "env \<Rightarrow> scanned list \<Rightarrow> string" where
  "manifest_hash env ss = content_hash (e_hash env) (JList (map scanned_entry ss))"

definition source_entry :: "source \<Rightarrow> json" where
  "source_entry s = manifest_entry (src_filename s) (src_type s) (src_size s) (src_sha256 s)
     (src_row_count s) (src_column_count s) (src_columns s)"

definition stored_manifest_hash :: "env \<Rightarrow> snapshot \<Rightarrow> string" where
  "stored_manifest_hash env snap =
     content_hash (e_hash env) (JList (map source_entry (ordered_sources env snap)))"

section \<open>Registered folders\<close>

text \<open>The suffixes of a path of at least two components, longest first, without parent steps.\<close>

definition path_suffixes :: "string list \<Rightarrow> string list list" where
  "path_suffixes parts = filter (\<lambda>s. ''..'' \<notin> set s) (map (\<lambda>n. drop n parts) [0..<length parts - 1])"

definition portable_candidates :: "file_system \<Rightarrow> string \<Rightarrow> (string, nat) dict" where
  "portable_candidates fs raw = fold (\<lambda>s d. (case fs_below fs s of
       None \<Rightarrow> d
     | Some p \<Rightarrow> dict_set d p (max (case map_of d p of None \<Rightarrow> 0 | Some n \<Rightarrow> n) (length s))))
     (concat (map path_suffixes (path_parts raw))) []"

definition portable_repo_root_candidates :: "file_system \<Rightarrow> string \<Rightarrow> string list" where
  "portable_repo_root_candidates fs raw =
     (if fs_base fs
      then map fst (sort_key (\<lambda>(p, n). - int n) (sort_key fst (portable_candidates fs raw)))
      else [])"

definition folder_snapshots :: "db \<Rightarrow> string \<Rightarrow> snapshot list" where
  "folder_snapshots d i = filter (\<lambda>s. snap_folder s = i) (db_snapshots d)"

definition max_revision :: "db \<Rightarrow> string \<Rightarrow> int" where
  "max_revision d i = fold (\<lambda>s m. max m (snap_revision s)) (folder_snapshots d i) 0"

text \<open>\<open>folder.snapshots.order_by("-revision").first()\<close>.\<close>

definition latest_snapshot :: "db \<Rightarrow> string \<Rightarrow> snapshot option" where
  "latest_snapshot d i = first_opt (sort_key (\<lambda>s. - snap_revision s) (folder_snapshots d i))"

definition matching_scans :: "env \<Rightarrow> file_system \<Rightarrow> string \<Rightarrow> string list \<Rightarrow> scanned list list" where
  "matching_scans env fs expected candidates = concat (map (\<lambda>p. case scan_folder env fs p of
       Inl e \<Rightarrow> []
     | Inr ss \<Rightarrow> if manifest_hash env ss = expected then [ss] else []) candidates)"

definition scan_registered_folder :: "env \<Rightarrow> file_system \<Rightarrow> db \<Rightarrow> folder \<Rightarrow> (run_error, scanned list) res" where
  "scan_registered_folder env fs d f = (case scan_folder env fs (fo_root f) of
       Inr ss \<Rightarrow> Inr ss
     | Inl e \<Rightarrow>
         if e \<noteq> tool_err ''source_path_unreadable'' then Inl e
         else (case latest_snapshot d (fo_id f) of
             None \<Rightarrow> Inl e
           | Some snap \<Rightarrow>
               (case matching_scans env fs (snap_manifest_hash snap)
                       (portable_repo_root_candidates fs (fo_root f)) of
                  [ss] \<Rightarrow> Inr ss
                | _ \<Rightarrow> Inl (tool_err ''source_path_unreadable''))))"

end
