(* ===== verification/Source_Capture.thy ===== *)
theory Source_Capture
  imports Source_Snapshots
begin

text \<open>
  Creating frozen snapshots (\<open>accelerator/investigation_tools.py\<close>): the mapping scope, the snapshot of
  a process, the snapshot of a discovery and its handoff to a process. Each creation checks access and
  scans the folder first and commits in a transaction that checks again; \<open>d\<close> is the database it finds
  at first and \<open>d'\<close> the one its transaction meets.
\<close>

section \<open>Run limits\<close>

text \<open>Limits are integers, not Booleans, between 0 and 1000; keys are stripped, a later key wins.\<close>

definition run_limit :: "string \<times> json \<Rightarrow> (run_error, string \<times> json) res" where
  "run_limit kv = (case kv of (key, value) \<Rightarrow>
     if py_strip key = [] then Inl (tool_err ''invalid_limits'')
     else (case value of
         JInt n \<Rightarrow> if n < 0 \<or> n > 1000 then Inl (tool_err ''invalid_limits'') else Inr (py_strip key, JInt n)
       | _ \<Rightarrow> Inl (tool_err ''invalid_limits'')))"

definition validate_run_limits :: "json \<Rightarrow> (run_error, obj) res" where
  "validate_run_limits limits =
     bindR (raise_if (\<not> is_mapping limits) (tool_err ''invalid_limits'')) (\<lambda>_.
     bindR (mapR run_limit (members limits)) (\<lambda>kvs. Inr (sort_key fst (dict_of kvs))))"

section \<open>Mapping scope\<close>

abbreviation bad_spec :: run_error where
  "bad_spec \<equiv> Tool_Error ''invalid_structured_mapping_spec''"

definition scope_fields :: "string list" where
  "scope_fields = [''obligation_id'', ''source_filename'', ''case_key_column'', ''case_keys'',
     ''mapping_dimension'', ''exhaustive'']"

definition scope_key :: "json \<Rightarrow> (run_error, string) res" where
  "scope_key v = (case v of
       JStr s \<Rightarrow> if py_strip s = [] then Inl bad_spec else Inr (py_strip s)
     | _ \<Rightarrow> Inl bad_spec)"

definition scanned_by_filename :: "scanned list \<Rightarrow> string \<Rightarrow> scanned option" where
  "scanned_by_filename ss n = find (\<lambda>s. sc_filename s = n) (rev ss)"

text \<open>A specification without identifier is named after the hash of its scope.\<close>

definition scope_identity :: "env \<Rightarrow> scanned \<Rightarrow> string \<Rightarrow> string \<Rightarrow> string list \<Rightarrow> string \<Rightarrow> string" where
  "scope_identity env s filename column keys dimension =
     ''mapping-'' @ take 16 (content_hash (e_hash env) (JObj
       [(''source_filename'', JStr filename), (''source_content_sha256'', JStr (sc_sha256 s)),
        (''case_key_column'', JStr column), (''case_keys'', JList (map JStr keys)),
        (''mapping_dimension'', JStr dimension)]))"

definition scope_json :: "string \<Rightarrow> string \<Rightarrow> string \<Rightarrow> string \<Rightarrow> string list \<Rightarrow> string \<Rightarrow> obj" where
  "scope_json oid filename sha column keys dimension =
     [(''obligation_id'', JStr oid), (''source_filename'', JStr filename),
      (''source_content_sha256'', JStr sha), (''case_key_column'', JStr column),
      (''case_keys'', JList (map JStr keys)), (''mapping_dimension'', JStr dimension),
      (''exhaustive'', JBool True)]"

definition normalize_spec :: "env \<Rightarrow> scanned list \<Rightarrow> string list \<Rightarrow> json \<Rightarrow> (run_error, string \<times> obj) res" where
  "normalize_spec env ss seen raw = (let
     f = members raw;
     filename = text_at f ''source_filename'';
     column = text_at f ''case_key_column'';
     dimension = text_at f ''mapping_dimension'' in
     bindR (raise_if (\<not> is_mapping raw \<or> \<not> set (map fst f) \<subseteq> set scope_fields) bad_spec) (\<lambda>_.
     bindR (raise_if (filename = [] \<or> column = [] \<or> dimension = [] \<or> jget f ''exhaustive'' \<noteq> JBool True)
              bad_spec) (\<lambda>_.
     (case scanned_by_filename ss filename of
        None \<Rightarrow> Inl bad_spec
      | Some s \<Rightarrow>
          bindR (raise_if (sc_type s \<noteq> ''csv'') bad_spec) (\<lambda>_.
          bindR (raise_if (column \<notin> set (sc_columns s)) bad_spec) (\<lambda>_.
          bindR (raise_if (items (jget f ''case_keys'') = []) bad_spec) (\<lambda>_.
          bindR (mapR scope_key (items (jget f ''case_keys''))) (\<lambda>keys.
          bindR (raise_if (\<not> distinct keys) bad_spec) (\<lambda>_.
          (case dict_rows (sc_content s) of
             None \<Rightarrow> Inl Csv_Error
           | Some rows \<Rightarrow>
               bindR (raise_if (\<exists>k\<in>set keys. key_count rows column k \<noteq> 1) bad_spec) (\<lambda>_.
               (let
                 given = text_at f ''obligation_id'';
                 oid = (if given = [] then scope_identity env s filename column (sort keys) dimension else given) in
                bindR (raise_if (length oid > 100 \<or> oid \<in> set seen) bad_spec) (\<lambda>_.
                Inr (oid, scope_json oid filename (sc_sha256 s) column (sort keys) dimension))))))))))))))"

fun normalize_specs_from ::
    "env \<Rightarrow> scanned list \<Rightarrow> string list \<Rightarrow> json list \<Rightarrow> (run_error, (string \<times> obj) list) res" where
  "normalize_specs_from env ss seen [] = Inr []"
| "normalize_specs_from env ss seen (raw # raws) =
     bindR (normalize_spec env ss seen raw) (\<lambda>spec.
     bindR (normalize_specs_from env ss (fst spec # seen) raws) (\<lambda>specs. Inr (spec # specs)))"

definition normalize_structured_mapping_specs ::
    "env \<Rightarrow> scanned list \<Rightarrow> json \<Rightarrow> (run_error, obj list) res" where
  "normalize_structured_mapping_specs env ss raw = (case raw of
       JNull \<Rightarrow> Inr []
     | JList raws \<Rightarrow>
         bindR (normalize_specs_from env ss [] raws) (\<lambda>specs. Inr (map snd (sort_key fst specs)))
     | _ \<Rightarrow> Inl bad_spec)"

section \<open>Access\<close>

definition authorized_process :: "env \<Rightarrow> db \<Rightarrow> user option \<Rightarrow> json \<Rightarrow> (run_error, process) res" where
  "authorized_process env d actor i = bindR (e_pk env i) (\<lambda>k.
     (case Option.bind k (get_process d) of
        None \<Rightarrow> Inl Permission_Denied
      | Some p \<Rightarrow>
          bindR (raise_if (\<not> proc_draft p) Permission_Denied) (\<lambda>_.
          bindR (actor_edits actor p) (\<lambda>ok.
          bindR (raise_if (\<not> ok) Permission_Denied) (\<lambda>_. Inr p)))))"

text \<open>\<open>queryset.get(pk=..., owner=actor)\<close>; without an actor the lookup finds no row.\<close>

definition get_capture :: "db \<Rightarrow> user option \<Rightarrow> string \<Rightarrow> capture option" where
  "get_capture d actor i =
     find (\<lambda>c. ca_id c = i \<and> Some (ca_owner c) = Option.bind actor u_id) (db_captures d)"

definition authorized_discovery_capture :: "env \<Rightarrow> db \<Rightarrow> user option \<Rightarrow> json \<Rightarrow> (run_error, capture) res" where
  "authorized_discovery_capture env d actor i = bindR (e_pk env i) (\<lambda>k.
     (case Option.bind k (get_capture d actor) of
        None \<Rightarrow> Inl Permission_Denied
      | Some c \<Rightarrow>
          if \<not> ca_value_stream c \<or> \<not> ca_autonomous c \<or> \<not> ca_draft c \<or>
             (case actor of None \<Rightarrow> True | Some u \<Rightarrow> \<not> can_manage_architecture u)
          then Inl Permission_Denied else Inr c))"

definition find_snapshot :: "db \<Rightarrow> string \<Rightarrow> snapshot option" where
  "find_snapshot d i = find (\<lambda>s. snap_id s = i) (db_snapshots d)"

definition authorized_discovery_snapshot :: "env \<Rightarrow> db \<Rightarrow> user option \<Rightarrow> json \<Rightarrow> (run_error, snapshot) res" where
  "authorized_discovery_snapshot env d actor i = bindR (e_pk env i) (\<lambda>k.
     (case Option.bind k (find_snapshot d) of
        None \<Rightarrow> Inl Permission_Denied
      | Some snap \<Rightarrow>
          (case snap_capture snap of
             None \<Rightarrow> Inl Permission_Denied
           | Some ci \<Rightarrow>
               bindR (raise_if (snap_process snap \<noteq> None) Permission_Denied) (\<lambda>_.
               bindR (authorized_discovery_capture env d actor (JStr ci)) (\<lambda>session.
               (case get_folder d (snap_folder snap) of
                  None \<Rightarrow> Inl (Other_Error ''DoesNotExist'')
                | Some f \<Rightarrow>
                    bindR (raise_if (\<not> fo_active f) Permission_Denied) (\<lambda>_.
                    bindR (raise_if (fo_capture f \<noteq> Some (ca_id session)) Permission_Denied) (\<lambda>_.
                    Inr snap))))))))"

section \<open>Storing a snapshot\<close>

record snapshot_result =
  sn_snapshot :: string
  sn_revision :: int
  sn_manifest :: string
  sn_count :: int
  sn_bytes :: int
  sn_process_version :: "int option"

text \<open>
  The sources of a new snapshot in order, with fresh identifiers; a source whose content occurred
  before is linked to the first of its content (\<open>first_by_hash.setdefault\<close>).
\<close>

fun store_sources :: "env \<Rightarrow> nat \<Rightarrow> (string, string) dict \<Rightarrow> source list \<Rightarrow> source list" where
  "store_sources env n first [] = []"
| "store_sources env n first (s # ss) = (let
     i = e_uuid env n;
     first' = (if map_of first (src_sha256 s) = None then dict_set first (src_sha256 s) i else first) in
     s\<lparr>src_id := i, src_duplicate_of := map_of first (src_sha256 s)\<rparr> # store_sources env (Suc n) first' ss)"

definition scanned_source :: "scanned \<Rightarrow> source" where
  "scanned_source s = \<lparr>src_id = [], src_filename = sc_filename s, src_type = sc_type s,
     src_content = sc_content s, src_sha256 = sc_sha256 s, src_columns = sc_columns s,
     src_row_count = sc_row_count s, src_column_count = sc_column_count s, src_size = sc_size s,
     src_mtime = Some (sc_mtime s), src_duplicate_of = None\<rparr>"

text \<open>\<open>snap\<close> holds the fields given to \<open>create\<close>; the identifier, the revision and the sources are added.\<close>

definition new_snapshot :: "env \<Rightarrow> db \<Rightarrow> snapshot \<Rightarrow> source list \<Rightarrow> snapshot" where
  "new_snapshot env d snap ss = snap\<lparr>snap_id := fresh env d,
     snap_revision := max_revision d (snap_folder snap) + 1, snap_created := db_now d,
     snap_sources := store_sources env (Suc (db_next d)) [] ss\<rparr>"

definition append_snapshot :: "db \<Rightarrow> snapshot \<Rightarrow> db" where
  "append_snapshot d snap = d\<lparr>db_next := db_next d + Suc (length (snap_sources snap)),
     db_snapshots := db_snapshots d @ [snap]\<rparr>"

definition total_bytes :: "source list \<Rightarrow> int" where
  "total_bytes ss = sum_list (map src_size ss)"

definition snapshot_result_of :: "snapshot \<Rightarrow> snapshot_result" where
  "snapshot_result_of snap = \<lparr>sn_snapshot = snap_id snap, sn_revision = snap_revision snap,
     sn_manifest = snap_manifest_hash snap, sn_count = int (length (snap_sources snap)),
     sn_bytes = total_bytes (snap_sources snap), sn_process_version = snap_process_version snap\<rparr>"

text \<open>The columns of a process the context repeats, in the order of the code.\<close>

definition context_columns :: "string list" where
  "context_columns = [''name'', ''scope_start'', ''scope_end'', ''trigger'', ''outcome'', ''current_flow'',
     ''roles'', ''systems'', ''data_objects'', ''business_rules'', ''handoffs'', ''bottlenecks'',
     ''diagnostic_observations'', ''cause_hypotheses'', ''confirmed_causes'', ''constraints'', ''exceptions'',
     ''baseline_metrics'']"

definition claim_semantics :: string where
  "claim_semantics = ''Vorhandene Aussagen sind Angaben ihres Erstellers und keine automatisch '' @
     ''best'' @ [CHR 0xE4] @ ''tigten Fakten.''"

definition process_context :: "process \<Rightarrow> obj list \<Rightarrow> obj" where
  "process_context p specs =
     [(''process_analysis_id'', JStr (proc_id p)), (''process_version'', JInt (proc_version p))] @
     map (\<lambda>c. (c, jget (proc_texts p) c)) context_columns @
     [(''structured_mapping_specs'', JList (map JObj specs)), (''claim_semantics'', JStr claim_semantics)]"

section \<open>The snapshot of a process\<close>

record snapshot_request =
  sq_process :: json
  sq_folder :: json
  sq_question :: string
  sq_limits :: json
  sq_specs :: json

text \<open>What is checked and scanned before the transaction.\<close>

record prepared =
  pr_process :: string
  pr_folder :: string
  pr_question :: string
  pr_limits :: obj
  pr_scanned :: "scanned list"
  pr_specs :: "obj list"
  pr_manifest :: string

definition prepare_snapshot ::
    "env \<Rightarrow> file_system \<Rightarrow> db \<Rightarrow> user option \<Rightarrow> snapshot_request \<Rightarrow> (run_error, prepared) res" where
  "prepare_snapshot env fs d actor q = (let question = py_strip (sq_question q) in
     bindR (raise_if (question = []) (tool_err ''missing_question'')) (\<lambda>_.
     bindR (validate_run_limits (sq_limits q)) (\<lambda>limits.
     bindR (authorized_process env d actor (sq_process q)) (\<lambda>p.
     bindR (e_pk env (sq_folder q)) (\<lambda>k.
     (case Option.bind k (get_folder d) of
        None \<Rightarrow> Inl Permission_Denied
      | Some f \<Rightarrow>
          bindR (raise_if (fo_process f \<noteq> Some (proc_id p) \<or> \<not> fo_active f) Permission_Denied) (\<lambda>_.
          bindR (scan_registered_folder env fs d f) (\<lambda>ss.
          bindR (normalize_structured_mapping_specs env ss (sq_specs q)) (\<lambda>specs.
          Inr \<lparr>pr_process = proc_id p, pr_folder = fo_id f, pr_question = question, pr_limits = limits,
            pr_scanned = ss, pr_specs = specs, pr_manifest = manifest_hash env ss\<rparr>)))))))))"

text \<open>
  The transaction. Under the row locks the process that is read again at its end is the one locked at
  its start.
\<close>

definition commit_snapshot :: "env \<Rightarrow> db \<Rightarrow> user option \<Rightarrow> prepared \<Rightarrow> snapshot_result txn" where
  "commit_snapshot env d actor pr =
     bindR (authorized_process env d actor (JStr (pr_process pr))) (\<lambda>p.
     (case find (\<lambda>f. fo_id f = pr_folder pr \<and> fo_process f = Some (proc_id p) \<and> fo_active f) (db_folders d) of
        None \<Rightarrow> Inl Permission_Denied
      | Some f \<Rightarrow> (let
          snap = new_snapshot env d
            \<lparr>snap_id = [], snap_process = Some (proc_id p), snap_capture = None, snap_revision = 0,
             snap_folder = fo_id f, snap_sources = [], snap_manifest_hash = pr_manifest pr,
             snap_question = pr_question pr, snap_process_version = Some (proc_version p),
             snap_run_limits = pr_limits pr, snap_context = JObj (process_context p (pr_specs pr)),
             snap_created = 0\<rparr>
            (map scanned_source (pr_scanned pr)) in
          Inr (append_snapshot d snap, snapshot_result_of snap))))"

definition create_source_snapshot ::
    "env \<Rightarrow> file_system \<Rightarrow> db \<Rightarrow> db \<Rightarrow> user option \<Rightarrow> snapshot_request \<Rightarrow> snapshot_result txn" where
  "create_source_snapshot env fs d d' actor q =
     bindR (prepare_snapshot env fs d actor q) (commit_snapshot env d' actor)"

section \<open>The snapshot of a discovery\<close>

definition discovery_semantics :: string where
  "discovery_semantics = ''Quellenaussagen sind berichtete Evidenz; Hypothesen und Unknowns '' @
     ''werden separat gef'' @ [CHR 0xFC] @ ''hrt.''"

text \<open>\<open>dict(v)\<close> of the stored scope; a missing key or a value that is no mapping raises.\<close>

definition human_scope :: "capture \<Rightarrow> (run_error, obj) res" where
  "human_scope c =
     (if ca_catalog c = ''3.0''
      then (case map_of (ca_answers c) ''human_scope'' of
          None \<Rightarrow> Inl (Other_Error ''KeyError'')
        | Some (JObj o') \<Rightarrow> Inr [(''human_scope'', JObj o')]
        | Some v \<Rightarrow> if v = JList [] \<or> v = JStr [] then Inr [(''human_scope'', JObj [])]
                    else Inl (Other_Error ''TypeError''))
      else Inr [])"

definition discovery_context :: "capture \<Rightarrow> string \<Rightarrow> (run_error, obj) res" where
  "discovery_context c problem = bindR (human_scope c) (\<lambda>scope. Inr (scope @
     [(''capture_session_id'', JStr (ca_id c)), (''capture_revision'', JInt (ca_revision c)),
      (''problem_statement'', JStr problem), (''business_context'', JStr (text_at (ca_answers c) ''business_context'')),
      (''claim_semantics'', JStr discovery_semantics)]))"

definition discovery_snapshot :: "env \<Rightarrow> db \<Rightarrow> capture \<Rightarrow> folder \<Rightarrow> string \<Rightarrow> obj \<Rightarrow> scanned list \<Rightarrow> snapshot" where
  "discovery_snapshot env d session f problem ctx ss = new_snapshot env d
     \<lparr>snap_id = [], snap_process = None, snap_capture = Some (ca_id session), snap_revision = 0,
      snap_folder = fo_id f, snap_sources = [], snap_manifest_hash = manifest_hash env ss,
      snap_question = problem, snap_process_version = None, snap_run_limits = [],
      snap_context = JObj ctx, snap_created = 0\<rparr> (map scanned_source ss)"

definition commit_discovery ::
    "env \<Rightarrow> db \<Rightarrow> user option \<Rightarrow> capture \<Rightarrow> folder \<Rightarrow> string \<Rightarrow> scanned list \<Rightarrow> snapshot_result txn" where
  "commit_discovery env d actor session f problem ss =
     bindR (authorized_discovery_capture env d actor (JStr (ca_id session))) (\<lambda>locked.
     (case find (\<lambda>g. fo_id g = fo_id f \<and> fo_capture g = Some (ca_id locked) \<and> fo_process g = None \<and> fo_active g)
             (db_folders d) of
        None \<Rightarrow> Inl Permission_Denied
      | Some g \<Rightarrow>
          bindR (discovery_context locked problem) (\<lambda>ctx.
          (let snap = discovery_snapshot env d locked g problem ctx ss in
           Inr (append_snapshot d snap, snapshot_result_of snap)))))"

definition create_discovery_source_snapshot ::
    "env \<Rightarrow> file_system \<Rightarrow> db \<Rightarrow> db \<Rightarrow> user option \<Rightarrow> json \<Rightarrow> json \<Rightarrow> snapshot_result txn" where
  "create_discovery_source_snapshot env fs d d' actor capture_id folder_id =
     bindR (authorized_discovery_capture env d actor capture_id) (\<lambda>session.
     (let problem = text_at (ca_answers session) ''problem_statement'' in
      bindR (raise_if (problem = []) (tool_err ''missing_problem'')) (\<lambda>_.
      bindR (e_pk env folder_id) (\<lambda>k.
      (case Option.bind k (get_folder d) of
         None \<Rightarrow> Inl Permission_Denied
       | Some f \<Rightarrow>
           bindR (raise_if (fo_capture f \<noteq> Some (ca_id session) \<or> \<not> fo_active f) Permission_Denied) (\<lambda>_.
           bindR (scan_registered_folder env fs d f) (\<lambda>ss.
           commit_discovery env d' actor session f problem ss)))))))"

text \<open>\<open>inspect_source_folder\<close> and \<open>get_discovery_source_snapshot\<close>: the scan and the lookup for their callers.\<close>

record folder_file =
  ff_filename :: string
  ff_type :: string
  ff_size :: int
  ff_sha256 :: string
  ff_row_count :: "int option"
  ff_column_count :: "int option"
  ff_columns :: "string list"

definition inspect_source_folder :: "env \<Rightarrow> file_system \<Rightarrow> string \<Rightarrow> (run_error, folder_file list) res" where
  "inspect_source_folder env fs raw = bindR (scan_folder env fs raw) (\<lambda>ss. Inr (map (\<lambda>s.
     \<lparr>ff_filename = sc_filename s, ff_type = sc_type s, ff_size = sc_size s, ff_sha256 = sc_sha256 s,
      ff_row_count = sc_row_count s, ff_column_count = sc_column_count s, ff_columns = sc_columns s\<rparr>) ss))"

definition get_discovery_source_snapshot :: "env \<Rightarrow> db \<Rightarrow> user option \<Rightarrow> json \<Rightarrow> (run_error, snapshot) res" where
  "get_discovery_source_snapshot env d actor i = authorized_discovery_snapshot env d actor i"

section \<open>Handoff to a process\<close>

definition handed_over :: "snapshot \<Rightarrow> string \<Rightarrow> bool" where
  "handed_over snap i \<longleftrightarrow> jget (members (snap_context snap)) ''discovery_snapshot_id'' = JStr i"

text \<open>
  \<open>filter(...).order_by("-created_at").first()\<close>: the latest, the rows being in the order of their
  creation.
\<close>

definition existing_handoff :: "db \<Rightarrow> process \<Rightarrow> snapshot \<Rightarrow> snapshot option" where
  "existing_handoff d p disc = find (\<lambda>s. snap_process s = Some (proc_id p) \<and>
     snap_process_version s = Some (proc_version p) \<and> snap_manifest_hash s = snap_manifest_hash disc \<and>
     handed_over s (snap_id disc)) (rev (db_snapshots d))"

definition handoff_in_folder :: "db \<Rightarrow> folder \<Rightarrow> process \<Rightarrow> snapshot \<Rightarrow> snapshot option" where
  "handoff_in_folder d f p disc = find (\<lambda>s. snap_folder s = fo_id f \<and> snap_process s = Some (proc_id p) \<and>
     snap_process_version s = Some (proc_version p) \<and> snap_manifest_hash s = snap_manifest_hash disc \<and>
     handed_over s (snap_id disc)) (rev (db_snapshots d))"

text \<open>\<open>InvestigationSourceFolder.objects.get_or_create\<close> with the path of the discovery's folder.\<close>

definition process_folder :: "env \<Rightarrow> db \<Rightarrow> process \<Rightarrow> folder \<Rightarrow> db \<times> folder" where
  "process_folder env d p source_folder =
     (case find (\<lambda>f. fo_process f = Some (proc_id p) \<and> fo_capture f = None \<and> fo_root f = fo_root source_folder)
             (db_folders d) of
        Some f \<Rightarrow> (d, f)
      | None \<Rightarrow> (let f = \<lparr>fo_id = fresh env d, fo_process = Some (proc_id p), fo_capture = None,
            fo_name = fo_name source_folder, fo_root = fo_root source_folder, fo_active = True\<rparr> in
          ((draw d)\<lparr>db_folders := db_folders d @ [f]\<rparr>, f)))"

definition handoff_context :: "process \<Rightarrow> snapshot \<Rightarrow> json option \<Rightarrow> obj" where
  "handoff_context p disc strategic = process_context p [] @
     (case strategic of None \<Rightarrow> []
      | Some v \<Rightarrow> [(''strategic_exploration'', v), (''materialized_stage_id'', JStr (proc_stage p))]) @
     [(''discovery_snapshot_id'', JStr (snap_id disc)),
      (''discovery_capture_session_id'', JStr (id_text (snap_capture disc))),
      (''discovery_manifest_hash'', JStr (snap_manifest_hash disc))]"

definition handoff_snapshot ::
    "env \<Rightarrow> db \<Rightarrow> folder \<Rightarrow> process \<Rightarrow> snapshot \<Rightarrow> string \<Rightarrow> json option \<Rightarrow> snapshot" where
  "handoff_snapshot env d f p disc question strategic = new_snapshot env d
     \<lparr>snap_id = [], snap_process = Some (proc_id p), snap_capture = None, snap_revision = 0,
      snap_folder = fo_id f, snap_sources = [], snap_manifest_hash = snap_manifest_hash disc,
      snap_question = question, snap_process_version = Some (proc_version p), snap_run_limits = [],
      snap_context = JObj (handoff_context p disc strategic), snap_created = 0\<rparr> (ordered_sources env disc)"

definition commit_handoff ::
    "env \<Rightarrow> db \<Rightarrow> user option \<Rightarrow> process \<Rightarrow> snapshot \<Rightarrow> string \<Rightarrow> json option \<Rightarrow> snapshot_result txn" where
  "commit_handoff env d actor p0 disc question strategic =
     bindR (authorized_process env d actor (JStr (proc_id p0))) (\<lambda>p.
     (case find_snapshot d (snap_id disc) of
        None \<Rightarrow> Inl (Other_Error ''DoesNotExist'')
      | Some locked \<Rightarrow>
          bindR (raise_if (snap_capture locked \<noteq> snap_capture disc \<or>
                   snap_manifest_hash locked \<noteq> snap_manifest_hash disc \<or> snap_process locked \<noteq> None)
                 Permission_Denied) (\<lambda>_.
          (case get_folder d (snap_folder locked) of
             None \<Rightarrow> Inl (Other_Error ''DoesNotExist'')
           | Some sf \<Rightarrow>
               (case process_folder env d p sf of (d1, f) \<Rightarrow>
                  bindR (raise_if (\<not> fo_active f) Permission_Denied) (\<lambda>_.
                  (case handoff_in_folder d1 f p locked of
                     Some s \<Rightarrow> Inr (d1, snapshot_result_of s)
                   | None \<Rightarrow> (let snap = handoff_snapshot env d1 f p locked question strategic in
                       bindR (raise_if (stored_manifest_hash env snap \<noteq> snap_manifest_hash locked)
                              (tool_err ''handoff_manifest_mismatch'')) (\<lambda>_.
                       Inr (append_snapshot d1 snap, snapshot_result_of snap))))))))))"

definition bind_discovery_snapshot_to_process ::
    "env \<Rightarrow> db \<Rightarrow> db \<Rightarrow> user option \<Rightarrow> json \<Rightarrow> json \<Rightarrow> string \<Rightarrow> json option \<Rightarrow> snapshot_result txn" where
  "bind_discovery_snapshot_to_process env d d' actor discovery_id process_id decision_question strategic =
     (let question = py_strip decision_question in
      bindR (raise_if (question = []) (tool_err ''missing_question'')) (\<lambda>_.
      bindR (authorized_discovery_snapshot env d actor discovery_id) (\<lambda>disc.
      bindR (authorized_process env d actor process_id) (\<lambda>p.
      bindR (raise_if (stored_manifest_hash env disc \<noteq> snap_manifest_hash disc)
             (tool_err ''discovery_manifest_mismatch'')) (\<lambda>_.
      (case existing_handoff d p disc of
         Some s \<Rightarrow> Inr (d', snapshot_result_of s)
       | None \<Rightarrow> commit_handoff env d' actor p disc question strategic))))))"

end
