(* ===== verification/Source_Scan.thy ===== *)
theory Source_Scan
  imports Source_Capture
begin

text \<open>
  What a scan accepts: the entries of a folder, each read whole and unchanged, within the limits of
  number and size, and the source recorded for each.
\<close>

section \<open>One entry\<close>

text \<open>The source \<open>s\<close> is what an entry within the limits gives.\<close>

definition table_of :: "scanned \<Rightarrow> bool" where
  "table_of s = (case csv_rows (sc_content s) of
       Inl e \<Rightarrow> False
     | Inr (header, rows) \<Rightarrow> sc_columns s = header \<and> sc_row_count s = Some (int (length rows)) \<and>
         sc_column_count s = Some (int (length header)))"

definition unchanged :: "scanned \<Rightarrow> stat_info \<Rightarrow> read_info \<Rightarrow> bool" where
  "unchanged s st rd \<longleftrightarrow> si_inside st \<and> sc_size s = si_size st \<and> sc_mtime s = si_mtime st \<and>
     ri_size rd = si_size st \<and> ri_mtime_ns rd = si_mtime_ns st \<and> ri_length rd = si_size st \<and>
     ri_text rd = Some (sc_content s)"

definition entry_sound :: "env \<Rightarrow> entry_info \<Rightarrow> scanned \<Rightarrow> bool" where
  "entry_sound env e s \<longleftrightarrow>
     en_link e = Some False \<and> en_file e \<and> sc_filename s = en_name e \<and>
     source_type_of (en_name e) = Some (sc_type s) \<and> sc_size s \<le> max_file_bytes \<and>
     sc_sha256 s = e_hash env (sc_content s) \<and>
     (case (en_stat e, en_read e) of (Some st, Some rd) \<Rightarrow> unchanged s st rd | _ \<Rightarrow> False) \<and>
     (if sc_type s = ''csv'' then table_of s
      else sc_columns s = [] \<and> sc_row_count s = None \<and> sc_column_count s = None)"

lemma refuse_link_eq_Inr [res_simps]: "refuse_link link = Inr u \<longleftrightarrow> link = Some False"
  by (auto simp: refuse_link_def res_simps split: option.splits)

lemma admit_entry_eq_Inr [res_simps]:
  "admit_entry used e = Inr ks \<longleftrightarrow> en_link e = Some False \<and> en_file e \<and>
     source_type_of (en_name e) = Some (fst ks) \<and> en_stat e = Some (snd ks) \<and> si_inside (snd ks) \<and>
     si_size (snd ks) \<le> max_file_bytes \<and> used + si_size (snd ks) \<le> max_total_bytes"
  by (cases ks) (auto simp: admit_entry_def res_simps split: option.splits)

lemma read_entry_eq_Inr [res_simps]:
  "read_entry st e = Inr c \<longleftrightarrow> (\<exists>rd. en_read e = Some rd \<and> si_size st = ri_size rd \<and>
     si_mtime_ns st = ri_mtime_ns rd \<and> ri_length rd = si_size st \<and> ri_text rd = Some c)"
  by (auto simp: read_entry_def res_simps split: option.splits)

lemma scan_entry_exact:
  "scan_entry env used e = Inr s \<longleftrightarrow> entry_sound env e s \<and> used + sc_size s \<le> max_total_bytes"
proof (cases "source_type_of (en_name e) = Some ''csv''")
  case True
  show ?thesis
  proof
    assume "scan_entry env used e = Inr s"
    then show "entry_sound env e s \<and> used + sc_size s \<le> max_total_bytes" using True
      by (auto simp: scan_entry_def res_simps entry_sound_def unchanged_def table_of_def)
  next
    assume "entry_sound env e s \<and> used + sc_size s \<le> max_total_bytes"
    then show "scan_entry env used e = Inr s" using True
      by (cases s) (auto simp: scan_entry_def res_simps entry_sound_def unchanged_def table_of_def
        split: option.splits sum.splits)
  qed
next
  case False
  show ?thesis
  proof
    assume "scan_entry env used e = Inr s"
    then show "entry_sound env e s \<and> used + sc_size s \<le> max_total_bytes" using False
      by (auto simp: scan_entry_def res_simps entry_sound_def unchanged_def)
  next
    assume "entry_sound env e s \<and> used + sc_size s \<le> max_total_bytes"
    then show "scan_entry env used e = Inr s" using False
      by (cases s) (auto simp: scan_entry_def res_simps entry_sound_def unchanged_def split: option.splits)
  qed
qed

section \<open>A folder\<close>

definition measured :: "entry_info \<Rightarrow> bool" where
  "measured e \<longleftrightarrow> (\<forall>st. en_stat e = Some st \<longrightarrow> 0 \<le> si_size st)"

lemma entry_sound_size: "entry_sound env e s \<Longrightarrow> measured e \<Longrightarrow> 0 \<le> sc_size s"
  by (auto simp: entry_sound_def measured_def unchanged_def split: option.splits)

lemma scan_entries_exact:
  "\<forall>e\<in>set es. measured e \<Longrightarrow> scan_entries env used es = Inr ss \<longleftrightarrow>
     list_all2 (entry_sound env) es ss \<and> (es = [] \<or> used + (\<Sum>s\<leftarrow>ss. sc_size s) \<le> max_total_bytes)"
proof (induction es arbitrary: used ss)
  case (Cons e es)
  have nonneg: "list_all2 (entry_sound env) es ss' \<Longrightarrow> 0 \<le> (\<Sum>s\<leftarrow>ss'. sc_size s)" for ss'
    using Cons.prems
    by (intro sum_list_nonneg) (auto simp: list_all2_conv_all_nth in_set_conv_nth, metis entry_sound_size nth_mem)
  show ?case
  proof (cases ss)
    case (Cons s ss')
    have "scan_entries env used (e # es) = Inr ss \<longleftrightarrow> entry_sound env e s \<and> used + sc_size s \<le> max_total_bytes \<and>
        scan_entries env (used + sc_size s) es = Inr ss'"
      by (auto simp: Cons res_simps scan_entry_exact)
    also have "\<dots> \<longleftrightarrow> list_all2 (entry_sound env) (e # es) ss \<and>
        used + (\<Sum>s\<leftarrow>ss. sc_size s) \<le> max_total_bytes"
      using Cons.IH [of "used + sc_size s" ss'] Cons.prems nonneg [of ss'] by (auto simp: Cons)
    finally show ?thesis by simp
  qed (simp add: res_simps)
qed auto

definition folder_readable :: "file_system \<Rightarrow> string \<Rightarrow> bool" where
  "folder_readable fs raw \<longleftrightarrow> (\<forall>parts\<in>set (path_parts raw). ''..'' \<notin> set parts) \<and>
     ro_link (fs_root fs raw) = Some False \<and> ro_resolved (fs_root fs raw) \<and> ro_folder (fs_root fs raw)"

definition scan_order :: "entry_info list \<Rightarrow> entry_info list" where
  "scan_order = sort_key (\<lambda>e. py_casefold (en_name e))"

lemma scan_folder_exact:
  assumes "\<forall>e\<in>set es. measured e" and "ro_entries (fs_root fs raw) = Some es"
  shows "scan_folder env fs raw = Inr ss \<longleftrightarrow> folder_readable fs raw \<and> length es \<le> 12 \<and>
     list_all2 (entry_sound env) (scan_order es) ss \<and> (\<Sum>s\<leftarrow>ss. sc_size s) \<le> max_total_bytes"
proof -
  have "scan_folder env fs raw = Inr ss \<longleftrightarrow> folder_readable fs raw \<and> length es \<le> 12 \<and>
      scan_entries env 0 (scan_order es) = Inr ss"
    using assms(2)
    by (auto simp: scan_folder_def root_path_def Let_def res_simps folder_readable_def scan_order_def)
  also have "\<dots> \<longleftrightarrow> folder_readable fs raw \<and> length es \<le> 12 \<and>
     list_all2 (entry_sound env) (scan_order es) ss \<and> (\<Sum>s\<leftarrow>ss. sc_size s) \<le> max_total_bytes"
    using scan_entries_exact [of "scan_order es" env 0 ss] assms(1)
    by (auto simp: scan_order_def max_total_bytes_def)
  finally show ?thesis .
qed

lemma scan_folder_unreadable: "scan_folder env fs raw = Inr ss \<Longrightarrow> ro_entries (fs_root fs raw) \<noteq> None"
  by (auto simp: scan_folder_def root_path_def Let_def res_simps split: option.splits)

end
