(* ===== verification/Source_Freezing.thy ===== *)
theory Source_Freezing
  imports Source_Scan
begin

text \<open>
  What storing a snapshot leaves in the database, whichever operation stores it, and that the mapping
  scope it freezes is one the runtime takes for its obligations.
\<close>

section \<open>The sources of a new snapshot\<close>

text \<open>A stored source holds the content it was given; only its identifier and its link are new.\<close>

definition same_content :: "source \<Rightarrow> source \<Rightarrow> bool" where
  "same_content s t \<longleftrightarrow> s\<lparr>src_id := [], src_duplicate_of := None\<rparr> = t\<lparr>src_id := [], src_duplicate_of := None\<rparr>"

text \<open>Each source is linked to the first of its content before it, when there is one.\<close>

fun linked :: "source list \<Rightarrow> source list \<Rightarrow> bool" where
  "linked pre [] = True"
| "linked pre (s # ss) = (src_duplicate_of s = map_option src_id (find (\<lambda>t. src_sha256 t = src_sha256 s) pre) \<and>
     linked (pre @ [s]) ss)"

abbreviation duplicates_linked :: "source list \<Rightarrow> bool" where
  "duplicates_linked \<equiv> linked []"

lemma same_contentD:
  assumes "same_content s t"
  shows "src_filename t = src_filename s" "src_type t = src_type s" "src_content t = src_content s"
    "src_sha256 t = src_sha256 s" "src_columns t = src_columns s" "src_row_count t = src_row_count s"
    "src_column_count t = src_column_count s" "src_size t = src_size s"
  using assms by (cases s; cases t; simp add: same_content_def)+

lemma ids_store_sources [simp]: "map src_id (store_sources env n first ss) = map (e_uuid env) [n..<n + length ss]"
  by (induction ss arbitrary: n first) (simp_all add: Let_def upt_rec)

lemma length_store_sources [simp]: "length (store_sources env n first ss) = length ss"
  by (induction ss arbitrary: n first) (simp_all add: Let_def)

lemma same_content_store: "list_all2 same_content ss (store_sources env n first ss)"
  by (induction ss arbitrary: n first) (simp_all add: Let_def same_content_def)

lemma linked_store:
  "\<forall>h. map_of first h = map_option src_id (find (\<lambda>t. src_sha256 t = h) pre) \<Longrightarrow>
   linked pre (store_sources env n first ss)"
proof (induction ss arbitrary: n first pre)
  case (Cons s ss)
  define first' where
    "first' = (if map_of first (src_sha256 s) = None then dict_set first (src_sha256 s) (e_uuid env n) else first)"
  define t where "t = s\<lparr>src_id := e_uuid env n, src_duplicate_of := map_of first (src_sha256 s)\<rparr>"
  have "\<forall>h. map_of first' h = map_option src_id (find (\<lambda>t. src_sha256 t = h) (pre @ [t]))"
    using Cons.prems by (auto simp: first'_def t_def find_append_case split: option.splits)
  from Cons.IH [OF this, of "Suc n"] Cons.prems show ?case
    by (simp add: Let_def first'_def t_def)
qed simp

section \<open>The row of a new snapshot\<close>

text \<open>
  \<open>snap\<close> is the only change: the next revision of its folder, holding the given sources under newly
  drawn identifiers.
\<close>

definition appended :: "env \<Rightarrow> db \<Rightarrow> source list \<Rightarrow> snapshot \<Rightarrow> db \<Rightarrow> bool" where
  "appended env d given snap d' \<longleftrightarrow>
     d' = d\<lparr>db_next := db_next d', db_snapshots := db_snapshots d @ [snap]\<rparr> \<and>
     (\<forall>s\<in>set (folder_snapshots d (snap_folder snap)). snap_revision s < snap_revision snap) \<and>
     snap_id snap # map src_id (snap_sources snap) = map (e_uuid env) [db_next d..<db_next d'] \<and>
     list_all2 same_content given (snap_sources snap) \<and> duplicates_linked (snap_sources snap)"

lemma appended_new:
  assumes "snap = new_snapshot env d given_row given"
  shows "appended env d given snap (append_snapshot d snap)"
proof -
  have "snap_revision s < snap_revision snap" if "s \<in> set (folder_snapshots d (snap_folder snap))" for s
    using that fold_max_ge [of "folder_snapshots d (snap_folder snap)" snap_revision 0] assms
    by (simp add: new_snapshot_def max_revision_def)
  then show ?thesis
    using assms same_content_store [of given env "Suc (db_next d)" "[]"]
      linked_store [of "[]" "[]" env "Suc (db_next d)" given]
    by (auto simp: appended_def append_snapshot_def new_snapshot_def fresh_def upt_rec)
qed

lemma appended_rows: "appended env d given snap d' \<Longrightarrow> db_snapshots d' = db_snapshots d @ [snap]"
  unfolding appended_def by (metis db.select_convs(5) db.surjective db.update_convs(5))

lemma appended_ids: "appended env d given snap d' \<Longrightarrow> inj (e_uuid env) \<Longrightarrow> distinct (map src_id (snap_sources snap))"
  unfolding appended_def by (metis distinct.simps(2) distinct_map distinct_upt inj_on_subset subset_UNIV)

lemma appended_id_drawn:
  assumes "appended env d given snap d'" and "t \<in> set (snap_sources snap)"
  shows "\<exists>n. src_id t = e_uuid env n"
proof -
  have "src_id t \<in> set (snap_id snap # map src_id (snap_sources snap))" using assms(2) by simp
  then have "src_id t \<in> set (map (e_uuid env) [db_next d..<db_next d'])"
    using assms(1) by (metis appended_def)
  then show ?thesis by auto
qed

section \<open>The snapshot of a process\<close>

lemma authorized_process_eq_Inr [res_simps]:
  "authorized_process env d actor i = Inr p \<longleftrightarrow>
     (\<exists>k. e_pk env i = Inr (Some k) \<and> get_process d k = Some p) \<and> proc_draft p \<and> actor_edits actor p = Inr True"
proof (cases "e_pk env i")
  case (Inr k)
  then show ?thesis by (cases k) (auto simp: authorized_process_def res_simps split: option.splits)
qed (auto simp: authorized_process_def res_simps)

text \<open>
  A snapshot of a process: of a draft the actor may edit, at its version, from an active folder of the
  process, with the content the scan found.
\<close>

definition process_row :: "db \<Rightarrow> user option \<Rightarrow> snapshot \<Rightarrow> bool" where
  "process_row d actor snap \<longleftrightarrow>
     (\<exists>p\<in>set (db_processes d). snap_process snap = Some (proc_id p) \<and> proc_draft p \<and>
        actor_edits actor p = Inr True \<and> snap_process_version snap = Some (proc_version p)) \<and>
     (\<exists>f\<in>set (db_folders d). fo_id f = snap_folder snap \<and> fo_process f = snap_process snap \<and> fo_active f)"

lemma commit_snapshotD:
  assumes "commit_snapshot env d actor pr = Inr (d', res)"
  shows "\<exists>snap. appended env d (map scanned_source (pr_scanned pr)) snap d' \<and> res = snapshot_result_of snap \<and>
    process_row d actor snap \<and> snap_folder snap = pr_folder pr \<and> snap_manifest_hash snap = pr_manifest pr \<and>
    (\<exists>p. snap_context snap = JObj (process_context p (pr_specs pr)))"
proof -
  from assms obtain p f snap where p: "authorized_process env d actor (JStr (pr_process pr)) = Inr p"
    and f: "find (\<lambda>f. fo_id f = pr_folder pr \<and> fo_process f = Some (proc_id p) \<and> fo_active f) (db_folders d) = Some f"
    and snap: "snap = new_snapshot env d
            \<lparr>snap_id = [], snap_process = Some (proc_id p), snap_capture = None, snap_revision = 0,
             snap_folder = fo_id f, snap_sources = [], snap_manifest_hash = pr_manifest pr,
             snap_question = pr_question pr, snap_process_version = Some (proc_version p),
             snap_run_limits = pr_limits pr, snap_context = JObj (process_context p (pr_specs pr)),
             snap_created = 0\<rparr>
            (map scanned_source (pr_scanned pr))"
    and d': "d' = append_snapshot d snap" and res: "res = snapshot_result_of snap"
    unfolding commit_snapshot_def by (auto simp: bindR_eq_Inr Let_def split: option.splits)
  have "process_row d actor snap"
    using p find_SomeD [OF f]
    by (auto simp: res_simps process_row_def snap new_snapshot_def get_process_def dest: find_SomeD)
  with appended_new [OF snap] d' res find_SomeD [OF f] show ?thesis
    by (intro exI [of _ snap]) (auto simp: snap new_snapshot_def)
qed

lemma prepare_snapshotD:
  assumes "prepare_snapshot env fs d actor q = Inr pr"
  shows "\<exists>f. get_folder d (pr_folder pr) = Some f \<and> scan_registered_folder env fs d f = Inr (pr_scanned pr) \<and>
    normalize_structured_mapping_specs env (pr_scanned pr) (sq_specs q) = Inr (pr_specs pr) \<and>
    pr_manifest pr = manifest_hash env (pr_scanned pr)"
proof -
  from assms obtain k f where "Option.bind k (get_folder d) = Some f"
    "scan_registered_folder env fs d f = Inr (pr_scanned pr)" "pr_folder pr = fo_id f"
    "normalize_structured_mapping_specs env (pr_scanned pr) (sq_specs q) = Inr (pr_specs pr)"
    "pr_manifest pr = manifest_hash env (pr_scanned pr)"
    unfolding prepare_snapshot_def by (auto simp: bindR_eq_Inr Let_def split: option.splits)
  moreover from this have "get_folder d (fo_id f) = Some f"
    by (auto simp: get_folder_def bind_eq_Some_conv dest: find_SomeD)
  ultimately show ?thesis by auto
qed

text \<open>What a request froze: the scanned content under its manifest and the normalised mapping scope.\<close>

lemma create_source_snapshotD:
  assumes "create_source_snapshot env fs d d' actor q = Inr (d'', res)"
  shows "\<exists>snap ss specs f p. appended env d' (map scanned_source ss) snap d'' \<and> res = snapshot_result_of snap \<and>
    process_row d' actor snap \<and> get_folder d (snap_folder snap) = Some f \<and>
    scan_registered_folder env fs d f = Inr ss \<and> snap_manifest_hash snap = manifest_hash env ss \<and>
    normalize_structured_mapping_specs env ss (sq_specs q) = Inr specs \<and>
    snap_context snap = JObj (process_context p specs)"
proof -
  from assms obtain pr where pr: "prepare_snapshot env fs d actor q = Inr pr"
    and c: "commit_snapshot env d' actor pr = Inr (d'', res)"
    by (auto simp: create_source_snapshot_def bindR_eq_Inr)
  from prepare_snapshotD [OF pr] commit_snapshotD [OF c] show ?thesis by metis
qed

section \<open>The frozen mapping scope\<close>

definition stripped :: "string \<Rightarrow> bool" where
  "stripped t \<longleftrightarrow> t \<noteq> [] \<and> py_strip t = t"

lemma strippedI [intro]: "py_strip t \<noteq> [] \<Longrightarrow> stripped (py_strip t)"
  by (simp add: stripped_def)

lemma stripped_text_at: "text_at f k \<noteq> [] \<Longrightarrow> stripped (text_at f k)"
  by (simp add: stripped_def text_at_def)

definition scope_ok :: "scanned list \<Rightarrow> string \<Rightarrow> obj \<Rightarrow> bool" where
  "scope_ok ss oid scope \<longleftrightarrow> stripped oid \<and> length oid \<le> 100 \<and>
     (\<exists>s filename column keys dimension rows.
        scope = scope_json oid filename (sc_sha256 s) column keys dimension \<and>
        scanned_by_filename ss filename = Some s \<and> sc_type s = ''csv'' \<and> column \<in> set (sc_columns s) \<and>
        keys \<noteq> [] \<and> (\<forall>k\<in>set keys. stripped k) \<and> distinct keys \<and> sorted keys \<and>
        dict_rows (sc_content s) = Some rows \<and> (\<forall>k\<in>set keys. key_count rows column k = 1) \<and>
        stripped filename \<and> stripped column \<and> stripped dimension)"

lemma mapR_scope_key:
  "mapR scope_key xs = Inr ks \<Longrightarrow> length ks = length xs \<and> (\<forall>k\<in>set ks. stripped k)"
proof (induction xs arbitrary: ks)
  case (Cons x xs)
  from Cons.prems obtain k ks' where "scope_key x = Inr k" "mapR scope_key xs = Inr ks'" "ks = k # ks'"
    by (auto simp: bindR_eq_Inr)
  moreover have "stripped k" if "scope_key x = Inr k" for k
    using that by (auto simp: scope_key_def split: json.splits if_splits)
  ultimately show ?case using Cons.IH by auto
qed simp

lemma mapR_case_key: "\<forall>k\<in>set ks. stripped k \<Longrightarrow> mapR case_key (map JStr ks) = Inr ks"
  by (induction ks) (auto simp: case_key_def stripped_def)

text \<open>Identifiers made of a hash hold no blank.\<close>

definition solid :: "string \<Rightarrow> bool" where
  "solid t \<longleftrightarrow> (\<forall>c\<in>set t. \<not> py_space c)"

lemma solid_append: "solid s \<Longrightarrow> solid t \<Longrightarrow> solid (s @ t)"
  by (auto simp: solid_def)

lemma stripped_scope_identity:
  assumes "\<And>s. solid (e_hash env s)"
  shows "stripped (scope_identity env s filename column keys dimension)"
proof -
  have "solid (take 16 (content_hash (e_hash env) v))" for v
    using assms by (auto simp: solid_def content_hash_def dest: in_set_takeD)
  moreover have "solid ''mapping-''" by code_simp
  ultimately have "solid (scope_identity env s filename column keys dimension)"
    unfolding scope_identity_def by (metis solid_append)
  then show ?thesis
    by (simp add: solid_def stripped_def scope_identity_def py_strip_id)
qed

lemma normalize_specD:
  assumes "normalize_spec env ss seen raw = Inr (oid, scope)" and "\<And>s. solid (e_hash env s)"
  shows "scope_ok ss oid scope \<and> oid \<notin> set seen"
proof -
  define f where "f = members raw"
  define filename where "filename = text_at f ''source_filename''"
  define column where "column = text_at f ''case_key_column''"
  define dimension where "dimension = text_at f ''mapping_dimension''"
  from assms(1) obtain s keys rows where
    ne: "filename \<noteq> []" "column \<noteq> []" "dimension \<noteq> []" and
    s: "scanned_by_filename ss filename = Some s" "sc_type s = ''csv''" "column \<in> set (sc_columns s)" and
    keys: "items (jget f ''case_keys'') \<noteq> []" "mapR scope_key (items (jget f ''case_keys'')) = Inr keys"
      "distinct keys" and
    rows: "dict_rows (sc_content s) = Some rows" "\<forall>k\<in>set keys. key_count rows column k = 1" and
    oid: "oid = (if text_at f ''obligation_id'' = [] then scope_identity env s filename column (sort keys) dimension
        else text_at f ''obligation_id'')" "length oid \<le> 100" "oid \<notin> set seen" and
    scope: "scope = scope_json oid filename (sc_sha256 s) column (sort keys) dimension"
    unfolding normalize_spec_def Let_def f_def [symmetric] filename_def [symmetric] column_def [symmetric]
      dimension_def [symmetric]
    by (auto simp: bindR_eq_Inr raise_if_eq_Inr split: option.splits)
  have k: "sort keys \<noteq> []" "\<forall>k\<in>set (sort keys). stripped k" "distinct (sort keys)"
    using mapR_scope_key [OF keys(2)] keys(1,3) by (auto simp flip: length_greater_0_conv)
  have "stripped oid"
    using stripped_scope_identity [OF assms(2)] stripped_text_at [of f "''obligation_id''"] by (simp add: oid(1))
  moreover have "stripped filename" "stripped column" "stripped dimension"
    using ne stripped_text_at by (simp_all add: filename_def column_def dimension_def)
  ultimately show ?thesis
    unfolding scope_ok_def scope using s k rows oid(2,3) by (metis set_sort sorted_sort)
qed

lemma normalize_specs_fromD:
  assumes "\<And>s. solid (e_hash env s)"
  shows "normalize_specs_from env ss seen raws = Inr specs \<Longrightarrow>
    (\<forall>spec\<in>set specs. scope_ok ss (fst spec) (snd spec)) \<and> distinct (map fst specs) \<and>
    set (map fst specs) \<inter> set seen = {}"
proof (induction raws arbitrary: seen specs)
  case (Cons raw raws)
  from Cons.prems obtain oid scope rest where
    n: "normalize_spec env ss seen raw = Inr (oid, scope)" and
    rest: "normalize_specs_from env ss (oid # seen) raws = Inr rest" "specs = (oid, scope) # rest"
    by (auto simp: bindR_eq_Inr)
  from normalize_specD [OF n assms] Cons.IH [OF rest(1)] rest(2) show ?case by auto
qed simp

lemma normalized_specsD:
  assumes "normalize_structured_mapping_specs env ss raw = Inr specs" and "\<And>s. solid (e_hash env s)"
  shows "\<exists>kvs. specs = map snd kvs \<and> sorted (map fst kvs) \<and> distinct (map fst kvs) \<and>
    (\<forall>kv\<in>set kvs. scope_ok ss (fst kv) (snd kv))"
proof (cases "\<exists>raws. raw = JList raws")
  case True
  with assms(1) obtain raws kvs where kvs: "normalize_specs_from env ss [] raws = Inr kvs"
    "specs = map snd (sort_key fst kvs)"
    by (auto simp: normalize_structured_mapping_specs_def bindR_eq_Inr)
  from normalize_specs_fromD [OF assms(2) kvs(1)] have "distinct (map fst (sort_key fst kvs))"
    by (simp add: distinct_map)
  with normalize_specs_fromD [OF assms(2) kvs(1)] kvs(2) show ?thesis
    by (intro exI [of _ "sort_key fst kvs"]) simp
next
  case False
  with assms(1) have "specs = []"
    by (cases raw) (auto simp: normalize_structured_mapping_specs_def)
  then show ?thesis by (intro exI [of _ "[]"]) simp
qed

lemma normalized_specs_length:
  assumes "normalize_structured_mapping_specs env ss raw = Inr specs"
  shows "length specs = length (items raw)"
proof -
  have "normalize_specs_from env ss seen raws = Inr kvs \<Longrightarrow> length kvs = length raws" for seen raws kvs
    by (induction raws arbitrary: seen kvs) (auto simp: bindR_eq_Inr)
  with assms show ?thesis
    by (cases raw) (auto simp: normalize_structured_mapping_specs_def bindR_eq_Inr)
qed

section \<open>The runtime takes the frozen scope\<close>

text \<open>The scope an obligation stands for, in the words of the snapshot.\<close>

definition obligation_scope :: "snapshot \<Rightarrow> obligation \<Rightarrow> obj" where
  "obligation_scope snap ob = scope_json (ob_id ob)
     (case get_source snap (ob_source ob) of None \<Rightarrow> [] | Some s \<Rightarrow> src_filename s)
     (ob_source_hash ob) (ob_column ob) (ob_keys ob) (ob_dimension ob)"

lemma find_list_all2:
  assumes "list_all2 R xs ys" and "\<And>x y. R x y \<Longrightarrow> P x \<longleftrightarrow> Q y" and "find P xs = Some x"
  shows "\<exists>y. find Q ys = Some y \<and> R x y \<and> y \<in> set ys"
  using assms by (induction) (auto split: if_splits)

lemma stored_by_filename:
  assumes "list_all2 same_content (map scanned_source ss) ts" and "scanned_by_filename ss n = Some s"
  shows "\<exists>t. find (\<lambda>t. src_filename t = n) (rev ts) = Some t \<and> same_content (scanned_source s) t \<and> t \<in> set ts"
proof -
  have "list_all2 (\<lambda>s t. same_content (scanned_source s) t) (rev ss) (rev ts)"
    using assms(1) by (simp add: list_all2_map1)
  moreover have "src_filename t = sc_filename s" if "same_content (scanned_source s) t" for s t
    using same_contentD(1) [OF that] by (simp add: scanned_source_def)
  ultimately show ?thesis
    using find_list_all2 [OF _ _ assms(2) [unfolded scanned_by_filename_def], of _ "rev ts" "\<lambda>t. src_filename t = n"]
    by (metis (no_types, lifting) set_rev)
qed

lemma scope_obligation:
  assumes ok: "scope_ok ss oid scope"
    and given: "list_all2 same_content (map scanned_source ss) (snap_sources snap)"
    and ids: "distinct (map src_id (snap_sources snap))" "\<forall>t\<in>set (snap_sources snap). stripped (src_id t)"
  shows "\<exists>raw ob. spec_obligation snap (JObj scope) = Inr raw \<and> ob_id ob = oid \<and>
    obligation_scope snap ob = scope \<and>
    (\<forall>seen. oid \<notin> set seen \<longrightarrow> normalize_obligation snap seen raw = Inr ob)"
proof -
  from ok obtain s filename column keys dimension rows where
    oid: "stripped oid" "length oid \<le> 100" and
    scope: "scope = scope_json oid filename (sc_sha256 s) column keys dimension" and
    s: "scanned_by_filename ss filename = Some s" "sc_type s = ''csv''" "column \<in> set (sc_columns s)" and
    keys: "keys \<noteq> []" "\<forall>k\<in>set keys. stripped k" "distinct keys" "sorted keys" and
    rows: "dict_rows (sc_content s) = Some rows" "\<forall>k\<in>set keys. key_count rows column k = 1" and
    st: "stripped filename" "stripped column" "stripped dimension"
    unfolding scope_ok_def by blast
  from stored_by_filename [OF given s(1)] obtain t where
    t: "find (\<lambda>t. src_filename t = filename) (rev (snap_sources snap)) = Some t"
      "same_content (scanned_source s) t" "t \<in> set (snap_sources snap)" by blast
  have tf: "src_type t = ''csv''" "src_columns t = sc_columns s" "src_content t = sc_content s"
    "src_sha256 t = sc_sha256 s" "src_filename t = filename"
    using same_contentD [OF t(2)] s(2) find_SomeD [OF t(1)] by (simp_all add: scanned_source_def)
  have src: "get_source snap (src_id t) = Some t" and tid: "stripped (src_id t)"
    using distinct_map_find [OF ids(1) t(3)] ids(2) t(3) by (auto simp: get_source_def)
  define raw where "raw = JObj [(''obligation_id'', JStr oid), (''source_id'', JStr (src_id t)),
     (''case_key_column'', JStr column), (''case_keys'', JList (map JStr keys)),
     (''mapping_dimension'', JStr dimension), (''exhaustive'', JBool True)]"
  define ob where "ob = \<lparr>ob_id = oid, ob_snapshot = snap_id snap, ob_manifest_hash = snap_manifest_hash snap,
     ob_source = src_id t, ob_source_hash = src_sha256 t, ob_column = column, ob_keys = sort keys,
     ob_dimension = dimension\<rparr>"
  have "spec_obligation snap (JObj scope) = Inr raw"
    using st t(1) tf keys(1)
    by (auto simp: spec_obligation_def scope scope_json_def spec_fields_def source_by_filename_def raw_def
      text_at_def str_at_def stripped_def py_list_def)
  moreover have "normalize_obligation snap seen raw = Inr ob" if "oid \<notin> set seen" for seen
    using that oid st tid src tf s(3) keys rows mapR_case_key [OF keys(2)]
    by (simp add: normalize_obligation_def raw_def ob_def text_at_def stripped_def obligation_fields_def)
  moreover have "obligation_scope snap ob = scope"
    using src tf keys(4) by (simp add: obligation_scope_def ob_def scope sort_key_id_if_sorted)
  ultimately show ?thesis by (metis (no_types) ob_def obligation.select_convs(1))
qed

lemma obligations_of_scopes:
  assumes given: "list_all2 same_content (map scanned_source ss) (snap_sources snap)"
    and ids: "distinct (map src_id (snap_sources snap))" "\<forall>t\<in>set (snap_sources snap). stripped (src_id t)"
  shows "\<forall>kv\<in>set kvs. scope_ok ss (fst kv) (snd kv) \<Longrightarrow> distinct (map fst kvs) \<Longrightarrow>
    set (map fst kvs) \<inter> set seen = {} \<Longrightarrow>
    \<exists>raws obs. mapR (spec_obligation snap) (map (\<lambda>kv. JObj (snd kv)) kvs) = Inr raws \<and>
      normalize_obligations_from snap seen raws = Inr obs \<and> map ob_id obs = map fst kvs \<and>
      map (obligation_scope snap) obs = map snd kvs"
proof (induction kvs arbitrary: seen)
  case (Cons kv kvs)
  from scope_obligation [OF _ given ids, of "fst kv" "snd kv"] Cons.prems(1,3) obtain raw ob where
    head: "spec_obligation snap (JObj (snd kv)) = Inr raw" "ob_id ob = fst kv"
      "obligation_scope snap ob = snd kv" "normalize_obligation snap seen raw = Inr ob"
    by fastforce
  from Cons.IH [of "fst kv # seen"] Cons.prems obtain raws obs where
    "mapR (spec_obligation snap) (map (\<lambda>kv. JObj (snd kv)) kvs) = Inr raws"
    "normalize_obligations_from snap (fst kv # seen) raws = Inr obs" "map ob_id obs = map fst kvs"
    "map (obligation_scope snap) obs = map snd kvs"
    by auto
  with head show ?case by (intro exI [of _ "raw # raws"] exI [of _ "ob # obs"]) simp
qed simp

lemma specs_context: "jget (process_context p specs) ''structured_mapping_specs'' = JList (map JObj specs)"
  by (simp add: process_context_def context_columns_def)

lemma from_frozen_specs:
  assumes "jget (members (snap_context snap)) ''structured_mapping_specs'' = JList specs" and "specs \<noteq> []"
  shows "structured_mapping_obligations_from_snapshot snap =
    bindR (mapR (spec_obligation snap) specs) (\<lambda>raws.
      recode bad_contract (normalize_structured_mapping_obligations snap (JList raws)))"
  using assms by (cases specs) (simp_all add: structured_mapping_obligations_from_snapshot_def del: mapR.simps)

lemma frozen_scope_accepted:
  assumes "normalize_structured_mapping_specs env ss raw = Inr specs" and "\<And>s. solid (e_hash env s)"
    and ctx: "snap_context snap = JObj (process_context p specs)"
    and given: "list_all2 same_content (map scanned_source ss) (snap_sources snap)"
    and ids: "distinct (map src_id (snap_sources snap))" "\<forall>t\<in>set (snap_sources snap). stripped (src_id t)"
  shows "\<exists>obs. structured_mapping_obligations_from_snapshot snap = Inr obs \<and>
    map (obligation_scope snap) obs = specs"
proof -
  from normalized_specsD [OF assms(1,2)] obtain kvs where
    kvs: "specs = map snd kvs" "sorted (map fst kvs)" "distinct (map fst kvs)"
      "\<forall>kv\<in>set kvs. scope_ok ss (fst kv) (snd kv)" by blast
  from obligations_of_scopes [OF given ids kvs(4,3), of "[]"] obtain raws obs where
    obs: "mapR (spec_obligation snap) (map (\<lambda>kv. JObj (snd kv)) kvs) = Inr raws"
      "normalize_obligations_from snap [] raws = Inr obs" "map ob_id obs = map fst kvs"
      "map (obligation_scope snap) obs = map snd kvs" by auto
  have specs: "jget (members (snap_context snap)) ''structured_mapping_specs'' = JList (map JObj specs)"
    by (simp add: ctx specs_context)
  show ?thesis
  proof (cases "specs = []")
    case True
    then show ?thesis
      by (simp add: structured_mapping_obligations_from_snapshot_def specs)
  next
    case False
    then have "structured_mapping_obligations_from_snapshot snap = Inr (sort_key ob_id obs)"
      using from_frozen_specs [OF specs] obs(1,2) kvs(1)
      by (simp add: normalize_structured_mapping_obligations_def recode_def comp_def)
    then show ?thesis
      using obs(3,4) kvs(1,2) by (simp add: sort_key_id_if_sorted)
  qed
qed

end
