(* ===== verification/Source_Handoff.thy ===== *)
theory Source_Handoff
  imports Source_Freezing Content_Binding "HOL-Library.Multiset"
begin

text \<open>
  The handoff of a discovery to a process: what a discovery freezes, when its manifest is found intact
  again, and that binding it to a process succeeds once and for all.
\<close>

section \<open>The names of a scan\<close>

definition distinct_names :: "file_system \<Rightarrow> bool" where
  "distinct_names fs \<longleftrightarrow>
     (\<forall>raw es. ro_entries (fs_root fs raw) = Some es \<longrightarrow> distinct (map en_name es))"

lemma scan_entries_names: "scan_entries env used es = Inr ss \<Longrightarrow> map sc_filename ss = map en_name es"
  by (induction es arbitrary: used ss) (auto simp: bindR_eq_Inr scan_entry_def)

lemma scan_folder_names:
  assumes "scan_folder env fs raw = Inr ss" and "distinct_names fs"
  shows "distinct (map sc_filename ss)"
proof -
  from assms(1) obtain es where es: "ro_entries (fs_root fs raw) = Some es" and
    ss: "scan_entries env 0 (scan_order es) = Inr ss"
    by (auto simp: scan_folder_def root_path_def Let_def res_simps scan_order_def split: option.splits)
  have "distinct (map en_name (scan_order es))"
    using assms(2) es by (auto simp: distinct_names_def scan_order_def distinct_map)
  with scan_entries_names [OF ss] show ?thesis by simp
qed

lemma scan_registered_is_scan:
  assumes "scan_registered_folder env fs d f = Inr ss"
  shows "\<exists>raw. scan_folder env fs raw = Inr ss"
proof (cases "scan_folder env fs (fo_root f)")
  case (Inl e)
  with assms have "\<exists>snap :: snapshot. matching_scans env fs (snap_manifest_hash snap)
      (portable_repo_root_candidates fs (fo_root f)) = [ss]"
    by (auto simp: scan_registered_folder_def split: if_splits option.splits list.splits)
  then obtain snap :: snapshot where
    "ss \<in> set (matching_scans env fs (snap_manifest_hash snap) (portable_repo_root_candidates fs (fo_root f)))"
    by (metis list.set_intros(1))
  then show ?thesis by (auto simp: matching_scans_def split: sum.splits if_splits)
next
  case (Inr ts)
  with assms show ?thesis by (auto simp: scan_registered_folder_def)
qed

section \<open>The snapshot of a discovery\<close>

text \<open>A snapshot of a discovery: of a capture session, from an active folder of that session alone.\<close>

definition discovery_row :: "db \<Rightarrow> snapshot \<Rightarrow> bool" where
  "discovery_row d snap \<longleftrightarrow> snap_process snap = None \<and> snap_capture snap \<noteq> None \<and>
     (\<exists>f\<in>set (db_folders d). fo_id f = snap_folder snap \<and> fo_capture f = snap_capture snap \<and>
        fo_process f = None \<and> fo_active f)"

lemma commit_discoveryD:
  assumes "commit_discovery env d actor session f problem ss = Inr (d', res)"
  shows "\<exists>snap. appended env d (map scanned_source ss) snap d' \<and> res = snapshot_result_of snap \<and>
    discovery_row d snap \<and> snap_manifest_hash snap = manifest_hash env ss"
proof -
  from assms obtain locked g ctx where
    g: "find (\<lambda>g. fo_id g = fo_id f \<and> fo_capture g = Some (ca_id locked) \<and> fo_process g = None \<and> fo_active g)
          (db_folders d) = Some g" and
    d: "d' = append_snapshot d (discovery_snapshot env d locked g problem ctx ss)"
      "res = snapshot_result_of (discovery_snapshot env d locked g problem ctx ss)"
    unfolding commit_discovery_def by (auto simp: bindR_eq_Inr Let_def split: option.splits)
  have "discovery_row d (discovery_snapshot env d locked g problem ctx ss)"
    using find_SomeD [OF g] by (auto simp: discovery_row_def discovery_snapshot_def new_snapshot_def)
  moreover have "snap_manifest_hash (discovery_snapshot env d locked g problem ctx ss) = manifest_hash env ss"
    by (simp add: discovery_snapshot_def new_snapshot_def)
  ultimately show ?thesis
    using appended_new [OF discovery_snapshot_def] d by blast
qed

lemma create_discoveryD:
  assumes "create_discovery_source_snapshot env fs d d' actor ci fi = Inr (d'', res)"
  shows "\<exists>snap ss f. appended env d' (map scanned_source ss) snap d'' \<and> res = snapshot_result_of snap \<and>
    discovery_row d' snap \<and> scan_registered_folder env fs d f = Inr ss \<and>
    snap_manifest_hash snap = manifest_hash env ss"
proof -
  from assms obtain session f problem ss where "scan_registered_folder env fs d f = Inr ss"
    "commit_discovery env d' actor session f problem ss = Inr (d'', res)"
    unfolding create_discovery_source_snapshot_def Let_def
    by (auto simp: bindR_eq_Inr split: option.splits)
  with commit_discoveryD show ?thesis by meson
qed

section \<open>Manifests\<close>

lemma map_list_all2:
  "list_all2 R xs ys \<Longrightarrow> (\<And>x y. R x y \<Longrightarrow> f x = g y) \<Longrightarrow> map f xs = map g ys"
  by (induction rule: list_all2_induct) auto

lemma scanned_entry_stored: "same_content (scanned_source s) t \<Longrightarrow> source_entry t = scanned_entry s"
  using same_contentD [of "scanned_source s" t]
  by (simp add: source_entry_def scanned_entry_def scanned_source_def)

lemma source_entry_stored: "same_content s t \<Longrightarrow> source_entry t = source_entry s"
  using same_contentD [of s t] by (simp add: source_entry_def)

lemma stored_manifest:
  "list_all2 same_content (map scanned_source ss) ts \<Longrightarrow> map scanned_entry ss = map source_entry ts"
  by (rule map_list_all2 [where R = "\<lambda>s. same_content (scanned_source s)"])
    (simp_all add: list_all2_map1 scanned_entry_stored)

lemma json_ok_opt_int [simp]: "json_ok (opt_int i)"
  by (cases i) (simp_all add: opt_int_def)

lemma json_ok_source_entry [simp]: "json_ok (source_entry s)"
  by (simp add: source_entry_def manifest_entry_def list_all_iff)

lemma map_of_sort_key:
  fixes xs :: "('a::linorder \<times> 'b) list"
  shows "distinct (map fst xs) \<Longrightarrow> map_of (sort_key fst xs) = map_of xs"
  by (subst map_of_inject_set) (auto simp: distinct_map)

lemma map_of_json_norm:
  assumes "distinct (map fst d)"
  shows "map_of (members (json_norm (JObj d))) k = map_option json_norm (map_of d k)"
proof -
  let ?n = "map (\<lambda>kv. (fst kv, json_norm (snd kv))) d"
  have "map_of (sort_key fst ?n) = map_of ?n"
    using assms by (intro map_of_sort_key) (simp add: comp_def)
  then have "map_of (members (json_norm (JObj d))) k = map_of ?n k" by simp
  also have "\<dots> = map_option json_norm (map_of d k)" by (induction d) auto
  finally show ?thesis .
qed

lemma entry_filename:
  assumes "json_norm (source_entry s) = json_norm (source_entry t)"
  shows "src_filename s = src_filename t"
proof -
  have "map_of (members (json_norm (source_entry u))) ''filename'' = Some (JStr (src_filename u))" for u
    by (simp add: source_entry_def manifest_entry_def map_of_json_norm del: json_norm.simps)
      (simp only: json_norm.simps)
  from this [of s] this [of t] assms show ?thesis by simp
qed

lemma map_entry_filenames:
  "map (json_norm \<circ> source_entry) xs = map (json_norm \<circ> source_entry) ys \<Longrightarrow>
   map src_filename xs = map src_filename ys"
proof (induction xs arbitrary: ys)
  case (Cons x xs)
  then obtain y ys' where "ys = y # ys'" by (cases ys) simp_all
  with Cons entry_filename [of x y] show ?case by simp
qed simp

text \<open>The manifest of the stored sources is the frozen one exactly when the database lists them in the order of the scan.\<close>

lemma manifest_order:
  assumes "inj (e_hash env)" and given: "list_all2 same_content (map scanned_source ss) (snap_sources snap)"
    and "distinct (map sc_filename ss)"
  shows "stored_manifest_hash env snap = manifest_hash env ss \<longleftrightarrow> ordered_sources env snap = snap_sources snap"
proof
  have hash: "manifest_hash env ss = content_hash (e_hash env) (JList (map source_entry (snap_sources snap)))"
    by (simp add: manifest_hash_def stored_manifest [OF given])
  then show "stored_manifest_hash env snap = manifest_hash env ss" if "ordered_sources env snap = snap_sources snap"
    by (simp add: stored_manifest_hash_def that)
  have names: "map src_filename (snap_sources snap) = map sc_filename ss"
    using given by (auto simp: list_all2_conv_all_nth list_eq_iff_nth_eq dest!: same_contentD(1) simp: scanned_source_def)
  assume "stored_manifest_hash env snap = manifest_hash env ss"
  then have "map (json_norm \<circ> source_entry) (ordered_sources env snap) =
      map (json_norm \<circ> source_entry) (snap_sources snap)"
    using content_hash_inj [OF assms(1)]
    by (simp add: hash stored_manifest_hash_def list_all_iff)
  then have "map src_filename (ordered_sources env snap) = map src_filename (snap_sources snap)"
    by (intro map_entry_filenames)
  moreover have "inj_on src_filename (set (snap_sources snap))"
    using assms(3) names by (metis distinct_map)
  ultimately show "ordered_sources env snap = snap_sources snap"
    by (simp add: ordered_sources_def map_inj_on)
qed

section \<open>The handoff\<close>

definition distinct_collation :: "env \<Rightarrow> source list \<Rightarrow> bool" where
  "distinct_collation env ss \<longleftrightarrow> distinct (map (\<lambda>s. e_collation env (src_filename s)) ss)"

text \<open>Sources stored in the order of their names are listed in that order.\<close>

lemma ordered_copy:
  assumes "distinct_collation env (snap_sources disc)"
    and copy: "list_all2 same_content (ordered_sources env disc) (snap_sources copy)"
  shows "ordered_sources env copy = snap_sources copy"
proof -
  let ?g = "\<lambda>s. e_collation env (src_filename s)"
  have g: "map ?g (snap_sources copy) = map ?g (ordered_sources env disc)"
    by (rule map_list_all2 [OF copy, symmetric]) (simp add: same_contentD(1))
  moreover have "mset (map ?g (ordered_sources env disc)) = mset (map ?g (snap_sources disc))"
    by (simp only: ordered_sources_def mset_map mset_sort)
  ultimately have "distinct (map ?g (snap_sources copy))"
    using assms(1) unfolding distinct_collation_def by (metis mset_eq_imp_distinct_iff)
  moreover have "sorted (map ?g (snap_sources copy))"
    unfolding g by (simp add: ordered_sources_def)
  ultimately show ?thesis
    unfolding ordered_sources_def by (intro sort_key_inj_key_eq) (auto simp: distinct_map)
qed

lemma manifest_copy:
  assumes "distinct_collation env (snap_sources disc)"
    and "list_all2 same_content (ordered_sources env disc) (snap_sources copy)"
  shows "stored_manifest_hash env copy = stored_manifest_hash env disc"
proof -
  have "map source_entry (snap_sources copy) = map source_entry (ordered_sources env disc)"
    by (rule map_list_all2 [OF assms(2), symmetric]) (simp add: source_entry_stored)
  then show ?thesis by (simp add: stored_manifest_hash_def ordered_copy [OF assms])
qed

text \<open>A later database with the same processes and sessions, and more folders and snapshots at their end.\<close>

definition extends :: "db \<Rightarrow> db \<Rightarrow> bool" where
  "extends d d' \<longleftrightarrow> db_processes d' = db_processes d \<and> db_captures d' = db_captures d \<and>
     (\<exists>fs. db_folders d' = db_folders d @ fs) \<and> (\<exists>ss. db_snapshots d' = db_snapshots d @ ss)"

lemma authorized_process_extends:
  "extends d d' \<Longrightarrow> authorized_process env d' actor i = authorized_process env d actor i"
  by (simp add: extends_def authorized_process_def get_process_def [abs_def])

lemma authorized_capture_extends:
  "extends d d' \<Longrightarrow> authorized_discovery_capture env d' actor i = authorized_discovery_capture env d actor i"
  by (simp add: extends_def authorized_discovery_capture_def get_capture_def [abs_def])

lemma get_folder_extends: "extends d d' \<Longrightarrow> get_folder d i = Some f \<Longrightarrow> get_folder d' i = Some f"
  by (auto simp: extends_def get_folder_def find_append_case)

lemma find_snapshot_extends: "extends d d' \<Longrightarrow> find_snapshot d i = Some s \<Longrightarrow> find_snapshot d' i = Some s"
  by (auto simp: extends_def find_snapshot_def find_append_case)

lemma authorized_discovery_snapshotD:
  assumes "authorized_discovery_snapshot env d actor i = Inr disc"
  shows "\<exists>ci session f. e_pk env i = Inr (Some (snap_id disc)) \<and> find_snapshot d (snap_id disc) = Some disc \<and>
    snap_capture disc = Some ci \<and> snap_process disc = None \<and>
    authorized_discovery_capture env d actor (JStr ci) = Inr session \<and>
    get_folder d (snap_folder disc) = Some f \<and> fo_active f \<and> fo_capture f = Some (ca_id session)"
proof -
  from assms obtain k where k: "e_pk env i = Inr k"
    by (auto simp: authorized_discovery_snapshot_def bindR_eq_Inr)
  with assms obtain s where s: "k = Some s" by (cases k) (auto simp: authorized_discovery_snapshot_def)
  with k assms obtain snap where snap: "find_snapshot d s = Some snap"
    by (auto simp: authorized_discovery_snapshot_def split: option.splits)
  then have "snap_id snap = s" by (auto simp: find_snapshot_def dest: find_SomeD)
  with snap k s assms show ?thesis
    by (auto simp: authorized_discovery_snapshot_def res_simps split: option.splits)
qed

lemma authorized_discovery_extends:
  assumes "extends d d'" and "authorized_discovery_snapshot env d actor i = Inr disc"
  shows "authorized_discovery_snapshot env d' actor i = Inr disc"
proof -
  from authorized_discovery_snapshotD [OF assms(2)] obtain ci session f where
    "e_pk env i = Inr (Some (snap_id disc))" "find_snapshot d (snap_id disc) = Some disc"
    "snap_capture disc = Some ci" "snap_process disc = None"
    "authorized_discovery_capture env d actor (JStr ci) = Inr session"
    "get_folder d (snap_folder disc) = Some f" "fo_active f" "fo_capture f = Some (ca_id session)" by blast
  with find_snapshot_extends [OF assms(1)] get_folder_extends [OF assms(1)]
    authorized_capture_extends [OF assms(1)]
  show ?thesis by (simp add: authorized_discovery_snapshot_def)
qed

lemma process_folder_result:
  assumes "process_folder env d p sf = (d1, f)"
  shows "extends d d1 \<and> db_snapshots d1 = db_snapshots d \<and>
    (fo_active f \<or> f \<in> set (db_folders d) \<and> fo_process f = Some (proc_id p) \<and> fo_root f = fo_root sf)"
  using assms by (auto simp: process_folder_def extends_def Let_def split: option.splits dest!: find_SomeD)

text \<open>The folder of the process, should there be one, was not withdrawn.\<close>

definition target_open :: "db \<Rightarrow> process \<Rightarrow> snapshot \<Rightarrow> bool" where
  "target_open d p disc \<longleftrightarrow> (\<forall>sf f. get_folder d (snap_folder disc) = Some sf \<longrightarrow> f \<in> set (db_folders d) \<longrightarrow>
     fo_process f = Some (proc_id p) \<longrightarrow> fo_root f = fo_root sf \<longrightarrow> fo_active f)"

text \<open>The row a handoff leaves: a copy for the process, under the manifest of the discovery.\<close>

definition handoff_copy :: "env \<Rightarrow> db \<Rightarrow> process \<Rightarrow> snapshot \<Rightarrow> snapshot \<Rightarrow> db \<Rightarrow> bool" where
  "handoff_copy env d p disc copy d' \<longleftrightarrow> extends d d' \<and> db_snapshots d' = db_snapshots d @ [copy] \<and>
     list_all2 same_content (ordered_sources env disc) (snap_sources copy) \<and>
     snap_manifest_hash copy = snap_manifest_hash disc \<and> stored_manifest_hash env copy = snap_manifest_hash disc \<and>
     snap_process copy = Some (proc_id p) \<and> snap_process_version copy = Some (proc_version p) \<and>
     handed_over copy (snap_id disc)"

lemma handed_over_context: "jget (handoff_context p disc strategic) ''discovery_snapshot_id'' = JStr (snap_id disc)"
  by (simp add: handoff_context_def process_context_def context_columns_def split: option.split)

lemma handoff_snapshot_copy:
  assumes "extends d d1" and "db_snapshots d1 = db_snapshots d"
    and "distinct_collation env (snap_sources disc)" and "stored_manifest_hash env disc = snap_manifest_hash disc"
  shows "handoff_copy env d p disc (handoff_snapshot env d1 f p disc question strategic)
    (append_snapshot d1 (handoff_snapshot env d1 f p disc question strategic))"
proof -
  let ?copy = "handoff_snapshot env d1 f p disc question strategic"
  have same: "list_all2 same_content (ordered_sources env disc) (snap_sources ?copy)"
    by (simp add: handoff_snapshot_def new_snapshot_def same_content_store)
  have "handed_over ?copy (snap_id disc)"
    by (simp add: handed_over_def handoff_snapshot_def new_snapshot_def handed_over_context)
  with same manifest_copy [OF assms(3) same] assms show ?thesis
    by (auto simp: handoff_copy_def append_snapshot_def handoff_snapshot_def new_snapshot_def extends_def)
qed

text \<open>Binding a discovery again finds the row it left.\<close>

lemma bind_again:
  assumes "authorized_discovery_snapshot env d actor i = Inr disc" and "authorized_process env d actor j = Inr p"
    and "stored_manifest_hash env disc = snap_manifest_hash disc" and "py_strip question \<noteq> []"
    and "existing_handoff d p disc = Some copy"
  shows "bind_discovery_snapshot_to_process env d d actor i j question strategic = Inr (d, snapshot_result_of copy)"
  using assms by (simp add: bind_discovery_snapshot_to_process_def Let_def)

lemma commit_new:
  assumes disc: "authorized_discovery_snapshot env d actor i = Inr disc"
    and p: "authorized_process env d actor (JStr (proc_id p)) = Inr p"
    and manifest: "stored_manifest_hash env disc = snap_manifest_hash disc"
    and none: "existing_handoff d p disc = None" and target: "target_open d p disc"
    and coll: "distinct_collation env (snap_sources disc)"
  shows "\<exists>copy d'. commit_handoff env d actor p disc question strategic = Inr (d', snapshot_result_of copy) \<and>
    handoff_copy env d p disc copy d'"
proof -
  from authorized_discovery_snapshotD [OF disc] obtain sf where
    s: "find_snapshot d (snap_id disc) = Some disc" "snap_process disc = None"
      "get_folder d (snap_folder disc) = Some sf" by blast
  obtain d1 f where f: "process_folder env d p sf = (d1, f)" by fastforce
  from process_folder_result [OF f] target s(3) have
    d1: "extends d d1" "db_snapshots d1 = db_snapshots d" "fo_active f"
    by (auto simp: target_open_def)
  let ?copy = "handoff_snapshot env d1 f p disc question strategic"
  have copy: "handoff_copy env d p disc ?copy (append_snapshot d1 ?copy)"
    by (rule handoff_snapshot_copy [OF d1(1,2) coll manifest])
  moreover have "handoff_in_folder d1 f p disc = None"
    using none by (auto simp: handoff_in_folder_def existing_handoff_def find_None_iff d1(2))
  ultimately have "commit_handoff env d actor p disc question strategic =
      Inr (append_snapshot d1 ?copy, snapshot_result_of ?copy)"
    using p s f d1(3) by (simp add: commit_handoff_def handoff_copy_def Let_def)
  with copy show ?thesis by blast
qed

lemma handoff_found_again:
  "handoff_copy env d p disc copy d' \<Longrightarrow> existing_handoff d' p disc = Some copy"
  by (simp add: handoff_copy_def existing_handoff_def)

lemma bind_once:
  assumes disc: "authorized_discovery_snapshot env d actor i = Inr disc"
    and p: "authorized_process env d actor j = Inr p" "authorized_process env d actor (JStr (proc_id p)) = Inr p"
    and manifest: "stored_manifest_hash env disc = snap_manifest_hash disc" and "py_strip question \<noteq> []"
    and target: "target_open d p disc" and coll: "distinct_collation env (snap_sources disc)"
  shows "\<exists>d' copy. bind_discovery_snapshot_to_process env d d actor i j question strategic =
      Inr (d', snapshot_result_of copy) \<and> existing_handoff d' p disc = Some copy \<and>
    (existing_handoff d p disc = None \<longrightarrow> handoff_copy env d p disc copy d') \<and>
    (existing_handoff d p disc \<noteq> None \<longrightarrow> d' = d) \<and>
    bind_discovery_snapshot_to_process env d' d' actor i j question strategic = Inr (d', snapshot_result_of copy)"
proof (cases "existing_handoff d p disc")
  case (Some copy)
  with bind_again [OF disc p(1) manifest assms(5) Some] show ?thesis by auto
next
  case None
  from commit_new [OF disc p(2) manifest None target coll] obtain copy d' where
    c: "commit_handoff env d actor p disc (py_strip question) strategic = Inr (d', snapshot_result_of copy)"
      "handoff_copy env d p disc copy d'" by blast
  have first: "bind_discovery_snapshot_to_process env d d actor i j question strategic =
      Inr (d', snapshot_result_of copy)"
    using disc p(1) manifest assms(5) None c(1) by (simp add: bind_discovery_snapshot_to_process_def Let_def)
  have e: "extends d d'" using c(2) by (simp add: handoff_copy_def)
  have found: "existing_handoff d' p disc = Some copy" by (rule handoff_found_again [OF c(2)])
  have "authorized_process env d' actor j = Inr p" using p(1) authorized_process_extends [OF e] by simp
  from bind_again [OF authorized_discovery_extends [OF e disc] this manifest assms(5) found] first found c(2) None
  show ?thesis by auto
qed

end
