(* ===== verification/Source_Snapshot_Properties.thy ===== *)
theory Source_Snapshot_Properties
  imports Source_Handoff Investigation_Sample
begin

text \<open>
  The properties of frozen snapshots, applied to a folder of two files whose names differ in case, a
  process and an autonomous discovery of the same owner.
\<close>

section \<open>A sample folder\<close>

definition sample_file :: "string \<Rightarrow> string \<Rightarrow> entry_info" where
  "sample_file name content = \<lparr>en_name = name, en_link = Some False, en_file = True,
     en_stat = Some \<lparr>si_size = int (length content), si_mtime_ns = 7000, si_mtime = 7, si_inside = True\<rparr>,
     en_read = Some \<lparr>ri_length = int (length content), ri_text = Some content,
       ri_size = int (length content), ri_mtime_ns = 7000\<rparr>\<rparr>"

definition sample_entries :: "entry_info list" where
  "sample_entries = [sample_file ''C.txt'' ''Text'', sample_file ''b.csv'' (''id,x'' @ [lf] @ ''a,1'' @ [lf] @ ''b,2'' @ [lf])]"

definition sample_fs :: file_system where
  "sample_fs = \<lparr>fs_root = (\<lambda>raw. \<lparr>ro_link = Some False, ro_resolved = True, ro_folder = True,
     ro_entries = Some sample_entries\<rparr>), fs_base = False, fs_below = (\<lambda>parts. None)\<rparr>"

definition sample_capture :: capture where
  "sample_capture = \<lparr>ca_id = ''k1'', ca_owner = 1, ca_value_stream = True, ca_autonomous = True,
     ca_draft = True, ca_answers = [(''problem_statement'', JStr '' Slow '')], ca_catalog = ''2.0'', ca_revision = 1\<rparr>"

definition sample_sources_db :: db where
  "sample_sources_db = sample_db0\<lparr>db_captures := [sample_capture], db_folders := db_folders sample_db0 @
     [\<lparr>fo_id = ''f2'', fo_process = None, fo_capture = Some ''k1'', fo_name = ''files'', fo_root = ''/data'',
       fo_active = True\<rparr>]\<rparr>"

text \<open>The hash is the text itself, which never collides; names are collated by code point or without case.\<close>

definition plain_env :: "bool \<Rightarrow> env" where
  "plain_env folded = sample_env\<lparr>e_hash := (\<lambda>s. s), e_collation := (if folded then py_casefold else (\<lambda>s. s))\<rparr>"

definition sample_discovery :: "bool \<Rightarrow> snapshot_result txn" where
  "sample_discovery folded = create_discovery_source_snapshot (plain_env folded) sample_fs
     sample_sources_db sample_sources_db sample_actor (JStr ''k1'') (JStr ''f2'')"

definition sample_discovered :: "bool \<Rightarrow> db" where
  "sample_discovered folded = result_db sample_sources_db (sample_discovery folded)"

lemma measured_sample: "\<forall>e\<in>set sample_entries. measured e"
  by (simp add: sample_entries_def sample_file_def measured_def)

section \<open>Scanning\<close>

text \<open>
  C26. A folder is accepted exactly when its path has no parent step and is a plain folder with at most
  twelve entries, every entry is a plain file inside it of an allowed type, at most 1 MiB, UTF-8, and
  unchanged between measuring and reading (and, as CSV, of bounded rectangular shape), and all
  together are at most 5 MiB; and then the scan is the content of every entry, in the order of the
  names without case. (\<open>measured\<close>: the system reports no negative size.)
\<close>

theorem scan_exact:
  assumes "\<forall>e\<in>set es. measured e" and "ro_entries (fs_root fs raw) = Some es"
  shows "scan_folder env fs raw = Inr ss \<longleftrightarrow> folder_readable fs raw \<and> length es \<le> 12 \<and>
    list_all2 (entry_sound env) (scan_order es) ss \<and> (\<Sum>s\<leftarrow>ss. sc_size s) \<le> 5 * 1048576"
  using scan_folder_exact [OF assms] by (simp add: max_total_bytes_def)

theorem scan_exact_witness:
  "\<exists>ss. scan_folder sample_env sample_fs ''/data'' = Inr ss \<and> map sc_filename ss = [''b.csv'', ''C.txt''] \<and>
     list_all2 (entry_sound sample_env) (scan_order sample_entries) ss"
proof -
  have e: "ro_entries (fs_root sample_fs ''/data'') = Some sample_entries" by (simp add: sample_fs_def)
  have "map_sum id (map sc_filename) (scan_folder sample_env sample_fs ''/data'') = Inr [''b.csv'', ''C.txt'']"
    by code_simp
  from map_sum_InrD [OF this] obtain ss where
    ss: "scan_folder sample_env sample_fs ''/data'' = Inr ss" "map sc_filename ss = [''b.csv'', ''C.txt'']"
    by (elim exE conjE)
  have "list_all2 (entry_sound sample_env) (scan_order sample_entries) ss"
    using iffD1 [OF scan_exact [OF measured_sample e] ss(1)] by (elim conjE)
  with ss show ?thesis by (intro exI conjI)
qed

section \<open>Freezing\<close>

text \<open>
  C27. A snapshot of a process is one appended row and nothing else: the next revision of its folder,
  for a draft the actor may edit at the version it has when the row is written, from a folder of that
  process still active then, with newly drawn identifiers, the content and the manifest of a scan of
  the folder, and every repeated content linked to its first source.
\<close>

theorem snapshot_frozen:
  assumes "create_source_snapshot env fs d d' actor q = Inr (d'', res)"
  shows "\<exists>snap ss f. appended env d' (map scanned_source ss) snap d'' \<and> res = snapshot_result_of snap \<and>
    process_row d' actor snap \<and> get_folder d (snap_folder snap) = Some f \<and>
    scan_registered_folder env fs d f = Inr ss \<and> snap_manifest_hash snap = manifest_hash env ss"
  using create_source_snapshotD [OF assms] by blast

definition sample_spec :: json where
  "sample_spec = JObj [(''source_filename'', JStr ''b.csv''), (''case_key_column'', JStr ''id''),
     (''case_keys'', JList [JStr '' b'', JStr ''a'']), (''mapping_dimension'', JStr ''cause''),
     (''exhaustive'', JBool True)]"

definition sample_freeze :: "snapshot_result txn" where
  "sample_freeze = create_source_snapshot sample_env sample_fs sample_sources_db sample_sources_db sample_actor
     \<lparr>sq_process = JStr ''p1'', sq_folder = JStr ''f1'', sq_question = ''Why?'', sq_limits = JObj [],
      sq_specs = JList [sample_spec]\<rparr>"

lemma sample_freeze: "\<exists>d res. sample_freeze = Inr (d, res) \<and> sn_revision res = 2 \<and> sn_count res = 2"
proof -
  have "map_sum id (\<lambda>(d, res). (sn_revision res, sn_count res)) sample_freeze = Inr (2, 2)" by code_simp
  from map_sum_InrD [OF this] show ?thesis by auto
qed

theorem snapshot_frozen_witness:
  "\<exists>d res snap ss. sample_freeze = Inr (d, res) \<and> sn_revision res = 2 \<and> sn_count res = 2 \<and>
     appended sample_env sample_sources_db (map scanned_source ss) snap d \<and> res = snapshot_result_of snap"
proof -
  from sample_freeze obtain d res where f: "sample_freeze = Inr (d, res)" "sn_revision res = 2" "sn_count res = 2"
    by blast
  from snapshot_frozen [OF f(1) [unfolded sample_freeze_def]] f show ?thesis by blast
qed

text \<open>
  C28. The mapping scope a snapshot freezes is a contract the runtime accepts: reading it back from the
  stored row gives one obligation per specification of the request, bound to the stored source, and
  each obligation stands for exactly the scope that was frozen. (Identifiers and hashes are texts
  without blanks, and identifiers do not repeat.)
\<close>

theorem frozen_specs_accepted:
  assumes "create_source_snapshot env fs d d' actor q = Inr (d'', res)"
    and "inj (e_uuid env)" and "\<And>n. stripped (e_uuid env n)" and "\<And>s. solid (e_hash env s)"
  shows "\<exists>snap obs. db_snapshots d'' = db_snapshots d' @ [snap] \<and>
    structured_mapping_obligations_from_snapshot snap = Inr obs \<and>
    length obs = length (items (sq_specs q)) \<and>
    jget (members (snap_context snap)) ''structured_mapping_specs'' =
      JList (map (\<lambda>ob. JObj (obligation_scope snap ob)) obs)"
proof -
  from create_source_snapshotD [OF assms(1)] obtain snap ss specs p where
    new: "appended env d' (map scanned_source ss) snap d''" and
    specs: "normalize_structured_mapping_specs env ss (sq_specs q) = Inr specs"
      "snap_context snap = JObj (process_context p specs)" by blast
  have ids: "distinct (map src_id (snap_sources snap))" "\<forall>t\<in>set (snap_sources snap). stripped (src_id t)"
    using appended_ids [OF new assms(2)] appended_id_drawn [OF new] assms(3) by (auto, metis)
  from new have "list_all2 same_content (map scanned_source ss) (snap_sources snap)" by (simp add: appended_def)
  from frozen_scope_accepted [OF specs(1) assms(4) specs(2) this ids] obtain obs where
    obs: "structured_mapping_obligations_from_snapshot snap = Inr obs" "map (obligation_scope snap) obs = specs"
    by blast
  have "map (\<lambda>ob. JObj (obligation_scope snap ob)) obs = map JObj specs"
    by (simp add: obs(2) [symmetric])
  moreover have "length obs = length (items (sq_specs q))"
    using normalized_specs_length [OF specs(1)] obs(2) by (metis length_map)
  moreover have "db_snapshots d'' = db_snapshots d' @ [snap]" using appended_rows [OF new] .
  ultimately show ?thesis using obs(1) specs(2) specs_context by auto
qed

text \<open>A hash of visible characters, as a hexadecimal digest is.\<close>

definition visible_env :: env where
  "visible_env = sample_env\<lparr>e_hash := (\<lambda>s. filter (\<lambda>c. \<not> py_space c) (take 3 (rev s)))\<rparr>"

definition sample_scope_freeze :: "snapshot_result txn" where
  "sample_scope_freeze = create_source_snapshot visible_env sample_fs sample_sources_db sample_sources_db sample_actor
     \<lparr>sq_process = JStr ''p1'', sq_folder = JStr ''f1'', sq_question = ''Why?'', sq_limits = JObj [],
      sq_specs = JList [sample_spec]\<rparr>"

theorem frozen_specs_accepted_witness:
  "\<exists>d res snap ob. sample_scope_freeze = Inr (d, res) \<and>
     structured_mapping_obligations_from_snapshot snap = Inr [ob] \<and> snap \<in> set (db_snapshots d)"
proof -
  have "succeeds sample_scope_freeze" by code_simp
  from succeedsD [OF this] obtain d res where f: "sample_scope_freeze = Inr (d, res)" by blast
  have uuid: "stripped (e_uuid visible_env n)" for n
    by (simp add: stripped_def visible_env_def sample_env_def py_strip_id py_space_def)
  have hash: "solid (e_hash visible_env s)" for s by (simp add: solid_def visible_env_def)
  have inj: "inj (e_uuid visible_env)" using inj_sample_uuid by (simp add: visible_env_def)
  from frozen_specs_accepted [OF f [unfolded sample_scope_freeze_def] inj uuid hash] obtain snap obs where
    "db_snapshots d = db_snapshots sample_sources_db @ [snap]"
    "structured_mapping_obligations_from_snapshot snap = Inr obs" "length obs = 1" by auto
  moreover from this(3) obtain ob where "obs = [ob]" by (auto simp: length_Suc_conv)
  ultimately show ?thesis using f by (metis in_set_conv_decomp)
qed

section \<open>Handing a discovery over\<close>

text \<open>
  C29. The manifest check of a handoff compares orders: a fresh discovery passes it exactly when the
  database lists its sources by name in the order of the scan, which sorts the names without case.
  (Names in a folder do not repeat, and the hash does not collide.)
\<close>

theorem manifest_check_exact:
  assumes "create_discovery_source_snapshot env fs d d' actor ci fi = Inr (d'', res)"
    and "inj (e_hash env)" and "distinct_names fs"
  shows "\<exists>snap. db_snapshots d'' = db_snapshots d' @ [snap] \<and> res = snapshot_result_of snap \<and> discovery_row d' snap \<and>
    (stored_manifest_hash env snap = snap_manifest_hash snap \<longleftrightarrow> ordered_sources env snap = snap_sources snap)"
proof -
  from create_discoveryD [OF assms(1)] obtain snap ss f where
    new: "appended env d' (map scanned_source ss) snap d''" "res = snapshot_result_of snap" "discovery_row d' snap" and
    scan: "scan_registered_folder env fs d f = Inr ss" "snap_manifest_hash snap = manifest_hash env ss" by blast
  from scan_registered_is_scan [OF scan(1)] scan_folder_names [OF _ assms(3)] have "distinct (map sc_filename ss)"
    by blast
  with manifest_order [OF assms(2)] appended_rows [OF new(1)] new scan(2) show ?thesis
    by (auto simp: appended_def)
qed

lemma sample_discovery: "\<exists>res. sample_discovery folded = Inr (sample_discovered folded, res)"
proof -
  have "succeeds (sample_discovery True)" "succeeds (sample_discovery False)" by code_simp+
  then have "succeeds (sample_discovery folded)" by (cases folded) simp_all
  then show ?thesis unfolding sample_discovered_def by (rule succeedsD)
qed

text \<open>\<open>b.csv\<close> comes before \<open>C.txt\<close> in the scan, and after it by code point.\<close>

theorem manifest_check_exact_witness:
  "\<exists>snap. snap \<in> set (db_snapshots (sample_discovered False)) \<and> discovery_row sample_sources_db snap \<and>
     stored_manifest_hash (plain_env False) snap \<noteq> snap_manifest_hash snap"
proof -
  have "distinct_names sample_fs"
    by (simp add: distinct_names_def sample_fs_def sample_entries_def sample_file_def)
  moreover have "inj (e_hash (plain_env False))" by (simp add: plain_env_def)
  moreover from sample_discovery obtain res where r: "sample_discovery False = Inr (sample_discovered False, res)"
    by blast
  ultimately obtain snap where
    snap: "db_snapshots (sample_discovered False) = db_snapshots sample_sources_db @ [snap]" "discovery_row sample_sources_db snap"
      "stored_manifest_hash (plain_env False) snap = snap_manifest_hash snap \<longleftrightarrow>
        ordered_sources (plain_env False) snap = snap_sources snap"
    using manifest_check_exact [OF r [unfolded sample_discovery_def]] by blast
  have "map src_filename (ordered_sources (plain_env False) (last (db_snapshots (sample_discovered False)))) \<noteq>
      map src_filename (snap_sources (last (db_snapshots (sample_discovered False))))"
    by code_simp
  with snap show ?thesis by auto
qed

text \<open>A discovery of files whose names differ in case is refused at its handoff in such a database.\<close>

lemma mixed_case_handoff_refused:
  "isl (sample_discovery False) = False \<and>
   bind_discovery_snapshot_to_process (plain_env False) (sample_discovered False) (sample_discovered False)
     sample_actor (JStr ''u'') (JStr ''p1'') ''Why?'' None = Inl (Tool_Error ''discovery_manifest_mismatch'')"
  by code_simp

text \<open>
  C30. A discovery whose manifest is intact can be bound to any draft process its owner may edit unless
  the process' folder was withdrawn: binding succeeds, with a row for the process that holds the same
  sources under the same manifest and passes the same check; and binding it again changes nothing and
  returns the same row. (No two names are equal in the collation; identifiers are read back as
  themselves.)
\<close>

theorem handoff_once:
  assumes "authorized_discovery_snapshot env d actor i = Inr disc" and "authorized_process env d actor j = Inr p"
    and "e_pk env (JStr (proc_id p)) = e_pk env j"
    and "stored_manifest_hash env disc = snap_manifest_hash disc" and "py_strip question \<noteq> []"
    and "target_open d p disc" and "distinct_collation env (snap_sources disc)"
  shows "\<exists>d' copy. bind_discovery_snapshot_to_process env d d actor i j question strategic =
      Inr (d', snapshot_result_of copy) \<and> existing_handoff d' p disc = Some copy \<and>
    (existing_handoff d p disc = None \<longrightarrow> handoff_copy env d p disc copy d') \<and>
    (existing_handoff d p disc \<noteq> None \<longrightarrow> d' = d) \<and>
    bind_discovery_snapshot_to_process env d' d' actor i j question strategic = Inr (d', snapshot_result_of copy)"
proof -
  have "authorized_process env d actor (JStr (proc_id p)) = Inr p"
    using assms(2,3) by (simp add: authorized_process_eq_Inr)
  from bind_once [OF assms(1,2) this assms(4-7)] show ?thesis .
qed

theorem handoff_once_witness:
  "\<exists>d' copy disc p. bind_discovery_snapshot_to_process (plain_env True) (sample_discovered True) (sample_discovered True)
      sample_actor (JStr ''u'') (JStr ''p1'') ''Why?'' None = Inr (d', snapshot_result_of copy) \<and>
    handoff_copy (plain_env True) (sample_discovered True) p disc copy d' \<and>
    snap_manifest_hash disc \<noteq> []"
proof -
  let ?e = "plain_env True" and ?d = "sample_discovered True"
  have "map_sum id (\<lambda>disc. (stored_manifest_hash ?e disc = snap_manifest_hash disc, snap_manifest_hash disc = [],
      distinct_collation ?e (snap_sources disc), snap_folder disc))
      (authorized_discovery_snapshot ?e ?d sample_actor (JStr ''u'')) = Inr (True, False, True, ''f2'')"
    by code_simp
  from map_sum_InrD [OF this] obtain disc where
    disc: "authorized_discovery_snapshot ?e ?d sample_actor (JStr ''u'') = Inr disc"
      "stored_manifest_hash ?e disc = snap_manifest_hash disc" "snap_manifest_hash disc \<noteq> []"
      "distinct_collation ?e (snap_sources disc)" "snap_folder disc = ''f2''" by auto
  have "map_sum id proc_id (authorized_process ?e ?d sample_actor (JStr ''p1'')) = Inr ''p1''" by code_simp
  from map_sum_InrD [OF this] obtain p where
    p: "authorized_process ?e ?d sample_actor (JStr ''p1'') = Inr p" "proc_id p = ''p1''" by blast
  have "list_all fo_active (db_folders ?d)" "db_snapshots ?d = [] \<or> tl (db_snapshots ?d) \<noteq> []" by code_simp+
  then have target: "target_open ?d p disc" by (auto simp: target_open_def list_all_iff)
  have "bindR (authorized_discovery_snapshot ?e ?d sample_actor (JStr ''u'')) (\<lambda>disc.
      bindR (authorized_process ?e ?d sample_actor (JStr ''p1'')) (\<lambda>p.
      Inr (Option.is_none (existing_handoff ?d p disc)))) = Inr True"
    by code_simp
  then have none: "existing_handoff ?d p disc = None" by (simp add: disc(1) p(1) Option.is_none_def)
  from handoff_once [OF disc(1) p(1) _ disc(2) _ target disc(4), of "''Why?''" None] none disc(3) p(2)
  show ?thesis by (auto simp: py_strip_id py_space_def)
qed

end
