(* ===== verification/Evidence_Budget.thy ===== *)
theory Evidence_Budget
  imports Investigation_Runtime Python_Decimal
begin

text \<open>
  The budget that runs collecting evidence share (\<open>accelerator/investigation_evidence.py\<close>): a campaign
  with limits on provider calls, tokens and cost, reservations made before a provider is called and
  settled, or left uncertain, after it answered, and continuations a human authorises.
\<close>

section \<open>Limits and prices\<close>

definition required_limits :: "string list" where
  "required_limits = [''max_provider_calls'', ''max_input_tokens'', ''max_output_tokens'']"

definition cost_limit :: string where "cost_limit = ''max_cost_microunits''"

definition campaign_usage_keys :: "string list" where
  "campaign_usage_keys = [''provider_calls'', ''input_tokens'', ''output_tokens'', ''reserved_input_tokens'',
     ''reserved_output_tokens'', ''cost_microunits'', ''reserved_cost_microunits'', ''uncertain_attempts'']"

definition initial_campaign_usage :: budget where
  "initial_campaign_usage = map (\<lambda>k. (k, 0)) campaign_usage_keys"

abbreviation bad_budget :: run_error where
  "bad_budget \<equiv> run_err ''invalid_evidence_budget''"

definition positive_limit :: "json \<Rightarrow> (run_error, int) res" where
  "positive_limit v = (case v of JInt n \<Rightarrow> if n \<le> 0 then Inl bad_budget else Inr n | _ \<Rightarrow> Inl bad_budget)"

definition normalize_limits :: "obj \<Rightarrow> (run_error, budget) res" where
  "normalize_limits raw =
     bindR (raise_if (\<not> set (map fst raw) \<subseteq> set required_limits \<union> {cost_limit}) bad_budget) (\<lambda>_.
     bindR (mapR (\<lambda>k. bindR (positive_limit (jget raw k)) (\<lambda>n. Inr (k, n))) required_limits) (\<lambda>required.
     (if has_key raw cost_limit
      then bindR (positive_limit (jget raw cost_limit)) (\<lambda>n. Inr (required @ [(cost_limit, n)]))
      else Inr required)))"

definition cost_capped :: "budget \<Rightarrow> bool" where
  "cost_capped limits \<longleftrightarrow> map_of limits cost_limit \<noteq> None"

text \<open>A price is a decimal number that is not negative; comparing a NaN raises.\<close>

definition price :: "obj \<Rightarrow> string \<Rightarrow> (run_error, string \<times> string) res" where
  "price pricing k = (let value = (case parse_decimal (py_str (jget pricing k)) of
         None \<Rightarrow> Fin True 1 0 | Some x \<Rightarrow> x) in
     bindR (signalR (dec_less value (Fin False 0 0))) (\<lambda>negative.
     bindR (raise_if negative bad_budget) (\<lambda>_. Inr (k, sci_text value))))"

definition normalize_pricing :: "obj \<Rightarrow> string \<Rightarrow> string \<Rightarrow> bool \<Rightarrow> (run_error, (string, string) dict) res" where
  "normalize_pricing pricing currency version capped =
     (if \<not> capped
      then Inr (map (\<lambda>kv. (fst kv, py_str (snd kv)))
        (filter (\<lambda>kv. snd kv \<noteq> JNull \<and> py_strip (py_str (snd kv)) \<noteq> []) pricing))
      else bindR (raise_if (py_strip currency = [] \<or> py_strip version = []) bad_budget) (\<lambda>_.
        mapR (price pricing) [''input_per_million'', ''output_per_million'']))"

section \<open>Authorising a campaign\<close>

definition save_campaign :: "db \<Rightarrow> campaign \<Rightarrow> db" where
  "save_campaign d c = d\<lparr>db_campaigns := update_where (\<lambda>x. cp_id x = cp_id c) (\<lambda>_. c) (db_campaigns d)\<rparr>"

definition can_manage_campaign :: "user option \<Rightarrow> process \<Rightarrow> bool" where
  "can_manage_campaign actor p = (case actor of
       None \<Rightarrow> False
     | Some u \<Rightarrow> u_id u \<noteq> None \<and> proc_draft p \<and> can_edit_value_stream u (proc_owner p))"

definition actor_id :: "user option \<Rightarrow> int option" where
  "actor_id actor = Option.bind actor u_id"

definition revised :: "campaign \<Rightarrow> user option \<Rightarrow> string \<Rightarrow> campaign" where
  "revised c actor reason = c\<lparr>cp_revisions := cp_revisions c @
     [\<lparr>bv_revision = cp_revision c, bv_limits = cp_limits c, bv_pricing = cp_pricing c,
       bv_currency = cp_currency c, bv_pricing_version = cp_pricing_version c, bv_usage = cp_usage c,
       bv_reason = reason, bv_actor = actor_id actor\<rparr>]\<rparr>"

definition initial_reason :: string where
  "initial_reason = ''Initiale Autorisierung des VS1/3-Gesamtnachweisbudgets.''"

definition create_evidence_campaign ::
    "env \<Rightarrow> db \<Rightarrow> user option \<Rightarrow> json \<Rightarrow> json \<Rightarrow> obj \<Rightarrow> obj \<Rightarrow> string \<Rightarrow> string \<Rightarrow> campaign txn" where
  "create_evidence_campaign env d actor process_id campaign_key limits pricing currency version =
     bindR (e_pk env process_id) (\<lambda>k.
     (case Option.bind k (get_process d) of
        None \<Rightarrow> Inl (Other_Error ''DoesNotExist'')
      | Some p \<Rightarrow>
          bindR (raise_if (\<not> can_manage_campaign actor p) Permission_Denied) (\<lambda>_.
          bindR (normalize_idempotency_key campaign_key) (\<lambda>key.
          bindR (normalize_limits limits) (\<lambda>limits'.
          bindR (normalize_pricing pricing currency version (cost_capped limits')) (\<lambda>pricing'.
          bindR (raise_if (\<exists>c\<in>set (db_campaigns d). cp_key c = key) (Other_Error ''IntegrityError'')) (\<lambda>_.
          (let c = revised \<lparr>cp_id = fresh env d, cp_process = proc_id p, cp_key = key, cp_revision = 1,
              cp_limits = limits', cp_usage = initial_campaign_usage, cp_pricing = pricing',
              cp_currency = py_strip currency, cp_pricing_version = py_strip version,
              cp_actor = actor_id actor, cp_authorized = db_now d, cp_reason = [], cp_revisions = [],
              cp_reservations = []\<rparr> actor initial_reason in
           Inr ((draw d)\<lparr>db_campaigns := db_campaigns d @ [c]\<rparr>, c)))))))))"

definition minimum_limits_for_usage :: "budget \<Rightarrow> budget" where
  "minimum_limits_for_usage usage =
     [(''max_provider_calls'', dget usage ''provider_calls''),
      (''max_input_tokens'', dget usage ''input_tokens'' + dget usage ''reserved_input_tokens''),
      (''max_output_tokens'', dget usage ''output_tokens'' + dget usage ''reserved_output_tokens''),
      (cost_limit, dget usage ''cost_microunits'' + dget usage ''reserved_cost_microunits'')]"

definition covers_usage :: "budget \<Rightarrow> budget \<Rightarrow> bool" where
  "covers_usage limits usage = (let minimum = minimum_limits_for_usage usage in
     (\<forall>k\<in>set required_limits. dget minimum k \<le> dget limits k) \<and>
     (if cost_capped limits then dget minimum cost_limit \<le> dget limits cost_limit
      else dget minimum cost_limit \<le> 0))"

definition or_else :: "string \<Rightarrow> string \<Rightarrow> string" where
  "or_else s t = (if s = [] then t else s)"

text \<open>\<open>pricing\<close> is \<open>None\<close> when the caller leaves the prices as they are.\<close>

definition kept_pricing :: "obj option \<Rightarrow> campaign \<Rightarrow> obj" where
  "kept_pricing pricing c = (case pricing of
       None \<Rightarrow> map (\<lambda>kv. (fst kv, JStr (snd kv))) (cp_pricing c) | Some f \<Rightarrow> f)"

definition continued_campaign ::
    "db \<Rightarrow> user option \<Rightarrow> campaign \<Rightarrow> budget \<Rightarrow> (string, string) dict \<Rightarrow> string \<Rightarrow> string \<Rightarrow> string \<Rightarrow> campaign" where
  "continued_campaign d actor c limits pricing currency version reason =
     revised (c\<lparr>cp_revision := cp_revision c + 1, cp_limits := limits, cp_pricing := pricing,
         cp_currency := py_strip (or_else currency (cp_currency c)),
         cp_pricing_version := py_strip (or_else version (cp_pricing_version c)),
         cp_actor := actor_id actor, cp_authorized := db_now d, cp_reason := py_strip reason\<rparr>)
       actor (py_strip reason)"

definition authorize_campaign_continuation ::
    "env \<Rightarrow> db \<Rightarrow> user option \<Rightarrow> json \<Rightarrow> obj \<Rightarrow> string \<Rightarrow> obj option \<Rightarrow> string \<Rightarrow> string \<Rightarrow> campaign txn" where
  "authorize_campaign_continuation env d actor campaign_id limits reason pricing currency version =
     bindR (e_pk env campaign_id) (\<lambda>k.
     (case Option.bind k (find_campaign d) of
        None \<Rightarrow> Inl (Other_Error ''DoesNotExist'')
      | Some c \<Rightarrow>
          (case get_process d (cp_process c) of
             None \<Rightarrow> Inl (Other_Error ''DoesNotExist'')
           | Some p \<Rightarrow>
               bindR (raise_if (\<not> can_manage_campaign actor p) Permission_Denied) (\<lambda>_.
               bindR (raise_if (py_strip reason = []) bad_budget) (\<lambda>_.
               bindR (normalize_limits limits) (\<lambda>limits'.
               bindR (raise_if (\<not> covers_usage limits' (cp_usage c)) bad_budget) (\<lambda>_.
               bindR (normalize_pricing (kept_pricing pricing c)
                        (or_else currency (cp_currency c)) (or_else version (cp_pricing_version c))
                        (cost_capped limits')) (\<lambda>pricing'.
               (let c' = continued_campaign d actor c limits' pricing' currency version reason in
                Inr (save_campaign d c', c'))))))))))"

section \<open>Headroom\<close>

definition rate :: "campaign \<Rightarrow> string \<Rightarrow> (run_error, decimal) res" where
  "rate c k = (case Option.bind (map_of (cp_pricing c) k) parse_decimal of
       None \<Rightarrow> Inl bad_budget | Some x \<Rightarrow> Inr x)"

definition million :: int where "million = 1000000"

definition tokens_cost :: "int \<Rightarrow> decimal \<Rightarrow> (run_error, decimal) res" where
  "tokens_cost n r = bindR (signalR (dec_mul (Fin (n < 0) \<bar>n\<bar> 0) r)) (\<lambda>x. signalR (dec_div_int x million))"

definition max_cost_for_tokens :: "campaign \<Rightarrow> int \<Rightarrow> int \<Rightarrow> (run_error, int option) res" where
  "max_cost_for_tokens c input output =
     (if \<not> cost_capped (cp_limits c) then Inr None
      else bindR (rate c ''input_per_million'') (\<lambda>ri. bindR (rate c ''output_per_million'') (\<lambda>ro.
        bindR (tokens_cost input ri) (\<lambda>x. bindR (tokens_cost output ro) (\<lambda>y.
        bindR (signalR (dec_add x y)) (\<lambda>units.
        bindR (signalR (dec_mul units (Fin False million 0))) (\<lambda>z.
        bindR (signalR (dec_ceiling z)) (\<lambda>n. Inr (Some n)))))))))"

definition would_exceed :: "campaign \<Rightarrow> int \<Rightarrow> int \<Rightarrow> int option \<Rightarrow> bool" where
  "would_exceed c input output cost = (let usage = cp_usage c; limits = cp_limits c in
     dget usage ''provider_calls'' + 1 > dget limits ''max_provider_calls'' \<or>
     dget usage ''input_tokens'' + dget usage ''reserved_input_tokens'' + input > dget limits ''max_input_tokens'' \<or>
     dget usage ''output_tokens'' + dget usage ''reserved_output_tokens'' + output > dget limits ''max_output_tokens'' \<or>
     (cost_capped limits \<and> (case cost of
         None \<Rightarrow> True
       | Some n \<Rightarrow> dget usage ''cost_microunits'' + dget usage ''reserved_cost_microunits'' + n >
           dget limits cost_limit)))"

definition exceeds :: "campaign \<Rightarrow> int \<Rightarrow> int \<Rightarrow> (run_error, bool) res" where
  "exceeds c input output =
     bindR (max_cost_for_tokens c input output) (\<lambda>cost. Inr (would_exceed c input output cost))"

text \<open>The binary search of \<open>max_reservable_output_tokens\<close> between \<open>low\<close> and \<open>high\<close>.\<close>

function search_headroom :: "(int \<Rightarrow> (run_error, bool) res) \<Rightarrow> int \<Rightarrow> int \<Rightarrow> (run_error, int) res" where
  "search_headroom ex low high =
     (if low < high then (let candidate = (low + high + 1) div 2 in
        bindR (ex candidate) (\<lambda>b.
          if b then search_headroom ex low (candidate - 1) else search_headroom ex candidate high))
      else Inr low)"
  by pat_completeness auto
termination
  by (relation "measure (\<lambda>(ex, low, high). nat (high - low))") auto

declare search_headroom.simps [simp del]

definition max_reservable_output_tokens ::
    "campaign \<Rightarrow> int \<Rightarrow> int \<Rightarrow> int \<Rightarrow> int \<Rightarrow> (run_error, int) res" where
  "max_reservable_output_tokens c input upper protected_input protected_output =
     search_headroom (\<lambda>n. exceeds c (input + protected_input) (n + protected_output)) 0 (max 0 upper)"

section \<open>Reservations\<close>

definition all_reservations :: "db \<Rightarrow> reservation list" where
  "all_reservations d = concat (map cp_reservations (db_campaigns d))"

definition add_usage :: "budget \<Rightarrow> string \<Rightarrow> int \<Rightarrow> budget" where
  "add_usage usage k n = dict_set usage k (dget usage k + n)"

definition reserved_usage :: "budget \<Rightarrow> int \<Rightarrow> int \<Rightarrow> int option \<Rightarrow> budget" where
  "reserved_usage usage input output cost = (let
     u = add_usage (add_usage (add_usage usage ''provider_calls'' 1) ''reserved_input_tokens'' input)
           ''reserved_output_tokens'' output in
     (case cost of None \<Rightarrow> u | Some n \<Rightarrow> add_usage u ''reserved_cost_microunits'' n))"

definition new_reservation :: "string \<Rightarrow> string \<Rightarrow> string \<Rightarrow> int \<Rightarrow> int \<Rightarrow> int option \<Rightarrow> reservation" where
  "new_reservation i run_id call_id input output cost =
     \<lparr>pv_id = i, pv_run = run_id, pv_call = call_id, pv_status = Reserved_Open, pv_input = input,
      pv_output = output, pv_cost = cost, pv_actual_input = None, pv_actual_output = None,
      pv_actual_cost = None, pv_reason = [], pv_settled = None\<rparr>"

definition reserve_provider_attempt ::
    "env \<Rightarrow> db \<Rightarrow> string \<Rightarrow> string \<Rightarrow> int \<Rightarrow> int \<Rightarrow> reservation option txn" where
  "reserve_provider_attempt env d run_id call_id input output = (case get_run d run_id of
       None \<Rightarrow> Inl (Other_Error ''DoesNotExist'')
     | Some r \<Rightarrow> (case r_campaign r of
         None \<Rightarrow> Inr (d, None)
       | Some i \<Rightarrow>
           bindR (raise_if (input \<le> 0 \<or> output \<le> 0) (run_err ''evidence_budget_exhausted'')) (\<lambda>_.
           (case find_campaign d i of
              None \<Rightarrow> Inl (Other_Error ''DoesNotExist'')
            | Some c \<Rightarrow>
                bindR (raise_if (cp_process c \<noteq> r_process r) bad_budget) (\<lambda>_.
                (case find (\<lambda>v. pv_call v = call_id) (all_reservations d) of
                   Some v \<Rightarrow> Inr (d, Some v)
                 | None \<Rightarrow>
                     bindR (max_cost_for_tokens c input output) (\<lambda>cost.
                     bindR (raise_if (would_exceed c input output cost) (run_err ''evidence_budget_exhausted'')) (\<lambda>_.
                     (let v = new_reservation (fresh env d) run_id call_id input output cost in
                      Inr (save_campaign (draw d) (c\<lparr>cp_usage := reserved_usage (cp_usage c) input output cost,
                          cp_reservations := cp_reservations c @ [v]\<rparr>), Some v))))))))))"

definition holder :: "db \<Rightarrow> string \<Rightarrow> (campaign \<times> reservation) option" where
  "holder d i = (case find (\<lambda>c. \<exists>v\<in>set (cp_reservations c). pv_id v = i) (db_campaigns d) of
       None \<Rightarrow> None
     | Some c \<Rightarrow> map_option (\<lambda>v. (c, v)) (find (\<lambda>v. pv_id v = i) (cp_reservations c)))"

definition save_reservation :: "campaign \<Rightarrow> reservation \<Rightarrow> campaign" where
  "save_reservation c v = c\<lparr>cp_reservations := update_where (\<lambda>x. pv_id x = pv_id v) (\<lambda>_. v) (cp_reservations c)\<rparr>"

text \<open>What a settlement takes out of the reserved amounts; they do not fall below zero.\<close>

definition release :: "budget \<Rightarrow> reservation \<Rightarrow> budget" where
  "release usage v = (let
     less = (\<lambda>u k n. dict_set u k (max 0 (dget u k - n)));
     u = less (less usage ''reserved_input_tokens'' (pv_input v)) ''reserved_output_tokens'' (pv_output v) in
     (case pv_cost v of None \<Rightarrow> u | Some n \<Rightarrow> less u ''reserved_cost_microunits'' n))"

abbreviation over_reservation :: run_error where
  "over_reservation \<equiv> run_err ''provider_usage_exceeds_reservation''"

text \<open>The cost a settlement books: required under a cost limit, and bounded by it.\<close>

definition settle_cost :: "budget \<Rightarrow> budget \<Rightarrow> int option \<Rightarrow> (run_error, budget) res" where
  "settle_cost limits usage cost = (case cost of
       None \<Rightarrow> if cost_capped limits then Inl (run_err ''provider_cost_unknown'') else Inr usage
     | Some n \<Rightarrow>
         bindR (raise_if (cost_capped limits \<and> dget usage ''cost_microunits'' + n > dget limits cost_limit)
                  over_reservation) (\<lambda>_.
         Inr (add_usage usage ''cost_microunits'' n)))"

definition settled_usage :: "campaign \<Rightarrow> reservation \<Rightarrow> int \<Rightarrow> int \<Rightarrow> int option \<Rightarrow> (run_error, budget) res" where
  "settled_usage c v input output cost = (let usage = release (cp_usage c) v; limits = cp_limits c in
     bindR (raise_if (dget usage ''input_tokens'' + input > dget limits ''max_input_tokens'') over_reservation) (\<lambda>_.
     bindR (raise_if (dget usage ''output_tokens'' + output > dget limits ''max_output_tokens'') over_reservation) (\<lambda>_.
     settle_cost limits (add_usage (add_usage usage ''input_tokens'' input) ''output_tokens'' output) cost)))"

definition settle_provider_attempt :: "db \<Rightarrow> string \<Rightarrow> int \<Rightarrow> int \<Rightarrow> int option \<Rightarrow> reservation txn" where
  "settle_provider_attempt d i input output cost = (case holder d i of
       None \<Rightarrow> Inl (Other_Error ''DoesNotExist'')
     | Some (c, v) \<Rightarrow>
         if pv_status v \<noteq> Reserved_Open then Inr (d, v)
         else bindR (raise_if (input < 0 \<or> output < 0) (run_err ''invalid_provider_usage'')) (\<lambda>_.
           bindR (settled_usage c v input output cost) (\<lambda>usage.
           (let v' = v\<lparr>pv_status := Reserved_Settled, pv_actual_input := Some input,
                pv_actual_output := Some output, pv_actual_cost := cost, pv_settled := Some (db_now d)\<rparr> in
            Inr (save_campaign d ((save_reservation c v')\<lparr>cp_usage := usage\<rparr>), v')))))"

text \<open>An uncertain attempt keeps what it reserved.\<close>

definition mark_provider_attempt_uncertain :: "db \<Rightarrow> string \<Rightarrow> string \<Rightarrow> unit txn" where
  "mark_provider_attempt_uncertain d i reason = (case holder d i of
       None \<Rightarrow> Inl (Other_Error ''DoesNotExist'')
     | Some (c, v) \<Rightarrow>
         if pv_status v \<noteq> Reserved_Open then Inr (d, ())
         else Inr (save_campaign d
           ((save_reservation c (v\<lparr>pv_status := Reserved_Uncertain, pv_reason := take 80 (or_else reason ''unknown_usage'')\<rparr>))
             \<lparr>cp_usage := add_usage (cp_usage c) ''uncertain_attempts'' 1\<rparr>), ()))"

definition cost_to_microunits :: "json \<Rightarrow> (run_error, int option) res" where
  "cost_to_microunits raw = (if raw = JNull then Inr None else (case parse_decimal (py_str raw) of
       None \<Rightarrow> Inr None
     | Some value \<Rightarrow>
         bindR (signalR (dec_less value (Fin False 0 0))) (\<lambda>negative.
         (if negative then Inr None
          else bindR (signalR (dec_mul value (Fin False million 0))) (\<lambda>z.
            bindR (signalR (dec_ceiling z)) (\<lambda>n. Inr (Some n)))))))"

definition campaign_budget_snapshot :: "campaign \<Rightarrow> obj" where
  "campaign_budget_snapshot c = (let numbers = (\<lambda>b. JObj (map (\<lambda>kv. (fst kv, JInt (snd kv))) b)) in
     [(''campaign_id'', JStr (cp_id c)), (''campaign_key'', JStr (cp_key c)), (''revision'', JInt (cp_revision c)),
      (''limits'', numbers (cp_limits c)), (''usage'', numbers (cp_usage c)),
      (''minimum_committed'', numbers (minimum_limits_for_usage (cp_usage c))),
      (''pricing'', JObj (map (\<lambda>kv. (fst kv, JStr (snd kv))) (cp_pricing c))), (''currency'', JStr (cp_currency c)),
      (''pricing_version'', JStr (cp_pricing_version c)),
      (''cost_cap_configured'', JBool (cost_capped (cp_limits c)))])"

end
