(* ===== verification/Evidence_Prices.thy ===== *)
theory Evidence_Prices
  imports Evidence_Budget Content_Binding
begin

text \<open>
  Decimal arithmetic keeps numbers that are not negative, and the prices a campaign stores are read back
  as such, so the cost of tokens is never negative.
\<close>

section \<open>Costs are not negative\<close>

fun dec_nonneg :: "decimal \<Rightarrow> bool" where
  "dec_nonneg (Fin n c e) \<longleftrightarrow> 0 \<le> c \<and> (n \<longrightarrow> c = 0)"
| "dec_nonneg (Infinite n) \<longleftrightarrow> \<not> n"
| "dec_nonneg (Not_Num n s p) \<longleftrightarrow> True"

lemma dec_nonneg_fix_nan [simp]: "dec_nonneg (fix_nan n p)"
  by (simp add: fix_nan_def)

lemma round_half_even_nonneg: "0 \<le> c \<Longrightarrow> 0 \<le> round_half_even c k"
  by (simp add: round_half_even_def Let_def pos_imp_zdiv_nonneg_iff add_increasing2)

lemma dec_fix_nonneg:
  assumes "dec_fix n c e = Inr x" and "0 \<le> c" and "n \<longrightarrow> c = 0"
  shows "dec_nonneg x"
proof (cases "c = 0")
  case True
  with assms(1) have "x = Fin n 0 (max e_tiny (min e e_max))" by (simp add: dec_fix_def)
  then show ?thesis by simp
next
  case False
  with assms show ?thesis
    by (auto simp: dec_fix_def Let_def round_half_even_nonneg pos_imp_zdiv_nonneg_iff split: if_splits prod.splits)
qed

lemma nan_result_nonneg: "nan_result x y = Some (Inr z) \<Longrightarrow> dec_nonneg z"
  by (auto simp: nan_result_def split: decimal.splits bool.splits)

lemma dec_mul_nonneg:
  assumes "dec_mul x y = Inr z" and "dec_nonneg x" and "dec_nonneg y"
  shows "dec_nonneg z"
proof (cases "nan_result x y")
  case None
  with assms(1) have "mul_numbers x y = Inr z" by (simp add: dec_mul_def)
  then show ?thesis using assms(2,3)
    by (cases x; cases y) (auto split: if_splits intro: dec_fix_nonneg)
qed (use assms(1) nan_result_nonneg in \<open>simp add: dec_mul_def\<close>)

lemma scaled_nonneg: "0 \<le> c \<Longrightarrow> n \<longrightarrow> c = 0 \<Longrightarrow> 0 \<le> scaled n c e u"
  by (auto simp: scaled_def signed_coeff_def)

lemma dec_add_nonneg:
  assumes "dec_add x y = Inr z" and "dec_nonneg x" and "dec_nonneg y"
  shows "dec_nonneg z"
proof (cases "nan_result x y")
  case None
  with assms(1) have a: "add_numbers x y = Inr z" by (simp add: dec_add_def)
  show ?thesis
  proof (cases "\<exists>n c e m d f. x = Fin n c e \<and> y = Fin m d f")
    case True
    then obtain n c e m d f where f: "x = Fin n c e" "y = Fin m d f" by blast
    have "0 \<le> scaled n c e (min e f)" "0 \<le> scaled m d f (min e f)"
      using assms(2,3) f by (auto intro: scaled_nonneg)
    with a f show ?thesis by (auto simp: Let_def intro!: dec_fix_nonneg)
  next
    case False
    with a assms(2,3) show ?thesis by (cases x; cases y) (auto split: if_splits)
  qed
qed (use assms(1) nan_result_nonneg in \<open>simp add: dec_add_def\<close>)

lemma drop_zeros_nonneg: "0 \<le> c \<Longrightarrow> 0 \<le> fst (drop_zeros k c e)"
  by (induction k arbitrary: c e) (simp_all add: pos_imp_zdiv_nonneg_iff)

lemma digit_count_pos: "0 < digit_count n"
  by (simp add: digit_count_def dec_digits.simps [of n])

lemma div_coeff_nonneg: "0 \<le> c \<Longrightarrow> 0 < n \<Longrightarrow> 0 \<le> fst (div_coeff c e n)"
  using drop_zeros_nonneg
  by (auto simp: div_coeff_def Let_def pos_imp_zdiv_nonneg_iff add_increasing2 split: if_splits)

lemma dec_div_int_nonneg:
  assumes "dec_div_int x n = Inr z" and "dec_nonneg x" and "0 < n"
  shows "dec_nonneg z"
proof (cases x)
  case (Fin m c e)
  then show ?thesis
    using assms div_coeff_nonneg [of c n e]
    by (cases "div_coeff c e n") (auto simp: dec_div_int_def split: if_splits intro: dec_fix_nonneg)
qed (use assms in \<open>auto simp: dec_div_int_def split: bool.splits\<close>)

lemma dec_ceiling_nonneg: "dec_ceiling x = Inr n \<Longrightarrow> dec_nonneg x \<Longrightarrow> 0 \<le> n"
  by (cases x) (auto simp: dec_ceiling_def signed_coeff_def Let_def pos_imp_zdiv_nonneg_iff add_nonneg_pos
    split: if_splits)

lemma signalR_eq_Inr [res_simps]: "signalR r = Inr x \<longleftrightarrow> r = Inr x"
  by (cases r) auto

lemma tokens_cost_nonneg:
  assumes "tokens_cost n r = Inr x" and "0 \<le> n" and "dec_nonneg r"
  shows "dec_nonneg x"
proof -
  from assms(1) obtain y where "dec_mul (Fin (n < 0) \<bar>n\<bar> 0) r = Inr y" "dec_div_int y million = Inr x"
    by (auto simp: tokens_cost_def res_simps)
  with assms(2,3) show ?thesis
    by (metis dec_div_int_nonneg dec_mul_nonneg dec_nonneg.simps(1) million_def abs_ge_zero linorder_not_less
        zero_less_numeral)
qed

text \<open>The prices of a campaign are readable and not negative.\<close>

definition prices_ok :: "campaign \<Rightarrow> bool" where
  "prices_ok c \<longleftrightarrow> (\<forall>k x. rate c k = Inr x \<longrightarrow> cost_capped (cp_limits c) \<longrightarrow> dec_nonneg x)"

lemma max_cost_nonneg:
  assumes "max_cost_for_tokens c input output = Inr (Some n)" and "prices_ok c" and "0 \<le> input" and "0 \<le> output"
  shows "0 \<le> n"
proof -
  from assms(1) obtain ri ro x y units z where
    r: "cost_capped (cp_limits c)" "rate c ''input_per_million'' = Inr ri" "rate c ''output_per_million'' = Inr ro" and
    t: "tokens_cost input ri = Inr x" "tokens_cost output ro = Inr y" and
    s: "dec_add x y = Inr units" "dec_mul units (Fin False million 0) = Inr z" "dec_ceiling z = Inr n"
    by (auto simp: max_cost_for_tokens_def res_simps split: if_splits)
  have "dec_nonneg ri" "dec_nonneg ro" using assms(2) r by (auto simp: prices_ok_def)
  with t assms(3,4) have "dec_nonneg x" "dec_nonneg y" by (auto intro: tokens_cost_nonneg)
  with s(1) have "dec_nonneg units" by (rule dec_add_nonneg)
  with s(2) have "dec_nonneg z" by (rule dec_mul_nonneg) (simp add: million_def)
  with s(3) show ?thesis by (rule dec_ceiling_nonneg)
qed

section \<open>Stored prices\<close>

lemma digit_value_nonneg: "is_digit c \<Longrightarrow> 0 \<le> digit_value c"
  by (auto simp: is_digit_def dec_value_def digit_value_def Let_def split: if_splits)

lemma decimal_digits_snoc [simp]: "decimal_digits (s @ [c]) = 10 * decimal_digits s + digit_value c"
  by (simp add: decimal_digits_def)

lemma decimal_digits_Nil [simp]: "decimal_digits [] = 0"
  by (simp add: decimal_digits_def)

lemma decimal_digits_nonneg: "\<forall>c\<in>set s. is_digit c \<Longrightarrow> 0 \<le> decimal_digits s"
  by (induction s rule: rev_induct) (simp_all add: digit_value_nonneg)

lemma decimal_digits_zeros: "\<forall>c\<in>set s. c = CHR ''0'' \<Longrightarrow> decimal_digits s = 0"
  by (induction s rule: rev_induct) (simp_all add: digit_value_def)

lemma takeWhile_weaker: "(\<And>x. P x \<Longrightarrow> Q x) \<Longrightarrow> set (takeWhile P xs) \<subseteq> set (takeWhile Q xs)"
  by (induction xs) auto

text \<open>The digits before the exponent give the coefficient.\<close>

lemma number_of_digits:
  assumes "number_of s = Some (c, e)"
  shows "\<exists>ds. c = decimal_digits ds \<and> (\<forall>d\<in>set ds. is_digit d) \<and>
    set ds \<subseteq> set (takeWhile (\<lambda>c. c \<noteq> CHR ''e'') s)"
proof -
  have e: "\<not> is_digit CHR ''e''" "\<not> is_digit CHR ''.''" by code_simp+
  define whole where "whole = takeWhile is_digit s"
  define rest where "rest = dropWhile is_digit s"
  define frac where "frac = (case rest of [] \<Rightarrow> [] | c # cs \<Rightarrow> if c = CHR ''.'' then takeWhile is_digit cs else [])"
  have s: "s = whole @ rest" by (simp add: whole_def rest_def)
  have w: "\<forall>d\<in>set whole. is_digit d" by (auto simp: whole_def dest: set_takeWhileD)
  have f: "\<forall>d\<in>set frac. is_digit d" by (auto simp: frac_def dest: set_takeWhileD split: list.splits)
  have c: "c = decimal_digits (whole @ frac)"
    using assms by (auto simp: number_of_def Let_def whole_def [symmetric] rest_def [symmetric] frac_def
      split: list.splits if_splits)
  have "set (takeWhile (\<lambda>c. c \<noteq> CHR ''e'') s) = set whole \<union> set (takeWhile (\<lambda>c. c \<noteq> CHR ''e'') rest)"
    using w e(1) unfolding s by (subst takeWhile_append2) auto
  moreover have "set frac \<subseteq> set (takeWhile (\<lambda>c. c \<noteq> CHR ''e'') rest)"
  proof (cases "\<exists>cs. rest = CHR ''.'' # cs")
    case True
    then obtain cs where r: "rest = CHR ''.'' # cs" by blast
    then have "set frac \<subseteq> set (takeWhile (\<lambda>c. c \<noteq> CHR ''e'') cs)"
      using takeWhile_weaker [of is_digit "\<lambda>c. c \<noteq> CHR ''e''" cs] e(1) by (auto simp: frac_def)
    then show ?thesis by (auto simp: r)
  next
    case False
    then show ?thesis by (auto simp: frac_def split: list.splits)
  qed
  ultimately have "set (whole @ frac) \<subseteq> set (takeWhile (\<lambda>c. c \<noteq> CHR ''e'') s)" by auto
  with c w f show ?thesis by (intro exI [of _ "whole @ frac"]) auto
qed

text \<open>A number is read as not negative when its text has no minus, or only zeros before its exponent.\<close>

lemma parse_decimal_nonneg:
  assumes "parse_decimal s = Some x" and "split_sign (filter (\<lambda>c. c \<noteq> CHR ''_'') (py_strip s)) = (neg, body)"
    and "neg \<longrightarrow> set (takeWhile (\<lambda>c. c \<noteq> CHR ''e'') (py_casefold body)) \<subseteq> {CHR ''0'', CHR ''.''} \<and>
      py_casefold body \<noteq> ''inf'' \<and> py_casefold body \<noteq> ''infinity''"
  shows "dec_nonneg x"
proof (cases x)
  case (Fin n c e)
  with assms(1,2) have n: "n = neg" and num: "\<exists>e. number_of (py_casefold body) = Some (c, e)"
    by (auto simp: parse_decimal_def Let_def split: if_splits option.splits)
  from num number_of_digits obtain ds where ds: "c = decimal_digits ds" "\<forall>d\<in>set ds. is_digit d"
    "set ds \<subseteq> set (takeWhile (\<lambda>c. c \<noteq> CHR ''e'') (py_casefold body))" by blast
  have "c = 0" if "neg"
  proof -
    have "\<not> is_digit CHR ''.''" by code_simp
    with that ds(2,3) assms(3) have "\<forall>d\<in>set ds. d = CHR ''0''" by blast
    with ds(1) show ?thesis by (simp add: decimal_digits_zeros)
  qed
  with ds(1,2) n show ?thesis by (simp add: Fin decimal_digits_nonneg)
next
  case (Infinite n)
  with assms show ?thesis
    by (auto simp: parse_decimal_def Let_def split: if_splits option.splits)
qed simp

text \<open>The text of a number holds neither blanks nor underscores.\<close>

definition number_char :: "char \<Rightarrow> bool" where
  "number_char c \<longleftrightarrow> is_digit c \<or> c \<in> {CHR ''.'', CHR ''E'', CHR ''+'', CHR ''-''}"

lemma number_char_plain: "number_char c \<Longrightarrow> \<not> py_space c \<and> c \<noteq> CHR ''_''"
  by (auto simp: number_char_def is_digit_def dec_value_def py_space_def Let_def split: if_splits)

lemma number_chars_read:
  assumes "\<forall>c\<in>set s. number_char c"
  shows "filter (\<lambda>c. c \<noteq> CHR ''_'') (py_strip s) = s"
proof -
  have "py_strip s = s" using assms by (intro py_strip_id) (auto dest: number_char_plain)
  moreover have "filter (\<lambda>c. c \<noteq> CHR ''_'') s = s"
    using assms by (intro filter_True) (auto dest: number_char_plain)
  ultimately show ?thesis by simp
qed

lemma digit_is_digit: "digit c \<Longrightarrow> is_digit c"
  by (auto simp: digit_def is_digit_def dec_value_def Let_def)

lemma dec_digits_chars: "0 \<le> n \<Longrightarrow> dec_digits n \<noteq> [] \<and> (\<forall>c\<in>set (dec_digits n). is_digit c)"
  using dec_digits_value [of n] digit_is_digit by blast

lemma int_text_number: "\<forall>c\<in>set (int_text i). number_char c"
  using int_text_chars [of i] by (auto simp: number_char_def intro: digit_is_digit)

lemma pointed_chars: "set (pointed ds n) \<subseteq> set ds \<union> {CHR ''0'', CHR ''.''}"
  by (auto simp: pointed_def dest: in_set_takeD in_set_dropD)

lemma pointed_hd:
  assumes "ds \<noteq> []" "\<forall>c\<in>set ds. is_digit c"
  shows "pointed ds n \<noteq> [] \<and> is_digit (hd (pointed ds n))"
proof -
  have "is_digit CHR ''0''" by code_simp
  moreover have "is_digit (hd ds)" using assms by simp
  moreover have "take (nat n) ds \<noteq> []" "hd (take (nat n) ds) = hd ds" if "0 < n"
    using assms(1) that by (cases ds; simp add: take_Cons')+
  ultimately show ?thesis using assms(1) by (auto simp: pointed_def hd_append)
qed

text \<open>The unsigned text of a finite number, in two parts: its digits and its exponent.\<close>

definition sci_digits :: "int \<Rightarrow> int \<Rightarrow> string" where
  "sci_digits c e = (let left = e + digit_count c in
     if e \<le> 0 \<and> left > -6 then pointed (coeff_text c) left else pointed (coeff_text c) 1)"

definition sci_exponent :: "int \<Rightarrow> int \<Rightarrow> string" where
  "sci_exponent c e = (let left = e + digit_count c in
     if e \<le> 0 \<and> left > -6 then [] else CHR ''E'' # (if left - 1 \<ge> 0 then ''+'' else []) @ int_text (left - 1))"

lemma sci_text_parts: "sci_text (Fin n c e) = sign_text n @ sci_digits c e @ sci_exponent c e"
  by (simp add: sci_text_def sci_digits_def sci_exponent_def Let_def)

lemma sci_digits_chars:
  assumes "0 \<le> c"
  shows "set (sci_digits c e) \<subseteq> set (dec_digits c) \<union> {CHR ''0'', CHR ''.''}"
    "sci_digits c e \<noteq> []" "is_digit (hd (sci_digits c e))"
  using pointed_chars [of "dec_digits c"] pointed_hd [of "dec_digits c"] dec_digits_chars [OF assms]
  by (auto simp: sci_digits_def coeff_text_def Let_def)

lemma sci_parts_number:
  assumes "0 \<le> c" shows "\<forall>x\<in>set (sci_digits c e @ sci_exponent c e). number_char x"
proof -
  have z: "number_char CHR ''0''" by code_simp
  have "\<forall>x\<in>set (sci_digits c e). number_char x"
    using sci_digits_chars(1) [OF assms, of e] dec_digits_chars [OF assms] z by (auto simp: number_char_def)
  moreover have "\<forall>x\<in>set (sci_exponent c e). number_char x"
    using int_text_number by (auto simp: sci_exponent_def Let_def number_char_def)
  ultimately show ?thesis by auto
qed

lemma takeWhile_stop: "\<not> P x \<Longrightarrow> set (takeWhile P (xs @ x # ys)) \<subseteq> set xs"
  by (metis append_Nil2 set_takeWhileD subsetI takeWhile.simps(2) takeWhile_append)

lemma zero_casefold:
  "set (takeWhile (\<lambda>c. c \<noteq> CHR ''e'') (py_casefold (sci_digits 0 e @ sci_exponent 0 e))) \<subseteq> {CHR ''0'', CHR ''.''} \<and>
   py_casefold (sci_digits 0 e @ sci_exponent 0 e) \<noteq> ''inf'' \<and>
   py_casefold (sci_digits 0 e @ sci_exponent 0 e) \<noteq> ''infinity''"
proof -
  have fold: "py_fold_char CHR ''0'' = ''0''" "py_fold_char CHR ''.'' = ''.''" "py_fold_char CHR ''E'' = ''e''"
    by code_simp+
  have "dec_digits 0 = ''0''" by code_simp
  then have digits: "set (sci_digits 0 e) \<subseteq> {CHR ''0'', CHR ''.''}" "sci_digits 0 e \<noteq> []"
    using sci_digits_chars [of 0 e] by auto
  have same: "set w \<subseteq> {CHR ''0'', CHR ''.''} \<Longrightarrow> py_casefold w = w" for w
    by (induction w) (auto simp: py_casefold_def fold)
  have ex: "py_casefold (sci_exponent 0 e) = [] \<or> (\<exists>t. py_casefold (sci_exponent 0 e) = CHR ''e'' # t)"
    by (simp add: sci_exponent_def Let_def py_casefold_def fold)
  have all: "py_casefold (sci_digits 0 e @ sci_exponent 0 e) = sci_digits 0 e @ py_casefold (sci_exponent 0 e)"
    using same [OF digits(1)] by (simp add: py_casefold_def)
  have "hd (sci_digits 0 e) \<in> {CHR ''0'', CHR ''.''}" using digits by (meson hd_in_set subsetD)
  then have "hd (py_casefold (sci_digits 0 e @ sci_exponent 0 e)) \<noteq> CHR ''i''"
    using digits(2) by (auto simp: all)
  moreover have "set (takeWhile (\<lambda>c. c \<noteq> CHR ''e'') (sci_digits 0 e @ py_casefold (sci_exponent 0 e))) \<subseteq>
      {CHR ''0'', CHR ''.''}"
    using ex
  proof
    assume "py_casefold (sci_exponent 0 e) = []"
    then show ?thesis using digits(1) set_takeWhileD by fastforce
  next
    assume "\<exists>t. py_casefold (sci_exponent 0 e) = CHR ''e'' # t"
    then obtain t where "py_casefold (sci_exponent 0 e) = CHR ''e'' # t" by blast
    then have "set (takeWhile (\<lambda>c. c \<noteq> CHR ''e'') (sci_digits 0 e @ py_casefold (sci_exponent 0 e))) \<subseteq>
        set (sci_digits 0 e)"
      by (simp add: takeWhile_stop)
    then show ?thesis using digits(1) by blast
  qed
  ultimately show ?thesis unfolding all by (metis list.sel(1))
qed

lemma parse_sci_nonneg:
  assumes "parse_decimal (sci_text x) = Some y" and "dec_nonneg x" and "\<And>n s p. x \<noteq> Not_Num n s p"
  shows "dec_nonneg y"
proof (cases x)
  case (Fin n c e)
  let ?w = "sci_digits c e @ sci_exponent c e"
  have c: "0 \<le> c" using assms(2) Fin by simp
  have hd: "is_digit (hd ?w)" "?w \<noteq> []" using sci_digits_chars [OF c, of e] by (auto simp: hd_append)
  then have sign: "split_sign ?w = (False, ?w)"
    by (cases ?w) (auto simp: split_sign_def is_digit_def dec_value_def)
  have num: "\<forall>x\<in>set (sci_text x). number_char x"
    using sci_parts_number [OF c, of e] by (auto simp: Fin sci_text_parts sign_text_def number_char_def)
  show ?thesis
  proof (cases n)
    case False
    then have "split_sign (filter (\<lambda>c. c \<noteq> CHR ''_'') (py_strip (sci_text x))) = (False, ?w)"
      using number_chars_read [OF num] sign by (simp add: Fin sci_text_parts sign_text_def)
    from parse_decimal_nonneg [OF assms(1) this] show ?thesis by simp
  next
    case True
    then have "c = 0" using assms(2) Fin by simp
    have "split_sign (filter (\<lambda>c. c \<noteq> CHR ''_'') (py_strip (sci_text x))) = (True, ?w)"
      using number_chars_read [OF num] True by (simp add: Fin sci_text_parts sign_text_def split_sign_def)
    moreover have "set (takeWhile (\<lambda>c. c \<noteq> CHR ''e'') (py_casefold ?w)) \<subseteq> {CHR ''0'', CHR ''.''} \<and>
      py_casefold ?w \<noteq> ''inf'' \<and> py_casefold ?w \<noteq> ''infinity''"
      using \<open>c = 0\<close> zero_casefold by blast
    ultimately show ?thesis using parse_decimal_nonneg [OF assms(1)] by blast
  qed
next
  case (Infinite n)
  then have "x = Infinite False" using assms(2) by simp
  moreover have "parse_decimal (sci_text (Infinite False)) = Some (Infinite False)" by code_simp
  ultimately have "y = Infinite False" using assms(1) by simp
  then show ?thesis by simp
next
  case (Not_Num n s p)
  with assms(3) show ?thesis by blast
qed

lemma parse_coeff_nonneg:
  assumes "parse_decimal s = Some (Fin n c e)" shows "0 \<le> c"
proof -
  from assms have "\<exists>low e. number_of low = Some (c, e)"
    by (auto simp: parse_decimal_def Let_def split: prod.splits if_splits option.splits)
  with number_of_digits decimal_digits_nonneg show ?thesis by blast
qed

text \<open>A price that was accepted is read back as a number that is not negative.\<close>

lemma price_nonneg:
  assumes "price pricing k = Inr (k', t)" and "parse_decimal t = Some y"
  shows "dec_nonneg y"
proof -
  define v where "v = (case parse_decimal (py_str (jget pricing k)) of None \<Rightarrow> Fin True 1 0 | Some x \<Rightarrow> x)"
  from assms(1) have v: "dec_less v (Fin False 0 0) = Inr False" "t = sci_text v"
    by (auto simp: price_def Let_def v_def [symmetric] res_simps)
  have coeff: "0 \<le> c" if "v = Fin n c e" for n c e
    using that by (auto simp: v_def dest: parse_coeff_nonneg split: option.splits)
  have "dec_nonneg v"
  proof (cases v)
    case (Fin n c e)
    with v(1) coeff [OF Fin] show ?thesis
      by (auto simp: scaled_def signed_coeff_def Let_def mult_less_0_iff)
  qed (use v(1) in auto)
  moreover have "v \<noteq> Not_Num n s p" for n s p using v(1) by auto
  ultimately show ?thesis using parse_sci_nonneg assms(2) v(2) by blast
qed

lemma normalized_prices:
  assumes "normalize_pricing pricing currency version (cost_capped (cp_limits c)) = Inr (cp_pricing c)"
  shows "prices_ok c"
proof -
  have "dec_nonneg x" if capped: "cost_capped (cp_limits c)" and r: "rate c k = Inr x" for k x
  proof -
    from assms capped have m: "mapR (price pricing) [''input_per_million'', ''output_per_million''] = Inr (cp_pricing c)"
      by (auto simp: normalize_pricing_def res_simps)
    from r obtain t where t: "map_of (cp_pricing c) k = Some t" "parse_decimal t = Some x"
      by (auto simp: rate_def bind_eq_Some_conv split: option.splits)
    then have "(k, t) \<in> set (cp_pricing c)" by (simp add: map_of_SomeD)
    from mapR_Inr_set [OF m this] price_nonneg t(2) show ?thesis by blast
  qed
  then show ?thesis by (simp add: prices_ok_def)
qed

end
