(* ===== verification/Evidence_Ledger.thy ===== *)
theory Evidence_Ledger
  imports Evidence_Prices
begin

text \<open>
  The ledger of a campaign: its counters are the sums over its reservations and stay within its
  limits, whatever the order of authorisations, reservations, settlements and lost attempts.
\<close>

section \<open>The ledger\<close>

definition amount :: "int option \<Rightarrow> int" where
  "amount n = (case n of None \<Rightarrow> 0 | Some i \<Rightarrow> i)"

lemma amount_simps [simp]: "amount None = 0" "amount (Some i) = i"
  by (simp_all add: amount_def)

definition is_held :: "reservation \<Rightarrow> bool" where
  "is_held v \<longleftrightarrow> pv_status v \<noteq> Reserved_Settled"

text \<open>What the reservations of a kind add up to.\<close>

definition total_of :: "(reservation \<Rightarrow> bool) \<Rightarrow> (reservation \<Rightarrow> int) \<Rightarrow> campaign \<Rightarrow> int" where
  "total_of P f c = (\<Sum>v\<leftarrow>filter P (cp_reservations c). f v)"

abbreviation held_total :: "(reservation \<Rightarrow> int) \<Rightarrow> campaign \<Rightarrow> int" where
  "held_total \<equiv> total_of is_held"

abbreviation settled_total :: "(reservation \<Rightarrow> int) \<Rightarrow> campaign \<Rightarrow> int" where
  "settled_total \<equiv> total_of (\<lambda>v. \<not> is_held v)"

definition reservation_ok :: "reservation \<Rightarrow> bool" where
  "reservation_ok v \<longleftrightarrow> 0 \<le> pv_input v \<and> 0 \<le> pv_output v \<and> 0 \<le> amount (pv_cost v)"

definition ledger_counts :: "campaign \<Rightarrow> bool" where
  "ledger_counts c \<longleftrightarrow> (let u = cp_usage c in
     dget u ''provider_calls'' = total_of (\<lambda>v. True) (\<lambda>v. 1) c \<and>
     dget u ''uncertain_attempts'' = total_of (\<lambda>v. pv_status v = Reserved_Uncertain) (\<lambda>v. 1) c \<and>
     dget u ''reserved_input_tokens'' = held_total pv_input c \<and>
     dget u ''reserved_output_tokens'' = held_total pv_output c \<and>
     dget u ''reserved_cost_microunits'' = held_total (\<lambda>v. amount (pv_cost v)) c \<and>
     dget u ''input_tokens'' = settled_total (\<lambda>v. amount (pv_actual_input v)) c \<and>
     dget u ''output_tokens'' = settled_total (\<lambda>v. amount (pv_actual_output v)) c \<and>
     dget u ''cost_microunits'' = settled_total (\<lambda>v. amount (pv_actual_cost v)) c)"

definition within_limits :: "campaign \<Rightarrow> bool" where
  "within_limits c \<longleftrightarrow> (let u = cp_usage c; limits = cp_limits c in
     dget u ''provider_calls'' \<le> dget limits ''max_provider_calls'' \<and>
     dget u ''input_tokens'' \<le> dget limits ''max_input_tokens'' \<and>
     dget u ''output_tokens'' \<le> dget limits ''max_output_tokens'' \<and>
     (cost_capped limits \<longrightarrow> dget u ''cost_microunits'' \<le> dget limits cost_limit))"

definition ledger_ok :: "campaign \<Rightarrow> bool" where
  "ledger_ok c \<longleftrightarrow> ledger_counts c \<and> within_limits c \<and> prices_ok c \<and> distinct (map pv_id (cp_reservations c)) \<and>
     (\<forall>v\<in>set (cp_reservations c). reservation_ok v)"

definition campaigns_ok :: "env \<Rightarrow> db \<Rightarrow> bool" where
  "campaigns_ok env d \<longleftrightarrow> (\<forall>c\<in>set (db_campaigns d). ledger_ok c \<and>
     (\<forall>v\<in>set (cp_reservations c). \<exists>n<db_next d. pv_id v = e_uuid env n))"

section \<open>Sums over reservations\<close>

lemma total_of_snoc [simp]:
  "total_of P f (c\<lparr>cp_reservations := cp_reservations c @ [v]\<rparr>) = total_of P f c + (if P v then f v else 0)"
  by (simp add: total_of_def)

lemma total_of_usage [simp]: "total_of P f (c\<lparr>cp_usage := u\<rparr>) = total_of P f c"
  by (simp add: total_of_def)

lemma total_nonneg: "(\<And>v. v \<in> set (cp_reservations c) \<Longrightarrow> P v \<Longrightarrow> 0 \<le> f v) \<Longrightarrow> 0 \<le> total_of P f c"
  unfolding total_of_def by (rule sum_list_nonneg) auto

lemma sum_member:
  assumes "v \<in> set xs" "P v" "\<And>x. x \<in> set xs \<Longrightarrow> P x \<Longrightarrow> (0 :: int) \<le> f x"
  shows "f v \<le> (\<Sum>x\<leftarrow>filter P xs. f x)"
  using assms
proof (induction xs)
  case (Cons x xs)
  have "0 \<le> (\<Sum>x\<leftarrow>filter P xs. f x)" by (rule sum_list_nonneg) (use Cons.prems(3) in auto)
  with Cons show ?case by (cases "v = x") fastforce+
qed simp

lemma total_member:
  "v \<in> set (cp_reservations c) \<Longrightarrow> P v \<Longrightarrow> (\<And>x. x \<in> set (cp_reservations c) \<Longrightarrow> P x \<Longrightarrow> 0 \<le> f x) \<Longrightarrow>
   f v \<le> total_of P f c"
  unfolding total_of_def by (rule sum_member)

lemma sum_replace:
  assumes "distinct (map pv_id xs)" and "v \<in> set xs" and "pv_id v' = pv_id v"
  shows "(\<Sum>x\<leftarrow>filter P (update_where (\<lambda>x. pv_id x = pv_id v) (\<lambda>_. v') xs). f x) =
    (\<Sum>x\<leftarrow>filter P xs. f x) - (if P v then f v else 0) + (if P v' then f v' else (0 :: int))"
  using assms
proof (induction xs)
  case (Cons x xs)
  show ?case
  proof (cases "v = x")
    case True
    then have "pv_id x \<notin> pv_id ` set xs" using Cons.prems(1) by simp
    then have "update_where (\<lambda>y. pv_id y = pv_id x) (\<lambda>_. v') xs = xs"
      unfolding update_where_def by (intro map_idI) (metis imageI)
    with True show ?thesis by simp
  next
    case False
    with Cons.prems have "v \<in> set xs" "pv_id x \<noteq> pv_id v" by auto
    with Cons show ?thesis by simp
  qed
qed simp

lemma total_replace:
  assumes "distinct (map pv_id (cp_reservations c))" and "v \<in> set (cp_reservations c)" and "pv_id v' = pv_id v"
  shows "total_of P f (save_reservation c v') =
    total_of P f c - (if P v then f v else 0) + (if P v' then f v' else 0)"
  using sum_replace [OF assms, where P = P and f = f] assms(3) by (simp add: total_of_def save_reservation_def)

lemma ids_save_reservation: "map pv_id (cp_reservations (save_reservation c v)) = map pv_id (cp_reservations c)"
  by (simp add: save_reservation_def map_update_where)

lemma in_save_reservation:
  "x \<in> set (cp_reservations (save_reservation c v)) \<Longrightarrow> x = v \<or> x \<in> set (cp_reservations c)"
  by (auto simp: save_reservation_def in_set_update_where split: if_splits)

lemma save_reservation_simps [simp]:
  "cp_usage (save_reservation c v) = cp_usage c" "cp_limits (save_reservation c v) = cp_limits c"
  "cp_pricing (save_reservation c v) = cp_pricing c" "cp_id (save_reservation c v) = cp_id c"
  by (simp_all add: save_reservation_def)

lemma dget_add_usage [simp]: "dget (add_usage u k n) k' = (if k' = k then dget u k + n else dget u k')"
  by (simp add: add_usage_def)

lemma prices_ok_cong: "cp_pricing c' = cp_pricing c \<Longrightarrow> cp_limits c' = cp_limits c \<Longrightarrow> prices_ok c' \<longleftrightarrow> prices_ok c"
  by (simp add: prices_ok_def rate_def)

section \<open>Each operation keeps the ledger\<close>

lemma normalized_limits_required:
  assumes "normalize_limits raw = Inr limits" shows "\<forall>k\<in>set required_limits. 0 < dget limits k"
  using assms
  by (auto simp: normalize_limits_def required_limits_def cost_limit_def positive_limit_def res_simps list_all2_Cons1
    split: if_splits json.splits)

lemma normalized_limits_cost:
  assumes "normalize_limits raw = Inr limits" and "cost_capped limits" shows "0 < dget limits cost_limit"
  using assms
  by (auto simp: normalize_limits_def required_limits_def cost_limit_def cost_capped_def positive_limit_def res_simps
    list_all2_Cons1 split: if_splits json.splits)

lemma initial_usage_zero: "dget initial_campaign_usage k = 0"
  by (simp add: initial_campaign_usage_def campaign_usage_keys_def)

lemma revised_ledger [simp]: "ledger_ok (revised c actor reason) \<longleftrightarrow> ledger_ok c"
  by (simp add: revised_def ledger_ok_def ledger_counts_def within_limits_def prices_ok_def rate_def total_of_def)

lemma revised_reservations [simp]:
  "cp_reservations (revised c actor reason) = cp_reservations c" "cp_id (revised c actor reason) = cp_id c"
  by (simp_all add: revised_def)

lemma reserve_ledger:
  assumes ok: "ledger_ok c" and cost: "max_cost_for_tokens c input output = Inr cost"
    and room: "\<not> would_exceed c input output cost" and pos: "0 < input" "0 < output"
    and v: "pv_status v = Reserved_Open" "pv_input v = input" "pv_output v = output" "pv_cost v = cost"
      "pv_id v \<notin> pv_id ` set (cp_reservations c)"
  shows "ledger_ok (c\<lparr>cp_usage := reserved_usage (cp_usage c) input output cost,
    cp_reservations := cp_reservations c @ [v]\<rparr>)"
proof -
  let ?c = "c\<lparr>cp_usage := reserved_usage (cp_usage c) input output cost, cp_reservations := cp_reservations c @ [v]\<rparr>"
  have held: "is_held v" using v(1) by (simp add: is_held_def)
  have total: "total_of P f ?c = total_of P f c + (if P v then f v else 0)" for P f
    by (simp add: total_of_def)
  have "ledger_counts ?c"
    using ok held v unfolding ledger_ok_def ledger_counts_def Let_def total
    by (cases cost) (simp_all add: reserved_usage_def Let_def)
  moreover have "within_limits ?c"
    using ok room by (cases cost) (auto simp: ledger_ok_def within_limits_def would_exceed_def reserved_usage_def Let_def)
  moreover have "prices_ok ?c" using ok by (simp add: ledger_ok_def prices_ok_def rate_def)
  moreover have "reservation_ok v"
    using max_cost_nonneg cost ok pos v
    by (cases cost) (auto simp: reservation_ok_def ledger_ok_def)
  ultimately show ?thesis using ok v(5) by (auto simp: ledger_ok_def)
qed

lemma uncertain_ledger:
  assumes ok: "ledger_ok c" and v: "v \<in> set (cp_reservations c)" "pv_status v = Reserved_Open"
  shows "ledger_ok ((save_reservation c (v\<lparr>pv_status := Reserved_Uncertain, pv_reason := reason\<rparr>))
    \<lparr>cp_usage := add_usage (cp_usage c) ''uncertain_attempts'' 1\<rparr>)"
proof -
  let ?v = "v\<lparr>pv_status := Reserved_Uncertain, pv_reason := reason\<rparr>"
  let ?c = "(save_reservation c ?v)\<lparr>cp_usage := add_usage (cp_usage c) ''uncertain_attempts'' 1\<rparr>"
  have d: "distinct (map pv_id (cp_reservations c))" using ok by (simp add: ledger_ok_def)
  have total: "total_of P f ?c = total_of P f c - (if P v then f v else 0) + (if P ?v then f ?v else 0)" for P f
    using total_replace [OF d v(1), of ?v, where P = P and f = f] by simp
  have "ledger_counts ?c"
    using ok v(2) unfolding ledger_ok_def ledger_counts_def Let_def total by (simp add: is_held_def)
  moreover have "within_limits ?c" "prices_ok ?c"
    using ok by (simp_all add: ledger_ok_def within_limits_def prices_ok_def rate_def Let_def)
  moreover have "\<forall>x\<in>set (cp_reservations ?c). reservation_ok x"
    using ok v(1) by (auto simp: ledger_ok_def reservation_ok_def dest!: in_save_reservation)
  ultimately show ?thesis using d by (simp add: ledger_ok_def ids_save_reservation)
qed

lemma release_simps:
  "dget (release u v) k =
     (if k = ''reserved_input_tokens'' then max 0 (dget u k - pv_input v)
      else if k = ''reserved_output_tokens'' then max 0 (dget u k - pv_output v)
      else if k = ''reserved_cost_microunits'' \<and> pv_cost v \<noteq> None then max 0 (dget u k - amount (pv_cost v))
      else dget u k)"
  by (simp add: release_def Let_def split: option.split)

lemma settled_usageD:
  assumes "settled_usage c v inp out cost = Inr u"
  shows "\<And>k. dget u k = (if k = ''input_tokens'' then dget (cp_usage c) k + inp
      else if k = ''output_tokens'' then dget (cp_usage c) k + out
      else if k = ''cost_microunits'' then dget (cp_usage c) k + amount cost
      else dget (release (cp_usage c) v) k)"
    and "dget (cp_usage c) ''input_tokens'' + inp \<le> dget (cp_limits c) ''max_input_tokens''"
    and "dget (cp_usage c) ''output_tokens'' + out \<le> dget (cp_limits c) ''max_output_tokens''"
    and "cost_capped (cp_limits c) \<Longrightarrow> dget (cp_usage c) ''cost_microunits'' + amount cost \<le> dget (cp_limits c) cost_limit"
proof -
  have r: "dget (release (cp_usage c) v) k = dget (cp_usage c) k"
    if "k \<in> {''input_tokens'', ''output_tokens'', ''cost_microunits''}" for k
    using that by (auto simp: release_simps)
  let ?base = "add_usage (add_usage (release (cp_usage c) v) ''input_tokens'' inp) ''output_tokens'' out"
  from assms have "settle_cost (cp_limits c) ?base cost = Inr u"
    by (simp add: settled_usage_def Let_def res_simps)
  then have u: "u = (case cost of None \<Rightarrow> ?base | Some n \<Rightarrow> add_usage ?base ''cost_microunits'' n)"
    by (cases cost) (simp_all add: settle_cost_def res_simps)
  show "\<And>k. dget u k = (if k = ''input_tokens'' then dget (cp_usage c) k + inp
      else if k = ''output_tokens'' then dget (cp_usage c) k + out
      else if k = ''cost_microunits'' then dget (cp_usage c) k + amount cost
      else dget (release (cp_usage c) v) k)"
    by (cases cost) (simp_all add: u r)
  from assms show "dget (cp_usage c) ''input_tokens'' + inp \<le> dget (cp_limits c) ''max_input_tokens''"
    "dget (cp_usage c) ''output_tokens'' + out \<le> dget (cp_limits c) ''max_output_tokens''"
    by (auto simp: settled_usage_def Let_def res_simps r)
  assume "cost_capped (cp_limits c)"
  with assms show "dget (cp_usage c) ''cost_microunits'' + amount cost \<le> dget (cp_limits c) cost_limit"
    by (auto simp: settled_usage_def settle_cost_def Let_def res_simps r split: option.splits)
qed

lemma settle_ledger:
  assumes ok: "ledger_ok c" and v: "v \<in> set (cp_reservations c)" "pv_status v = Reserved_Open"
    and u: "settled_usage c v inp out cost = Inr u"
    and v': "v' = v\<lparr>pv_status := Reserved_Settled, pv_actual_input := Some inp, pv_actual_output := Some out,
      pv_actual_cost := cost, pv_settled := t\<rparr>"
  shows "ledger_ok ((save_reservation c v')\<lparr>cp_usage := u\<rparr>)"
proof -
  let ?c = "(save_reservation c v')\<lparr>cp_usage := u\<rparr>"
  have d: "distinct (map pv_id (cp_reservations c))" using ok by (simp add: ledger_ok_def)
  have id: "pv_id v' = pv_id v" by (simp add: v')
  have total: "total_of P f ?c = total_of P f c - (if P v then f v else 0) + (if P v' then f v' else 0)" for P f
    using total_replace [OF d v(1) id, where P = P and f = f] by simp
  have r: "reservation_ok x" if "x \<in> set (cp_reservations c)" for x using ok that by (simp add: ledger_ok_def)
  have held: "is_held v" "\<not> is_held v'" using v(2) by (simp_all add: is_held_def v')
  have "pv_input v \<le> held_total pv_input c" "pv_output v \<le> held_total pv_output c"
    "amount (pv_cost v) \<le> held_total (\<lambda>v. amount (pv_cost v)) c"
    using held(1) v(1) r by (auto intro!: total_member [of v c is_held] simp: reservation_ok_def)
  then have "ledger_counts ?c"
    using ok held v(2) unfolding ledger_ok_def ledger_counts_def Let_def total
    by (cases "pv_cost v") (simp_all add: settled_usageD(1) [OF u] release_simps v')
  moreover have "within_limits ?c"
    using ok settled_usageD [OF u] by (auto simp: ledger_ok_def within_limits_def release_simps Let_def)
  moreover have "prices_ok ?c" using ok by (simp add: ledger_ok_def prices_ok_def rate_def)
  moreover have "\<forall>x\<in>set (cp_reservations ?c). reservation_ok x"
    using r v(1) by (auto simp: reservation_ok_def v' dest!: in_save_reservation)
  ultimately show ?thesis using d by (simp add: ledger_ok_def ids_save_reservation)
qed

lemma continue_ledger:
  assumes ok: "ledger_ok c" and covers: "covers_usage limits (cp_usage c)" and prices: "prices_ok c'"
    and c': "cp_limits c' = limits" "cp_usage c' = cp_usage c" "cp_reservations c' = cp_reservations c"
  shows "ledger_ok c'"
proof -
  have total: "total_of P f c' = total_of P f c" for P f by (simp add: total_of_def c'(3))
  have r: "reservation_ok x" if "x \<in> set (cp_reservations c)" for x using ok that by (simp add: ledger_ok_def)
  have "0 \<le> held_total pv_input c" "0 \<le> held_total pv_output c" "0 \<le> held_total (\<lambda>v. amount (pv_cost v)) c"
    using r by (auto intro!: total_nonneg simp: reservation_ok_def)
  with ok have "0 \<le> dget (cp_usage c) ''reserved_input_tokens''" "0 \<le> dget (cp_usage c) ''reserved_output_tokens''"
    "0 \<le> dget (cp_usage c) ''reserved_cost_microunits''"
    by (simp_all add: ledger_ok_def ledger_counts_def Let_def)
  with covers have "within_limits c'"
    by (auto simp: within_limits_def covers_usage_def minimum_limits_for_usage_def required_limits_def
      cost_limit_def Let_def c' split: if_splits)
  moreover have "ledger_counts c'" using ok by (simp add: ledger_ok_def ledger_counts_def total c'(2))
  ultimately show ?thesis using ok prices c'(3) by (simp add: ledger_ok_def)
qed

end
