(* ===== verification/Evidence_Properties.thy ===== *)
theory Evidence_Properties
  imports Evidence_Ledger Investigation_Sample
begin

text \<open>
  The shared budget as a transition system, the ledger in every reachable database, and the headroom a
  new call may reserve.
\<close>

section \<open>Steps\<close>

text \<open>
  The transactions on campaigns, by any users and runs in any order; \<open>elsewhere\<close> is everything that
  leaves the campaigns alone.
\<close>

inductive campaign_step :: "env \<Rightarrow> db \<Rightarrow> db \<Rightarrow> bool" for env :: env where
  authorised: "create_evidence_campaign env d actor process key limits pricing currency version = Inr (d', c) \<Longrightarrow>
    campaign_step env d d'"
| continued: "authorize_campaign_continuation env d actor i limits reason pricing currency version = Inr (d', c) \<Longrightarrow>
    campaign_step env d d'"
| reserved: "reserve_provider_attempt env d run call inp out = Inr (d', v) \<Longrightarrow> campaign_step env d d'"
| settled: "settle_provider_attempt d i inp out cost = Inr (d', v) \<Longrightarrow> campaign_step env d d'"
| lost: "mark_provider_attempt_uncertain d i reason = Inr (d', u) \<Longrightarrow> campaign_step env d d'"
| elsewhere: "db_campaigns d' = db_campaigns d \<Longrightarrow> db_next d \<le> db_next d' \<Longrightarrow> campaign_step env d d'"

abbreviation campaign_steps :: "env \<Rightarrow> db \<Rightarrow> db \<Rightarrow> bool" where
  "campaign_steps env \<equiv> (campaign_step env)\<^sup>*\<^sup>*"

lemma save_campaign_ok:
  assumes ok: "campaigns_ok env d" and c: "ledger_ok c" "\<forall>v\<in>set (cp_reservations c). \<exists>n<db_next d'. pv_id v = e_uuid env n"
    and d': "db_campaigns d' = db_campaigns d" "db_next d \<le> db_next d'"
  shows "campaigns_ok env (save_campaign d' c)"
proof -
  have "\<exists>n<db_next d'. pv_id v = e_uuid env n"
    if "x \<in> set (db_campaigns d)" "v \<in> set (cp_reservations x)" for x v
    using ok that d'(2) unfolding campaigns_ok_def by (meson order_less_le_trans)
  moreover have "ledger_ok x" if "x \<in> set (db_campaigns d)" for x using ok that by (simp add: campaigns_ok_def)
  ultimately show ?thesis
    using c by (auto simp: campaigns_ok_def save_campaign_def d'(1) in_set_update_where split: if_splits)
qed

lemma campaign_in: "find_campaign d i = Some c \<Longrightarrow> c \<in> set (db_campaigns d)"
  by (auto simp: find_campaign_def dest: find_SomeD)

lemma holderD:
  assumes "holder d i = Some (c, v)"
  shows "c \<in> set (db_campaigns d)" "v \<in> set (cp_reservations c)" "pv_id v = i"
  using assms by (auto simp: holder_def dest!: find_SomeD split: option.splits)

lemma create_ok:
  assumes "create_evidence_campaign env d actor process key limits pricing currency version = Inr (d', c)"
    and "campaigns_ok env d"
  shows "campaigns_ok env d'"
proof -
  from assms(1) obtain limits' pricing' where
    limits: "normalize_limits limits = Inr limits'" and
    pricing: "normalize_pricing pricing currency version (cost_capped limits') = Inr pricing'" and
    c: "cp_limits c = limits'" "cp_pricing c = pricing'" "cp_usage c = initial_campaign_usage" "cp_reservations c = []" and
    d': "db_campaigns d' = db_campaigns d @ [c]" "db_next d' = Suc (db_next d)"
    unfolding create_evidence_campaign_def by (auto simp: res_simps Let_def revised_def split: option.splits)
  have "prices_ok c" using normalized_prices pricing c by metis
  then have "ledger_ok c"
    using normalized_limits_required [OF limits] normalized_limits_cost [OF limits] c
    by (auto simp: ledger_ok_def ledger_counts_def within_limits_def total_of_def initial_usage_zero required_limits_def
      cost_limit_def Let_def)
  then show ?thesis
    using assms(2) c(4) unfolding campaigns_ok_def d' by (auto, meson less_SucI)
qed

lemma continue_ok:
  assumes "authorize_campaign_continuation env d actor i limits reason pricing currency version = Inr (d', c')"
    and ok: "campaigns_ok env d"
  shows "campaigns_ok env d'"
proof -
  from assms(1) obtain k where k: "e_pk env i = Inr k"
    by (auto simp: authorize_campaign_continuation_def bindR_eq_Inr)
  with assms(1) obtain c where c: "Option.bind k (find_campaign d) = Some c"
    by (cases "Option.bind k (find_campaign d)") (simp_all add: authorize_campaign_continuation_def)
  with k assms(1) obtain p where "get_process d (cp_process c) = Some p"
    by (cases "get_process d (cp_process c)") (simp_all add: authorize_campaign_continuation_def)
  with k c assms(1) obtain limits' pricing' prices cur ver where
    covers: "covers_usage limits' (cp_usage c)" and
    pricing: "normalize_pricing prices cur ver (cost_capped limits') = Inr pricing'" and
    cc: "c' = continued_campaign d actor c limits' pricing' currency version reason" and
    d': "d' = save_campaign d c'"
    by (auto simp: authorize_campaign_continuation_def Let_def bindR_eq_Inr raise_if_eq_Inr)
  have c': "cp_limits c' = limits'" "cp_pricing c' = pricing'" "cp_usage c' = cp_usage c"
      "cp_reservations c' = cp_reservations c"
    by (simp_all add: cc continued_campaign_def revised_def)
  from c have mem: "c \<in> set (db_campaigns d)" by (auto simp: bind_eq_Some_conv intro: campaign_in)
  with ok have led: "ledger_ok c" and ids: "\<forall>v\<in>set (cp_reservations c). \<exists>n<db_next d. pv_id v = e_uuid env n"
    by (auto simp: campaigns_ok_def)
  have "prices_ok c'" using normalized_prices pricing c'(1,2) by metis
  from continue_ledger [OF led covers this] c' have "ledger_ok c'" by simp
  from save_campaign_ok [OF ok this] ids c'(4) d' show ?thesis by simp
qed

lemma reserve_ok:
  assumes "reserve_provider_attempt env d run call inp out = Inr (d', w)"
    and ok: "campaigns_ok env d" and inj: "inj (e_uuid env)"
  shows "campaigns_ok env d'"
proof (cases "d' = d")
  case False
  with assms(1) obtain i c cost where
    pos: "0 < inp" "0 < out" and c: "find_campaign d i = Some c" and
    cost: "max_cost_for_tokens c inp out = Inr cost" "\<not> would_exceed c inp out cost" and
    d': "d' = save_campaign (draw d) (c\<lparr>cp_usage := reserved_usage (cp_usage c) inp out cost,
      cp_reservations := cp_reservations c @ [new_reservation (fresh env d) run call inp out cost]\<rparr>)"
    unfolding reserve_provider_attempt_def Let_def
    by (auto simp: bindR_eq_Inr raise_if_eq_Inr not_le split: option.splits)
  define v where "v = new_reservation (fresh env d) run call inp out cost"
  have v: "pv_id v = fresh env d" "pv_status v = Reserved_Open" "pv_input v = inp" "pv_output v = out" "pv_cost v = cost"
    by (simp_all add: v_def new_reservation_def)
  from ok campaign_in [OF c] have led: "ledger_ok c" and
    ids: "\<forall>v\<in>set (cp_reservations c). \<exists>n<db_next d. pv_id v = e_uuid env n"
    by (auto simp: campaigns_ok_def)
  have "pv_id v \<notin> pv_id ` set (cp_reservations c)"
    using ids inj v(1) by (auto simp: fresh_def inj_eq)
  from reserve_ledger [OF led cost pos v(2-5) this] show ?thesis
    unfolding d' v_def [symmetric] using ids v(1) by (intro save_campaign_ok [OF ok]) (auto simp: fresh_def intro: less_SucI)
qed (use ok in simp)

lemma settle_ok:
  assumes "settle_provider_attempt d i inp out cost = Inr (d', w)" and ok: "campaigns_ok env d"
  shows "campaigns_ok env d'"
proof (cases "d' = d")
  case False
  with assms(1) obtain c v usage where
    h: "holder d i = Some (c, v)" and st: "pv_status v = Reserved_Open" and
    u: "settled_usage c v inp out cost = Inr usage" and
    d': "d' = save_campaign d ((save_reservation c (v\<lparr>pv_status := Reserved_Settled, pv_actual_input := Some inp,
      pv_actual_output := Some out, pv_actual_cost := cost, pv_settled := Some (db_now d)\<rparr>))\<lparr>cp_usage := usage\<rparr>)"
    unfolding settle_provider_attempt_def
    by (auto simp: res_simps Let_def split: option.splits if_splits)
  from ok holderD(1) [OF h] have led: "ledger_ok c" and
    ids: "\<forall>v\<in>set (cp_reservations c). \<exists>n<db_next d. pv_id v = e_uuid env n"
    by (auto simp: campaigns_ok_def)
  from settle_ledger [OF led holderD(2) [OF h] st u refl] show ?thesis
    unfolding d' using ids holderD(2) [OF h]
    by (intro save_campaign_ok [OF ok]) (auto dest!: in_save_reservation)
qed (use ok in simp)

lemma lost_ok:
  assumes "mark_provider_attempt_uncertain d i reason = Inr (d', u)" and ok: "campaigns_ok env d"
  shows "campaigns_ok env d'"
proof (cases "d' = d")
  case False
  with assms(1) obtain c v where
    h: "holder d i = Some (c, v)" and st: "pv_status v = Reserved_Open" and
    d': "d' = save_campaign d ((save_reservation c (v\<lparr>pv_status := Reserved_Uncertain,
      pv_reason := take 80 (or_else reason ''unknown_usage'')\<rparr>))
      \<lparr>cp_usage := add_usage (cp_usage c) ''uncertain_attempts'' 1\<rparr>)"
    unfolding mark_provider_attempt_uncertain_def by (auto split: option.splits if_splits)
  from ok holderD(1) [OF h] have led: "ledger_ok c" and
    ids: "\<forall>v\<in>set (cp_reservations c). \<exists>n<db_next d. pv_id v = e_uuid env n"
    by (auto simp: campaigns_ok_def)
  from uncertain_ledger [OF led holderD(2) [OF h] st] show ?thesis
    unfolding d' using ids holderD(2) [OF h]
    by (intro save_campaign_ok [OF ok]) (auto dest!: in_save_reservation)
qed (use ok in simp)

lemma campaign_step_ok:
  assumes "campaign_step env d d'" and "campaigns_ok env d" and "inj (e_uuid env)"
  shows "campaigns_ok env d'"
  using assms(1)
proof cases
  case elsewhere
  with assms(2) show ?thesis unfolding campaigns_ok_def by (metis order_less_le_trans)
next
  case authorised
  with assms(2) show ?thesis using create_ok by metis
next
  case continued
  with assms(2) show ?thesis using continue_ok by metis
next
  case reserved
  with assms(2,3) show ?thesis using reserve_ok by metis
next
  case settled
  with assms(2) show ?thesis using settle_ok by metis
next
  case lost
  with assms(2) show ?thesis using lost_ok by metis
qed

lemma reachable_campaigns:
  "campaign_steps env d0 d \<Longrightarrow> db_campaigns d0 = [] \<Longrightarrow> inj (e_uuid env) \<Longrightarrow> campaigns_ok env d"
  by (induction rule: rtranclp_induct) (simp_all add: campaigns_ok_def [of env d0] campaign_step_ok)

section \<open>The binary search\<close>

lemma search_headroom_sound:
  "search_headroom ex low high = Inr n \<Longrightarrow> low \<le> n \<and> n \<le> max low high \<and> (n = low \<or> ex n = Inr False)"
proof (induction ex low high rule: search_headroom.induct)
  case (1 ex low high)
  show ?case
  proof (cases "low < high")
    case True
    let ?m = "(low + high + 1) div 2"
    from True 1(3) obtain b where b: "ex ?m = Inr b"
      "(if b then search_headroom ex low (?m - 1) else search_headroom ex ?m high) = Inr n"
      by (subst (asm) search_headroom.simps) (auto simp: res_simps Let_def)
    show ?thesis
    proof (cases b)
      case True
      with b have "search_headroom ex low (?m - 1) = Inr n" by simp
      from 1(1) [OF \<open>low < high\<close> refl b(1) True this] \<open>low < high\<close> show ?thesis by auto
    next
      case False
      with b have "search_headroom ex ?m high = Inr n" by simp
      from 1(2) [OF \<open>low < high\<close> refl b(1) False this] False b(1) \<open>low < high\<close> show ?thesis by auto
    qed
  next
    case False
    with 1(3) show ?thesis by (subst (asm) search_headroom.simps) simp
  qed
qed

lemma search_headroom_threshold:
  "(\<And>m. low < m \<Longrightarrow> m \<le> high \<Longrightarrow> ex m = Inr (t < m)) \<Longrightarrow> low \<le> high \<Longrightarrow>
   search_headroom ex low high = Inr (max low (min high t))"
proof (induction ex low high rule: search_headroom.induct)
  case (1 ex low high)
  show ?case
  proof (cases "low < high")
    case True
    let ?m = "(low + high + 1) div 2"
    have m: "low < ?m" "?m \<le> high" using True by linarith+
    then have ex: "ex ?m = Inr (t < ?m)" by (rule 1(3))
    show ?thesis
    proof (cases "t < ?m")
      case lt: True
      have "search_headroom ex low (?m - 1) = Inr (max low (min (?m - 1) t))"
        by (rule 1(1) [OF True refl ex lt]) (use 1(3) m in auto)
      then show ?thesis
        using True lt ex by (subst search_headroom.simps) (simp add: Let_def min_def)
    next
      case ge: False
      have "search_headroom ex ?m high = Inr (max ?m (min high t))"
        by (rule 1(2) [OF True refl ex ge]) (use 1(3) m in auto)
      then show ?thesis
        using True ge m ex by (subst search_headroom.simps) (simp add: Let_def min_def max_def)
    qed
  next
    case False
    then show ?thesis using 1(4) by (subst search_headroom.simps) simp
  qed
qed

section \<open>The ledger in every reachable database\<close>

text \<open>
  C31. In every database reached by authorising, continuing, reserving, settling and losing provider
  attempts, in any order, the counters of each campaign are exactly the sums over its reservations (what
  is still held and what was settled), and calls, tokens and, under a cost limit, costs are within the
  limits in force. (Identifiers do not repeat.)
\<close>

theorem campaign_ledger:
  assumes "campaign_steps env d0 d" and "db_campaigns d0 = []" and "inj (e_uuid env)"
    and "c \<in> set (db_campaigns d)"
  shows "ledger_counts c \<and> within_limits c"
  using reachable_campaigns [OF assms(1-3)] assms(4) by (simp add: campaigns_ok_def ledger_ok_def)

definition sample_limits :: obj where
  "sample_limits = [(''max_provider_calls'', JInt 2), (''max_input_tokens'', JInt 1000),
     (''max_output_tokens'', JInt 500), (''max_cost_microunits'', JInt 900)]"

definition sample_pricing :: obj where
  "sample_pricing = [(''input_per_million'', JStr ''0.5''), (''output_per_million'', JFloat ''1.5'')]"

definition sample_authorised :: "campaign txn" where
  "sample_authorised = create_evidence_campaign sample_env sample_db0 sample_actor (JStr ''p1'') (JStr ''vs1'')
     sample_limits sample_pricing ''EUR'' ''v1''"

definition sample_evidence_db :: db where
  "sample_evidence_db = (result_db sample_db0 sample_authorised)\<lparr>db_runs := [sample_run\<lparr>r_campaign := Some ''u''\<rparr>]\<rparr>"

definition sample_reserved :: "reservation option txn" where
  "sample_reserved = reserve_provider_attempt sample_env sample_evidence_db ''u'' ''q1'' 300 200"

definition sample_settled :: "reservation txn" where
  "sample_settled = settle_provider_attempt (result_db sample_evidence_db sample_reserved) ''uu'' 250 100 (Some 275)"

lemma result_db_same: "succeeds t \<Longrightarrow> result_db d t = result_db d' t"
  by (auto simp: succeeds_def result_db_def split: sum.splits)

lemma sample_campaign_steps: "campaign_steps sample_env sample_db0 (result_db sample_evidence_db sample_settled)"
proof -
  have s: "succeeds sample_authorised" "succeeds sample_reserved" "succeeds sample_settled" by code_simp+
  have "campaign_step sample_env sample_db0 (result_db sample_db0 sample_authorised)"
    using succeedsD [OF s(1)] campaign_step.authorised unfolding sample_authorised_def by blast
  moreover have "campaign_step sample_env (result_db sample_db0 sample_authorised) sample_evidence_db"
    by (rule campaign_step.elsewhere) (simp_all add: sample_evidence_db_def)
  moreover have "campaign_step sample_env sample_evidence_db (result_db sample_evidence_db sample_reserved)"
    using succeedsD [OF s(2)] campaign_step.reserved unfolding sample_reserved_def by blast
  moreover have "campaign_step sample_env (result_db sample_evidence_db sample_reserved)
      (result_db (result_db sample_evidence_db sample_reserved) sample_settled)"
    using succeedsD [OF s(3)] campaign_step.settled unfolding sample_settled_def by blast
  moreover have "result_db (result_db sample_evidence_db sample_reserved) sample_settled =
      result_db sample_evidence_db sample_settled"
    using s(3) by (rule result_db_same)
  ultimately show ?thesis by (auto intro: converse_rtranclp_into_rtranclp)
qed

theorem campaign_ledger_witness:
  "\<exists>c. c \<in> set (db_campaigns (result_db sample_evidence_db sample_settled)) \<and> ledger_counts c \<and> within_limits c \<and>
     map pv_status (cp_reservations c) = [Reserved_Settled] \<and> dget (cp_usage c) ''cost_microunits'' = 275"
proof -
  have "list_ex (\<lambda>c. map pv_status (cp_reservations c) = [Reserved_Settled] \<and>
      dget (cp_usage c) ''cost_microunits'' = 275) (db_campaigns (result_db sample_evidence_db sample_settled))"
    by code_simp
  then obtain c where c: "c \<in> set (db_campaigns (result_db sample_evidence_db sample_settled))"
    "map pv_status (cp_reservations c) = [Reserved_Settled]" "dget (cp_usage c) ''cost_microunits'' = 275"
    unfolding list_ex_iff by (elim bexE conjE)
  have "db_campaigns sample_db0 = []" by (simp add: sample_db0_def)
  from campaign_ledger [OF sample_campaign_steps this inj_sample_uuid c(1)] c show ?thesis
    by (intro exI conjI) simp_all
qed

section \<open>Headroom\<close>

lemma exceeds_uncapped:
  assumes "\<not> cost_capped (cp_limits c)"
  shows "exceeds c inp out = Inr (
     dget (cp_usage c) ''provider_calls'' + 1 > dget (cp_limits c) ''max_provider_calls'' \<or>
     dget (cp_usage c) ''input_tokens'' + dget (cp_usage c) ''reserved_input_tokens'' + inp >
       dget (cp_limits c) ''max_input_tokens'' \<or>
     dget (cp_usage c) ''output_tokens'' + dget (cp_usage c) ''reserved_output_tokens'' + out >
       dget (cp_limits c) ''max_output_tokens'')"
  using assms by (simp add: exceeds_def max_cost_for_tokens_def would_exceed_def Let_def)

text \<open>The output tokens a campaign has left beside what is used, reserved and protected.\<close>

definition output_room :: "campaign \<Rightarrow> int \<Rightarrow> int" where
  "output_room c protected = dget (cp_limits c) ''max_output_tokens'' - dget (cp_usage c) ''output_tokens'' -
     dget (cp_usage c) ''reserved_output_tokens'' - protected"

definition input_fits :: "campaign \<Rightarrow> int \<Rightarrow> bool" where
  "input_fits c n \<longleftrightarrow> dget (cp_usage c) ''provider_calls'' < dget (cp_limits c) ''max_provider_calls'' \<and>
     dget (cp_usage c) ''input_tokens'' + dget (cp_usage c) ''reserved_input_tokens'' + n \<le>
       dget (cp_limits c) ''max_input_tokens''"

lemma headroom_uncapped:
  assumes c: "\<not> cost_capped (cp_limits c)"
  shows "max_reservable_output_tokens c inp upper pin pout =
    Inr (if input_fits c (inp + pin) then max 0 (min upper (output_room c pout)) else 0)"
proof -
  let ?t = "if input_fits c (inp + pin) then output_room c pout else 0"
  have "exceeds c (inp + pin) (m + pout) = Inr (?t < m)" if "0 < m" for m
    using that unfolding exceeds_uncapped [OF c] by (auto simp: input_fits_def output_room_def)
  from search_headroom_threshold [where low = 0 and high = "max 0 upper" and t = ?t
      and ex = "\<lambda>n. exceeds c (inp + pin) (n + pout)", OF this]
  show ?thesis by (auto simp: max_reservable_output_tokens_def max_def min_def)
qed

text \<open>
  C32. The number of output tokens a campaign grants lies between zero and what was asked for, and can
  indeed be reserved together with the protected amounts, under a cost limit too. Without a cost limit
  the binary search always ends with the largest such number: what is left of the limit, once the call
  and its input fit.
\<close>

theorem headroom_exact:
  "(max_reservable_output_tokens c inp upper pin pout = Inr n \<longrightarrow>
     0 \<le> n \<and> n \<le> max 0 upper \<and> (n = 0 \<or> exceeds c (inp + pin) (n + pout) = Inr False)) \<and>
   (\<not> cost_capped (cp_limits c) \<longrightarrow> max_reservable_output_tokens c inp upper pin pout =
     Inr (if input_fits c (inp + pin) then max 0 (min upper (output_room c pout)) else 0))"
  using search_headroom_sound [of "\<lambda>n. exceeds c (inp + pin) (n + pout)" 0 "max 0 upper" n]
    headroom_uncapped [of c inp upper pin pout]
  by (auto simp: max_reservable_output_tokens_def)

definition sample_campaign :: campaign where
  "sample_campaign = hd (db_campaigns sample_evidence_db)"

theorem headroom_exact_witness:
  "\<exists>n. max_reservable_output_tokens sample_campaign 300 400 0 0 = Inr n \<and> n = 400 \<and>
     exceeds sample_campaign 300 n = Inr False"
proof -
  have v: "max_reservable_output_tokens sample_campaign 300 400 0 0 = Inr 400" by code_simp
  from headroom_exact [of sample_campaign 300 400 0 0 400] v show ?thesis by simp
qed

text \<open>A campaign without a cost limit books reported costs, and can then never be continued without one.\<close>

lemma uncapped_cost_blocks_continuation:
  "\<not> cost_capped limits \<Longrightarrow> 0 < dget usage ''cost_microunits'' \<Longrightarrow> 0 \<le> dget usage ''reserved_cost_microunits'' \<Longrightarrow>
   \<not> covers_usage limits usage"
  by (simp add: covers_usage_def minimum_limits_for_usage_def cost_limit_def Let_def)

lemma uncapped_settlement_books_cost:
  "\<not> cost_capped limits \<Longrightarrow> settle_cost limits usage (Some n) = Inr (add_usage usage ''cost_microunits'' n)"
  by (simp add: settle_cost_def)

end
