(* ===== verification/Python_Float.thy ===== *)
theory Python_Float
  imports Python_Decimal
begin

text \<open>
  The text Python's \<open>float\<close> gives a number literal: the nearest double (half to even) of the number and
  the \<open>repr\<close> of that double, its shortest decimal text that is read back as the same double. A double
  is an integer below \<open>2\<close> to the 53 times a power of two.
\<close>

section \<open>Rounding to a double\<close>

text \<open>\<open>ratio_round p q\<close>: the integer nearest to \<open>p / q\<close>, half to even.\<close>

definition ratio_round :: "int \<Rightarrow> int \<Rightarrow> int" where
  "ratio_round p q = (let n = p div q; r = p mod q in
     if 2 * r > q \<or> 2 * r = q \<and> odd n then n + 1 else n)"

function bit_count :: "int \<Rightarrow> int" where
  "bit_count n = (if n \<le> 0 then 0 else 1 + bit_count (n div 2))"
  by pat_completeness auto
termination by (relation "measure nat") auto

declare bit_count.simps [simp del]

text \<open>The ratio of \<open>p / q\<close> to \<open>2 ^ e\<close>, as a pair.\<close>

definition scale_two :: "int \<Rightarrow> int \<Rightarrow> int \<Rightarrow> int \<times> int" where
  "scale_two p q e = (if e \<ge> 0 then (p, q * 2 ^ nat e) else (p * 2 ^ nat (- e), q))"

text \<open>The double nearest to a positive \<open>p / q\<close>: mantissa and exponent, \<open>None\<close> for infinity.\<close>

definition double_at :: "int \<Rightarrow> int \<Rightarrow> int \<Rightarrow> (int \<times> int) option" where
  "double_at p q e = (case scale_two p q e of (a, b) \<Rightarrow>
     (let m = ratio_round a b; (m', e') = (if m = 2 ^ 53 then (2 ^ 52, e + 1) else (m, e)) in
      if e' > 971 then None else Some (m', e')))"

definition to_double :: "int \<Rightarrow> int \<Rightarrow> (int \<times> int) option" where
  "to_double p q = (let
     e0 = bit_count p - bit_count q - 53;
     (a, b) = scale_two p q e0;
     e = (if a \<ge> b * 2 ^ 53 then e0 + 1 else e0) in
     double_at p q (max e (- 1074)))"

section \<open>The shortest text\<close>

text \<open>A decimal \<open>d * 10 ^ x\<close> as a ratio.\<close>

definition ten_ratio :: "int \<Rightarrow> int \<Rightarrow> int \<times> int" where
  "ten_ratio d x = (if x \<ge> 0 then (d * 10 ^ nat x, 1) else (d, 10 ^ nat (- x)))"

definition decimal_double :: "int \<Rightarrow> int \<Rightarrow> (int \<times> int) option" where
  "decimal_double d x = (case ten_ratio d x of (p, q) \<Rightarrow> to_double p q)"

definition double_ratio :: "int \<times> int \<Rightarrow> int \<times> int" where
  "double_ratio f = (case f of (m, e) \<Rightarrow> if e \<ge> 0 then (m * 2 ^ nat e, 1) else (m, 2 ^ nat (- e)))"

text \<open>The position of the leading decimal digit of \<open>p / q\<close>: \<open>10 ^ k \<le> p / q < 10 ^ (k + 1)\<close>.\<close>

definition leading_place :: "int \<Rightarrow> int \<Rightarrow> int" where
  "leading_place p q = (let
     k = digit_count p - digit_count q;
     (d, one) = ten_ratio 1 k in
     if p * one \<ge> q * d then k else k - 1)"

text \<open>The candidates with \<open>n\<close> digits around a double, the nearer first; the one that reads back.\<close>

definition candidate :: "int \<times> int \<Rightarrow> int \<Rightarrow> (int \<times> int) option" where
  "candidate f n = (case double_ratio f of (p, q) \<Rightarrow> (let
     x = leading_place p q - n + 1;
     (a, b) = (if x \<ge> 0 then (p, q * 10 ^ nat x) else (p * 10 ^ nat (- x), q));
     low = a div b;
     near = ratio_round a b;
     far = (if near = low then low + 1 else low) in
     if decimal_double near x = Some f then Some (near, x)
     else if decimal_double far x = Some f then Some (far, x) else None))"

fun shortest_from :: "nat \<Rightarrow> int \<Rightarrow> int \<times> int \<Rightarrow> int \<times> int" where
  "shortest_from 0 n f = (0, 0)"
| "shortest_from (Suc k) n f = (case candidate f n of Some c \<Rightarrow> c | None \<Rightarrow> shortest_from k (n + 1) f)"

definition shortest :: "int \<times> int \<Rightarrow> int \<times> int" where
  "shortest f = (case shortest_from 17 1 f of (d, x) \<Rightarrow> drop_zeros 400 d x)"

section \<open>The text\<close>

definition pad_exponent :: "int \<Rightarrow> string" where
  "pad_exponent e = (if e < 0 then ''-'' else ''+'') @
     (if \<bar>e\<bar> < 10 then ''0'' else []) @ dec_digits \<bar>e\<bar>"

text \<open>Digits \<open>d\<close> and exponent \<open>x\<close> in the format of \<open>repr\<close>.\<close>

definition repr_digits :: "int \<Rightarrow> int \<Rightarrow> string" where
  "repr_digits d x = (let ds = dec_digits d; point = x + int (length ds) in
     if - 4 < point \<and> point \<le> 16
     then (let t = pointed ds point in if CHR ''.'' \<in> set t then t else t @ ''.0'')
     else (case ds of [] \<Rightarrow> [] | c # cs \<Rightarrow> [c] @ (if cs = [] then [] else CHR ''.'' # cs)) @
       ''e'' @ pad_exponent (point - 1))"

definition float_repr_of :: "bool \<Rightarrow> int \<Rightarrow> int \<Rightarrow> string" where
  "float_repr_of neg d x = sign_text neg @
     (if d = 0 then ''0.0''
      else if x + digit_count d > 310 then ''inf''
      else if x + digit_count d < - 330 then ''0.0''
      else (case decimal_double d x of
          None \<Rightarrow> ''inf''
        | Some f \<Rightarrow> if fst f = 0 then ''0.0'' else (case shortest f of (d', x') \<Rightarrow> repr_digits d' x')))"

text \<open>\<open>repr(float(s))\<close> for a literal \<open>s\<close> of digits with an optional sign, fraction and exponent.\<close>

definition float_text :: "string \<Rightarrow> string" where
  "float_text s = (case split_sign s of (neg, body) \<Rightarrow>
     (case number_of (py_casefold body) of None \<Rightarrow> [] | Some (d, x) \<Rightarrow> float_repr_of neg d x))"

end
