(* ===== verification/Python_Json.thy ===== *)
theory Python_Json
  imports Python_Float Content_Binding
begin

text \<open>
  Reading JSON (\<open>json.loads\<close>): a document of Latin-1 text, with Python's extensions \<open>NaN\<close> and
  \<open>Infinity\<close>, a later member of the same name winning, and integers of at most 4300 digits. An escape
  of a character beyond Latin-1 is outside the model and refused.
\<close>

section \<open>Strings and numbers\<close>

text \<open>\<open>Bad_Json\<close> is \<open>JSONDecodeError\<close>, \<open>Too_Many_Digits\<close> the \<open>ValueError\<close> of \<open>int\<close>.\<close>

datatype json_fault = Bad_Json | Too_Many_Digits

type_synonym 'a parsed = "(json_fault, 'a \<times> string) res"

definition json_blank :: "char \<Rightarrow> bool" where
  "json_blank c \<longleftrightarrow> c \<in> {CHR '' '', CHR 0x09, CHR 0x0A, CHR 0x0D}"

definition skip_blanks :: "string \<Rightarrow> string" where
  "skip_blanks s = dropWhile json_blank s"

abbreviation quote :: char where "quote \<equiv> CHR 0x22"
abbreviation escape :: char where "escape \<equiv> CHR 0x5C"

definition hex_char :: "string \<Rightarrow> char option" where
  "hex_char s = (case map hex_value s of
       [Some a, Some b, Some c, Some e] \<Rightarrow> if a = 0 \<and> b = 0 then Some (char_of (16 * c + e)) else None
     | _ \<Rightarrow> None)"

text \<open>What follows a backslash.\<close>

definition read_escape :: "string \<Rightarrow> (char \<times> string) option" where
  "read_escape s = (case s of
       [] \<Rightarrow> None
     | c # cs \<Rightarrow>
         if c \<in> {quote, escape, CHR ''/''} then Some (c, cs)
         else if c = CHR ''b'' then Some (CHR 0x08, cs)
         else if c = CHR ''f'' then Some (CHR 0x0C, cs)
         else if c = CHR ''n'' then Some (CHR 0x0A, cs)
         else if c = CHR ''r'' then Some (CHR 0x0D, cs)
         else if c = CHR ''t'' then Some (CHR 0x09, cs)
         else if c = CHR ''u'' \<and> 4 \<le> length cs then map_option (\<lambda>x. (x, drop 4 cs)) (hex_char (take 4 cs))
         else None)"

lemma read_escape_shorter: "read_escape s = Some (x, r) \<Longrightarrow> length r < length s"
  by (auto simp: read_escape_def split: list.splits if_splits)

text \<open>The rest of a string after its opening quote; control characters are refused.\<close>

function read_string :: "string \<Rightarrow> (string \<times> string) option" where
  "read_string [] = None"
| "read_string (c # cs) =
     (if c = quote then Some ([], cs)
      else if c = escape then (case read_escape cs of
          None \<Rightarrow> None
        | Some (x, r) \<Rightarrow> map_option (\<lambda>(s, t). (x # s, t)) (read_string r))
      else if (of_char c :: int) < 32 then None
      else map_option (\<lambda>(s, t). (c # s, t)) (read_string cs))"
  by pat_completeness auto
termination
  by (relation "measure length") (auto dest: read_escape_shorter)

lemma read_string_shorter: "read_string s = Some (t, r) \<Longrightarrow> length r < length s"
proof (induction s arbitrary: t r rule: read_string.induct)
  case (2 c cs)
  then show ?case by (fastforce split: if_splits option.splits dest: read_escape_shorter)
qed simp

definition read_fraction :: "string \<Rightarrow> string \<times> string" where
  "read_fraction s = (case s of
       [] \<Rightarrow> ([], [])
     | c # cs \<Rightarrow> if c = CHR ''.'' \<and> takeWhile is_digit cs \<noteq> []
         then (c # takeWhile is_digit cs, dropWhile is_digit cs) else ([], s))"

definition read_sign :: "string \<Rightarrow> string \<times> string" where
  "read_sign s = (case s of
       [] \<Rightarrow> ([], [])
     | c # cs \<Rightarrow> if c = CHR ''-'' \<or> c = CHR ''+'' then ([c], cs) else ([], s))"

definition read_exponent :: "string \<Rightarrow> string \<times> string" where
  "read_exponent s = (case s of
       [] \<Rightarrow> ([], [])
     | c # cs \<Rightarrow> (case read_sign cs of (sign, r) \<Rightarrow>
         if (c = CHR ''e'' \<or> c = CHR ''E'') \<and> takeWhile is_digit r \<noteq> []
         then (c # sign @ takeWhile is_digit r, dropWhile is_digit r) else ([], s)))"

text \<open>Digits without a leading zero; none when there is no digit.\<close>

definition read_integer :: "string \<Rightarrow> string \<times> string" where
  "read_integer s = (case s of
       [] \<Rightarrow> ([], [])
     | c # cs \<Rightarrow> if c = CHR ''0'' then ([c], cs) else (takeWhile is_digit s, dropWhile is_digit s))"

definition read_number :: "string \<Rightarrow> json parsed" where
  "read_number s = (let
     (sign, body) = (case s of [] \<Rightarrow> ([], []) | c # cs \<Rightarrow> if c = CHR ''-'' then ([c], cs) else ([], s));
     (whole, r) = read_integer body;
     (frac, r') = read_fraction r;
     (ex, r'') = read_exponent r' in
     if whole = [] then Inl Bad_Json
     else if frac @ ex = [] then (if length whole > 4300 then Inl Too_Many_Digits
       else Inr (JInt (if sign = [] then decimal_digits whole else - decimal_digits whole), r''))
     else Inr (JFloat (float_text (sign @ whole @ frac @ ex)), r''))"

section \<open>Documents\<close>

definition words :: "(string \<times> json) list" where
  "words = [(''null'', JNull), (''true'', JBool True), (''false'', JBool False), (''NaN'', JFloat ''nan''),
     (''Infinity'', JFloat ''inf''), (''-Infinity'', JFloat ''-inf'')]"

definition read_plain :: "string \<Rightarrow> json parsed" where
  "read_plain s = (case find (\<lambda>w. starts_with (fst w) s) words of
       Some w \<Rightarrow> Inr (snd w, drop (length (fst w)) s)
     | None \<Rightarrow> read_number s)"

text \<open>The recursion of the scanner; its first argument bounds the depth.\<close>

fun parse_value :: "nat \<Rightarrow> string \<Rightarrow> json parsed"
  and parse_items :: "nat \<Rightarrow> string \<Rightarrow> json list parsed"
  and parse_members :: "nat \<Rightarrow> string \<Rightarrow> (string \<times> json) list parsed" where
  "parse_value 0 s = Inl Bad_Json"
| "parse_value (Suc k) s = (case s of
       [] \<Rightarrow> Inl Bad_Json
     | c # cs \<Rightarrow>
         if c = quote then (case read_string cs of None \<Rightarrow> Inl Bad_Json | Some (t, r) \<Rightarrow> Inr (JStr t, r))
         else if c = CHR 0x7B then (case skip_blanks cs of
             [] \<Rightarrow> Inl Bad_Json
           | e # r \<Rightarrow> if e = CHR 0x7D then Inr (JObj [], r)
               else bindR (parse_members k (e # r)) (\<lambda>(ms, t). Inr (JObj (dict_of ms), t)))
         else if c = CHR ''['' then (case skip_blanks cs of
             [] \<Rightarrow> Inl Bad_Json
           | e # r \<Rightarrow> if e = CHR '']'' then Inr (JList [], r)
               else bindR (parse_items k (e # r)) (\<lambda>(xs, t). Inr (JList xs, t)))
         else read_plain s)"
| "parse_items 0 s = Inl Bad_Json"
| "parse_items (Suc k) s =
     bindR (parse_value k s) (\<lambda>(x, r). (case skip_blanks r of
         [] \<Rightarrow> Inl Bad_Json
       | c # t \<Rightarrow> if c = CHR '']'' then Inr ([x], t)
           else if c = CHR '','' then bindR (parse_items k (skip_blanks t)) (\<lambda>(xs, u). Inr (x # xs, u))
           else Inl Bad_Json))"
| "parse_members 0 s = Inl Bad_Json"
| "parse_members (Suc k) s = (case s of
       [] \<Rightarrow> Inl Bad_Json
     | q # cs \<Rightarrow> if q \<noteq> quote then Inl Bad_Json
         else (case read_string cs of
             None \<Rightarrow> Inl Bad_Json
           | Some (key, r) \<Rightarrow> (case skip_blanks r of
               [] \<Rightarrow> Inl Bad_Json
             | c # t \<Rightarrow> if c \<noteq> CHR '':'' then Inl Bad_Json
                 else bindR (parse_value k (skip_blanks t)) (\<lambda>(v, u). (case skip_blanks u of
                     [] \<Rightarrow> Inl Bad_Json
                   | e # w \<Rightarrow> if e = CHR 0x7D then Inr ([(key, v)], w)
                       else if e = CHR '','' then bindR (parse_members k (skip_blanks w)) (\<lambda>(ms, z). Inr ((key, v) # ms, z))
                       else Inl Bad_Json)))))"

definition json_loads :: "string \<Rightarrow> (json_fault, json) res" where
  "json_loads s = bindR (parse_value (2 * length s + 1) (skip_blanks s)) (\<lambda>(v, r).
     if skip_blanks r = [] then Inr v else Inl Bad_Json)"

lemma loads_samples:
  "json_loads '' [1, -20 , null] '' = Inr (JList [JInt 1, JInt (- 20), JNull])" "json_loads ''[1,]'' = Inl Bad_Json"
  "json_loads ([CHR 0x7B, quote] @ ''a'' @ [escape] @ ''u0041'' @ [quote] @ '': true}'') = Inr (JObj [(''aA'', JBool True)])"
  "json_loads ''01'' = Inl Bad_Json" "json_loads ''-'' = Inl Bad_Json" "json_loads [] = Inl Bad_Json"
  by code_simp+

end
