(* ===== verification/Json_Round_Trip.thy ===== *)
theory Json_Round_Trip
  imports Python_Json Evidence_Prices
begin

text \<open>
  The reader of JSON: the bound on its recursion is never reached, and it reads the canonical text of a
  document back.
\<close>

section \<open>The rest gets shorter\<close>

lemma drop_blanks_le: "length (skip_blanks s) \<le> length s"
  by (simp add: skip_blanks_def length_dropWhile_le)

lemma bindR_cong_Inr: "r = Inr x \<Longrightarrow> f x = g x \<Longrightarrow> bindR r f = bindR r g"
  by simp

lemma read_integer_split: "read_integer s = (w, r) \<Longrightarrow> s = w @ r"
  by (auto simp: read_integer_def split: list.splits if_splits)

lemma read_fraction_split: "read_fraction s = (w, r) \<Longrightarrow> s = w @ r"
  by (auto simp: read_fraction_def split: list.splits if_splits)

lemma read_sign_split: "read_sign s = (w, r) \<Longrightarrow> s = w @ r"
  by (auto simp: read_sign_def split: list.splits if_splits)

lemma read_exponent_split: "read_exponent s = (w, r) \<Longrightarrow> s = w @ r"
  by (auto simp: read_exponent_def dest!: read_sign_split split: list.splits if_splits prod.splits)

lemma read_number_shorter:
  assumes "read_number s = Inr (v, r)" shows "length r < length s"
proof -
  define p where "p = (case s of [] \<Rightarrow> ([], []) | c # cs \<Rightarrow> if c = CHR ''-'' then ([c], cs) else ([], s))"
  obtain sign body where p1: "p = (sign, body)" by fastforce
  obtain whole r1 where i: "read_integer body = (whole, r1)" by fastforce
  obtain frac r2 where f: "read_fraction r1 = (frac, r2)" by fastforce
  obtain ex r3 where e: "read_exponent r2 = (ex, r3)" by fastforce
  have "s = sign @ body" using p1 by (auto simp: p_def split: list.splits if_splits)
  moreover have "whole \<noteq> []" "r = r3"
    using assms p1 i f e by (auto simp: read_number_def p_def [symmetric] Let_def split: if_splits)
  ultimately show ?thesis
    using read_integer_split [OF i] read_fraction_split [OF f] read_exponent_split [OF e] by simp
qed

lemma read_plain_shorter: "read_plain s = Inr (v, r) \<Longrightarrow> length r < length s"
  by (auto simp: read_plain_def words_def starts_with_iff dest: read_number_shorter split: if_splits)

lemma parse_shorter:
  "parse_value k s = Inr (v, r) \<Longrightarrow> length r < length s"
  "parse_items k s = Inr (vs, r) \<Longrightarrow> length r < length s"
  "parse_members k s = Inr (ms, r) \<Longrightarrow> length r < length s"
proof (induction k arbitrary: s v vs ms r)
  case (Suc k)
  {
    case 1
    show ?case
    proof (cases s)
      case (Cons c cs)
      have b: "skip_blanks cs = e # t \<Longrightarrow> length t < length cs" for e t
        using drop_blanks_le [of cs] by simp
      show ?thesis
        using 1 Cons
        by (auto simp: res_simps dest!: read_string_shorter read_plain_shorter b Suc.IH(2,3) split: if_splits option.splits list.splits)
    qed (use 1 in simp)
  next
    case 2
    then obtain x t where x: "parse_value k s = Inr (x, t)" by (auto simp: res_simps)
    from Suc.IH(1) [OF this] drop_blanks_le [of t] have l: "skip_blanks t = e # u \<Longrightarrow> Suc (length u) < length s" for e u by simp
    have i: "parse_items k (skip_blanks w) = Inr (ys, r) \<Longrightarrow> length r < length w" for w ys
      using Suc.IH(2) drop_blanks_le [of w] by fastforce
    show ?case
      using 2 x by (auto simp: res_simps dest!: l i split: if_splits list.splits)
  next
    case 3
    then obtain cs key r1 where s: "s = quote # cs" and key: "read_string cs = Some (key, r1)"
      by (auto split: if_splits option.splits list.splits)
    with 3 obtain t where c: "skip_blanks r1 = CHR '':'' # t" by (auto split: if_splits list.splits)
    with 3 s key obtain x u where x: "parse_value k (skip_blanks t) = Inr (x, u)" by (auto simp: res_simps)
    have l: "length u < length s"
      using read_string_shorter [OF key] Suc.IH(1) [OF x] drop_blanks_le [of t] drop_blanks_le [of r1] c s by simp
    with drop_blanks_le [of u] have l': "skip_blanks u = e # w \<Longrightarrow> Suc (length w) < length s" for e w by simp
    have i: "parse_members k (skip_blanks w) = Inr (ys, r) \<Longrightarrow> length r < length w" for w ys
      using Suc.IH(3) drop_blanks_le [of w] by fastforce
    from 3 s key c x have "(\<exists>w. skip_blanks u = CHR 0x7D # w \<and> r = w) \<or>
        (\<exists>w ys. skip_blanks u = CHR '','' # w \<and> parse_members k (skip_blanks w) = Inr (ys, r))"
      by (auto simp: res_simps split: if_splits list.splits)
    then show ?case using l' i by (metis Suc_lessD less_trans)
  }
qed simp_all

lemmas [simp del] = parse_value.simps(2) parse_items.simps(2) parse_members.simps(2)

section \<open>The bound on the recursion\<close>

text \<open>With more than twice the length of the text, a further level of recursion changes nothing.\<close>

lemma parse_fuel_step:
  "2 * length s < k \<Longrightarrow> parse_value (Suc k) s = parse_value k s"
  "2 * length s + 1 < k \<Longrightarrow> parse_items (Suc k) s = parse_items k s"
  "2 * length s + 1 < k \<Longrightarrow> parse_members (Suc k) s = parse_members k s"
proof (induction k arbitrary: s)
  case (Suc k)
  {
    case 1
    show ?case
    proof (cases s)
      case (Cons c cs)
      have "parse_members (Suc k) (e # r) = parse_members k (e # r) \<and> parse_items (Suc k) (e # r) = parse_items k (e # r)"
        if "skip_blanks cs = e # r" for e r
        using 1 Cons that drop_blanks_le [of cs] Suc.IH(2,3) by simp
      then show ?thesis
        unfolding parse_value.simps(2) Cons by (auto split: list.splits)
    qed (simp add: parse_value.simps(2))
  next
    case 2
    have v: "parse_value (Suc k) s = parse_value k s" using 2 by (intro Suc.IH(1)) simp
    have "parse_items (Suc k) (skip_blanks w) = parse_items k (skip_blanks w)"
      if "parse_value k s = Inr (x, t)" "skip_blanks t = c # w" for x t c w
      using 2 parse_shorter(1) [OF that(1)] drop_blanks_le [of t] drop_blanks_le [of w] that(2)
      by (intro Suc.IH(2)) simp
    then show ?case
      unfolding parse_items.simps(2) v
      by (cases "parse_value k s") (auto split: list.splits)
  next
    case 3
    have n: "parse_value (Suc k) (skip_blanks t) = parse_value k (skip_blanks t)"
      if "read_string cs = Some (key, r)" "skip_blanks r = c # t" "s = q # cs" for key r c t q cs
      using 3 that read_string_shorter [OF that(1)] drop_blanks_le [of t] drop_blanks_le [of r]
      by (intro Suc.IH(1)) simp
    have m: "parse_members (Suc k) (skip_blanks w) = parse_members k (skip_blanks w)"
      if "read_string cs = Some (key, r)" "skip_blanks r = c # t" "s = q # cs"
        "parse_value k (skip_blanks t) = Inr (v, u)" "skip_blanks u = e # w" for key r c t q cs v u e w
      using 3 that read_string_shorter [OF that(1)] drop_blanks_le [of t] drop_blanks_le [of r]
        parse_shorter(1) [OF that(4)] drop_blanks_le [of u] drop_blanks_le [of w]
      by (intro Suc.IH(3)) simp
    show ?case
    proof (cases s)
      case s: (Cons q cs)
      show ?thesis
      proof (cases "read_string cs")
        case key: (Some p)
        obtain key r where p: "p = (key, r)" by fastforce
        show ?thesis
        proof (cases "skip_blanks r")
          case c: (Cons c t)
          note n = n [OF key [unfolded p] c s]
          show ?thesis
          proof (cases "parse_value k (skip_blanks t)")
            case v: (Inr x)
            obtain v u where x: "x = (v, u)" by fastforce
            note m = m [OF key [unfolded p] c s v [unfolded x]]
            show ?thesis
              by (cases "skip_blanks u") (simp_all add: parse_members.simps(2) [of _ "q # cs"] s key p c n v x m)
          qed (simp add: parse_members.simps(2) s key p c n)
        qed (simp add: parse_members.simps(2) s key p)
      qed (simp add: parse_members.simps(2) s)
    qed (simp add: parse_members.simps(2))
  }
qed simp_all

lemma parse_fuel:
  assumes "2 * length s < k" shows "parse_value (k + n) s = parse_value k s"
proof (induction n)
  case (Suc n)
  from assms parse_fuel_step(1) [of s "k + n"] Suc show ?case by simp
qed simp

lemma json_loads_fuel:
  "2 * length s < k \<Longrightarrow> json_loads s =
     bindR (parse_value k (skip_blanks s)) (\<lambda>(v, r). if skip_blanks r = [] then Inr v else Inl Bad_Json)"
  using parse_fuel [of "skip_blanks s" "2 * length s + 1" "k - (2 * length s + 1)"] drop_blanks_le [of s]
  by (simp add: json_loads_def)

section \<open>Numbers and strings\<close>

lemma decimal_digits_dec_digits: "0 \<le> n \<Longrightarrow> decimal_digits (dec_digits n) = n"
  using dec_digits_value [of n] by (simp add: digits_value_def decimal_digits_def digit_value_def)

lemma delimiter_not_digit: "delimiter c \<Longrightarrow> \<not> is_digit c"
  by (auto simp: delimiter_def is_digit_def dec_value_def Let_def)

lemma digits_before_end:
  assumes "ends x"
  shows "takeWhile is_digit (s @ x) = takeWhile is_digit s" "dropWhile is_digit (s @ x) = dropWhile is_digit s @ x"
  using assms by (induction s) (cases x; simp add: delimiter_not_digit)+

lemma read_integer_before_end:
  "ends x \<Longrightarrow> read_integer (s @ x) = (fst (read_integer s), snd (read_integer s) @ x)"
proof (cases s)
  case Nil
  assume "ends x"
  then show ?thesis by (cases x) (auto simp: Nil read_integer_def delimiter_not_digit delimiter_def)
next
  case (Cons c cs)
  assume "ends x"
  with Cons show ?thesis using digits_before_end [of x s] by (simp add: read_integer_def)
qed

lemma read_fraction_before_end:
  "ends x \<Longrightarrow> read_fraction (s @ x) = (fst (read_fraction s), snd (read_fraction s) @ x)"
  by (cases s; cases x) (auto simp: read_fraction_def digits_before_end delimiter_def)

lemma read_sign_before_end:
  "ends x \<Longrightarrow> read_sign (s @ x) = (fst (read_sign s), snd (read_sign s) @ x)"
  by (cases s; cases x) (auto simp: read_sign_def delimiter_def)

lemma read_exponent_before_end:
  "ends x \<Longrightarrow> read_exponent (s @ x) = (fst (read_exponent s), snd (read_exponent s) @ x)"
  by (cases s; cases x)
    (auto simp: read_exponent_def digits_before_end read_sign_before_end delimiter_def split: prod.splits)

lemma read_number_before_end:
  assumes "read_number s = Inr (v, r)" "ends x" shows "read_number (s @ x) = Inr (v, r @ x)"
proof -
  from read_number_shorter [OF assms(1)] obtain c cs where s: "s = c # cs" by (cases s) auto
  obtain whole r1 where i: "read_integer (if c = CHR ''-'' then cs else s) = (whole, r1)" by fastforce
  obtain frac r2 where f: "read_fraction r1 = (frac, r2)" by fastforce
  obtain ex r3 where e: "read_exponent r2 = (ex, r3)" by fastforce
  have "read_integer ((if c = CHR ''-'' then cs else s) @ x) = (whole, r1 @ x)" "read_fraction (r1 @ x) = (frac, r2 @ x)"
    "read_exponent (r2 @ x) = (ex, r3 @ x)"
    using i f e assms(2) by (simp_all only: read_integer_before_end read_fraction_before_end read_exponent_before_end fst_conv snd_conv)
  with assms(1) i f e s show ?thesis
    by (auto simp: read_number_def Let_def split: if_splits)
qed

lemma dec_digits_start:
  "0 \<le> n \<Longrightarrow> dec_digits n = ''0'' \<or> hd (dec_digits n) \<noteq> CHR ''0''"
proof (induction n rule: dec_digits.induct)
  case (1 n)
  show ?case
  proof (cases "n < 10")
    case True
    have "list_all (\<lambda>d. [char_of (48 + d)] = ''0'' \<or> char_of (48 + d) \<noteq> CHR ''0'') [0..9 :: int]" by code_simp
    with True 1 show ?thesis by (simp add: dec_digits.simps [of n] list_all_iff)
  next
    case False
    with 1 have p: "0 \<le> n div 10" "1 \<le> n div 10" by simp_all
    have "dec_digits (n div 10) \<noteq> ''0''"
      using p decimal_digits_dec_digits [OF p(1)] by (auto simp: decimal_digits_def digit_value_def)
    with 1 False p have "hd (dec_digits (n div 10)) \<noteq> CHR ''0''" by blast
    moreover have "dec_digits (n div 10) \<noteq> []" using dec_digits_value [OF p(1)] by simp
    ultimately show ?thesis using False by (simp add: dec_digits.simps [of n])
  qed
qed

lemma read_integer_dec_digits:
  assumes "0 \<le> n" shows "read_integer (dec_digits n) = (dec_digits n, [])"
proof -
  obtain c cs where c: "dec_digits n = c # cs" using dec_digits_value [OF assms] by (cases "dec_digits n") auto
  have "takeWhile is_digit (dec_digits n) = dec_digits n"
    using dec_digits_value [OF assms] digit_is_digit by (simp add: takeWhile_eq_all_conv)
  moreover have "dropWhile is_digit (dec_digits n) = []"
    using dec_digits_value [OF assms] digit_is_digit by (simp add: dropWhile_eq_Nil_conv)
  ultimately show ?thesis using dec_digits_start [OF assms] c by (auto simp: read_integer_def)
qed

definition int_readable :: "int \<Rightarrow> bool" where
  "int_readable i \<longleftrightarrow> length (dec_digits \<bar>i\<bar>) \<le> 4300"

lemma read_int_text:
  assumes "int_readable i" shows "read_number (int_text i) = Inr (JInt i, [])"
proof -
  have c: "hd (dec_digits \<bar>i\<bar>) \<noteq> CHR ''-''" "dec_digits \<bar>i\<bar> \<noteq> []"
    using dec_digits_value [of "\<bar>i\<bar>"] digitD [of "hd (dec_digits \<bar>i\<bar>)"] by auto
  then obtain d ds where d: "dec_digits \<bar>i\<bar> = d # ds" "d \<noteq> CHR ''-''" by (cases "dec_digits \<bar>i\<bar>") auto
  have e: "read_fraction [] = ([], [])" "read_exponent [] = ([], [])"
    by (simp_all add: read_fraction_def read_exponent_def)
  show ?thesis
    using assms d read_integer_dec_digits [of "\<bar>i\<bar>"] decimal_digits_dec_digits [of "\<bar>i\<bar>"]
    by (auto simp: int_text_def read_number_def int_readable_def e Let_def)
qed

lemma char_code: "of_char (CHR 0x22) = (34 :: int)" "of_char (CHR 0x5C) = (92 :: int)"
  by code_simp+

lemma read_string_char: "read_string (json_char c @ r) = map_option (\<lambda>(s, t). (c # s, t)) (read_string r)"
proof -
  define n where "n = (of_char c :: int)"
  have c: "c = char_of n" by (simp add: n_def)
  have k: "char_of (10 :: int) = CHR 0x0A" "char_of (13 :: int) = CHR 0x0D" "char_of (9 :: int) = CHR 0x09"
    "char_of (12 :: int) = CHR 0x0C" "char_of (8 :: int) = CHR 0x08"
    by code_simp+
  consider "n = 34 \<or> n = 92" | "n = 10" | "n = 13" | "n = 9" | "n = 12" | "n = 8"
    | "n \<notin> {34, 92, 10, 13, 9, 12, 8}" "n < 32" | "n \<notin> {34, 92, 10, 13, 9, 12, 8}" "\<not> n < 32"
    by auto
  then show ?thesis
  proof cases
    case 1
    moreover have "char_of (34 :: int) = quote" "char_of (92 :: int) = escape" by code_simp+
    ultimately have "json_char c = [escape, c]" "c = quote \<or> c = escape"
      by (auto simp: json_char_def n_def [symmetric] c)
    then show ?thesis by (auto simp: read_escape_def)
  next
    case 7
    then have j: "json_char c = [escape, CHR ''u'', CHR ''0'', CHR ''0'', hex_digit (n div 16), hex_digit (n mod 16)]"
      by (simp add: json_char_def n_def [symmetric])
    have "0 \<le> n" by (simp add: n_def of_char_int_nonneg)
    moreover have "hex_value (CHR ''0'') = Some 0" by code_simp
    ultimately have "hex_char [CHR ''0'', CHR ''0'', hex_digit (n div 16), hex_digit (n mod 16)] = Some c"
      using 7 by (simp add: hex_char_def hex_digit_value c)
    then show ?thesis unfolding j by (simp add: read_escape_def)
  next
    case 8
    then have "json_char c = [c]" "c \<noteq> escape" "c \<noteq> quote"
      using char_code by (auto simp: json_char_def n_def [symmetric]) (simp_all add: n_def)
    then show ?thesis using 8 by (simp add: n_def)
  qed (simp_all add: json_char_def n_def [symmetric] read_escape_def c k)
qed

lemma read_json_string: "read_string (concat (map json_char s) @ quote # x) = Some (s, x)"
  by (induction s) (simp_all add: read_string_char)

section \<open>Documents\<close>

text \<open>
  Documents whose text Python reads back: a float is given by the \<open>repr\<close> of a finite double, which is its
  own literal, and no integer has more than 4300 digits.
\<close>

fun json_readable :: "json \<Rightarrow> bool" where
  "json_readable (JInt i) = int_readable i"
| "json_readable (JFloat t) = (float_repr t \<and> read_number t = Inr (JFloat t, []))"
| "json_readable (JList xs) = list_all json_readable xs"
| "json_readable (JObj d) = (distinct (map fst d) \<and> list_all (\<lambda>kv. json_readable (snd kv)) d)"
| "json_readable v = True"

lemma json_readable_ok: "json_readable v \<Longrightarrow> json_ok v"
  by (induction v rule: json_readable.induct) (auto simp: list_all_iff)

lemma dict_of_distinct: "distinct (map fst d) \<Longrightarrow> dict_of d = d"
proof -
  have set_new: "k \<notin> fst ` set e \<Longrightarrow> dict_set e k v = e @ [(k, v)]" for e :: "('a, 'b) dict" and k v
    by (induction e) auto
  have "distinct (map fst (e @ d)) \<Longrightarrow> fold (\<lambda>(k, v) d. dict_set d k v) d e = e @ d" for e
    by (induction d arbitrary: e) (auto simp: set_new)
  from this [of "[]"] show "distinct (map fst d) \<Longrightarrow> dict_of d = d" by (simp add: dict_of_def)
qed

lemma not_blank: "numeric c \<Longrightarrow> \<not> json_blank c" "delimiter c \<Longrightarrow> \<not> json_blank c"
  using digit_is_digit [of c] by (auto simp: numeric_def json_blank_def delimiter_def is_digit_def dec_value_def Let_def)

lemma skip_no_blank: "\<not> json_blank c \<Longrightarrow> skip_blanks (c # s) = c # s"
  by (simp add: skip_blanks_def)

lemma value_no_blank:
  assumes "json_ok v" obtains c s where "canonical_json v = c # s" "\<not> json_blank c" "\<not> delimiter c"
proof -
  have "canonical_json v \<noteq> [] \<and> \<not> json_blank (hd (canonical_json v))"
  proof (cases v)
    case (JInt i)
    with int_text_numeric [of i] not_blank show ?thesis by (cases "int_text i") auto
  next
    case (JFloat t)
    with assms not_blank show ?thesis by (cases t) (auto simp: float_repr_def)
  qed (auto simp: json_blank_def json_string_def)
  then show thesis using that value_start [OF assms] by (cases "canonical_json v") auto
qed

lemma skip_value: "json_ok v \<Longrightarrow> skip_blanks (canonical_json v @ x) = canonical_json v @ x"
  by (metis Cons_eq_appendI skip_no_blank value_no_blank)

text \<open>\<open>reads v\<close>: the reader finds \<open>v\<close> at the head of every text that goes on with a delimiter.\<close>

definition reads :: "json \<Rightarrow> bool" where
  "reads v \<longleftrightarrow> (\<forall>k x. ends x \<longrightarrow> 2 * length (canonical_json v) < k \<longrightarrow>
     parse_value k (canonical_json v @ x) = Inr (json_norm v, x))"

lemma reads_items:
  assumes "\<forall>v\<in>set vs. json_ok v \<and> reads v" "vs \<noteq> []" "2 * length (join '','' (map canonical_json vs)) + 1 < k"
  shows "parse_items k (join '','' (map canonical_json vs) @ CHR '']'' # x) = Inr (map json_norm vs, x)"
  using assms
proof (induction vs arbitrary: k)
  case (Cons v vs)
  from Cons.prems(3) obtain j where k: "k = Suc j" by (cases k) auto
  have v: "parse_value j (canonical_json v @ y) = Inr (json_norm v, y)" if "ends y" for y
    using Cons.prems(1,3) that by (cases vs) (auto simp: k reads_def)
  show ?case
  proof (cases vs)
    case Nil
    then show ?thesis
      by (simp add: k parse_items.simps(2) v skip_no_blank not_blank)
  next
    case (Cons w ws)
    let ?r = "join '','' (map canonical_json vs) @ CHR '']'' # x"
    have r: "parse_items j ?r = Inr (map json_norm vs, x)"
      using Cons.prems Cons by (intro Cons.IH) (auto simp: k)
    have "json_ok w" using Cons.prems(1) Cons by simp
    then have "skip_blanks ?r = ?r" using Cons skip_value [of w] by (cases ws) simp_all
    with r show ?thesis
      using v [of "CHR '','' # ?r"] Cons by (simp add: k parse_items.simps(2) skip_no_blank not_blank)
  qed
qed simp

lemma reads_members:
  assumes "\<forall>kv\<in>set d. json_ok (snd kv) \<and> reads (snd kv)" "d \<noteq> []"
    "2 * length (join '','' (map member_text d)) + 1 < k"
  shows "parse_members k (join '','' (map member_text d) @ CHR 0x7D # x) =
    Inr (map (\<lambda>kv. (fst kv, json_norm (snd kv))) d, x)"
  using assms
proof (induction d arbitrary: k)
  case (Cons m d)
  from Cons.prems(3) obtain j where k: "k = Suc j" by (cases k) auto
  have v: "parse_value j (canonical_json (snd m) @ y) = Inr (json_norm (snd m), y)" if "ends y" for y
    using Cons.prems(1,3) that by (cases d) (auto simp: k reads_def member_text_def)
  have b: "skip_blanks (canonical_json (snd m) @ y) = canonical_json (snd m) @ y" for y
    using Cons.prems(1) by (intro skip_value) simp
  have colon: "\<not> json_blank CHR '':''" by (simp add: json_blank_def)
  have head: "member_text m @ y = quote # concat (map json_char (fst m)) @ quote # CHR '':'' # canonical_json (snd m) @ y" for y
    by (simp add: member_text_def json_string_def)
  note step = parse_members.simps(2) read_json_string skip_no_blank colon b
  show ?case
  proof (cases d)
    case Nil
    then show ?thesis by (simp add: k head step v not_blank)
  next
    case (Cons w ws)
    let ?r = "join '','' (map member_text d) @ CHR 0x7D # x"
    have r: "parse_members j ?r = Inr (map (\<lambda>kv. (fst kv, json_norm (snd kv))) d, x)"
      using Cons.prems Cons by (intro Cons.IH) (auto simp: k)
    have "skip_blanks ?r = ?r"
      using Cons by (cases ws) (simp_all add: member_text_def json_string_def skip_no_blank json_blank_def)
    with r show ?thesis
      using v [of "CHR '','' # ?r"] Cons by (simp add: k head step not_blank)
  qed
qed simp

lemma numeric_no_word: "numeric c \<Longrightarrow> c \<notin> {CHR ''n'', CHR ''t'', CHR ''f'', CHR ''N'', CHR ''I'', quote, CHR 0x7B, CHR ''[''}"
proof -
  have "list_all (\<lambda>c. c \<notin> {CHR ''n'', CHR ''t'', CHR ''f'', CHR ''N'', CHR ''I'', quote, CHR 0x7B, CHR ''['' })
      ''0123456789-.e+''"
    by code_simp
  moreover assume "numeric c"
  then have "c \<in> set ''0123456789-.e+''" by (auto simp: numeric_def digit_def)
  ultimately show ?thesis unfolding list_all_iff by blast
qed

lemma read_plain_number:
  assumes "read_number s = Inr (w, r)" "\<forall>c\<in>set s. numeric c" "ends x"
  shows "read_plain (s @ x) = Inr (w, r @ x)"
proof -
  from read_number_shorter [OF assms(1)] obtain c cs where s: "s = c # cs" by (cases s) auto
  have c: "CHR ''n'' \<noteq> c" "CHR ''t'' \<noteq> c" "CHR ''f'' \<noteq> c" "CHR ''N'' \<noteq> c" "CHR ''I'' \<noteq> c"
    using assms(2) s numeric_no_word [of c] by auto
  have "\<not> starts_with ''Infinity'' (cs @ x)"
  proof (cases cs)
    case Nil
    with assms(3) show ?thesis by (cases x) (auto simp: delimiter_def)
  next
    case (Cons e es)
    with assms(2) s have "numeric e" by simp
    with numeric_no_word Cons show ?thesis by auto
  qed
  with c show ?thesis
    using read_number_before_end [OF assms(1,3)] by (simp add: read_plain_def words_def s)
qed

lemma readable_reads: "json_readable v \<Longrightarrow> reads v"
proof (induction "size v" arbitrary: v rule: less_induct)
  case less
  have step: "parse_value k s = parse_value (Suc (k - 1)) s" if "n < k" for k s and n :: nat using that by simp
  show ?case
    unfolding reads_def
  proof (intro allI impI)
    fix k x
    assume e: "ends x" and k: "2 * length (canonical_json v) < k"
    have num: "parse_value k (s @ x) = Inr (w, x)"
      if "read_number s = Inr (w, [])" "s \<noteq> []" "\<forall>c\<in>set s. numeric c" for s w
    proof -
      from that(2) obtain c cs where s: "s = c # cs" by (cases s) auto
      with that(3) have "c \<notin> {quote, CHR 0x7B, CHR ''[''}" using numeric_no_word by auto
      with read_plain_number [OF that(1,3) e] show ?thesis
        by (simp add: step [OF k] parse_value.simps(2) s)
    qed
    show "parse_value k (canonical_json v @ x) = Inr (json_norm v, x)"
    proof (cases v)
      case (JStr s)
      then show ?thesis
        by (simp add: step [OF k] parse_value.simps(2) json_string_def read_json_string)
    next
      case (JInt i)
      with num [OF read_int_text] int_text_numeric [of i] less.prems show ?thesis by simp
    next
      case (JFloat t)
      with num less.prems show ?thesis by (simp add: float_repr_def)
    next
      case (JList vs)
      have "\<forall>w\<in>set vs. json_ok w \<and> reads w"
        using less JList json_readable_ok by (auto simp: list_all_iff less_Suc_eq_le size_list_estimation')
      note items = reads_items [OF this, of "k - 1" x]
      show ?thesis
      proof (cases vs)
        case Nil
        then show ?thesis
          by (simp add: JList step [OF k] parse_value.simps(2) skip_no_blank not_blank)
      next
        case (Cons w ws)
        have "skip_blanks (join '','' (map canonical_json vs) @ CHR '']'' # x) =
            join '','' (map canonical_json vs) @ CHR '']'' # x" (is "_ = ?r")
          using less.prems JList Cons json_readable_ok skip_value [of w] by (cases ws) simp_all
        moreover have "json_ok w" using less.prems JList Cons json_readable_ok by simp
        then obtain c s where "canonical_json w = c # s" "\<not> delimiter c" by (rule value_no_blank)
        then obtain u where u: "?r = c # u" "c \<noteq> CHR '']''" using Cons by (cases ws; auto simp: delimiter_def)
        moreover have "parse_items (k - 1) ?r = Inr (map json_norm vs, x)"
          using items k by (simp add: JList Cons)
        ultimately have "parse_value (Suc (k - 1)) (CHR ''['' # ?r) = Inr (JList (map json_norm vs), x)"
          by (simp add: parse_value.simps(2))
        then show ?thesis using step [OF k] by (simp add: JList)
      qed
    next
      case (JObj d)
      let ?d = "sort_key fst d"
      have dist: "distinct (map fst d)" using less.prems JObj by simp
      have "\<forall>kv\<in>set ?d. json_ok (snd kv) \<and> reads (snd kv)"
        using less JObj json_readable_ok json_obj_size [of _ d] by (fastforce simp: list_all_iff)
      note members = reads_members [OF this, of "k - 1" x]
      note obj_text = canonical_json_object [OF dist]
      show ?thesis
      proof (cases "?d")
        case Nil
        then show ?thesis
          by (simp add: JObj obj_text step [OF k] parse_value.simps(2) skip_no_blank not_blank
            del: canonical_json.simps json_norm.simps)
      next
        case (Cons w ws)
        obtain s where s: "join '','' (map member_text ?d) @ CHR 0x7D # x = quote # s"
          unfolding Cons by (cases ws) (simp_all add: member_text_def json_string_def)
        have "distinct (map fst (map (\<lambda>kv. (fst kv, json_norm (snd kv))) ?d))"
          using dist by (simp add: o_def distinct_map)
        then have "dict_of (map (\<lambda>kv. (fst kv, json_norm (snd kv))) ?d) = map (\<lambda>kv. (fst kv, json_norm (snd kv))) ?d"
          by (rule dict_of_distinct)
        moreover have "skip_blanks (quote # s) = quote # s" by (rule skip_no_blank) (simp add: json_blank_def)
        moreover have "parse_members (k - 1) (quote # s) = Inr (map (\<lambda>kv. (fst kv, json_norm (snd kv))) ?d, x)"
          using members k by (simp add: JObj obj_text Cons s [symmetric] del: canonical_json.simps json_norm.simps)
        ultimately have "parse_value (Suc (k - 1)) (CHR 0x7B # quote # s) =
            Inr (JObj (map (\<lambda>kv. (fst kv, json_norm (snd kv))) ?d), x)"
          by (simp add: parse_value.simps(2))
        then show ?thesis
          using step [OF k] s by (simp add: JObj obj_text del: canonical_json.simps json_norm.simps)
      qed
    qed (simp_all add: step [OF k] parse_value.simps(2) read_plain_def words_def)
  qed
qed

text \<open>
  Reading the canonical text of a document gives the document back, with the members of every
  object in the order of their names: what was hashed can be parsed, and the bound the reader sets
  itself is enough.
\<close>

theorem json_round_trip:
  assumes "json_readable v" shows "json_loads (canonical_json v) = Inr (json_norm v)"
proof -
  have "skip_blanks (canonical_json v) = canonical_json v"
    using skip_value [of v "[]"] json_readable_ok [OF assms] by simp
  moreover have "parse_value (2 * length (canonical_json v) + 1) (canonical_json v) = Inr (json_norm v, [])"
    using readable_reads [OF assms] unfolding reads_def by (metis append_Nil2 ends_simps(1) less_add_one)
  ultimately show ?thesis by (simp add: json_loads_def skip_blanks_def)
qed

definition sample_document :: json where
  "sample_document = JObj [(''problem'', JStr [quote, CHR 0x0A, CHR 0x01, escape]), (''brief'', JList [JInt (- 20), JObj [], JBool True]),
     (''empty'', JList [])]"

theorem json_round_trip_witness:
  "json_loads (canonical_json sample_document) = Inr (json_norm sample_document) \<and> json_norm sample_document \<noteq> sample_document"
proof -
  have "json_readable sample_document" "json_norm sample_document \<noteq> sample_document" by code_simp+
  with json_round_trip [of sample_document] show ?thesis by simp
qed

end
