(* ===== verification/Model_Answers.thy ===== *)
theory Model_Answers
  imports Investigation_Run_Policy Python_Json
begin

text \<open>
  The answers of the language models (\<open>accelerator/investigation_llm.py\<close>): decoding of a field, the
  short handles for source references, and the checks an answer of the planner or the synthesizer has
  to pass before anything of it is used. An answer is any JSON object.
\<close>

section \<open>Decoding a field\<close>

abbreviation bad_answer :: run_error where
  "bad_answer \<equiv> run_err ''invalid_response''"

text \<open>\<open>json.loads\<close> of a text in a field: only \<open>JSONDecodeError\<close> is handled.\<close>

definition load_text :: "string \<Rightarrow> (run_error, json) res" where
  "load_text s = (case json_loads s of
       Inl Bad_Json \<Rightarrow> Inl bad_answer
     | Inl Too_Many_Digits \<Rightarrow> Inl (Other_Error ''ValueError'')
     | Inr v \<Rightarrow> Inr v)"

text \<open>The value of a field before its type is checked; \<open>dflt\<close> is \<open>{}\<close> or \<open>[]\<close>.\<close>

definition decode_value :: "obj \<Rightarrow> string \<Rightarrow> json \<Rightarrow> (run_error, json) res" where
  "decode_value payload field dflt =
     bindR (case jget_or payload field dflt of JStr s \<Rightarrow> load_text s | v \<Rightarrow> Inr v) (\<lambda>v.
     (let w = (if v = JNull \<and> is_mapping dflt then dflt else v) in
      Inr (if field = ''source_relevance'' \<and> w = JList [] then JObj [] else w)))"

definition decode_mapping :: "obj \<Rightarrow> string \<Rightarrow> (run_error, obj) res" where
  "decode_mapping payload field =
     bindR (decode_value payload field (JObj [])) (\<lambda>v. case v of JObj f \<Rightarrow> Inr f | _ \<Rightarrow> Inl bad_answer)"

definition decode_list :: "obj \<Rightarrow> string \<Rightarrow> (run_error, json list) res" where
  "decode_list payload field =
     bindR (decode_value payload field (JList [])) (\<lambda>v. case v of JList xs \<Rightarrow> Inr xs | _ \<Rightarrow> Inl bad_answer)"

text \<open>\<open>v in {...}\<close> for a set of texts: a list or a mapping cannot be hashed.\<close>

definition in_texts :: "json \<Rightarrow> string list \<Rightarrow> (run_error, bool) res" where
  "in_texts v texts = (case v of
       JStr s \<Rightarrow> Inr (s \<in> set texts)
     | JList xs \<Rightarrow> Inl (Other_Error ''TypeError'')
     | JObj f \<Rightarrow> Inl (Other_Error ''TypeError'')
     | _ \<Rightarrow> Inr False)"

section \<open>The planner's action\<close>

definition clarification_reasons :: "string list" where
  "clarification_reasons = [''missing_evidence'', ''permission_or_scope'', ''value_tradeoff'']"

text \<open>The columns that normalised parameters name.\<close>

definition requested_columns :: "string \<Rightarrow> obj \<Rightarrow> string list" where
  "requested_columns tool params =
     map py_str (items (json_or (jget params ''columns'') (JList []))) @
     (if tool = ''compare_groups''
      then py_str (jget params ''group_by'') #
        map (\<lambda>f. py_str (jget (members f) ''column'')) (items (jget params ''filters'')) @
        map py_str (filter (\<lambda>v. v \<noteq> JNull) [jget params ''value_column'', jget params ''unit_column''])
      else [])"

definition check_source :: "run \<Rightarrow> string \<Rightarrow> obj \<Rightarrow> (run_error, unit) res" where
  "check_source r tool params = (case get_source (r_snapshot r) (py_str (jget params ''source_id'')) of
       None \<Rightarrow> Inl (Other_Error ''DoesNotExist'')
     | Some s \<Rightarrow>
         bindR (raise_if (tool \<in> {''profile_csv'', ''compare_groups''} \<and> src_type s \<noteq> ''csv'') bad_params) (\<lambda>_.
         raise_if (src_type s = ''csv'' \<and> \<not> set (requested_columns tool params) \<subseteq> set (src_columns s)) bad_params))"

definition check_tool_action :: "run \<Rightarrow> obj \<Rightarrow> (run_error, unit) res" where
  "check_tool_action r payload = (let tool = str_at payload ''tool_name'' in
     bindR (raise_if (tool \<notin> set allowed_tools) (run_err ''tool_not_allowed'')) (\<lambda>_.
     bindR (decode_mapping payload ''parameters'') (\<lambda>parameters.
     bindR (normalize_tool_parameters tool (JObj parameters) (Some (source_ids r))) (\<lambda>params.
     (if tool \<in> {''read_source'', ''profile_csv'', ''compare_groups''} then check_source r tool params
      else Inr ())))))"

definition validate_investigation_action :: "run \<Rightarrow> obj \<Rightarrow> (run_error, unit) res" where
  "validate_investigation_action r payload = (let action = jget payload ''action'' in
     bindR (in_texts action [''tool'', ''synthesize'', ''clarify'']) (\<lambda>known.
     bindR (raise_if (\<not> known) (run_err ''invalid_planner_action'')) (\<lambda>_.
     bindR (decode_mapping payload ''parameters'') (\<lambda>parameters.
     bindR (decode_mapping payload ''clarification_payload'') (\<lambda>_.
     bindR (raise_if (action = JStr ''clarify'' \<and>
              str_at payload ''clarification_reason'' \<notin> set clarification_reasons)
              (run_err ''invalid_reason_code'')) (\<lambda>_.
     bindR (raise_if (action = JStr ''synthesize'' \<and> (str_at payload ''tool_name'' \<noteq> [] \<or> parameters \<noteq> []))
              (run_err ''invalid_planner_action'')) (\<lambda>_.
     (if action = JStr ''tool'' then check_tool_action r payload else Inr ()))))))))"

section \<open>The decision package\<close>

text \<open>One iteration of the loop over the classified sources.\<close>

definition check_relevance ::
    "env \<Rightarrow> db \<Rightarrow> run \<Rightarrow> string list \<Rightarrow> string \<times> json \<Rightarrow> (run_error, unit) res" where
  "check_relevance env d r observed kv = (case kv of (source, item) \<Rightarrow> (let f = members item in
     bindR (raise_if (\<not> is_mapping item \<or> (\<forall>b. jget f ''relevant'' \<noteq> JBool b))
              (run_err ''invalid_source_relevance'')) (\<lambda>_.
     bindR (case jget f ''reference'' of
              JNull \<Rightarrow> Inr True | JObj g \<Rightarrow> reference_valid env d r g | _ \<Rightarrow> Inr False) (\<lambda>ok.
     bindR (raise_if (\<not> ok) (run_err ''invalid_source_relevance'')) (\<lambda>_.
     raise_if (jget f ''relevant'' = JBool True \<and> source \<notin> set observed)
       (run_err ''source_relevance_unobserved''))))))"

text \<open>The identifiers of the claims an answer keeps, and of those it replaces.\<close>

definition proposed_ids :: "json list \<Rightarrow> string list" where
  "proposed_ids claims = map (\<lambda>f. py_str (jget f ''claim_id'')) (mappings_in claims)"

definition replaced_ids :: "json list \<Rightarrow> string list" where
  "replaced_ids claims = filter (\<lambda>i. i \<noteq> [])
     (map (\<lambda>f. text_at (members (jget f ''metadata'')) ''replaces_claim_id'') (mappings_in claims))"

definition check_package :: "env \<Rightarrow> db \<Rightarrow> run \<Rightarrow> json list \<Rightarrow> obj \<Rightarrow> obj \<Rightarrow> (run_error, unit) res" where
  "check_package env d r claims brief relevance =
     bindR (raise_if (claims = [] \<or> brief = [] \<or> relevance = []) bad_answer) (\<lambda>_.
     bindR (raise_if (set (map fst relevance) \<noteq> set (source_ids r)) (run_err ''source_relevance_incomplete'')) (\<lambda>_.
     bindR (mapR (check_relevance env d r (observed_sources (successful r))) relevance) (\<lambda>_.
     bindR (raise_if (\<not> set (map cl_id (r_claims r)) \<subseteq> set (proposed_ids claims) \<union> set (replaced_ids claims))
              bad_claim) (\<lambda>_.
     bindR (normalize_claim_register env d r claims) (\<lambda>_.
     raise_if (\<not> set (map fst (r_brief r)) \<subseteq> set (map fst brief)) (run_err ''invalid_brief''))))))"

definition validate_synthesis_package :: "env \<Rightarrow> db \<Rightarrow> run \<Rightarrow> obj \<Rightarrow> (run_error, unit) res" where
  "validate_synthesis_package env d r payload = (let reason = jget_or payload ''clarification_reason'' (JStr []) in
     bindR (in_texts reason [[], ''missing_evidence'']) (\<lambda>known.
     bindR (raise_if (\<not> known) (run_err ''invalid_reason_code'')) (\<lambda>_.
     bindR (decode_mapping payload ''investigation_request'') (\<lambda>request.
     (if request \<noteq> []
      then bindR (raise_if (py_truthy reason) bad_answer) (\<lambda>_.
        raise_if (text_at request ''goal'' = []) bad_answer)
      else if reason = JStr ''missing_evidence''
      then bindR (decode_mapping payload ''clarification_payload'') (\<lambda>clarification.
        raise_if (text_at clarification ''question'' = []) bad_answer)
      else
        bindR (decode_list payload ''claim_register'') (\<lambda>claims.
        bindR (decode_mapping payload ''brief_payload'') (\<lambda>brief.
        bindR (decode_mapping payload ''source_relevance'') (\<lambda>relevance.
        check_package env d r claims brief relevance))))))))"

section \<open>Handles of source references\<close>

text \<open>A catalog lists a handle, a source identifier and a revision hash per source.\<close>

type_synonym catalog = "(string \<times> string \<times> string) list"

definition source_reference_catalog :: "run \<Rightarrow> catalog" where
  "source_reference_catalog r = (let ss = sort_key src_id (snap_sources (r_snapshot r)) in
     map (\<lambda>(n, s). (''S'' @ int_text (int n), src_id s, src_sha256 s)) (zip [1..<Suc (length ss)] ss))"

definition reference_base :: "string \<times> string \<Rightarrow> obj" where
  "reference_base base = [(''source_id'', JStr (fst base)), (''revision_hash'', JStr (snd base))]"

definition catalog_json :: "catalog \<Rightarrow> json" where
  "catalog_json catalog = JObj (map (\<lambda>(handle, base). (handle, JObj (reference_base base))) catalog)"

text \<open>A full reference: exactly the three members, and a locator that is a mapping.\<close>

definition full_reference :: "obj \<Rightarrow> bool" where
  "full_reference f \<longleftrightarrow> set (map fst f) = {''source_id'', ''revision_hash'', ''locator''} \<and>
     is_mapping (jget f ''locator'')"

definition handle_for :: "catalog \<Rightarrow> obj \<Rightarrow> string option" where
  "handle_for catalog f = (if full_reference f
     then map_option fst (find (\<lambda>(handle, source, revision).
       jget f ''source_id'' = JStr source \<and> jget f ''revision_hash'' = JStr revision) catalog)
     else None)"

fun compact_source_references :: "catalog \<Rightarrow> json \<Rightarrow> json" where
  "compact_source_references catalog (JObj f) = (case handle_for catalog f of
       Some handle \<Rightarrow> JObj [(''source_ref'', JStr handle), (''locator'', jget f ''locator'')]
     | None \<Rightarrow> JObj (map (\<lambda>kv. (fst kv, compact_source_references catalog (snd kv))) f))"
| "compact_source_references catalog (JList xs) = JList (map (compact_source_references catalog) xs)"
| "compact_source_references catalog v = v"

abbreviation bad_reference :: run_error where
  "bad_reference \<equiv> run_err ''invalid_source_reference''"

text \<open>What a mapping with a handle stands for.\<close>

definition expand_handle :: "catalog \<Rightarrow> obj \<Rightarrow> (run_error, json) res" where
  "expand_handle catalog f = (case jget f ''source_ref'' of
       JStr handle \<Rightarrow>
         (case map_of catalog handle of
            None \<Rightarrow> Inl bad_reference
          | Some base \<Rightarrow>
              if set (map fst f) \<noteq> {''source_ref'', ''locator''} \<or> \<not> is_mapping (jget f ''locator'')
              then Inl bad_reference
              else Inr (JObj (reference_base base @ [(''locator'', jget f ''locator'')])))
     | _ \<Rightarrow> Inl bad_reference)"

lemma mapR_cong [fundef_cong]:
  "xs = ys \<Longrightarrow> (\<And>x. x \<in> set ys \<Longrightarrow> f x = g x) \<Longrightarrow> mapR f xs = mapR g ys"
  by (induction xs arbitrary: ys) (auto intro!: bindR_cong)

fun expand_source_references :: "catalog \<Rightarrow> json \<Rightarrow> (run_error, json) res" where
  "expand_source_references catalog (JObj f) =
     (if has_key f ''source_ref'' then expand_handle catalog f
      else bindR (mapR (\<lambda>kv. bindR (expand_source_references catalog (snd kv)) (\<lambda>v. Inr (fst kv, v))) f)
        (\<lambda>g. Inr (JObj g)))"
| "expand_source_references catalog (JList xs) =
     bindR (mapR (expand_source_references catalog) xs) (\<lambda>ys. Inr (JList ys))"
| "expand_source_references catalog v = Inr v"

end
