(* ===== verification/Model_Calls.thy ===== *)
theory Model_Calls
  imports Model_Answers Evidence_Budget
begin

text \<open>
  A call of a language model (\<open>accelerator/investigation_llm.py\<close>): the transaction that reserves it
  within the budgets, the transactions that settle it, and the whole call. The provider is an argument:
  what it answers to a request, and the database it leaves, which carries what ran meanwhile.
\<close>

section \<open>The frozen contract\<close>

abbreviation version_unavailable :: run_error where
  "version_unavailable \<equiv> run_err ''execution_version_unavailable''"

text \<open>\<open>d.get(key) or {}\<close>, whose \<open>get\<close> is called.\<close>

definition dict_at :: "obj \<Rightarrow> string \<Rightarrow> (run_error, obj) res" where
  "dict_at f k = (case json_or (jget f k) (JObj []) of
       JObj g \<Rightarrow> Inr g | _ \<Rightarrow> Inl (Other_Error ''AttributeError''))"

text \<open>\<open>set(tools.get("allowlist") or []) == set(ALLOWED_TOOLS)\<close>.\<close>

definition same_allowlist :: "obj \<Rightarrow> (run_error, bool) res" where
  "same_allowlist tools =
     bindR (py_list (json_or (jget tools ''allowlist'') (JList []))) (\<lambda>xs.
     (if list_ex (\<lambda>v. is_list v \<or> is_mapping v) xs then Inl (Other_Error ''TypeError'')
      else Inr (set xs = set (map JStr allowed_tools))))"

definition current_prompt :: "env \<Rightarrow> model_role \<Rightarrow> obj \<Rightarrow> bool" where
  "current_prompt env role frozen \<longleftrightarrow>
     jget frozen ''prompt_version'' = JStr (prompt_version role) \<and>
     jget frozen ''instruction_hash'' = JStr (instruction_hash env (e_instruction env role)) \<and>
     jget frozen ''schema_version'' = JStr (schema_version role)"

definition legacy_prompt :: "env \<Rightarrow> string \<times> string \<times> string \<Rightarrow> obj \<Rightarrow> bool" where
  "legacy_prompt env legacy frozen \<longleftrightarrow> (case legacy of (version, schema, digest) \<Rightarrow>
     jget frozen ''prompt_version'' = JStr version \<and> jget frozen ''schema_version'' = JStr schema \<and>
     jget frozen ''instruction_hash'' = JStr digest \<and>
     (case jget frozen ''instruction_template'' of
        JStr t \<Rightarrow> instruction_hash env t = digest | _ \<Rightarrow> False))"

definition same_tools :: "obj \<Rightarrow> (run_error, bool) res" where
  "same_tools tools =
     (if jget tools ''implementation_version'' \<noteq> JStr tool_version then Inr False
      else bindR (same_allowlist tools) (\<lambda>same. Inr (same \<and>
        jget tools ''schema_version'' = JStr tool_schema_version \<and>
        py_eq (jget tools ''parameter_contracts'') (JObj tool_parameter_contracts))))"

definition same_transport :: "env \<Rightarrow> obj \<Rightarrow> bool" where
  "same_transport env transport \<longleftrightarrow>
     jget_or transport ''requested_model'' (JStr []) = JStr (e_model env) \<and>
     py_eq (jget transport ''provider_policy'') (JObj provider_policy) \<and>
     py_eq (jget transport ''endpoint_capability'') (JObj endpoint_capability) \<and>
     py_eq (jget transport ''role_limits'') (JObj role_limits) \<and>
     (py_truthy (jget transport ''requested_model'') \<longrightarrow>
        jget transport ''requested_model'' = JStr endpoint_model)"

definition same_versions :: "run \<Rightarrow> bool" where
  "same_versions r \<longleftrightarrow> r_loop_version r = loop_version \<and> r_policy_version r = policy_version \<and>
     r_budget_version r = budget_version \<and>
     jget (r_execution r) ''loop_version'' = JStr loop_version \<and>
     jget (r_execution r) ''policy_version'' = JStr policy_version \<and>
     jget (r_execution r) ''budget_version'' = JStr budget_version"

definition assert_frozen_execution_contract :: "env \<Rightarrow> run \<Rightarrow> (run_error, unit) res" where
  "assert_frozen_execution_contract env r = (let frozen = r_execution r in
     bindR (raise_if (\<not> same_versions r) version_unavailable) (\<lambda>_.
     bindR (raise_if (r_mode r = ''fixed'' \<and> jget frozen ''fixed_route_version'' \<noteq> JStr fixed_route_version)
              version_unavailable) (\<lambda>_.
     bindR (dict_at frozen ''tools'') (\<lambda>tools.
     bindR (same_tools tools) (\<lambda>tools_ok.
     bindR (raise_if (\<not> tools_ok) version_unavailable) (\<lambda>_.
     bindR (dict_at frozen ''planner'') (\<lambda>planner.
     bindR (dict_at frozen ''synthesizer'') (\<lambda>synthesizer.
     bindR (dict_at frozen ''verifier'') (\<lambda>verifier.
     bindR (raise_if (\<not> current_prompt env Planner planner \<or>
              \<not> (current_prompt env Synthesizer synthesizer \<or> legacy_prompt env legacy_synthesis synthesizer) \<or>
              \<not> (current_prompt env Verifier verifier \<or> legacy_prompt env legacy_verifier verifier))
              version_unavailable) (\<lambda>_.
     bindR (dict_at frozen ''model_transport'') (\<lambda>transport.
     raise_if (\<not> same_transport env transport) version_unavailable)))))))))))"

section \<open>Reserving a call\<close>

definition estimate_tokens :: "string \<Rightarrow> int" where
  "estimate_tokens s = max 1 ((int (length s) + 3) div 4)"

text \<open>What a role asks: the arguments of \<open>_structured_provider_call\<close>.\<close>

record call_spec =
  cs_role :: model_role
  cs_instruction :: string
  cs_prompt_version :: string
  cs_schema_version :: string
  cs_context :: obj
  cs_format :: json

definition prompt_payload :: "call_spec \<Rightarrow> json" where
  "prompt_payload spec = JObj [(''instruction'', JStr (cs_instruction spec)), (''context'', JObj (cs_context spec))]"

definition prompt_tokens :: "call_spec \<Rightarrow> int" where
  "prompt_tokens spec = estimate_tokens (canonical_json (prompt_payload spec))"

definition context_room :: "call_spec \<Rightarrow> int" where
  "context_room spec = context_tokens - (utf8_length (cs_instruction spec @
     canonical_json (JObj (cs_context spec)) @ canonical_json (cs_format spec)) + 32)"

definition min_planner_completion_tokens :: int where
  "min_planner_completion_tokens = 8192"

definition min_planner_timeout_seconds :: int where
  "min_planner_timeout_seconds = 60"

definition min_verifier_timeout_seconds :: int where
  "min_verifier_timeout_seconds = 75"

definition completion_floor :: "model_role \<Rightarrow> int" where
  "completion_floor role = (if role \<noteq> Verifier then min_planner_completion_tokens else min_verifier_completion_tokens)"

definition timeout_floor :: "model_role \<Rightarrow> int" where
  "timeout_floor role = (if role \<noteq> Verifier then min_planner_timeout_seconds else min_verifier_timeout_seconds)"

text \<open>One share of the reserve, rounded up, for the verifier call that is made now.\<close>

definition share_of :: "int \<Rightarrow> int \<Rightarrow> int" where
  "share_of amount calls = (amount + calls - 1) div calls"

text \<open>What the call has to leave to later calls of the verifier and the synthesizer.\<close>

definition protected_reserve :: "run \<Rightarrow> model_role \<Rightarrow> reserve" where
  "protected_reserve r role = (let reserve = remaining_verifier_reserve r in (case role of
       Planner \<Rightarrow> add_reserve reserve (remaining_synthesis_reserve r)
     | Synthesizer \<Rightarrow> reserve
     | Verifier \<Rightarrow> (let calls = max 1 (dget (r_limits r) ''max_verifier_calls'' - dget (r_usage r) ''verifier_calls'') in
         reserve\<lparr>rv_input_tokens := max 0 (rv_input_tokens reserve - share_of (rv_input_tokens reserve) calls),
           rv_output_tokens := max 0 (rv_output_tokens reserve - completion_floor Verifier),
           rv_seconds := max 0 (rv_seconds reserve - share_of (rv_seconds reserve) calls)\<rparr>)))"

definition remaining_input :: "run \<Rightarrow> int" where
  "remaining_input r = dget (r_limits r) ''max_input_tokens'' - dget (r_usage r) ''input_tokens''"

definition remaining_output :: "run \<Rightarrow> int" where
  "remaining_output r = dget (r_limits r) ''max_output_tokens'' - dget (r_usage r) ''output_tokens''"

definition remaining_seconds :: "int \<Rightarrow> run \<Rightarrow> reserve \<Rightarrow> int" where
  "remaining_seconds now r reserve =
     dget (r_limits r) ''max_runtime_seconds'' - elapsed_seconds now r - rv_seconds reserve"

definition call_timeout :: "int \<Rightarrow> run \<Rightarrow> model_role \<Rightarrow> reserve \<Rightarrow> int" where
  "call_timeout now r role reserve = (let left = remaining_seconds now r reserve in
     min (role_timeout role)
       (if role \<noteq> Verifier
        then max (timeout_floor role) (left div max 1 (dget (r_limits r) ''max_model_calls'' -
          dget (r_usage r) ''model_calls'' - rv_model_calls reserve))
        else left))"

text \<open>The ceiling of the completion before the campaign is asked.\<close>

definition call_ceiling :: "run \<Rightarrow> call_spec \<Rightarrow> reserve \<Rightarrow> int" where
  "call_ceiling r spec reserve = min completion_tokens (min (role_max_tokens (cs_role spec))
     (min (context_room spec) (remaining_output r - rv_output_tokens reserve)))"

definition run_campaign :: "db \<Rightarrow> run \<Rightarrow> (run_error, campaign option) res" where
  "run_campaign d r = (case r_campaign r of
       None \<Rightarrow> Inr None
     | Some i \<Rightarrow> (case find_campaign d i of None \<Rightarrow> Inl (Other_Error ''DoesNotExist'') | Some c \<Rightarrow> Inr (Some c)))"

definition campaign_room :: "campaign option \<Rightarrow> call_spec \<Rightarrow> reserve \<Rightarrow> int \<Rightarrow> (run_error, int) res" where
  "campaign_room campaign spec reserve upper = (case campaign of
       None \<Rightarrow> Inr upper
     | Some c \<Rightarrow> max_reservable_output_tokens c (prompt_tokens spec) upper
         (rv_input_tokens reserve) (rv_output_tokens reserve))"

text \<open>The code of the error when less than the floor is left.\<close>

definition capacity_code :: "campaign option \<Rightarrow> call_spec \<Rightarrow> reserve \<Rightarrow> (run_error, string) res" where
  "capacity_code campaign spec reserve = (let floor = completion_floor (cs_role spec) in
     if context_room spec < floor then Inr ''context_capacity_exhausted''
     else (case campaign of
         None \<Rightarrow> Inr ''completion_budget_exhausted''
       | Some c \<Rightarrow> bindR (campaign_room campaign spec reserve floor) (\<lambda>n.
           Inr (if n < floor then ''evidence_budget_exhausted'' else ''completion_budget_exhausted''))))"

definition call_max_tokens :: "run \<Rightarrow> call_spec \<Rightarrow> reserve \<Rightarrow> campaign option \<Rightarrow> (run_error, int) res" where
  "call_max_tokens r spec reserve campaign =
     bindR (campaign_room campaign spec reserve (call_ceiling r spec reserve)) (\<lambda>n.
     (if n < completion_floor (cs_role spec)
      then bindR (capacity_code campaign spec reserve) (\<lambda>code. Inl (run_err code))
      else Inr n))"

text \<open>The counters after the call is booked.\<close>

definition booked_usage :: "int \<Rightarrow> run \<Rightarrow> model_role \<Rightarrow> (run_error, budget) res" where
  "booked_usage now r role = (let usage = r_usage r; limits = r_limits r in
     bindR (raise_if (dget usage ''model_calls'' \<ge> dget limits ''max_model_calls'') (run_err ''budget_exhausted'')) (\<lambda>_.
     bindR (if role = Verifier
            then (if dget usage ''verifier_calls'' \<ge> dget limits ''max_verifier_calls''
                  then Inl (run_err ''budget_exhausted'') else Inr (bump usage ''verifier_calls''))
            else if budget_exhausted now r True (role = Planner) then Inl (run_err ''budget_exhausted'')
            else Inr usage) (\<lambda>u.
     Inr (bump (bump u ''model_calls'') ''provider_attempts''))))"

definition context_list :: "obj \<Rightarrow> string \<Rightarrow> (run_error, json) res" where
  "context_list ctx k = bindR (py_list (json_or (jget ctx k) (JList []))) (\<lambda>xs. Inr (JList xs))"

definition context_refs :: "run \<Rightarrow> obj \<Rightarrow> (run_error, obj) res" where
  "context_refs r ctx =
     bindR (context_list ctx ''policy_blockers'') (\<lambda>policy.
     bindR (context_list ctx ''pre_verifier_blockers'') (\<lambda>pre.
     Inr [(''source_snapshot_id'', JStr (snap_id (r_snapshot r))), (''manifest_hash'', JStr (r_manifest_hash r)),
       (''register_hash'', JStr (r_register_hash r)), (''brief_hash'', JStr (r_brief_hash r)),
       (''policy_blockers'', policy), (''pre_verifier_blockers'', pre),
       (''synthesis_mode'', JStr (str_at ctx ''synthesis_mode'')),
       (''context_profile'', JStr (str_at ctx ''context_profile'')),
       (''context_chars'', JInt (int (length (canonical_json (JObj ctx)))))]))"

definition new_call :: "env \<Rightarrow> db \<Rightarrow> run \<Rightarrow> call_spec \<Rightarrow> int \<Rightarrow> int \<Rightarrow> obj \<Rightarrow> model_call" where
  "new_call env d r spec timeout tokens refs =
     \<lparr>mc_id = fresh env d, mc_role = cs_role spec, mc_status = Call_Running, mc_generation = r_generation r,
      mc_max_tokens = tokens, mc_timeout = timeout,
      mc_effort = (if cs_role spec = Synthesizer \<and> str_at (cs_context spec) ''synthesis_mode'' = ''pre_verifier_repair''
        then ''low'' else ''medium''),
      mc_instruction = cs_instruction spec, mc_prompt_version = cs_prompt_version spec,
      mc_schema_version = cs_schema_version spec,
      mc_prompt_hash = content_hash (e_hash env) (prompt_payload spec), mc_context = refs,
      mc_requested_model = e_model env, mc_returned_model = [], mc_tokens = None, mc_payload = [],
      mc_payload_hash = [], mc_error = [], mc_created = db_now d, mc_finished = None, mc_diagnostics = [],
      mc_metadata = []\<rparr>"

text \<open>The reservation at the campaign is part of the transaction.\<close>

definition reserve_model_call :: "env \<Rightarrow> db \<Rightarrow> user option \<Rightarrow> string \<Rightarrow> string \<Rightarrow> call_spec \<Rightarrow> model_call txn" where
  "reserve_model_call env d actor i token spec = (let role = cs_role spec in
     bindR (executor_run d actor i token) (\<lambda>r.
     bindR (raise_if (r_status r \<noteq> Running) (run_err ''human_input_required'')) (\<lambda>_.
     bindR (assert_frozen_execution_contract env r) (\<lambda>_.
     bindR (raise_if (prompt_tokens spec > remaining_input r \<or> remaining_output r \<le> 0)
              (run_err ''budget_exhausted'')) (\<lambda>_.
     (let reserve = protected_reserve r role in
     bindR (raise_if (prompt_tokens spec > remaining_input r - rv_input_tokens reserve)
              (run_err ''input_budget_exhausted'')) (\<lambda>_.
     bindR (raise_if (remaining_seconds (db_now d) r reserve < timeout_floor role)
              (run_err ''runtime_capacity_exhausted'')) (\<lambda>_.
     bindR (run_campaign d r) (\<lambda>campaign.
     bindR (call_max_tokens r spec reserve campaign) (\<lambda>tokens.
     bindR (booked_usage (db_now d) r role) (\<lambda>usage.
     bindR (context_refs r (cs_context spec)) (\<lambda>refs.
     (let call = new_call env d r spec (call_timeout (db_now d) r role reserve) tokens refs;
          d' = save_run (draw d) (r\<lparr>r_usage := usage, r_calls := r_calls r @ [call]\<rparr>) in
      bindR (reserve_provider_attempt env d' i (mc_id call) (prompt_tokens spec) tokens) (\<lambda>(d'', v).
      Inr (d'', call)))))))))))))))"

section \<open>Settling a call\<close>

definition get_call :: "run \<Rightarrow> string \<Rightarrow> model_call option" where
  "get_call r i = find (\<lambda>c. mc_id c = i) (r_calls r)"

definition save_call :: "run \<Rightarrow> model_call \<Rightarrow> run" where
  "save_call r c = r\<lparr>r_calls := update_where (\<lambda>x. mc_id x = mc_id c) (\<lambda>_. c) (r_calls r)\<rparr>"

definition call_row :: "db \<Rightarrow> string \<Rightarrow> string \<Rightarrow> (run_error, run \<times> model_call) res" where
  "call_row d i call_id = (case get_run d i of
       None \<Rightarrow> Inl (Other_Error ''DoesNotExist'')
     | Some r \<Rightarrow> (case get_call r call_id of
         None \<Rightarrow> Inl (Other_Error ''DoesNotExist'') | Some c \<Rightarrow> Inr (r, c)))"

definition failed_call :: "int \<Rightarrow> model_call \<Rightarrow> string \<Rightarrow> obj \<Rightarrow> model_call" where
  "failed_call now c code diagnostics = c\<lparr>mc_status := Call_Failed,
     mc_error := take 50 (or_else code ''provider_error''), mc_finished := Some now,
     mc_diagnostics := (if diagnostics \<noteq> [] then diagnostics else mc_diagnostics c)\<rparr>"

definition mark_model_failure :: "db \<Rightarrow> string \<Rightarrow> string \<Rightarrow> string \<Rightarrow> obj \<Rightarrow> unit txn" where
  "mark_model_failure d i call_id code diagnostics =
     bindR (call_row d i call_id) (\<lambda>(r, c). Inr
     (if mc_status c = Call_Running then save_run d (save_call r (failed_call (db_now d) c code diagnostics)) else d, ()))"

definition add_tokens :: "budget \<Rightarrow> int \<Rightarrow> int \<Rightarrow> budget" where
  "add_tokens usage input output = add_usage (add_usage usage ''input_tokens'' input) ''output_tokens'' output"

text \<open>\<open>int(diagnostics[...])\<close> of both counts: \<open>None\<close> when they are missing, no numbers or negative.\<close>

definition reported_count :: "obj \<Rightarrow> string \<Rightarrow> (run_error, int option) res" where
  "reported_count diagnostics k = (case map_of diagnostics k of
       None \<Rightarrow> Inr None
     | Some v \<Rightarrow> (case py_int v of
         Inr n \<Rightarrow> Inr (Some n)
       | Inl e \<Rightarrow> if e = ''OverflowError'' then Inl (Other_Error e) else Inr None))"

definition truncated_usage :: "obj \<Rightarrow> (run_error, (int \<times> int) option) res" where
  "truncated_usage diagnostics =
     bindR (reported_count diagnostics ''usage_prompt_tokens'') (\<lambda>p. (case p of
       None \<Rightarrow> Inr None
     | Some prompt \<Rightarrow>
         bindR (reported_count diagnostics ''usage_completion_tokens'') (\<lambda>c. Inr (case c of
           None \<Rightarrow> None
         | Some completion \<Rightarrow> if prompt < 0 \<or> completion < 0 then None else Some (prompt, completion)))))"

definition reservation_of :: "db \<Rightarrow> string \<Rightarrow> reservation option" where
  "reservation_of d call_id = find (\<lambda>v. pv_call v = call_id) (all_reservations d)"

text \<open>\<open>"max_cost_microunits" in reservation.campaign.limits\<close>.\<close>

definition cost_required :: "db \<Rightarrow> reservation option \<Rightarrow> bool" where
  "cost_required d v = (case Option.bind v (\<lambda>x. holder d (pv_id x)) of
       None \<Rightarrow> False | Some (c, x) \<Rightarrow> cost_capped (cp_limits c))"

definition book_truncated :: "db \<Rightarrow> string \<Rightarrow> string \<Rightarrow> string \<Rightarrow> int \<Rightarrow> int \<Rightarrow> unit txn" where
  "book_truncated d i call_id model prompt completion =
     bindR (call_row d i call_id) (\<lambda>(r, c). Inr
     (save_run d (save_call (r\<lparr>r_usage := add_tokens (r_usage r) prompt completion\<rparr>)
        (c\<lparr>mc_tokens := Some (prompt, completion), mc_returned_model := model\<rparr>)), ()))"

text \<open>Settling a reservation, or leaving it uncertain, for a call that has one.\<close>

definition settle_reservation :: "db \<Rightarrow> reservation option \<Rightarrow> int \<Rightarrow> int \<Rightarrow> int option \<Rightarrow> unit run_io" where
  "settle_reservation d v prompt completion cost = (case v of
       None \<Rightarrow> (d, Inr ())
     | Some x \<Rightarrow> andthen (commit d (settle_provider_attempt d (pv_id x) prompt completion cost)) (\<lambda>d' _. (d', Inr ())))"

definition lose_reservation :: "db \<Rightarrow> reservation option \<Rightarrow> string \<Rightarrow> unit run_io" where
  "lose_reservation d v reason = (case v of
       None \<Rightarrow> (d, Inr ())
     | Some x \<Rightarrow> commit d (mark_provider_attempt_uncertain d (pv_id x) reason))"

definition record_truncated_usage ::
    "db \<Rightarrow> string \<Rightarrow> string \<Rightarrow> reservation option \<Rightarrow> obj \<Rightarrow> unit run_io" where
  "record_truncated_usage d i call_id v diagnostics =
     (case bindR (truncated_usage diagnostics) (\<lambda>counts.
        bindR (cost_to_microunits (jget diagnostics ''usage_cost'')) (\<lambda>cost. Inr (counts, cost))) of
       Inl e \<Rightarrow> (d, Inl e)
     | Inr (counts, cost) \<Rightarrow> (case counts of
         Some (prompt, completion) \<Rightarrow>
           if cost_required d v \<and> cost = None then lose_reservation d v ''output_truncated_usage_incomplete''
           else andthen (settle_reservation d v prompt completion cost) (\<lambda>d' _.
             commit d' (book_truncated d' i call_id (str_at diagnostics ''returned_model'') prompt completion))
       | None \<Rightarrow> lose_reservation d v ''output_truncated_usage_incomplete''))"

section \<open>The provider\<close>

text \<open>
  What the provider returns: a completion, or the exception \<open>OpenRouterUnavailable\<close> with its code and
  diagnostics. Usage is the mapping the provider reports.
\<close>

record completion =
  co_content :: string
  co_model :: string
  co_usage :: obj
  co_chars :: int
  co_finish :: string

datatype reply = Completion completion | Unavailable string obj

record provider_request =
  pq_messages :: "string \<times> string"
  pq_max_tokens :: int
  pq_timeout :: int
  pq_format :: json
  pq_effort :: string

text \<open>The provider, and the text of an exception, which the model keeps by its code.\<close>

record transport =
  tp_request :: "db \<Rightarrow> provider_request \<Rightarrow> db \<times> reply"
  tp_message :: "run_error \<Rightarrow> string"

definition call_messages :: "call_spec \<Rightarrow> string \<times> string" where
  "call_messages spec = (cs_instruction spec, canonical_json (JObj (cs_context spec)))"

definition request_of :: "call_spec \<Rightarrow> model_call \<Rightarrow> provider_request" where
  "request_of spec call = \<lparr>pq_messages = call_messages spec, pq_max_tokens = mc_max_tokens call,
     pq_timeout = mc_timeout call, pq_format = cs_format spec, pq_effort = mc_effort call\<rparr>"

datatype outcome = Payload completion obj | No_Answer string obj | Invalid_Answer

definition truncated_diagnostics :: "completion \<Rightarrow> obj" where
  "truncated_diagnostics c =
     [(''finish_reason'', JStr (co_finish c)), (''content_length'', JInt (int (length (co_content c)))),
      (''returned_model'', JStr (co_model c)), (''usage_prompt_tokens'', jget (co_usage c) ''prompt_tokens''),
      (''usage_completion_tokens'', jget (co_usage c) ''completion_tokens''),
      (''usage_total_tokens'', jget (co_usage c) ''total_tokens''), (''usage_cost'', jget (co_usage c) ''cost'')]"

definition outcome_of :: "reply \<Rightarrow> outcome" where
  "outcome_of reply = (case reply of
       Unavailable code diagnostics \<Rightarrow> No_Answer code diagnostics
     | Completion c \<Rightarrow>
         if co_finish c = ''length'' then No_Answer ''output_truncated'' (truncated_diagnostics c)
         else (case json_loads (co_content c) of Inr (JObj payload) \<Rightarrow> Payload c payload | _ \<Rightarrow> Invalid_Answer))"

text \<open>\<open>_usage_tokens\<close>: a count that is missing or no number is estimated.\<close>

definition token_count :: "json \<Rightarrow> string \<Rightarrow> (run_error, int) res" where
  "token_count v s = (if v = JNull then Inr (estimate_tokens s) else (case py_int v of
       Inr n \<Rightarrow> Inr n
     | Inl e \<Rightarrow> if e = ''OverflowError'' then Inl (Other_Error e) else Inr (estimate_tokens s)))"

definition usage_tokens :: "completion \<Rightarrow> string \<times> string \<Rightarrow> (run_error, int \<times> int) res" where
  "usage_tokens c messages =
     bindR (token_count (jget (co_usage c) ''prompt_tokens'') (fst messages @ snd messages)) (\<lambda>prompt.
     bindR (token_count (jget (co_usage c) ''completion_tokens'') (co_content c)) (\<lambda>answer.
     Inr (prompt, answer)))"

section \<open>The whole call\<close>

definition reasoning_metadata :: "json \<Rightarrow> (run_error, obj) res" where
  "reasoning_metadata v = (case v of
       JInt n \<Rightarrow> Inr [(''reasoning_tokens'', JInt n)]
     | JFloat t \<Rightarrow> bindR (to_int v) (\<lambda>n. Inr [(''reasoning_tokens'', JInt n)])
     | _ \<Rightarrow> Inr [])"

definition answered_call :: "int \<Rightarrow> model_call \<Rightarrow> completion \<Rightarrow> int \<Rightarrow> int \<Rightarrow> obj \<Rightarrow> model_call" where
  "answered_call now c answer prompt completion reasoning = c\<lparr>mc_returned_model := co_model answer,
     mc_tokens := Some (prompt, completion), mc_finished := Some now,
     mc_metadata := [(''output_chars'', JInt (co_chars answer)), (''finish_reason'', JStr (co_finish answer))] @ reasoning\<rparr>"

text \<open>How the call ends: discarded, failed with the error of the validation, or successful.\<close>

definition ended_call :: "env \<Rightarrow> transport \<Rightarrow> bool \<Rightarrow> run_error option \<Rightarrow> obj \<Rightarrow> model_call \<Rightarrow> model_call" where
  "ended_call env tp stale refused payload c =
     (if stale then c\<lparr>mc_status := Call_Discarded, mc_error := ''stale_executor''\<rparr>
      else (case refused of
        Some e \<Rightarrow> c\<lparr>mc_status := Call_Failed, mc_error := ''invalid_response'',
          mc_diagnostics := [(''structured_contract_error'', JStr (tp_message tp e)),
            (''structured_contract_error_code'', JStr (err_code e))]\<rparr>
      | None \<Rightarrow> c\<lparr>mc_status := Call_Success, mc_payload := payload,
          mc_payload_hash := content_hash (e_hash env) (JObj payload)\<rparr>))"

definition stale_call :: "run \<Rightarrow> int \<Rightarrow> string \<Rightarrow> bool" where
  "stale_call r generation token \<longleftrightarrow> \<not> owns_run r generation token \<or> r_status r \<noteq> Running"

definition finish_model_call ::
    "env \<Rightarrow> transport \<Rightarrow> db \<Rightarrow> string \<Rightarrow> string \<Rightarrow> model_call \<Rightarrow> completion \<Rightarrow> int \<times> int \<Rightarrow>
      run_error option \<Rightarrow> obj \<Rightarrow> (bool \<times> model_call) txn" where
  "finish_model_call env tp d i token call answer tokens refused payload =
     bindR (call_row d i (mc_id call)) (\<lambda>(r, c).
     bindR (reasoning_metadata (jget (co_usage answer) ''reasoning_tokens'')) (\<lambda>reasoning.
     (let stale = stale_call r (mc_generation call) token;
          r' = r\<lparr>r_usage := add_tokens (r_usage r) (fst tokens) (snd tokens)\<rparr>;
          c' = ended_call env tp stale refused payload
            (answered_call (db_now d) c answer (fst tokens) (snd tokens) reasoning) in
      Inr (save_run d (save_call r' c'), (stale, c')))))"

text \<open>The reservation after an accepted or refused answer.\<close>

definition settle_answer :: "db \<Rightarrow> reservation option \<Rightarrow> completion \<Rightarrow> unit run_io" where
  "settle_answer d v answer = (case v of
       None \<Rightarrow> (d, Inr ())
     | Some x \<Rightarrow> (let usage = co_usage answer in
         (case cost_to_microunits (jget usage ''cost'') of
            Inl e \<Rightarrow> (d, Inl e)
          | Inr cost \<Rightarrow>
              if jget usage ''prompt_tokens'' = JNull \<or> jget usage ''completion_tokens'' = JNull \<or>
                 cost_required d v \<and> cost = None
              then lose_reservation d v ''provider_usage_metadata_incomplete''
              else (case bindR (to_int (jget usage ''prompt_tokens'')) (\<lambda>p.
                     bindR (to_int (jget usage ''completion_tokens'')) (\<lambda>c. Inr (p, c))) of
                  Inl e \<Rightarrow> (d, Inl e)
                | Inr (p, c) \<Rightarrow> settle_reservation d v p c cost))))"

definition fail_call :: "db \<Rightarrow> string \<Rightarrow> string \<Rightarrow> string \<Rightarrow> obj \<Rightarrow> 'a run_io" where
  "fail_call d i call_id code diagnostics =
     andthen (commit d (mark_model_failure d i call_id code diagnostics)) (\<lambda>d' _. (d', Inl (run_err code)))"

text \<open>The verdict of the validator: a run error refuses the answer, any other exception escapes.\<close>

definition refusal :: "(run_error, unit) res \<Rightarrow> (run_error, run_error option) res" where
  "refusal verdict = (case verdict of
       Inr u \<Rightarrow> Inr None
     | Inl e \<Rightarrow> (case e of Run_Error c i \<Rightarrow> Inr (Some e) | _ \<Rightarrow> Inl e))"

definition finish_answer ::
    "env \<Rightarrow> transport \<Rightarrow> db \<Rightarrow> string \<Rightarrow> string \<Rightarrow> call_spec \<Rightarrow> model_call \<Rightarrow> reservation option \<Rightarrow> completion \<Rightarrow>
      obj \<Rightarrow> (run_error, unit) res \<Rightarrow> (obj \<times> model_call) run_io" where
  "finish_answer env tp d i token spec call v answer payload verdict =
     (case bindR (refusal verdict) (\<lambda>refused.
        bindR (usage_tokens answer (call_messages spec)) (\<lambda>tokens. Inr (refused, tokens))) of
       Inl e \<Rightarrow> (d, Inl e)
     | Inr (refused, tokens) \<Rightarrow>
         andthen (settle_answer d v answer) (\<lambda>d1 _.
         andthen (commit d1 (finish_model_call env tp d1 i token call answer tokens refused payload))
           (\<lambda>d2 (stale, c).
           (d2, if stale then Inl (run_err ''stale_executor'')
                else if refused \<noteq> None then Inl bad_answer else Inr (payload, c)))))"

text \<open>What becomes of the provider's reply.\<close>

definition use_reply ::
    "env \<Rightarrow> transport \<Rightarrow> db \<Rightarrow> string \<Rightarrow> string \<Rightarrow> call_spec \<Rightarrow> (db \<Rightarrow> obj \<Rightarrow> (run_error, unit) res) \<Rightarrow>
      model_call \<Rightarrow> reservation option \<Rightarrow> reply \<Rightarrow> (obj \<times> model_call) run_io" where
  "use_reply env tp d i token spec validator call v reply = (case outcome_of reply of
       No_Answer code diagnostics \<Rightarrow>
         andthen (if code = ''output_truncated'' then record_truncated_usage d i (mc_id call) v diagnostics
                  else lose_reservation d v code)
           (\<lambda>d' _. fail_call d' i (mc_id call) code diagnostics)
     | Invalid_Answer \<Rightarrow>
         andthen (lose_reservation d v ''invalid_response'')
           (\<lambda>d' _. fail_call d' i (mc_id call) ''invalid_response'' [])
     | Payload answer payload \<Rightarrow>
         finish_answer env tp d i token spec call v answer payload (validator d payload))"

definition structured_provider_call ::
    "env \<Rightarrow> transport \<Rightarrow> db \<Rightarrow> user option \<Rightarrow> string \<Rightarrow> string \<Rightarrow> call_spec \<Rightarrow>
      (db \<Rightarrow> obj \<Rightarrow> (run_error, unit) res) \<Rightarrow> (obj \<times> model_call) run_io" where
  "structured_provider_call env tp d actor i token spec validator =
     andthen (commit d (reserve_model_call env d actor i token spec)) (\<lambda>d1 call.
     (case tp_request tp d1 (request_of spec call) of (d2, reply) \<Rightarrow>
       use_reply env tp d2 i token spec validator call (reservation_of d1 (mc_id call)) reply))"

end
