(* ===== verification/Model_Roles.thy ===== *)
theory Model_Roles
  imports Model_Calls Investigation_Loop Source_Replay
begin

text \<open>
  The three roles of the language model (\<open>accelerator/investigation_llm.py\<close>) as the loop calls them: the
  context each gets, the action made of an answer of the planner or the synthesizer, and the verifier's
  rounds of reading and judging with the report they end in.
\<close>

section \<open>Where the package stands\<close>

definition latest_successful_synthesis :: "run \<Rightarrow> model_call option" where
  "latest_successful_synthesis r =
     first_opt (rev (filter (\<lambda>c. mc_role c = Synthesizer \<and> mc_status c = Call_Success) (r_calls r)))"

text \<open>A gap the latest synthesis asked to investigate, while nothing was read or answered since.\<close>

definition pending_synthesis_investigation :: "run \<Rightarrow> obj" where
  "pending_synthesis_investigation r = (case latest_successful_synthesis r of
       None \<Rightarrow> []
     | Some c \<Rightarrow> (let raw = members (jget (mc_payload c) ''investigation_request''); goal = text_at raw ''goal'' in
         if goal = [] \<or> (\<exists>s\<in>set (successful r). mc_created c < st_started s) \<or>
            (\<exists>x\<in>set (r_inputs r). mc_created c < in_created x)
         then [] else [(''goal'', JStr goal), (''reason'', JStr (text_at raw ''reason''))]))"

text \<open>\<open>finished_at__gt\<close>: a comparison with a missing time selects nothing.\<close>

definition after_time :: "int option \<Rightarrow> int option \<Rightarrow> bool" where
  "after_time t since = (case (t, since) of (Some x, Some y) \<Rightarrow> y < x | _ \<Rightarrow> False)"

definition contract_retry :: "run \<Rightarrow> bool" where
  "contract_retry r = (case latest_call r of
       None \<Rightarrow> False
     | Some c \<Rightarrow> mc_role c = Synthesizer \<and> mc_status c = Call_Failed \<and> mc_error c = ''invalid_response'')"

definition verifier_objects :: "run \<Rightarrow> bool" where
  "verifier_objects r = (case latest_report r of
       None \<Rightarrow> False
     | Some p \<Rightarrow> \<not> rp_success p \<and> (case latest_successful_synthesis r of
         None \<Rightarrow> True | Some c \<Rightarrow> mc_created c < rp_created p))"

definition synthesis_mode :: "env \<Rightarrow> db \<Rightarrow> run \<Rightarrow> (run_error, string) res" where
  "synthesis_mode env d r =
     (if contract_retry r then Inr ''contract_retry''
      else if verifier_objects r then Inr ''verifier_repair''
      else (case latest_successful_synthesis r of
         None \<Rightarrow> Inr ''initial''
       | Some c \<Rightarrow>
           if (\<exists>s\<in>set (successful r). after_time (st_finished s) (mc_finished c)) \<or>
              (\<exists>x\<in>set (r_inputs r). after_time (Some (in_created x)) (mc_finished c))
           then Inr ''post_evidence''
           else bindR (pre_verifier_blockers_for_run env d r) (\<lambda>blockers.
             Inr (if blockers \<noteq> [] then ''pre_verifier_repair'' else ''refresh''))))"

section \<open>Contexts\<close>

definition texts_json :: "string list \<Rightarrow> json" where
  "texts_json ts = JList (map JStr ts)"

definition last_planner_error :: "run \<Rightarrow> obj" where
  "last_planner_error r = (case latest_call r of
       None \<Rightarrow> []
     | Some c \<Rightarrow>
         if mc_role c \<in> {Planner, Synthesizer} \<and> mc_status c = Call_Failed \<and> mc_error c = ''invalid_response''
         then [(''code'', JStr (mc_error c)),
           (''detail'', JStr (take 250 (str_at (mc_diagnostics c) ''structured_contract_error'')))]
         else [])"

definition existing_solution_options :: "run \<Rightarrow> (run_error, json) res" where
  "existing_solution_options r =
     bindR (dict_at (r_execution r) ''domain_materialization_base'') (\<lambda>base.
     bindR (py_list (jget_or base ''solution_options'' (JList []))) (\<lambda>options.
     Inr (JList (map (\<lambda>f. JObj (map (\<lambda>k. (k, JStr (str_at f k)))
         [''id'', ''name'', ''option_type'', ''description'', ''expected_value'', ''recommendation'', ''evaluation_status'']))
       (filter (\<lambda>f. py_truthy (jget f ''id'')) (mappings_in options))))))"

definition source_json :: "json \<Rightarrow> json" where
  "source_json v = JObj (map (\<lambda>k. (k, jget (members v) k))
     [''source_id'', ''filename'', ''source_type'', ''row_count'', ''columns'', ''content_sha256''])"

definition recent_steps :: "run \<Rightarrow> obj list" where
  "recent_steps r = map (\<lambda>s.
     [(''sequence'', JInt (st_sequence s)), (''tool_name'', JStr (st_tool s)), (''parameters'', JObj (st_parameters s)),
      (''result_payload'', st_payload s), (''progress_kind'', JStr (st_progress_kind s)),
      (''progress_payload'', JObj (st_progress_payload s))]) (rev (sort_key st_sequence (r_steps r)))"

definition input_revisions :: "run \<Rightarrow> json" where
  "input_revisions r = JList (map (\<lambda>x. JObj
     [(''revision'', JInt (in_revision x)), (''payload'', JObj (in_payload x)), (''payload_hash'', JStr (in_hash x))])
     (sort_key in_revision (r_inputs r)))"

definition latest_verifier :: "run \<Rightarrow> obj" where
  "latest_verifier r = (case latest_report r of
       None \<Rightarrow> []
     | Some p \<Rightarrow> [(''success'', JBool (rp_success p)), (''findings'', rp_findings p),
         (''source_references_valid'', JBool (rp_references_valid p)),
         (''checked_critical_claims'', texts_json (rp_checked p)),
         (''bound_hashes'', JObj (map (\<lambda>(k, h). (k, JStr h)) (rp_hashes p)))])"

definition tool_contracts_of :: "run \<Rightarrow> (run_error, json) res" where
  "tool_contracts_of r = bindR (dict_at (r_execution r) ''tools'') (\<lambda>tools.
     Inr (jget_or tools ''parameter_contracts'' (JObj [])))"

definition planner_context :: "env \<Rightarrow> db \<Rightarrow> user option \<Rightarrow> run \<Rightarrow> (run_error, obj) res" where
  "planner_context env d actor r =
     bindR (list_sources env d actor (JStr (snap_id (r_snapshot r)))) (\<lambda>sources.
     bindR (pre_verifier_blockers_for_run env d r) (\<lambda>pre.
     bindR (synthesis_mode env d r) (\<lambda>mode.
     bindR (existing_solution_options r) (\<lambda>options.
     bindR (tool_contracts_of r) (\<lambda>contracts.
     bindR (evaluate_run_policy env d r False False) (\<lambda>decision. Inr
       [(''phase'', JStr ''investigation''),
        (''synthesis_investigation_request'', JObj (pending_synthesis_investigation r)),
        (''decision_question'', JStr (r_question r)), (''process_context'', snap_context (r_snapshot r)),
        (''existing_solution_options'', options),
        (''sources'', JList (map source_json (items (jget (members sources) ''sources'')))),
        (''tool_parameter_contracts'', contracts), (''last_planner_error'', JObj (last_planner_error r)),
        (''claim_register'', claims_json (r_claims r)), (''source_relevance'', JObj (r_relevance r)),
        (''brief_payload'', JObj (r_brief r)), (''recent_steps'', JList (map JObj (recent_steps r))),
        (''input_revisions'', input_revisions r), (''usage'', budget_json (r_usage r)),
        (''budget_limits'', budget_json (r_limits r)), (''policy_blockers'', texts_json (pd_blockers decision)),
        (''pre_verifier_blockers'', texts_json pre), (''synthesis_mode'', JStr mode),
        (''latest_verifier'', JObj (latest_verifier r))]))))))"

definition package_fields :: "string list" where
  "package_fields = [''claim_register'', ''brief_payload'', ''source_relevance'']"

definition coverage_json :: "run \<Rightarrow> obj" where
  "coverage_json r = [(''data_check_executed'', JBool (r_data_check r)),
     (''counterevidence_search_executed'', JBool (r_counter_search r)),
     (''counterevidence_hits_processed'', JBool (r_counter_processed r))]"

definition investigation_context :: "env \<Rightarrow> db \<Rightarrow> user option \<Rightarrow> run \<Rightarrow> (run_error, obj) res" where
  "investigation_context env d actor r =
     bindR (planner_context env d actor r) (\<lambda>ctx. Inr
       (map (\<lambda>(k, v). (k, if k = ''recent_steps'' then JList (take 5 (items v)) else v))
          (filter (\<lambda>kv. fst kv \<notin> set package_fields) ctx) @
        [(''evidence_coverage'', JObj (coverage_json r))]))"

definition compact_package_context :: "obj \<Rightarrow> run \<Rightarrow> obj" where
  "compact_package_context ctx r = (let catalog = source_reference_catalog r in
     map (\<lambda>(k, v). (k, if k \<in> set package_fields then compact_source_references catalog v else v)) ctx @
     [(''source_reference_catalog'', catalog_json catalog)])"

definition obligations_json :: "run \<Rightarrow> json" where
  "obligations_json r = JList (map obligation_json (r_obligations r))"

definition synthesis_context :: "env \<Rightarrow> db \<Rightarrow> user option \<Rightarrow> run \<Rightarrow> (run_error, obj) res" where
  "synthesis_context env d actor r =
     bindR (planner_context env d actor r) (\<lambda>ctx. (let
       mode = py_str (jget ctx ''synthesis_mode'');
       same = (\<lambda>k. (k, jget ctx k));
       step = (\<lambda>v. JObj (map (\<lambda>k. (k, jget (members v) k)) [''sequence'', ''tool_name'', ''parameters'', ''result_payload''])) in
     Inr (compact_package_context
       ([(''context_profile'', JStr ''synthesis_compact_v2'')] @
        map same [''decision_question'', ''process_context'', ''existing_solution_options'', ''sources''] @
        [(''evidence_steps'', JList (map step (rev (items (jget ctx ''recent_steps'')))))] @
        [same ''input_revisions''] @
        [(''structured_mapping_obligations'', obligations_json r),
         (''evidence_coverage'', JObj (coverage_json r @ [(''source_relevance_complete'', JBool (r_relevance_complete r))])),
         (''synthesis_mode'', JStr mode),
         (''pre_verifier_blockers'', if mode = ''pre_verifier_repair'' then jget ctx ''pre_verifier_blockers'' else JList []),
         (''claim_register'', if mode \<noteq> ''initial'' then claims_json (r_claims r) else JList []),
         (''source_relevance'', if mode \<noteq> ''initial'' then JObj (r_relevance r) else JObj []),
         (''brief_payload'', if mode \<noteq> ''initial'' then JObj (r_brief r) else JObj [])] @
        (if mode = ''verifier_repair'' then [same ''latest_verifier''] else []) @
        (if mode = ''contract_retry'' then [(''last_synthesis_error'', jget ctx ''last_planner_error'')] else [])) r)))"

section \<open>Replaying the analyses\<close>

definition missing_replay :: "step \<Rightarrow> string \<Rightarrow> string \<Rightarrow> obj" where
  "missing_replay s result field =
     [(''step_sequence'', JInt (st_sequence s)), (''tool_name'', JStr (st_tool s)), (''result_id'', JStr result),
      (''matches'', JBool False), (''stored_hash'', JStr []), (''replay_hash'', JStr []),
      (''mismatch_fields'', texts_json [field])]"

definition replay_json :: "step \<Rightarrow> replayed \<Rightarrow> obj" where
  "replay_json s p =
     [(''step_sequence'', JInt (st_sequence s)), (''tool_name'', JStr (rl_tool p)), (''result_id'', JStr (rl_result p)),
      (''source_id'', JStr (rl_source p)), (''source_hash'', JStr (rl_source_hash p)), (''matches'', JBool (rl_matches p)),
      (''stored_hash'', JStr (rl_stored_hash p)), (''replay_hash'', JStr (rl_replay_hash p)),
      (''mismatch_fields'', texts_json (rl_mismatches p))]"

definition replay_step :: "env \<Rightarrow> db \<Rightarrow> user option \<Rightarrow> step \<Rightarrow> (run_error, obj) res" where
  "replay_step env d actor s =
     (if \<not> is_mapping (st_result_ref s) then Inl (Other_Error ''AttributeError'')
      else (let i = jget (members (st_result_ref s)) ''tool_result_id'' in
        if \<not> py_truthy i then Inr (missing_replay s [] ''missing_result_ref'')
        else (case replay_tool_result env d actor i of
            Inr p \<Rightarrow> Inr (replay_json s p)
          | Inl e \<Rightarrow> (case e of Tool_Error code \<Rightarrow> Inr (missing_replay s (py_str i) code) | _ \<Rightarrow> Inl e))))"

definition deterministic_analysis_replays :: "env \<Rightarrow> db \<Rightarrow> user option \<Rightarrow> run \<Rightarrow> (run_error, obj list) res" where
  "deterministic_analysis_replays env d actor r = mapR (replay_step env d actor)
     (filter (\<lambda>s. st_tool s \<in> {''profile_csv'', ''compare_groups''}) (sort_key st_sequence (successful r)))"

definition replay_message :: string where
  "replay_message = ''Eine gespeicherte deterministische Analyse konnte aus ihren eingefrorenen Eingaben '' @
     ''nicht identisch reproduziert werden.''"

definition replay_finding :: "obj \<Rightarrow> json" where
  "replay_finding p = JObj
     [(''severity'', JStr ''critical''), (''code'', JStr ''deterministic_analysis_replay_mismatch''),
      (''claim_id'', JStr []), (''message'', JStr replay_message),
      (''result_id'', jget_or p ''result_id'' (JStr [])), (''tool_name'', jget_or p ''tool_name'' (JStr [])),
      (''mismatch_fields'', jget_or p ''mismatch_fields'' (JList []))]"

text \<open>The mappings among the items of a field that is iterated.\<close>

definition mappings_at :: "obj \<Rightarrow> string \<Rightarrow> (run_error, obj list) res" where
  "mappings_at payload k = bindR (py_list (jget_or payload k (JList []))) (\<lambda>xs. Inr (mappings_in xs))"

definition apply_replay_findings :: "obj \<Rightarrow> obj list \<Rightarrow> (run_error, obj) res" where
  "apply_replay_findings payload replays =
     bindR (mappings_at payload ''findings'') (\<lambda>findings. Inr (dict_set payload ''findings''
       (JList (map JObj findings @ map replay_finding (filter (\<lambda>p. \<not> py_truthy (jget p ''matches'')) replays)))))"

definition run_hashes :: "run \<Rightarrow> (string, string) dict" where
  "run_hashes r = [(''contract'', r_contract_hash r), (''manifest'', r_manifest_hash r),
     (''register'', r_register_hash r), (''brief'', r_brief_hash r)]"

definition verifier_context :: "run \<Rightarrow> obj list \<Rightarrow> obj" where
  "verifier_context r replays = compact_package_context
     [(''context_profile'', JStr ''verification_compact_v1''), (''decision_question'', JStr (r_question r)),
      (''process_context'', snap_context (r_snapshot r)), (''claim_register'', claims_json (r_claims r)),
      (''source_relevance'', JObj (r_relevance r)), (''brief_payload'', JObj (r_brief r)),
      (''structured_mapping_obligations'', obligations_json r), (''analysis_replays'', JList (map JObj replays)),
      (''tool_trace'', JList (map (\<lambda>s. JObj
         [(''sequence'', JInt (st_sequence s)), (''tool_name'', JStr (st_tool s)), (''parameters'', JObj (st_parameters s)),
          (''result_ref'', st_result_ref s), (''result_hash'', JStr (st_hash s))])
         (sort_key st_sequence (successful r)))),
      (''bound_hashes'', JObj (map (\<lambda>(k, h). (k, JStr h)) (run_hashes r)))] r"

section \<open>The verifier's report\<close>

definition run_critical_claims :: "run \<Rightarrow> string list" where
  "run_critical_claims r = map cl_id
     (filter (\<lambda>c. cl_critical c \<and> is_evidence_claim (cl_area c) (cl_kind c)) (r_claims r))"

definition claims_referenced :: "run \<Rightarrow> bool" where
  "claims_referenced r \<longleftrightarrow> (\<forall>c\<in>set (r_claims r).
     cl_status c \<in> {''supported'', ''refuted''} \<and> is_evidence_claim (cl_area c) (cl_kind c) \<longrightarrow> cl_references_valid c)"

definition next_report :: "run \<Rightarrow> int" where
  "next_report r = fold (\<lambda>p m. max m (rp_revision p)) (r_reports r) 0 + 1"

definition new_report :: "run \<Rightarrow> int \<Rightarrow> model_call \<Rightarrow> obj list \<Rightarrow> bool \<Rightarrow> string list \<Rightarrow> report" where
  "new_report r now call findings sources_valid checked = (let
     critical = length (filter (\<lambda>f. jget f ''severity'' = JStr ''critical'') findings);
     valid = (sources_valid \<and> claims_referenced r) in
     \<lparr>rp_revision = next_report r,
      rp_success = (critical = 0 \<and> valid \<and> set (run_critical_claims r) \<subseteq> set checked),
      rp_findings = JList (map JObj findings), rp_critical = int critical, rp_references_valid = valid,
      rp_checked = checked, rp_hashes = run_hashes r, rp_created = now, rp_call = mc_id call,
      rp_generation = r_generation r\<rparr>)"

definition record_verifier_report :: "db \<Rightarrow> string \<Rightarrow> model_call \<Rightarrow> obj \<Rightarrow> report txn" where
  "record_verifier_report d i call payload = (case get_run d i of
       None \<Rightarrow> Inl (Other_Error ''DoesNotExist'')
     | Some r \<Rightarrow>
         bindR (mappings_at payload ''findings'') (\<lambda>findings.
         bindR (py_list (jget_or payload ''checked_critical_claims'' (JList []))) (\<lambda>checked.
         (let p = new_report r (db_now d) call findings (py_truthy (jget payload ''source_references_valid''))
            (filter (\<lambda>s. s \<noteq> []) (map py_str checked)) in
          Inr (save_run d (r\<lparr>r_reports := r_reports r @ [p]\<rparr>), p)))))"

section \<open>The verifier's rounds\<close>

text \<open>The response formats of the roles; the verifier's is a strict schema.\<close>

definition json_type :: "string \<Rightarrow> json" where
  "json_type s = JObj [(''type'', JStr s)]"

definition array_of :: "json \<Rightarrow> json" where
  "array_of v = JObj [(''type'', JStr ''array''), (''items'', v)]"

definition closed_object :: "(string \<times> json) list \<Rightarrow> json" where
  "closed_object fs = JObj [(''type'', JStr ''object''), (''properties'', JObj fs),
     (''required'', texts_json (map fst fs)), (''additionalProperties'', JBool False)]"

definition response_format :: "model_role \<Rightarrow> json" where
  "response_format role = (if role \<noteq> Verifier then json_type ''json_object''
     else JObj [(''type'', JStr ''json_schema''), (''json_schema'', JObj
       [(''name'', JStr ''vs1_verifier_report''), (''strict'', JBool True), (''schema'', closed_object
         [(''read_requests'', array_of (closed_object
            [(''source_id'', json_type ''string''), (''cursor'', json_type ''integer''), (''limit'', json_type ''integer''),
             (''columns'', array_of (json_type ''string'')), (''claim_id'', json_type ''string'')])),
          (''findings'', array_of (closed_object
            [(''severity'', JObj [(''type'', JStr ''string''), (''enum'', texts_json [''critical'', ''noncritical''])]),
             (''code'', json_type ''string''), (''claim_id'', json_type ''string''), (''message'', json_type ''string'')])),
          (''source_references_valid'', json_type ''boolean''),
          (''checked_critical_claims'', array_of (json_type ''string''))])])])"

text \<open>A role with a frozen prompt (\<open>frozen.get(...) or {}\<close>).\<close>

definition frozen_spec :: "run \<Rightarrow> model_role \<Rightarrow> obj \<Rightarrow> (run_error, call_spec) res" where
  "frozen_spec r role ctx = bindR (dict_at (r_execution r) (role_text role)) (\<lambda>frozen. Inr
     \<lparr>cs_role = role, cs_instruction = str_at frozen ''instruction_template'',
      cs_prompt_version = str_at frozen ''prompt_version'', cs_schema_version = str_at frozen ''schema_version'',
      cs_context = ctx, cs_format = response_format role\<rparr>)"

text \<open>Continuing with a value that may be an exception, between transactions.\<close>

definition evaluate :: "db \<Rightarrow> (run_error, 'a) res \<Rightarrow> 'a run_io" where
  "evaluate d x = (d, x)"

definition read_key :: "env \<Rightarrow> obj \<Rightarrow> (run_error, string) res" where
  "read_key env f =
     bindR (to_int (jget_or f ''cursor'' (JInt 0))) (\<lambda>cursor.
     bindR (to_int (jget_or f ''limit'' (JInt 100))) (\<lambda>lim.
     bindR (py_list (json_or (jget f ''columns'') (JList []))) (\<lambda>columns.
     Inr (content_hash (e_hash env) (JObj
       [(''source_id'', JStr (str_at f ''source_id'')), (''cursor'', JInt cursor), (''limit'', JInt lim),
        (''columns'', JList columns)])))))"

text \<open>The requests not made before, and the keys seen with them.\<close>

fun new_requests :: "env \<Rightarrow> string list \<Rightarrow> obj list \<Rightarrow> (run_error, obj list \<times> string list) res" where
  "new_requests env seen [] = Inr ([], seen)"
| "new_requests env seen (f # fs) =
     bindR (read_key env f) (\<lambda>key.
     (if key \<in> set seen then new_requests env seen fs
      else bindR (new_requests env (key # seen) fs) (\<lambda>(fresh_requests, seen'). Inr (f # fresh_requests, seen'))))"

definition read_parameters :: "obj \<Rightarrow> json" where
  "read_parameters f = JObj [(''source_id'', jget f ''source_id''), (''cursor'', jget_or f ''cursor'' (JInt 0)),
     (''limit'', jget_or f ''limit'' (JInt 100)), (''columns'', json_or (jget f ''columns'') (JList []))]"

definition verifier_read_finding :: string where
  "verifier_read_finding = ''Verifier-Fundstelle pr'' @ u_umlaut @ ''fen''"

definition perform_read :: "env \<Rightarrow> tool_runner \<Rightarrow> user option \<Rightarrow> string \<Rightarrow> string \<Rightarrow> db \<Rightarrow> obj \<Rightarrow> json run_io" where
  "perform_read env tool actor i token d f =
     andthen (execute_tool_step env tool d actor i token ''read_source'' (read_parameters f)
       (''verifier:'' @ str_at f ''claim_id'') verifier_read_finding True) (\<lambda>d' s.
     (d', Inr (JObj [(''claim_id'', JStr (str_at f ''claim_id'')), (''source_id'', JStr (str_at f ''source_id'')),
       (''result'', st_payload s), (''result_hash'', JStr (st_hash s))])))"

fun perform_reads ::
    "env \<Rightarrow> tool_runner \<Rightarrow> user option \<Rightarrow> string \<Rightarrow> string \<Rightarrow> db \<Rightarrow> obj list \<Rightarrow> json list run_io" where
  "perform_reads env tool actor i token d [] = (d, Inr [])"
| "perform_reads env tool actor i token d (f # fs) =
     andthen (perform_read env tool actor i token d f) (\<lambda>d1 x.
     andthen (perform_reads env tool actor i token d1 fs) (\<lambda>d2 xs. (d2, Inr (x # xs))))"

definition repeated_finding :: json where
  "repeated_finding = JObj
     [(''severity'', JStr ''noncritical''), (''code'', JStr ''verification_repeated_read_request''),
      (''claim_id'', JStr []), (''message'', JStr (''Der Verifier forderte ausschlie'' @ [CHR 0xDF] @
        ''lich bereits gelesene Fundstellen erneut an; die Wiederholung blockiert READY nicht.''))]"

text \<open>The answer of a verifier that only repeats itself.\<close>

definition without_requests :: "obj \<Rightarrow> (run_error, obj) res" where
  "without_requests payload = bindR (mappings_at payload ''findings'') (\<lambda>findings. Inr
     (dict_set (dict_set payload ''findings'' (JList (map JObj findings @ [repeated_finding])))
       ''read_requests'' (JList [])))"

definition close_report :: "db \<Rightarrow> string \<Rightarrow> model_call \<Rightarrow> obj list \<Rightarrow> (run_error, obj) res \<Rightarrow> report run_io" where
  "close_report d i call replays payload =
     andthen (evaluate d (bindR payload (\<lambda>f. apply_replay_findings f replays))) (\<lambda>d' f.
     commit d' (record_verifier_report d' i call f))"

text \<open>What a round finds in an answer: a final answer, or requests for evidence.\<close>

definition judge_answer ::
    "env \<Rightarrow> string list \<Rightarrow> obj \<Rightarrow> (run_error, obj + obj list \<times> string list) res" where
  "judge_answer env seen payload =
     bindR (mappings_at payload ''read_requests'') (\<lambda>requests.
     (if requests = [] then Inr (Inl payload)
      else bindR (new_requests env seen requests) (\<lambda>(fresh_requests, seen').
        if fresh_requests = [] then bindR (without_requests payload) (\<lambda>f. Inr (Inl f))
        else Inr (Inr (fresh_requests, seen')))))"

text \<open>
  The loop. The first argument bounds the rounds, and running out of it is the value \<open>None\<close>. Every round
  books a call of the verifier, so the limit of such calls and one more are enough.
\<close>

definition in_round :: "'a run_io \<Rightarrow> (db \<Rightarrow> 'a \<Rightarrow> 'b run_io option) \<Rightarrow> 'b run_io option" where
  "in_round m f = (case m of (d, Inl e) \<Rightarrow> Some (d, Inl e) | (d, Inr x) \<Rightarrow> f d x)"

fun verifier_rounds ::
    "nat \<Rightarrow> env \<Rightarrow> transport \<Rightarrow> tool_runner \<Rightarrow> db \<Rightarrow> user option \<Rightarrow> run \<Rightarrow> string \<Rightarrow> obj list \<Rightarrow> obj \<Rightarrow>
      json list \<Rightarrow> string list \<Rightarrow> report run_io option" where
  "verifier_rounds 0 env tp tool d actor r token replays ctx reads seen = None"
| "verifier_rounds (Suc n) env tp tool d actor r token replays ctx reads seen =
     in_round (evaluate d (frozen_spec r Verifier ctx)) (\<lambda>d0 spec.
     in_round (structured_provider_call env tp d0 actor (r_id r) token spec (\<lambda>_ _. Inr ())) (\<lambda>d1 (payload, call).
     in_round (evaluate d1 (judge_answer env seen payload)) (\<lambda>d2 verdict.
     (case verdict of
        Inl f \<Rightarrow> Some (close_report d2 (r_id r) call replays (Inr f))
      | Inr (requests, seen') \<Rightarrow>
          in_round (perform_reads env tool actor (r_id r) token d2 requests) (\<lambda>d3 got.
          in_round (refresh d3 (r_id r)) (\<lambda>d4 r'.
          verifier_rounds n env tp tool d4 actor r' token replays
            (verifier_context r' replays @ [(''verifier_reads'', JList (reads @ got))]) (reads @ got) seen'))))))"

definition assert_actor_can_edit :: "db \<Rightarrow> user option \<Rightarrow> run \<Rightarrow> (run_error, unit) res" where
  "assert_actor_can_edit d actor r = raise_if (\<not> actor_can_edit_run d actor r) Permission_Denied"

definition verifier_bound :: "run \<Rightarrow> nat" where
  "verifier_bound r = nat (dget (r_limits r) ''max_verifier_calls'') + 1"

definition request_verifier_report :: "env \<Rightarrow> transport \<Rightarrow> tool_runner \<Rightarrow> verifier_role" where
  "request_verifier_report env tp tool d actor r0 token = (let r = with_rows d r0 in
     andthen (evaluate d (bindR (assert_actor_can_edit d actor r) (\<lambda>_. deterministic_analysis_replays env d actor r)))
       (\<lambda>d' replays.
     (case verifier_rounds (verifier_bound r) env tp tool d' actor r token replays (verifier_context r replays) [] [] of
        Some out \<Rightarrow> out
      | None \<Rightarrow> (d', Inl (Other_Error ''verifier_rounds_exhausted'')))))"

section \<open>The planner and the synthesizer\<close>

definition idle_action :: planner_action where
  "idle_action = \<lparr>pa_action = [], pa_target = [], pa_finding = [], pa_tool = [], pa_parameters = JObj [],
     pa_claims = None, pa_brief = None, pa_relevance = [], pa_progress_kind = ''none'', pa_progress_payload = [],
     pa_reason = [], pa_clarification = []\<rparr>"

text \<open>\<open>dict(value)\<close> of the classifications; the validation made them mappings.\<close>

definition relevance_dict :: "obj \<Rightarrow> (run_error, (string, obj) dict) res" where
  "relevance_dict relevance = mapR (\<lambda>(k, v). case v of JObj f \<Rightarrow> Inr (k, f) | _ \<Rightarrow> Inl (Other_Error ''TypeError'')) relevance"

definition package_action :: "obj \<Rightarrow> (run_error, planner_action) res" where
  "package_action payload =
     bindR (decode_list payload ''claim_register'') (\<lambda>claims.
     bindR (decode_mapping payload ''brief_payload'') (\<lambda>brief.
     bindR (decode_mapping payload ''source_relevance'') (\<lambda>relevance.
     bindR (relevance_dict relevance) (\<lambda>classes. Inr
       (idle_action\<lparr>pa_action := ''synthesize'', pa_claims := Some claims, pa_brief := Some brief,
         pa_relevance := classes\<rparr>)))))"

definition synthesis_action :: "obj \<Rightarrow> (run_error, planner_action) res" where
  "synthesis_action payload =
     bindR (decode_mapping payload ''investigation_request'') (\<lambda>request.
     (if request \<noteq> []
      then Inr (idle_action\<lparr>pa_action := ''investigate'', pa_finding := str_at request ''goal'',
        pa_clarification := request\<rparr>)
      else if jget payload ''clarification_reason'' = JStr ''missing_evidence''
      then bindR (decode_mapping payload ''clarification_payload'') (\<lambda>clarification. Inr
        (idle_action\<lparr>pa_action := ''clarify'', pa_reason := ''missing_evidence'', pa_clarification := clarification\<rparr>))
      else package_action payload))"

definition expand_answer :: "catalog \<Rightarrow> obj \<Rightarrow> (run_error, obj) res" where
  "expand_answer catalog payload =
     bindR (expand_source_references catalog (JObj payload)) (\<lambda>v. Inr (members v))"

definition validate_synthesis :: "env \<Rightarrow> catalog \<Rightarrow> run \<Rightarrow> db \<Rightarrow> obj \<Rightarrow> (run_error, unit) res" where
  "validate_synthesis env catalog r d payload =
     bindR (expand_answer catalog payload) (validate_synthesis_package env d (with_rows d r))"

definition request_synthesis_package :: "env \<Rightarrow> transport \<Rightarrow> action_role" where
  "request_synthesis_package env tp d actor r0 token = (let r = with_rows d r0; catalog = source_reference_catalog r in
     andthen (evaluate d
       (bindR (assert_actor_can_edit d actor r) (\<lambda>_.
        bindR (synthesis_context env d actor r) (frozen_spec r Synthesizer)))) (\<lambda>d' spec.
     andthen (structured_provider_call env tp d' actor (r_id r) token spec (validate_synthesis env catalog r))
       (\<lambda>d1 (payload, call).
     evaluate d1 (bindR (expand_answer catalog payload) synthesis_action))))"

definition planner_spec :: "env \<Rightarrow> obj \<Rightarrow> call_spec" where
  "planner_spec env ctx = \<lparr>cs_role = Planner, cs_instruction = e_instruction env Planner,
     cs_prompt_version = prompt_version Planner, cs_schema_version = schema_version Planner, cs_context = ctx,
     cs_format = response_format Planner\<rparr>"

definition answered_action :: "obj \<Rightarrow> (run_error, planner_action) res" where
  "answered_action payload =
     bindR (decode_mapping payload ''parameters'') (\<lambda>parameters.
     bindR (decode_mapping payload ''clarification_payload'') (\<lambda>clarification. Inr
       \<lparr>pa_action = str_at payload ''action'', pa_target = str_at payload ''target_claim_id'',
        pa_finding = str_at payload ''expected_discriminating_finding'', pa_tool = str_at payload ''tool_name'',
        pa_parameters = JObj parameters, pa_claims = None, pa_brief = None, pa_relevance = [],
        pa_progress_kind = ''none'', pa_progress_payload = [], pa_reason = str_at payload ''clarification_reason'',
        pa_clarification = clarification\<rparr>))"

definition request_planner_action :: "env \<Rightarrow> transport \<Rightarrow> action_role" where
  "request_planner_action env tp d actor r0 token = (let r = with_rows d r0 in
     andthen (evaluate d (bindR (assert_actor_can_edit d actor r) (\<lambda>_. investigation_context env d actor r))) (\<lambda>d' ctx.
     andthen (structured_provider_call env tp d' actor (r_id r) token (planner_spec env ctx)
       (\<lambda>d2. validate_investigation_action (with_rows d2 r))) (\<lambda>d1 (payload, call).
     (if jget payload ''action'' = JStr ''synthesize'' then request_synthesis_package env tp d1 actor r0 token
      else evaluate d1 (answered_action payload)))))"

text \<open>The roles of the release, with the tools of the sources.\<close>

definition model_roles :: "env \<Rightarrow> transport \<Rightarrow> roles" where
  "model_roles env tp = \<lparr>ro_planner = request_planner_action env tp, ro_synthesizer = request_synthesis_package env tp,
     ro_verifier = request_verifier_report env tp (source_tools env), ro_tool = source_tools env\<rparr>"

end
