(* ===== verification/Model_Steps.thy ===== *)
theory Model_Steps
  imports Model_Roles Investigation_Loop_Properties Source_Properties Evidence_Properties
begin

text \<open>
  The roles of the language model as moves of the transition system: every transaction of a model call,
  of a verifier report and of the reads between them is a step of the runtime, whatever the provider
  answers.
\<close>

section \<open>The provider\<close>

text \<open>
  While the provider works the database may move on, by transactions of any executors and users. The
  counts it reports are not negative.
\<close>

definition counted :: "completion \<Rightarrow> string \<Rightarrow> bool" where
  "counted c k \<longleftrightarrow> (case py_int (jget (co_usage c) k) of Inr n \<Rightarrow> 0 \<le> n | Inl e \<Rightarrow> True)"

definition sound_transport :: "env \<Rightarrow> transport \<Rightarrow> bool" where
  "sound_transport env tp \<longleftrightarrow> (\<forall>d q. run_steps env d (fst (tp_request tp d q)) \<and>
     (\<forall>c. snd (tp_request tp d q) = Completion c \<longrightarrow> counted c ''prompt_tokens'' \<and> counted c ''completion_tokens''))"

section \<open>Steps of a call\<close>

lemma table_step:
  assumes "db_next d \<le> n"
  shows "run_step env d (d\<lparr>db_next := n, db_campaigns := cs\<rparr>)" "run_step env d (d\<lparr>db_next := n, db_results := rs\<rparr>)"
proof -
  have "run_step env d (d\<lparr>db_next := n, db_processes := db_processes d, db_folders := db_folders d,
      db_snapshots := db_snapshots d, db_captures := db_captures d, db_campaigns := cs, db_results := rs\<rparr>)" for cs rs
    using assms by (rule run_step.tables)
  from this [where cs = cs and rs = "db_results d"] this [where cs = "db_campaigns d" and rs = rs]
  show "run_step env d (d\<lparr>db_next := n, db_campaigns := cs\<rparr>)" "run_step env d (d\<lparr>db_next := n, db_results := rs\<rparr>)"
    by simp_all
qed

lemma draw_step: "run_step env d (draw d)"
  using table_step(1) [of d "Suc (db_next d)" env "db_campaigns d"] by (simp add: draw_def)

lemma save_campaign_step: "run_step env d (save_campaign d c)"
  unfolding save_campaign_def using table_step(1) [of d "db_next d"] by simp

lemma moves_steps: "(\<And>d' x. t = Inr (d', x) \<Longrightarrow> run_steps env d d') \<Longrightarrow> moves env d (commit d t)"
  by (cases t) (auto simp: moves_def)

lemma reserved_steps:
  assumes "reserve_provider_attempt env d i c n m = Inr (d', v)" shows "run_steps env d d'"
proof -
  from assms have "d' = d \<or> (\<exists>x. d' = save_campaign (draw d) x)"
    by (auto simp: reserve_provider_attempt_def bindR_eq_Inr Let_def split: option.split_asm)
  then show ?thesis
    using draw_step [of env d] save_campaign_step [of env "draw d"] by (auto intro: rtranclp.intros)
qed

lemma settled_steps:
  assumes "settle_provider_attempt d i n m cost = Inr (d', v)" shows "run_steps env d d'"
proof -
  from assms have "d' = d \<or> (\<exists>x. d' = save_campaign d x)"
    by (auto simp: settle_provider_attempt_def bindR_eq_Inr Let_def split: option.split_asm if_split_asm)
  then show ?thesis using save_campaign_step [of env d] by auto
qed

lemma lost_steps:
  assumes "mark_provider_attempt_uncertain d i reason = Inr (d', u)" shows "run_steps env d d'"
proof -
  from assms have "d' = d \<or> (\<exists>x. d' = save_campaign d x)"
    by (auto simp: mark_provider_attempt_uncertain_def split: option.split_asm if_split_asm)
  then show ?thesis using save_campaign_step [of env d] by auto
qed

lemma moves_settle [simp]: "moves env d (settle_reservation d v n m cost)"
  by (auto simp: settle_reservation_def split: option.split intro!: moves_andthen moves_steps dest: settled_steps)

lemma moves_lose [simp]: "moves env d (lose_reservation d v reason)"
  by (auto simp: lose_reservation_def split: option.split intro!: moves_steps dest: lost_steps)

lemma model_step:
  assumes "get_run d i = Some r" and "r' = r\<lparr>r_calls := r_calls r', r_reports := r_reports r', r_usage := r_usage r'\<rparr>"
    and "\<And>k. dget (r_usage r) k \<le> dget (r_usage r') k"
    and "dget (r_usage r') ''tool_calls'' = dget (r_usage r) ''tool_calls''"
    and "dget (r_usage r') ''verifier_reads'' = dget (r_usage r) ''verifier_reads''"
  shows "run_steps env d (save_run d r')"
  using assms by (intro r_into_rtranclp run_step.model [OF assms(1)]) (unfold model_activity_def, blast)

lemma call_step:
  assumes "get_run d i = Some r" and "0 \<le> n" and "0 \<le> m"
  shows "run_steps env d (save_run d (save_call (r\<lparr>r_usage := add_tokens (r_usage r) n m\<rparr>) c))"
  using assms(2,3) by (intro model_step [OF assms(1)]) (simp_all add: save_call_def add_tokens_def)

lemma failure_step:
  assumes "get_run d i = Some r" shows "run_steps env d (save_run d (save_call r c))"
  by (intro model_step [OF assms]) (simp_all add: save_call_def)

lemma booked_usageD:
  assumes "booked_usage now r role = Inr usage"
  shows "dget (r_usage r) k \<le> dget usage k" "dget usage ''tool_calls'' = dget (r_usage r) ''tool_calls''"
    "dget usage ''verifier_reads'' = dget (r_usage r) ''verifier_reads''"
    "dget usage ''model_calls'' = dget (r_usage r) ''model_calls'' + 1"
    "dget (r_usage r) ''model_calls'' < dget (r_limits r) ''max_model_calls''"
    "role = Verifier \<Longrightarrow> dget (r_usage r) ''verifier_calls'' < dget (r_limits r) ''max_verifier_calls''"
    "dget usage ''verifier_calls'' = dget (r_usage r) ''verifier_calls'' + (if role = Verifier then 1 else 0)"
  using assms by (auto simp: booked_usage_def Let_def bindR_eq_Inr raise_if_eq_Inr split: if_split_asm)

text \<open>What an accepted reservation did.\<close>

lemma reserve_model_call_Inr:
  "reserve_model_call env d actor i token spec = Inr (d', call) \<longleftrightarrow>
   (\<exists>r usage refs tokens v campaign. executor_run d actor i token = Inr r \<and> r_status r = Running \<and>
     assert_frozen_execution_contract env r = Inr () \<and>
     prompt_tokens spec \<le> remaining_input r \<and> 0 < remaining_output r \<and>
     prompt_tokens spec \<le> remaining_input r - rv_input_tokens (protected_reserve r (cs_role spec)) \<and>
     timeout_floor (cs_role spec) \<le> remaining_seconds (db_now d) r (protected_reserve r (cs_role spec)) \<and>
     run_campaign d r = Inr campaign \<and>
     call_max_tokens r spec (protected_reserve r (cs_role spec)) campaign = Inr tokens \<and>
     booked_usage (db_now d) r (cs_role spec) = Inr usage \<and> context_refs r (cs_context spec) = Inr refs \<and>
     call = new_call env d r spec (call_timeout (db_now d) r (cs_role spec) (protected_reserve r (cs_role spec))) tokens refs \<and>
     reserve_provider_attempt env (save_run (draw d) (r\<lparr>r_usage := usage, r_calls := r_calls r @ [call]\<rparr>)) i
       (mc_id call) (prompt_tokens spec) tokens = Inr (d', v))"
  by (auto simp: reserve_model_call_def Let_def bindR_eq_Inr raise_if_eq_Inr not_less not_le)

lemma moves_reserve [simp]: "moves env d (commit d (reserve_model_call env d actor i token spec))"
proof (rule moves_steps)
  fix d' call assume "reserve_model_call env d actor i token spec = Inr (d', call)"
  from this [unfolded reserve_model_call_Inr] obtain r usage v n where g: "get_run d i = Some r"
    and u: "booked_usage (db_now d) r (cs_role spec) = Inr usage"
    and e: "reserve_provider_attempt env (save_run (draw d) (r\<lparr>r_usage := usage, r_calls := r_calls r @ [call]\<rparr>)) i
       (mc_id call) (prompt_tokens spec) n = Inr (d', v)"
    unfolding executor_run_eq_Inr by blast
  have "get_run (draw d) i = Some r" using g by (simp add: get_run_def)
  then have "run_steps env (draw d) (save_run (draw d) (r\<lparr>r_usage := usage, r_calls := r_calls r @ [call]\<rparr>))"
    using booked_usageD [OF u] by (intro model_step) simp_all
  with draw_step [of env d] reserved_steps [OF e] show "run_steps env d d'"
    by (meson converse_rtranclp_into_rtranclp rtranclp_trans)
qed

lemma call_row_Inr: "call_row d i c = Inr (r, x) \<longleftrightarrow> get_run d i = Some r \<and> get_call r c = Some x"
  by (auto simp: call_row_def split: option.split)

lemma moves_failure [simp]: "moves env d (commit d (mark_model_failure d i c code diagnostics))"
  by (auto simp: mark_model_failure_def bindR_eq_Inr call_row_Inr split: if_split_asm
      intro!: moves_steps failure_step)

lemma moves_fail_call [simp]: "moves env d (fail_call d i c code diagnostics)"
  unfolding fail_call_def by (intro moves_andthen) simp_all

lemma truncated_usage_nonneg: "truncated_usage f = Inr (Some (n, m)) \<Longrightarrow> 0 \<le> n \<and> 0 \<le> m"
  by (auto simp: truncated_usage_def bindR_eq_Inr not_less split: option.split_asm if_split_asm)

lemma moves_truncated [simp]: "moves env d (record_truncated_usage d i c v f)"
  unfolding record_truncated_usage_def book_truncated_def
  by (auto simp: bindR_eq_Inr call_row_Inr split: sum.split option.split
      intro!: moves_andthen moves_steps call_step dest: truncated_usage_nonneg)

lemma moves_settle_answer [simp]: "moves env d (settle_answer d v answer)"
  by (simp add: settle_answer_def Let_def split: option.split sum.split)

lemma usage_tokens_nonneg:
  assumes "usage_tokens c messages = Inr tokens" and "counted c ''prompt_tokens''" "counted c ''completion_tokens''"
  shows "0 \<le> fst tokens \<and> 0 \<le> snd tokens"
proof -
  have "0 \<le> k" if "token_count (jget (co_usage c) f) s = Inr k" "counted c f" for f s k
    using that by (auto simp: token_count_def counted_def estimate_tokens_def split: if_split_asm sum.split_asm)
  then show ?thesis using assms by (auto simp: usage_tokens_def bindR_eq_Inr)
qed

lemma moves_finish:
  assumes "0 \<le> fst tokens" "0 \<le> snd tokens"
  shows "moves env d (commit d (finish_model_call env tp d i token call answer tokens refused payload))"
  using assms by (auto simp: finish_model_call_def Let_def bindR_eq_Inr call_row_Inr
      intro!: moves_steps call_step)

lemma moves_answer:
  assumes "counted answer ''prompt_tokens''" "counted answer ''completion_tokens''"
  shows "moves env d (finish_answer env tp d i token spec call v answer payload verdict)"
  unfolding finish_answer_def
  by (auto simp: bindR_eq_Inr split: sum.split intro!: moves_andthen moves_finish
      dest!: usage_tokens_nonneg [OF _ assms])

lemma outcome_completion: "outcome_of reply = Payload c f \<Longrightarrow> reply = Completion c"
  by (auto simp: outcome_of_def split: reply.split_asm if_split_asm sum.split_asm json.split_asm)

lemma moves_reply:
  assumes "\<And>c. reply = Completion c \<Longrightarrow> counted c ''prompt_tokens'' \<and> counted c ''completion_tokens''"
  shows "moves env d (use_reply env tp d i token spec validator call v reply)"
  by (cases "outcome_of reply")
    (auto simp: use_reply_def intro!: moves_andthen moves_answer dest: assms outcome_completion)

lemma provided_steps:
  assumes "sound_transport env tp" and "tp_request tp d q = (d', reply)"
  shows "run_steps env d d'" "reply = Completion c \<Longrightarrow> counted c ''prompt_tokens'' \<and> counted c ''completion_tokens''"
  using assms unfolding sound_transport_def by (metis fst_conv, metis snd_conv)

text \<open>A call is a move, and the part of it after an accepted reservation is one.\<close>

lemma moves_answered:
  assumes "sound_transport env tp"
  shows "moves env d (case tp_request tp d q of (d2, reply) \<Rightarrow>
    use_reply env tp d2 i token spec validator call v reply)"
proof -
  obtain d2 reply where q: "tp_request tp d q = (d2, reply)" by fastforce
  have "moves env d2 (use_reply env tp d2 i token spec validator call v reply)"
    by (rule moves_reply) (rule provided_steps(2) [OF assms q])
  with provided_steps(1) [OF assms q] show ?thesis by (auto simp: q moves_def)
qed

lemma moves_call:
  "sound_transport env tp \<Longrightarrow> moves env d (structured_provider_call env tp d actor i token spec validator)"
  unfolding structured_provider_call_def by (intro moves_andthen moves_answered) simp_all

lemma structured_call_Inr:
  "structured_provider_call env tp d actor i token spec validator = (d', Inr x) \<longleftrightarrow>
   (\<exists>d1 call d2 reply. reserve_model_call env d actor i token spec = Inr (d1, call) \<and>
     tp_request tp d1 (request_of spec call) = (d2, reply) \<and>
     use_reply env tp d2 i token spec validator call (reservation_of d1 (mc_id call)) reply = (d', Inr x))"
  unfolding structured_provider_call_def run_io_simps split_beta by (metis fst_conv snd_conv prod.collapse)

lemma call_returned:
  assumes "structured_provider_call env tp d actor i token spec validator = (d', Inr x)" and "sound_transport env tp"
  shows "\<exists>d1 call. reserve_model_call env d actor i token spec = Inr (d1, call) \<and> run_steps env d1 d'"
proof -
  from assms(1) obtain d1 call where r: "reserve_model_call env d actor i token spec = Inr (d1, call)"
    and "(case tp_request tp d1 (request_of spec call) of (d2, reply) \<Rightarrow>
      use_reply env tp d2 i token spec validator call (reservation_of d1 (mc_id call)) reply) = (d', Inr x)"
    by (auto simp: structured_provider_call_def run_io_simps)
  then have "run_steps env d1 d'"
    using moves_answered [OF assms(2)] unfolding moves_def by (metis fst_conv)
  with r show ?thesis by blast
qed

section \<open>Steps of a role\<close>

lemma moves_evaluate [simp]: "moves env d (evaluate d x)"
  by (simp add: evaluate_def)

lemma moves_synthesizer:
  "sound_transport env tp \<Longrightarrow> moves env d (request_synthesis_package env tp d actor r token)"
  unfolding request_synthesis_package_def Let_def
  by (auto simp: evaluate_def pair_res_eq_Inr intro!: moves_andthen moves_call)

lemma moves_planner:
  "sound_transport env tp \<Longrightarrow> moves env d (request_planner_action env tp d actor r token)"
  unfolding request_planner_action_def Let_def
  by (auto simp: evaluate_def pair_res_eq_Inr intro!: moves_andthen moves_call moves_synthesizer)

lemma moves_source_tools [simp]: "moves env d (source_tools env d actor i tool params)"
proof -
  from source_tools_isolated obtain n rs res where "db_next d \<le> n"
    "source_tools env d actor i tool params = (d\<lparr>db_next := n, db_results := rs\<rparr>, res)"
    unfolding tool_isolated_def by metis
  then show ?thesis by (simp add: moves_def table_step(2) r_into_rtranclp)
qed

lemma moves_reads: "moves env d (perform_reads env (source_tools env) actor i token d fs)"
proof (induction fs arbitrary: d)
  case (Cons f fs)
  have "moves env d (perform_read env (source_tools env) actor i token d f)" for d
    unfolding perform_read_def by (intro moves_andthen moves_execute) simp_all
  with Cons show ?case by (auto intro!: moves_andthen)
qed simp

lemma moves_report [simp]: "moves env d (commit d (record_verifier_report d i call payload))"
proof (rule moves_steps)
  fix d' x assume "record_verifier_report d i call payload = Inr (d', x)"
  then obtain r where g: "get_run d i = Some r" and d': "d' = save_run d (r\<lparr>r_reports := r_reports r @ [x]\<rparr>)"
    by (auto simp: record_verifier_report_def Let_def bindR_eq_Inr split: option.split_asm)
  show "run_steps env d d'" unfolding d' by (intro model_step [OF g]) simp_all
qed

lemma moves_close: "moves env d (close_report d i call replays payload)"
  unfolding close_report_def by (auto simp: evaluate_def pair_res_eq_Inr intro!: moves_andthen)

definition round_moves :: "env \<Rightarrow> db \<Rightarrow> 'a run_io option \<Rightarrow> bool" where
  "round_moves env d out = (case out of None \<Rightarrow> True | Some m \<Rightarrow> moves env d m)"

lemma round_moves_simps [simp]: "round_moves env d None" "round_moves env d (Some m) = moves env d m"
  by (simp_all add: round_moves_def)

lemma moves_in_round:
  "moves env d m \<Longrightarrow> (\<And>d1 x. m = (d1, Inr x) \<Longrightarrow> round_moves env d1 (f d1 x)) \<Longrightarrow> round_moves env d (in_round m f)"
  by (cases m; cases "snd m")
    (auto simp: in_round_def round_moves_def moves_def intro: rtranclp_trans split: option.splits)

lemma moves_rounds:
  assumes "sound_transport env tp"
  shows "round_moves env d (verifier_rounds n env tp (source_tools env) d actor r token replays ctx reads seen)"
proof (induction n arbitrary: d r ctx reads seen)
  case (Suc n)
  show ?case
    unfolding verifier_rounds.simps
    by (auto simp: evaluate_def pair_res_eq_Inr refresh_Inr split: sum.split
        intro!: moves_in_round moves_call [OF assms] moves_close moves_reads Suc.IH)
qed simp

lemma moves_verifier:
  "sound_transport env tp \<Longrightarrow> moves env d (request_verifier_report env tp (source_tools env) d actor r token)"
  using moves_rounds unfolding request_verifier_report_def Let_def round_moves_def
  by (auto simp: evaluate_def pair_res_eq_Inr intro!: moves_andthen split: option.split) (metis option.simps(5))

lemma model_roles_sound: "sound_transport env tp \<Longrightarrow> roles_sound env (model_roles env tp)"
  by (simp add: roles_sound_def model_roles_def moves_planner moves_synthesizer moves_verifier)

end
