(* ===== verification/Model_Properties.thy ===== *)
theory Model_Properties
  imports Model_Steps
begin

text \<open>
  What the model calls guarantee: the roles only move the database by transactions, the frozen contract
  holds exactly under the release that started the run, a call fits the budgets and leaves the reserve
  of the later roles, only accepted answers of the current executor are used, and the verifier's report
  and rounds.
\<close>

section \<open>The loop with the roles of the release\<close>

text \<open>
  C33. The whole runtime with its language models is made of transactions: with the planner, the
  synthesizer, the verifier and the source tools of the release, and a provider that may answer or fail
  in any way while other executors and users go on, the database that \<open>run_until_boundary\<close> leaves, also
  when it raises, is reached by transactions of the runtime. The provider's counts are assumed not to be
  negative.
\<close>

theorem model_loop_refines:
  assumes "sound_transport env tp"
  shows "run_steps env d (fst (run_until_boundary env (model_roles env tp) d actor i token n))"
  using moves_loop [OF model_roles_sound [OF assms]] by (simp add: moves_def)

section \<open>The frozen contract\<close>

text \<open>What a run stores of the release that started it.\<close>

definition same_release :: "env \<Rightarrow> env \<Rightarrow> bool" where
  "same_release env env' \<longleftrightarrow> (\<forall>role. instruction_hash env' (e_instruction env' role) =
       instruction_hash env (e_instruction env role)) \<and> e_model env' = e_model env"

lemma dict_at_JObj: "jget f k = JObj g \<Longrightarrow> dict_at f k = Inr g"
  by (cases g) (simp_all add: dict_at_def json_or_def)

lemma frozen_tools_same: "same_tools (members frozen_tools) = Inr True"
  by code_simp

lemma frozen_objects:
  "frozen_prompt env role = JObj (members (frozen_prompt env role))"
  "frozen_transport env = JObj (members (frozen_transport env))"
  "frozen_tools = JObj (members frozen_tools)"
  by (simp_all add: frozen_prompt_def frozen_transport_def frozen_tools_def)

lemma base_members:
  fixes base :: obj
  assumes "base = base_execution_snapshot env snap limits p mode campaign metadata brief replay obs"
  shows "jget base ''tools'' = frozen_tools" "jget base ''planner'' = frozen_prompt env Planner"
    "jget base ''synthesizer'' = frozen_prompt env Synthesizer" "jget base ''verifier'' = frozen_prompt env Verifier"
    "jget base ''model_transport'' = frozen_transport env"
    "jget base ''loop_version'' = JStr loop_version" "jget base ''policy_version'' = JStr policy_version"
    "jget base ''budget_version'' = JStr budget_version"
    "mode = ''fixed'' \<Longrightarrow> jget base ''fixed_route_version'' = JStr fixed_route_version"
  unfolding assms by (simp_all add: base_execution_snapshot_def)

lemma base_parts:
  fixes base :: obj
  assumes "base = base_execution_snapshot env snap limits p mode campaign metadata brief replay obs"
  shows "dict_at base ''tools'' = Inr (members frozen_tools)"
    "dict_at base ''planner'' = Inr (members (frozen_prompt env Planner))"
    "dict_at base ''synthesizer'' = Inr (members (frozen_prompt env Synthesizer))"
    "dict_at base ''verifier'' = Inr (members (frozen_prompt env Verifier))"
    "dict_at base ''model_transport'' = Inr (members (frozen_transport env))"
  by (rule dict_at_JObj, simp only: base_members [OF assms] frozen_objects [symmetric])+

lemma current_frozen:
  "current_prompt env' role (members (frozen_prompt env role)) \<longleftrightarrow>
     instruction_hash env' (e_instruction env' role) = instruction_hash env (e_instruction env role)"
  by (auto simp: current_prompt_def frozen_prompt_def)

lemma not_legacy_frozen:
  "\<not> legacy_prompt env' legacy_synthesis (members (frozen_prompt env Synthesizer))"
  "\<not> legacy_prompt env' legacy_verifier (members (frozen_prompt env Verifier))"
  by (simp_all add: legacy_prompt_def legacy_synthesis_def legacy_verifier_def frozen_prompt_def prompt_version_def)

lemma same_transport_frozen:
  "same_transport env' (members (frozen_transport env)) \<longleftrightarrow>
     e_model env' = e_model env \<and> e_model env \<in> {[], endpoint_model}"
proof -
  have "py_eq (JObj provider_policy) (JObj provider_policy)" "py_eq (JObj endpoint_capability) (JObj endpoint_capability)"
    "py_eq (JObj role_limits) (JObj role_limits)"
    by code_simp+
  then show ?thesis by (auto simp: same_transport_def frozen_transport_def)
qed

lemma all_roles: "(\<forall>role. P role) \<longleftrightarrow> P Planner \<and> P Synthesizer \<and> P Verifier"
  by (metis model_role.exhaust)

lemma new_run_contract:
  assumes "r_execution r = base_execution_snapshot env snap limits p mode campaign metadata brief replay obs"
    and "r_mode r = mode" and "r_loop_version r = loop_version" "r_policy_version r = policy_version"
      "r_budget_version r = budget_version"
  shows "assert_frozen_execution_contract env' r = Inr () \<longleftrightarrow>
    same_release env env' \<and> e_model env \<in> {[], endpoint_model}"
proof -
  note parts = base_parts [OF assms(1)]
  have v: "same_versions r" using assms(3-5) base_members(6-8) [OF assms(1)] by (simp add: same_versions_def)
  have m: "\<not> (r_mode r = ''fixed'' \<and> jget (r_execution r) ''fixed_route_version'' \<noteq> JStr fixed_route_version)"
    using base_members(9) [OF assms(1)] assms(2) by auto
  have "assert_frozen_execution_contract env' r = Inr () \<longleftrightarrow>
      (\<forall>role. current_prompt env' role (members (frozen_prompt env role))) \<and>
      same_transport env' (members (frozen_transport env))"
    using v m not_legacy_frozen
    by (simp add: assert_frozen_execution_contract_def Let_def parts frozen_tools_same all_roles raise_if_def) blast
  then show ?thesis by (auto simp: current_frozen same_transport_frozen same_release_def)
qed

text \<open>A start that creates a run stores the row of \<open>new_run\<close>.\<close>

lemma started_new_run:
  assumes "start_investigation env d actor request = Inr (d', h)" and "\<not> h_reused h"
  obtains p snap version key mode campaign limits obs contract where
    "d' = (draw (draw d))\<lparr>db_runs := db_runs d @ [new_run env d p snap version key mode campaign request limits obs contract]\<rparr>"
    "h_run h = fresh env d"
proof -
  from assms(1) obtain key snap limits p obs where
    rest: "reserve_run env d actor request key snap limits p obs = Inr (d', h)"
    by (auto simp: start_investigation_def bindR_eq_Inr)
  with assms(2) obtain contract b where "create_run env d p snap key request limits obs contract b = Inr (d', h)"
    by (auto simp: reserve_run_def Let_def handle_of_def split: option.split_asm if_split_asm)
  then obtain version mode campaign where
    d': "d' = (draw (draw d))\<lparr>db_runs := db_runs d @ [new_run env d p snap version key mode campaign request limits obs contract]\<rparr>"
    and h: "h = handle_of (new_run env d p snap version key mode campaign request limits obs contract) False"
    by (auto simp: create_run_def Let_def bindR_eq_Inr split: option.split_asm)
  show thesis
    by (rule that [OF d']) (simp add: h handle_of_def new_run_def)
qed

text \<open>
  C34. A run keeps the release that started it: whatever happens in between, the contract check before
  each model call accepts a run under the current release exactly when the hash of the instruction text
  of every role and the requested model are those under which the run was started, and that model is the
  supported one or none. (A release also differs in its constants; they are the same here.)
\<close>

theorem contract_of_start:
  assumes "initial_db d0" and "run_steps env d0 d" and "inj (e_uuid env)"
    and "start_investigation env d actor request = Inr (d1, h)" and "\<not> h_reused h"
    and "run_steps env d1 d2" and "get_run d2 (h_run h) = Some r"
  shows "assert_frozen_execution_contract env' r = Inr () \<longleftrightarrow>
    same_release env env' \<and> e_model env \<in> {[], endpoint_model}"
proof -
  from assms(4,5) obtain p snap version key mode campaign limits obs contract where
    d1: "d1 = (draw (draw d))\<lparr>db_runs := db_runs d @ [new_run env d p snap version key mode campaign request limits obs contract]\<rparr>"
    and h: "h_run h = fresh env d"
    by (rule started_new_run)
  let ?r = "new_run env d p snap version key mode campaign request limits obs contract"
  have "db_ok env d" using reachable_ok [OF assms(2,1,3)] .
  moreover have "\<not> drawn env d (fresh env d)" using assms(3) by (auto simp: fresh_def drawn_def dest: injD)
  ultimately have "find (\<lambda>r. r_id r = fresh env d) (db_runs d) = None"
    by (force simp: find_None_iff db_ok_def)
  then have "get_run d1 (h_run h) = Some ?r"
    by (simp add: get_run_def d1 h find_append_case new_run_def)
  from run_steps_evolution [OF assms(6) this] assms(7) have "same_contract ?r r"
    by (auto simp: run_evolution_def)
  then show ?thesis
    by (intro new_run_contract [of r env snap limits p mode "Option.bind campaign (find_campaign d)"
          "sr_metadata request" "sr_brief_required request" "sr_replay request" obs])
      (simp_all add: same_contract_def new_run_def)
qed

text \<open>Under another instruction of the planner the sample run is refused; under its own it is accepted.\<close>

definition edited_env :: env where
  "edited_env = sample_env\<lparr>e_instruction := (\<lambda>role. if role = Planner then ''other'' else e_instruction sample_env role)\<rparr>"

theorem contract_of_start_witness:
  "assert_frozen_execution_contract sample_env sample_run = Inr () \<and>
   assert_frozen_execution_contract edited_env sample_run \<noteq> Inr ()"
proof -
  have "assert_frozen_execution_contract env' sample_run = Inr () \<longleftrightarrow>
      same_release sample_env env' \<and> e_model sample_env \<in> {[], endpoint_model}" for env'
    using contract_of_start [OF initial_sample_db0 rtranclp.rtrancl_refl inj_sample_uuid sample_start _ rtranclp.rtrancl_refl]
      sample_run by simp
  moreover have "instruction_hash edited_env (e_instruction edited_env Planner) \<noteq>
      instruction_hash sample_env (e_instruction sample_env Planner)" by code_simp
  moreover have "e_model sample_env = []" by (simp add: sample_env_def)
  ultimately show ?thesis by (auto simp: same_release_def)
qed

section \<open>A reserved call\<close>

lemma campaign_room_le:
  "campaign_room campaign spec reserve upper = Inr n \<Longrightarrow> 0 < n \<Longrightarrow> n \<le> upper"
  by (auto simp: campaign_room_def max_reservable_output_tokens_def split: option.split_asm
      dest!: search_headroom_sound)

lemma call_max_tokensD:
  assumes "call_max_tokens r spec reserve campaign = Inr n"
  shows "completion_floor (cs_role spec) \<le> n" "n \<le> call_ceiling r spec reserve"
proof -
  show f: "completion_floor (cs_role spec) \<le> n"
    using assms by (auto simp: call_max_tokens_def bindR_eq_Inr not_less split: if_split_asm)
  have "0 < completion_floor (cs_role spec)"
    by (simp add: completion_floor_def min_planner_completion_tokens_def min_verifier_completion_tokens_def)
  with f assms show "n \<le> call_ceiling r spec reserve"
    by (auto simp: call_max_tokens_def bindR_eq_Inr split: if_split_asm intro: campaign_room_le)
qed

lemma floor_le_role: "timeout_floor role \<le> role_timeout role"
  by (cases role) (simp_all add: timeout_floor_def role_timeout_def min_planner_timeout_seconds_def
      min_verifier_timeout_seconds_def verifier_timeout_seconds_def)

lemma call_timeout_bounds:
  assumes "timeout_floor role \<le> remaining_seconds now r reserve"
  shows "timeout_floor role \<le> call_timeout now r role reserve" "call_timeout now r role reserve \<le> role_timeout role"
    "call_timeout now r role reserve \<le> remaining_seconds now r reserve"
proof -
  let ?left = "remaining_seconds now r reserve"
  have "0 \<le> ?left"
    using assms by (auto simp: timeout_floor_def min_planner_timeout_seconds_def min_verifier_timeout_seconds_def
        split: if_split_asm)
  then have "?left div max 1 k \<le> ?left" for k using zdiv_mono2 [of ?left 1 "max 1 k"] by simp
  then show "call_timeout now r role reserve \<le> ?left"
    using assms by (auto simp: call_timeout_def Let_def min_le_iff_disj)
qed (use assms floor_le_role [of role] in \<open>auto simp: call_timeout_def Let_def\<close>)

lemma reserved_runs: "reserve_provider_attempt env d i c n m = Inr (d', v) \<Longrightarrow> db_runs d' = db_runs d"
  by (auto simp: reserve_provider_attempt_def bindR_eq_Inr Let_def save_campaign_def split: option.split_asm)

lemma reserved_run:
  assumes "reserve_model_call env d actor i token spec = Inr (d', call)" and "get_run d i = Some r"
  shows "\<exists>usage. booked_usage (db_now d) r (cs_role spec) = Inr usage \<and>
    get_run d' i = Some (r\<lparr>r_usage := usage, r_calls := r_calls r @ [call]\<rparr>)"
proof -
  from assms obtain usage v n where u: "booked_usage (db_now d) r (cs_role spec) = Inr usage"
    and e: "reserve_provider_attempt env (save_run (draw d) (r\<lparr>r_usage := usage, r_calls := r_calls r @ [call]\<rparr>)) i
       (mc_id call) (prompt_tokens spec) n = Inr (d', v)"
    unfolding reserve_model_call_Inr executor_run_eq_Inr by auto
  have "get_run (save_run (draw d) (r\<lparr>r_usage := usage, r_calls := r_calls r @ [call]\<rparr>)) i =
      Some (r\<lparr>r_usage := usage, r_calls := r_calls r @ [call]\<rparr>)"
    using get_run_SomeD [OF assms(2)] by (intro get_saved [OF assms(2)]) simp_all
  with u reserved_runs [OF e] show ?thesis by (simp add: get_run_def)
qed

text \<open>
  C35. A model call fits: an accepted reservation gives the call at least the floor of its role in output
  tokens and seconds, at most the limit of the role and the room of the context, and leaves the reserve
  of the later roles untouched in prompt tokens, output tokens and seconds of the run; the call is stored
  as the last one of the run and counted once, within the limit of calls.
\<close>

theorem reserved_call_fits:
  assumes "reserve_model_call env d actor i token spec = Inr (d', call)" and "get_run d i = Some r"
  defines "reserve \<equiv> protected_reserve r (cs_role spec)"
  shows "completion_floor (cs_role spec) \<le> mc_max_tokens call \<and> mc_max_tokens call \<le> role_max_tokens (cs_role spec) \<and>
    mc_max_tokens call \<le> context_room spec \<and>
    mc_max_tokens call + rv_output_tokens reserve \<le> remaining_output r \<and>
    prompt_tokens spec + rv_input_tokens reserve \<le> remaining_input r \<and>
    timeout_floor (cs_role spec) \<le> mc_timeout call \<and> mc_timeout call \<le> role_timeout (cs_role spec) \<and>
    elapsed_seconds (db_now d) r + mc_timeout call + rv_seconds reserve \<le> dget (r_limits r) ''max_runtime_seconds'' \<and>
    (\<exists>r'. get_run d' i = Some r' \<and> r_calls r' = r_calls r @ [call] \<and>
      dget (r_usage r') ''model_calls'' = dget (r_usage r) ''model_calls'' + 1 \<and>
      dget (r_usage r') ''model_calls'' \<le> dget (r_limits r) ''max_model_calls'')"
proof -
  from assms(1,2) obtain tokens refs campaign where
    p: "prompt_tokens spec \<le> remaining_input r - rv_input_tokens reserve"
    and t: "timeout_floor (cs_role spec) \<le> remaining_seconds (db_now d) r reserve"
    and m: "call_max_tokens r spec reserve campaign = Inr tokens"
    and call: "call = new_call env d r spec (call_timeout (db_now d) r (cs_role spec) reserve) tokens refs"
    unfolding reserve_model_call_Inr executor_run_eq_Inr reserve_def by auto
  have c: "mc_max_tokens call = tokens" "mc_timeout call = call_timeout (db_now d) r (cs_role spec) reserve"
    by (simp_all add: call new_call_def)
  note m' = call_max_tokensD [OF m]
  note t' = call_timeout_bounds [OF t]
  from reserved_run [OF assms(1,2)] obtain usage where u: "booked_usage (db_now d) r (cs_role spec) = Inr usage"
    and g: "get_run d' i = Some (r\<lparr>r_usage := usage, r_calls := r_calls r @ [call]\<rparr>)" by blast
  show ?thesis
    using m' t' p g booked_usageD(4,5) [OF u] by (simp add: c call_ceiling_def remaining_seconds_def)
qed

section \<open>Answers\<close>

text \<open>
  C36. Only accepted answers are used: when a model call returns a payload, it was reserved within the
  budgets, the provider's text was complete and parses to that payload, the validator accepted it, and at
  the end the run is running under the same executor generation and token, with the payload and its hash
  stored on the call as a success.
\<close>

theorem accepted_answer_recorded:
  assumes "structured_provider_call env tp d actor i token spec validator = (d', Inr (payload, c))"
  shows "\<exists>d1 call d2 answer r. reserve_model_call env d actor i token spec = Inr (d1, call) \<and>
    tp_request tp d1 (request_of spec call) = (d2, Completion answer) \<and> co_finish answer \<noteq> ''length'' \<and>
    json_loads (co_content answer) = Inr (JObj payload) \<and> validator d2 payload = Inr () \<and>
    get_run d' i = Some r \<and> r_status r = Running \<and> r_token r = token \<and> r_generation r = mc_generation call \<and>
    get_call r (mc_id call) = Some c \<and> mc_status c = Call_Success \<and> mc_payload c = payload \<and>
    mc_payload_hash c = content_hash (e_hash env) (JObj payload)"
proof -
  from assms obtain d1 call d2 reply where res: "reserve_model_call env d actor i token spec = Inr (d1, call)"
    and q: "tp_request tp d1 (request_of spec call) = (d2, reply)"
    and u: "use_reply env tp d2 i token spec validator call (reservation_of d1 (mc_id call)) reply = (d', Inr (payload, c))"
    unfolding structured_call_Inr by blast
  from u obtain answer p0 where out: "outcome_of reply = Payload answer p0"
    and f: "finish_answer env tp d2 i token spec call (reservation_of d1 (mc_id call)) answer p0
      (validator d2 p0) = (d', Inr (payload, c))"
    by (auto simp: use_reply_def fail_call_def run_io_simps split: outcome.split_asm)
  have p0: "p0 = payload"
    using f by (auto simp: finish_answer_def run_io_simps split: sum.split_asm if_split_asm)
  note out = out [unfolded p0] and f = f [unfolded p0]
  have reply: "reply = Completion answer \<and> co_finish answer \<noteq> ''length'' \<and> json_loads (co_content answer) = Inr (JObj payload)"
    using out by (auto simp: outcome_of_def split: reply.split_asm if_split_asm sum.split_asm json.split_asm)
  from f obtain d3 tokens where v: "validator d2 payload = Inr ()"
    and fin: "finish_model_call env tp d3 i token call answer tokens None payload = Inr (d', (False, c))"
    by (auto simp: finish_answer_def run_io_simps refusal_def split: sum.split_asm run_error.split_asm if_split_asm)
  from fin obtain r c0 reasoning where g: "get_run d3 i = Some r" "get_call r (mc_id call) = Some c0"
    and stale: "\<not> stale_call r (mc_generation call) token"
    and c: "c = ended_call env tp False None payload
      (answered_call (db_now d3) c0 answer (fst tokens) (snd tokens) reasoning)"
    and d': "d' = save_run d3 (save_call (r\<lparr>r_usage := add_tokens (r_usage r) (fst tokens) (snd tokens)\<rparr>) c)"
    by (auto simp: finish_model_call_def Let_def bindR_eq_Inr call_row_Inr)
  let ?r = "save_call (r\<lparr>r_usage := add_tokens (r_usage r) (fst tokens) (snd tokens)\<rparr>) c"
  have id: "mc_id c = mc_id call" "mc_id c0 = mc_id call"
    using find_SomeD [OF g(2) [unfolded get_call_def]] by (simp_all add: c ended_call_def answered_call_def)
  have "get_run d' i = Some ?r" unfolding d'
    using g(1) get_run_SomeD [OF g(1)] by (intro get_saved) (simp_all add: save_call_def)
  moreover have "get_call ?r (mc_id call) = Some c"
    using find_update_where [OF g(2) [unfolded get_call_def], of "\<lambda>x. mc_id x = mc_id c" c] id
    by (simp add: get_call_def save_call_def)
  moreover have "r_status ?r = Running" "r_token ?r = token" "r_generation ?r = mc_generation call"
    using stale by (simp_all add: stale_call_def owns_run_def save_call_def)
  moreover have "mc_status c = Call_Success" "mc_payload c = payload"
    "mc_payload_hash c = content_hash (e_hash env) (JObj payload)"
    by (simp_all add: c ended_call_def)
  ultimately show ?thesis using res q reply v by blast
qed

text \<open>\<open>unused i r out\<close>: of the run only counters and calls changed, and no payload was accepted.\<close>

definition accepted :: "run \<Rightarrow> (string \<times> obj) set" where
  "accepted r = (\<lambda>c. (mc_id c, mc_payload c)) ` {c \<in> set (r_calls r). mc_status c = Call_Success}"

definition unused :: "string \<Rightarrow> run \<Rightarrow> 'a run_io \<Rightarrow> bool" where
  "unused i r out \<longleftrightarrow> (\<exists>r'. get_run (fst out) i = Some r' \<and>
     r' = r\<lparr>r_usage := r_usage r', r_calls := r_calls r'\<rparr> \<and> accepted r' \<subseteq> accepted r)"

lemma unused_same: "db_runs (fst out) = db_runs d \<Longrightarrow> get_run d i = Some r \<Longrightarrow> unused i r out"
  unfolding unused_def by (intro exI [of _ r] conjI) (auto simp: get_run_def)

lemma unused_here [simp]: "get_run d i = Some r \<Longrightarrow> unused i r (d, x)"
  by (rule unused_same [of _ d]) simp_all

text \<open>The same run but for counters and calls.\<close>

definition same_but_calls :: "run \<Rightarrow> run \<Rightarrow> bool" where
  "same_but_calls r r' \<longleftrightarrow> r' = r\<lparr>r_usage := r_usage r', r_calls := r_calls r'\<rparr>"

lemma same_but_calls_trans:
  assumes "same_but_calls r s" "same_but_calls s t" shows "same_but_calls r t"
  using assms unfolding same_but_calls_def by (cases r; cases s; cases t) simp

lemma unused_andthen:
  assumes "unused i r m" and "\<And>d1 x r1. m = (d1, Inr x) \<Longrightarrow> get_run d1 i = Some r1 \<Longrightarrow>
    same_but_calls r r1 \<Longrightarrow> unused i r1 (f d1 x)"
  shows "unused i r (andthen m f)"
proof -
  obtain d1 x where m: "m = (d1, x)" by (cases m)
  from assms(1) obtain r1 where g: "get_run d1 i = Some r1" and s: "same_but_calls r r1" and a: "accepted r1 \<subseteq> accepted r"
    by (auto simp: unused_def m same_but_calls_def)
  show ?thesis
  proof (cases x)
    case (Inl e)
    then show ?thesis using assms(1) by (simp add: m unused_def)
  next
    case (Inr y)
    with assms(2) [of d1 y r1] g s m obtain r2 where "get_run (fst (f d1 y)) i = Some r2" "same_but_calls r1 r2"
      "accepted r2 \<subseteq> accepted r1"
      by (auto simp: unused_def same_but_calls_def)
    with same_but_calls_trans [OF s] a show ?thesis
      by (auto simp: unused_def m Inr same_but_calls_def)
  qed
qed

lemma unused_save:
  assumes "get_run d i = Some r" and "mc_status c = Call_Success \<Longrightarrow> (mc_id c, mc_payload c) \<in> accepted r"
  shows "unused i r (save_run d (save_call (r\<lparr>r_usage := u\<rparr>) c), x)"
proof -
  let ?r = "save_call (r\<lparr>r_usage := u\<rparr>) c"
  have "get_run (save_run d ?r) i = Some ?r"
    using assms(1) get_run_SomeD [OF assms(1)] by (intro get_saved) (simp_all add: save_call_def)
  moreover have "accepted ?r \<subseteq> accepted r"
    using assms(2) by (auto simp: accepted_def save_call_def in_set_update_where split: if_split_asm)
  ultimately show ?thesis unfolding unused_def by (intro exI [of _ ?r]) (simp add: save_call_def)
qed

lemma unused_commit:
  "get_run d i = Some r \<Longrightarrow> (\<And>d' x. t = Inr (d', x) \<Longrightarrow> unused i r (d', Inr x)) \<Longrightarrow> unused i r (commit d t)"
  by (cases t) auto

lemma unused_settle: "get_run d i = Some r \<Longrightarrow> unused i r (settle_reservation d v n m cost)"
  by (intro unused_same [of _ d])
    (auto simp: settle_reservation_def settle_provider_attempt_def bindR_def raise_if_def Let_def save_campaign_def commit_def
      andthen_def split: option.split sum.split prod.split)

lemma unused_lose: "get_run d i = Some r \<Longrightarrow> unused i r (lose_reservation d v reason)"
  by (intro unused_same [of _ d])
    (auto simp: lose_reservation_def mark_provider_attempt_uncertain_def save_campaign_def split: option.split)

lemma get_call_accepted:
  "get_call r j = Some c \<Longrightarrow> mc_status c = Call_Success \<Longrightarrow> (mc_id c, mc_payload c) \<in> accepted r"
  by (auto simp: get_call_def accepted_def dest!: find_SomeD)

lemma unused_failure: "get_run d i = Some r \<Longrightarrow> unused i r (commit d (mark_model_failure d i j code f))"
proof (rule unused_commit)
  fix d' x assume g: "get_run d i = Some r" and "mark_model_failure d i j code f = Inr (d', x)"
  then obtain c where "d' = d \<or> d' = save_run d (save_call r (failed_call (db_now d) c code f))"
    by (auto simp: mark_model_failure_def bindR_eq_Inr call_row_Inr split: if_split_asm)
  with g unused_save [OF g, of "failed_call (db_now d) c code f" "r_usage r" "Inr x"] show "unused i r (d', Inr x)"
    by (auto simp: failed_call_def)
qed

lemma unused_fail_call: "get_run d i = Some r \<Longrightarrow> unused i r (fail_call d i j code f)"
  unfolding fail_call_def by (intro unused_andthen unused_failure) simp_all

lemma unused_book: "get_run d i = Some r \<Longrightarrow> unused i r (commit d (book_truncated d i j model n m))"
proof (rule unused_commit)
  fix d' x assume g: "get_run d i = Some r" and "book_truncated d i j model n m = Inr (d', x)"
  then obtain c where c: "get_call r j = Some c"
    and d': "d' = save_run d (save_call (r\<lparr>r_usage := add_tokens (r_usage r) n m\<rparr>)
      (c\<lparr>mc_tokens := Some (n, m), mc_returned_model := model\<rparr>))"
    by (auto simp: book_truncated_def bindR_eq_Inr call_row_Inr)
  show "unused i r (d', Inr x)"
    unfolding d' by (rule unused_save [OF g]) (simp add: get_call_accepted [OF c])
qed

lemma unused_truncated: "get_run d i = Some r \<Longrightarrow> unused i r (record_truncated_usage d i j v f)"
  unfolding record_truncated_usage_def
  by (auto split: sum.split option.split intro!: unused_lose unused_andthen unused_settle unused_book)

lemma unused_settle_answer: "get_run d i = Some r \<Longrightarrow> unused i r (settle_answer d v answer)"
  by (auto simp: settle_answer_def Let_def split: option.split sum.split intro: unused_lose unused_settle)

lemma settle_answer_runs: "db_runs (fst (settle_answer d v answer)) = db_runs d"
  by (auto simp: settle_answer_def Let_def settle_reservation_def lose_reservation_def settle_provider_attempt_def
      mark_provider_attempt_uncertain_def bindR_def raise_if_def save_campaign_def commit_def
      andthen_def split: option.split sum.split prod.split)

lemma ended_stale: "mc_status (ended_call env tp True refused payload c) = Call_Discarded"
  by (simp add: ended_call_def)

lemma unused_answer:
  assumes g: "get_run d i = Some r" and stale: "stale_call r (mc_generation call) token"
  shows "unused i r (finish_answer env tp d i token spec call v answer payload verdict) \<and>
    isl (snd (finish_answer env tp d i token spec call v answer payload verdict))"
proof -
  have fin: "unused i r1 (commit d1 (finish_model_call env tp d1 i token call answer tokens refused payload)) \<and>
      (\<forall>d2 s c. finish_model_call env tp d1 i token call answer tokens refused payload = Inr (d2, (s, c)) \<longrightarrow> s)"
    if g1: "get_run d1 i = Some r1" and s: "same_but_calls r r1" for d1 r1 tokens refused
  proof -
    have st: "stale_call r1 (mc_generation call) token"
      using stale s by (cases r; cases r1) (simp add: stale_call_def owns_run_def same_but_calls_def)
    then show ?thesis
      by (auto simp: finish_model_call_def Let_def bindR_eq_Inr call_row_Inr g1 ended_stale
          intro!: unused_commit [OF g1] unused_save [OF g1])
  qed
  show ?thesis
  proof (cases "bindR (refusal verdict) (\<lambda>refused. bindR (usage_tokens answer (call_messages spec)) (\<lambda>tokens. Inr (refused, tokens)))")
    case (Inl e)
    then show ?thesis using g by (simp add: finish_answer_def)
  next
    case (Inr p)
    obtain refused tokens where p: "p = (refused, tokens)" by (cases p)
    let ?rest = "\<lambda>d1 (_ :: unit). andthen (commit d1 (finish_model_call env tp d1 i token call answer tokens refused payload))
        (\<lambda>d2 (stale, c). (d2, if stale then Inl (run_err ''stale_executor'')
           else if refused \<noteq> None then Inl bad_answer else Inr (payload, c)))"
    have out: "finish_answer env tp d i token spec call v answer payload verdict = andthen (settle_answer d v answer) ?rest"
      by (simp add: finish_answer_def Inr p)
    have "unused i r (andthen (settle_answer d v answer) ?rest)"
      using fin by (intro unused_andthen unused_settle_answer [OF g]) (auto split: prod.split)
    moreover have "isl (snd (andthen (settle_answer d v answer) ?rest))"
    proof (cases "snd (settle_answer d v answer)")
      case (Inr u)
      then obtain d1 where d1: "settle_answer d v answer = (d1, Inr u)" by (metis prod.collapse)
      then have "get_run d1 i = Some r" using settle_answer_runs [of d v answer] g by (simp add: get_run_def)
      from fin [OF this, of tokens refused] have "\<forall>d2 s c. finish_model_call env tp d1 i token call answer tokens refused
          payload = Inr (d2, (s, c)) \<longrightarrow> s"
        by (auto simp: same_but_calls_def)
      then show ?thesis
        by (cases "finish_model_call env tp d1 i token call answer tokens refused payload") (auto simp: d1)
    qed (cases "settle_answer d v answer", simp)
    ultimately show ?thesis by (simp only: out)
  qed
qed

text \<open>
  C37. A late answer is discarded: when the run has changed hands or stopped running while the provider
  worked, the call raises whatever the provider replied, a payload the validator accepts included; of the
  run only counters and the call records change, and no call becomes a success with a payload.
\<close>

theorem late_answer_discarded:
  assumes "reserve_model_call env d actor i token spec = Inr (d1, call)"
    and "tp_request tp d1 (request_of spec call) = (d2, reply)"
    and "get_run d2 i = Some r" and "stale_call r (mc_generation call) token"
    and "structured_provider_call env tp d actor i token spec validator = (d', x)"
  shows "\<exists>e r'. x = Inl e \<and> get_run d' i = Some r' \<and>
    r' = r\<lparr>r_usage := r_usage r', r_calls := r_calls r'\<rparr> \<and> accepted r' \<subseteq> accepted r"
proof -
  let ?v = "reservation_of d1 (mc_id call)"
  have out: "use_reply env tp d2 i token spec validator call ?v reply = (d', x)"
    using assms(1,2,5) by (simp add: structured_provider_call_def)
  have fail: "isl (snd (andthen m (\<lambda>d3 _. fail_call d3 i j code f)))" for m :: "unit run_io" and j code f
    by (cases m; cases "snd m") (auto simp: fail_call_def commit_def andthen_def split: sum.split)
  have "unused i r (d', x) \<and> isl (snd (d', x))"
  proof (cases "outcome_of reply")
    case (Payload answer payload)
    then show ?thesis using unused_answer [OF assms(3,4)] by (simp add: out [symmetric] use_reply_def)
  next
    case (No_Answer code f)
    then show ?thesis unfolding out [symmetric] use_reply_def
      by (simp only: outcome.case, intro conjI fail unused_andthen)
        (auto intro!: unused_fail_call unused_truncated unused_lose assms(3))
  next
    case Invalid_Answer
    then show ?thesis unfolding out [symmetric] use_reply_def
      by (simp only: outcome.case, intro conjI fail unused_andthen)
        (auto intro!: unused_fail_call unused_lose assms(3))
  qed
  then show ?thesis by (auto simp: unused_def isl_def)
qed

section \<open>The verifier\<close>

lemma dict_set_get:
  "jget (dict_set d k v) k' = (if k' = k then v else jget d k')"
  "jget_or (dict_set d k v) k' w = (if k' = k then v else jget_or d k' w)"
  by (simp_all add: jget_def jget_or_def)

lemma mappings_in_map_JObj: "mappings_in (map JObj fs @ xs) = fs @ mappings_in xs"
  by (simp add: mappings_in_def comp_def filter_True)

lemma replay_finding_mapping: "is_mapping (replay_finding a)" "jget (members (replay_finding a)) ''severity'' = JStr ''critical''"
  by (simp_all add: replay_finding_def)

lemma mappings_in_replays: "mappings_in (map replay_finding as) = map (\<lambda>a. members (replay_finding a)) as"
  by (simp add: mappings_in_def comp_def filter_True replay_finding_mapping)

lemma mappings_at_findings:
  "mappings_at (dict_set payload ''findings'' (JList (map JObj fs @ map replay_finding as))) ''findings'' =
     Inr (fs @ map (\<lambda>a. members (replay_finding a)) as)"
  by (simp add: mappings_at_def dict_set_get py_list_def mappings_in_map_JObj mappings_in_replays)

text \<open>
  C38. The verdict of the verifier: the report that ends a verification is stored with the hashes the run
  has at that moment, and it is successful exactly when no finding of the answer is critical, every
  stored analysis was reproduced identically, the verifier confirmed the source references, every
  decided claim about evidence has valid references, and every critical claim about evidence is among
  those it says it checked.
\<close>

theorem verifier_verdict:
  assumes "close_report d i call replays (Inr payload) = (d', Inr p)" and "get_run d i = Some r"
  shows "\<exists>findings checked. mappings_at payload ''findings'' = Inr findings \<and>
    py_list (jget_or payload ''checked_critical_claims'' (JList [])) = Inr checked \<and>
    (rp_success p \<longleftrightarrow> (\<forall>f\<in>set findings. jget f ''severity'' \<noteq> JStr ''critical'') \<and>
       (\<forall>a\<in>set replays. py_truthy (jget a ''matches'')) \<and>
       py_truthy (jget payload ''source_references_valid'') \<and> claims_referenced r \<and>
       (\<forall>c\<in>set (r_claims r). cl_critical c \<and> is_evidence_claim (cl_area c) (cl_kind c) \<longrightarrow>
          cl_id c \<noteq> [] \<and> cl_id c \<in> py_str ` set checked)) \<and>
    rp_hashes p = run_hashes r \<and> get_run d' i = Some (r\<lparr>r_reports := r_reports r @ [p]\<rparr>)"
proof -
  from assms(1) obtain findings where f: "mappings_at payload ''findings'' = Inr findings"
    and rec: "record_verifier_report d i call (dict_set payload ''findings'' (JList (map JObj findings @
      map replay_finding (filter (\<lambda>a. \<not> py_truthy (jget a ''matches'')) replays)))) = Inr (d', p)"
    by (auto simp: close_report_def evaluate_def apply_replay_findings_def run_io_simps)
  from rec assms(2) obtain checked where c: "py_list (jget_or payload ''checked_critical_claims'' (JList [])) = Inr checked"
    and d': "d' = save_run d (r\<lparr>r_reports := r_reports r @ [p]\<rparr>)"
    and p: "p = new_report r (db_now d) call (findings @ map (\<lambda>a. members (replay_finding a))
        (filter (\<lambda>a. \<not> py_truthy (jget a ''matches'')) replays)) (py_truthy (jget payload ''source_references_valid''))
      (filter (\<lambda>s. s \<noteq> []) (map py_str checked))"
    by (auto simp: record_verifier_report_def Let_def bindR_eq_Inr mappings_at_findings dict_set_get)
  have "get_run d' i = Some (r\<lparr>r_reports := r_reports r @ [p]\<rparr>)"
    using get_run_SomeD [OF assms(2)] unfolding d' by (intro get_saved [OF assms(2)]) simp_all
  moreover have "rp_success p \<longleftrightarrow> (\<forall>f\<in>set findings. jget f ''severity'' \<noteq> JStr ''critical'') \<and>
       (\<forall>a\<in>set replays. py_truthy (jget a ''matches'')) \<and>
       py_truthy (jget payload ''source_references_valid'') \<and> claims_referenced r \<and>
       (\<forall>c\<in>set (r_claims r). cl_critical c \<and> is_evidence_claim (cl_area c) (cl_kind c) \<longrightarrow>
          cl_id c \<noteq> [] \<and> cl_id c \<in> py_str ` set checked)"
    by (auto simp: p new_report_def Let_def run_critical_claims_def filter_empty_conv replay_finding_mapping)
  ultimately show ?thesis using f c by (auto simp: p new_report_def Let_def)
qed

text \<open>The calls of the verifier a run has left.\<close>

definition calls_left :: "db \<Rightarrow> string \<Rightarrow> nat" where
  "calls_left d i = (case get_run d i of
       None \<Rightarrow> 0 | Some r \<Rightarrow> nat (dget (r_limits r) ''max_verifier_calls'' - dget (r_usage r) ''verifier_calls''))"

lemma calls_left_steps:
  assumes "run_steps env d d'" and "get_run d i = Some r" shows "calls_left d' i \<le> calls_left d i"
proof -
  from run_steps_evolution [OF assms] obtain r' where "get_run d' i = Some r'" "run_evolution r r'" by blast
  moreover from this(2) have "r_limits r' = r_limits r" "dget (r_usage r) ''verifier_calls'' \<le> dget (r_usage r') ''verifier_calls''"
    by (simp_all add: run_evolution_def same_contract_def)
  ultimately show ?thesis using assms(2) by (simp add: calls_left_def)
qed

lemma verifier_call_books:
  assumes "structured_provider_call env tp d actor i token spec validator = (d', Inr x)" and "sound_transport env tp"
    and "cs_role spec = Verifier"
  shows "calls_left d' i < calls_left d i \<and> (\<exists>r. get_run d' i = Some r)"
proof -
  from call_returned [OF assms(1,2)] obtain d1 call where res: "reserve_model_call env d actor i token spec = Inr (d1, call)"
    and st: "run_steps env d1 d'" by blast
  from res obtain r where g: "get_run d i = Some r" unfolding reserve_model_call_Inr executor_run_eq_Inr by blast
  from reserved_run [OF res g] obtain usage where u: "booked_usage (db_now d) r (cs_role spec) = Inr usage"
    and g1: "get_run d1 i = Some (r\<lparr>r_usage := usage, r_calls := r_calls r @ [call]\<rparr>)" by blast
  have "calls_left d1 i < calls_left d i"
    using booked_usageD(6,7) [OF u] assms(3) by (simp add: calls_left_def g g1)
  with calls_left_steps [OF st g1] run_steps_evolution [OF st g1] show ?thesis by fastforce
qed

text \<open>Both ways of going on return, and return the same.\<close>

definition same_return :: "'a option \<Rightarrow> 'a option \<Rightarrow> bool" where
  "same_return a b \<longleftrightarrow> (\<exists>x. a = Some x \<and> b = Some x)"

lemma same_return_Some [simp]: "same_return (Some x) (Some x)"
  by (simp add: same_return_def)

lemma in_round_same:
  "(\<And>d1 x. m = (d1, Inr x) \<Longrightarrow> same_return (f d1 x) (g d1 x)) \<Longrightarrow> same_return (in_round m f) (in_round m g)"
  by (cases m; cases "snd m") (auto simp: in_round_def)

lemma frozen_spec_role: "frozen_spec r role ctx = Inr spec \<Longrightarrow> cs_role spec = role"
  by (auto simp: frozen_spec_def bindR_eq_Inr)

lemma rounds_enough:
  assumes "sound_transport env tp"
  shows "calls_left d (r_id r) < n \<Longrightarrow> n \<le> m \<Longrightarrow>
    same_return (verifier_rounds m env tp (source_tools env) d actor r token replays ctx reads seen)
      (verifier_rounds n env tp (source_tools env) d actor r token replays ctx reads seen)"
proof (induction n arbitrary: m d r ctx reads seen)
  case (Suc n)
  then obtain k where m: "m = Suc k" "n \<le> k" by (cases m) auto
  have rec: "same_return (verifier_rounds k env tp (source_tools env) d3 actor r' token replays ctx' reads' seen')
      (verifier_rounds n env tp (source_tools env) d3 actor r' token replays ctx' reads' seen')"
    if c: "structured_provider_call env tp d actor (r_id r) token spec (\<lambda>_ _. Inr ()) = (d1, Inr x)"
      and spec: "frozen_spec r Verifier ctx = Inr spec"
      and reads: "perform_reads env (source_tools env) actor (r_id r) token d1 requests = (d3, y)"
      and g: "get_run d3 (r_id r) = Some r'" for spec d1 x requests d3 y r' ctx' reads' seen'
  proof -
    from verifier_call_books [OF c assms frozen_spec_role [OF spec]] obtain q where
      left: "calls_left d1 (r_id r) < calls_left d (r_id r)" and q: "get_run d1 (r_id r) = Some q" by blast
    have "run_steps env d1 d3"
      using moves_reads [of env d1 actor "r_id r" token requests] reads by (simp add: moves_def)
    from calls_left_steps [OF this q] left Suc.prems have "calls_left d3 (r_id r') < n"
      using get_run_SomeD [OF g] by simp
    then show ?thesis using Suc.IH m(2) by blast
  qed
  show ?case
    unfolding m verifier_rounds.simps
    by (rule in_round_same)
      (auto simp: evaluate_def pair_res_eq_Inr refresh_Inr rec split: sum.split intro!: in_round_same)
qed simp

text \<open>
  C39. The verifier's rounds end: each round books a call of the verifier, so as many rounds as the limit of
  such calls and one more return a result, a report or an exception, whatever the provider answers and
  however often it asks for further reads; a larger bound on the rounds returns the same.
\<close>

theorem verifier_rounds_end:
  assumes "sound_transport env tp" and "get_run d (r_id r) = Some q" and "r_limits q = r_limits r"
    and "0 \<le> dget (r_usage q) ''verifier_calls''" and "verifier_bound r \<le> n"
  shows "\<exists>out. verifier_rounds (verifier_bound r) env tp (source_tools env) d actor r token replays ctx reads seen = Some out \<and>
    verifier_rounds n env tp (source_tools env) d actor r token replays ctx reads seen = Some out"
proof -
  have "calls_left d (r_id r) < verifier_bound r"
    using assms(2-4) by (simp add: calls_left_def verifier_bound_def)
  from rounds_enough [OF assms(1) this assms(5)] show ?thesis unfolding same_return_def by blast
qed

section \<open>Concrete calls\<close>

text \<open>A planner that asks for a clarification, and a short context.\<close>

definition sample_payload :: obj where
  "sample_payload = [(''action'', JStr ''clarify''), (''clarification_reason'', JStr ''missing_evidence'')]"

definition sample_reply :: completion where
  "sample_reply = \<lparr>co_content = json_text (JObj sample_payload), co_model = ''m'',
     co_usage = [(''prompt_tokens'', JInt 700), (''completion_tokens'', JInt 20)], co_chars = 77, co_finish = ''stop''\<rparr>"

definition sample_transport :: transport where
  "sample_transport = \<lparr>tp_request = (\<lambda>d q. (d, Completion sample_reply)), tp_message = (\<lambda>e. [])\<rparr>"

lemma sample_transport_sound: "sound_transport sample_env sample_transport"
proof -
  have "counted sample_reply ''prompt_tokens''" "counted sample_reply ''completion_tokens''" by code_simp+
  then show ?thesis by (simp add: sound_transport_def sample_transport_def)
qed

theorem model_loop_refines_witness:
  "run_steps sample_env sample_db (fst (run_until_boundary sample_env (model_roles sample_env sample_transport)
     sample_db sample_actor ''u'' ''uu'' 5))"
  by (rule model_loop_refines [OF sample_transport_sound])

definition sample_spec :: call_spec where
  "sample_spec = planner_spec sample_env [(''phase'', JStr ''investigation'')]"

definition sample_called :: model_call where
  "sample_called = new_call sample_env sample_db sample_run sample_spec 90 16384 (case context_refs sample_run (cs_context sample_spec) of
     Inr refs \<Rightarrow> refs | Inl e \<Rightarrow> [])"

definition sample_calling :: db where
  "sample_calling = save_run (draw sample_db) (sample_run\<lparr>r_usage := bump (bump initial_usage ''model_calls'') ''provider_attempts'',
     r_calls := [sample_called]\<rparr>)"

lemma sample_calling_run:
  "get_run sample_calling ''u'' = Some (sample_run\<lparr>r_usage := bump (bump initial_usage ''model_calls'') ''provider_attempts'',
     r_calls := [sample_called]\<rparr>)"
  unfolding sample_calling_def using sample_run
  by (intro get_saved [of sample_db]) (simp_all add: sample_run_def)

lemma sample_reserved:
  "reserve_model_call sample_env sample_db sample_actor ''u'' ''uu'' sample_spec = Inr (sample_calling, sample_called)"
proof -
  let ?res = "protected_reserve sample_run Planner"
  have parts: "r_status sample_run = Running" "r_token sample_run = ''uu''" "r_campaign sample_run = None" "r_calls sample_run = []"
    "db_now sample_db = 1000000" "cs_role sample_spec = Planner"
    by (simp_all add: sample_run_def sample_db_def sample_db0_def sample_spec_def planner_spec_def)
  have "actor_can_edit_run sample_db sample_actor sample_run" by code_simp
  then have e: "executor_run sample_db sample_actor ''u'' ''uu'' = Inr sample_run"
    using sample_run parts by (simp add: executor_run_eq_Inr is_active_iff)
  have contract: "assert_frozen_execution_contract sample_env sample_run = Inr ()" by code_simp
  have p: "prompt_tokens sample_spec \<le> remaining_input sample_run" by code_simp
  have q: "0 < remaining_output sample_run" by code_simp
  have p': "prompt_tokens sample_spec \<le> remaining_input sample_run - rv_input_tokens ?res" by code_simp
  have t: "timeout_floor Planner \<le> remaining_seconds 1000000 sample_run ?res" by code_simp
  have m: "call_max_tokens sample_run sample_spec ?res None = Inr 16384" by code_simp
  have u: "booked_usage 1000000 sample_run Planner = Inr (bump (bump initial_usage ''model_calls'') ''provider_attempts'')"
    by code_simp
  have s: "call_timeout 1000000 sample_run Planner ?res = 90" by code_simp
  have "\<not> isl (context_refs sample_run (cs_context sample_spec))" by code_simp
  then obtain refs where refs: "context_refs sample_run (cs_context sample_spec) = Inr refs"
    by (cases "context_refs sample_run (cs_context sample_spec)") auto
  have call: "sample_called = new_call sample_env sample_db sample_run sample_spec 90 16384 refs"
    by (simp add: sample_called_def refs)
  have "reserve_provider_attempt sample_env sample_calling ''u'' (mc_id sample_called) (prompt_tokens sample_spec) 16384 =
      Inr (sample_calling, None)"
    using parts by (simp add: reserve_provider_attempt_def sample_calling_run)
  then show ?thesis
    unfolding reserve_model_call_Inr
    by (intro exI [of _ sample_run] exI [of _ "bump (bump initial_usage ''model_calls'') ''provider_attempts''"]
        exI [of _ refs] exI [of _ 16384] exI [of _ None])
      (use e contract p q p' t m u s refs call parts in \<open>simp add: run_campaign_def sample_calling_def\<close>)
qed

theorem reserved_call_fits_witness:
  "get_run sample_db ''u'' = Some sample_run \<and> min_planner_completion_tokens \<le> mc_max_tokens sample_called \<and>
   (\<exists>r'. get_run sample_calling ''u'' = Some r' \<and> dget (r_usage r') ''model_calls'' = dget (r_usage sample_run) ''model_calls'' + 1)"
  using reserved_call_fits [OF sample_reserved sample_run] sample_run
  by (auto simp: sample_spec_def planner_spec_def completion_floor_def)

definition sample_call_out :: "(obj \<times> model_call) run_io" where
  "sample_call_out = structured_provider_call sample_env sample_transport sample_db sample_actor ''u'' ''uu'' sample_spec
     (\<lambda>d. validate_investigation_action sample_run)"

lemma sample_outcome: "outcome_of (Completion sample_reply) = Payload sample_reply sample_payload"
  by code_simp

lemma sample_verdict: "validate_investigation_action sample_run sample_payload = Inr ()"
  by code_simp

lemma sample_unreserved: "reservation_of sample_calling i = None"
  by (simp add: reservation_of_def all_reservations_def sample_calling_def sample_db_def sample_db0_def)

lemma sample_called_parts: "mc_id sample_called = fresh sample_env sample_db" "mc_generation sample_called = 1"
  by (simp_all add: sample_called_def new_call_def sample_run_def)

lemma sample_answered: "\<exists>d' c. sample_call_out = (d', Inr (sample_payload, c))"
proof -
  have tokens: "usage_tokens sample_reply (call_messages sample_spec) = Inr (700, 20)" by code_simp
  have reasoning: "reasoning_metadata (jget (co_usage sample_reply) ''reasoning_tokens'') = Inr []" by code_simp
  have row: "call_row sample_calling ''u'' (fresh sample_env sample_db) = Inr (sample_run\<lparr>r_usage :=
      bump (bump initial_usage ''model_calls'') ''provider_attempts'', r_calls := [sample_called]\<rparr>, sample_called)"
    by (simp add: call_row_Inr sample_calling_run get_call_def sample_called_parts)
  have fresh: "\<not> stale_call (sample_run\<lparr>r_usage := u, r_calls := cs\<rparr>) 1 ''uu''" for u cs
    by (simp add: stale_call_def owns_run_def sample_run_def)
  show ?thesis
    by (simp add: sample_call_out_def structured_provider_call_def sample_reserved sample_transport_def use_reply_def
        sample_outcome finish_answer_def sample_verdict refusal_def tokens settle_answer_def sample_unreserved
        finish_model_call_def row reasoning Let_def sample_called_parts fresh)
qed

theorem accepted_answer_recorded_witness:
  "\<exists>d' c r. sample_call_out = (d', Inr (sample_payload, c)) \<and> get_run d' ''u'' = Some r \<and> mc_status c = Call_Success \<and>
     get_call r (mc_id sample_called) = Some c \<and> mc_payload c = sample_payload"
proof -
  from sample_answered obtain d' c where out: "sample_call_out = (d', Inr (sample_payload, c))" by blast
  from accepted_answer_recorded [OF out [unfolded sample_call_out_def]] out sample_reserved show ?thesis by auto
qed

text \<open>A run that is aborted while the provider works.\<close>

definition slow_transport :: transport where
  "slow_transport = sample_transport\<lparr>tp_request := (\<lambda>d q. (case get_run d ''u'' of
     None \<Rightarrow> d | Some r \<Rightarrow> save_run d (r\<lparr>r_status := Aborted\<rparr>), Completion sample_reply))\<rparr>"

theorem late_answer_discarded_witness:
  "\<exists>d' e r. structured_provider_call sample_env slow_transport sample_db sample_actor ''u'' ''uu'' sample_spec
     (\<lambda>d. validate_investigation_action sample_run) = (d', Inl e) \<and> get_run d' ''u'' = Some r \<and> accepted r = {}"
proof -
  let ?r = "(sample_run\<lparr>r_usage := bump (bump initial_usage ''model_calls'') ''provider_attempts'',
     r_calls := [sample_called]\<rparr>)\<lparr>r_status := Aborted\<rparr>"
  let ?d = "save_run sample_calling ?r"
  have q: "tp_request slow_transport sample_calling (request_of sample_spec sample_called) = (?d, Completion sample_reply)"
    by (simp add: slow_transport_def sample_calling_run)
  have g: "get_run ?d ''u'' = Some ?r"
    using sample_calling_run by (intro get_saved) (simp_all add: sample_run_def)
  have stale: "stale_call ?r (mc_generation sample_called) ''uu''" by (simp add: stale_call_def)
  have "accepted ?r = {}" by (simp add: accepted_def sample_called_def new_call_def)
  moreover obtain d' x where "structured_provider_call sample_env slow_transport sample_db sample_actor ''u'' ''uu'' sample_spec
     (\<lambda>d. validate_investigation_action sample_run) = (d', x)" by fastforce
  ultimately show ?thesis using late_answer_discarded [OF sample_reserved q g stale, of "\<lambda>d. validate_investigation_action sample_run" d' x]
    by auto
qed

definition sample_judgement :: "obj list \<Rightarrow> report run_io" where
  "sample_judgement replays = close_report sample_db ''u'' sample_called replays
     (Inr [(''read_requests'', JList []), (''findings'', JList []), (''source_references_valid'', JBool True),
       (''checked_critical_claims'', JList [])])"

theorem verifier_verdict_witness:
  "\<exists>d p d' p'. sample_judgement [[(''matches'', JBool True)]] = (d, Inr p) \<and> rp_success p \<and>
     sample_judgement [[(''matches'', JBool False)]] = (d', Inr p') \<and> \<not> rp_success p'"
proof -
  have "is_returned (sample_judgement [[(''matches'', JBool True)]])" "is_returned (sample_judgement [[(''matches'', JBool False)]])"
    by code_simp+
  then obtain d p d' p' where out: "sample_judgement [[(''matches'', JBool True)]] = (d, Inr p)"
    "sample_judgement [[(''matches'', JBool False)]] = (d', Inr p')" using is_returnedD by meson
  have "r_claims sample_run = []" by (simp add: sample_run_def)
  with verifier_verdict [OF out(1) [unfolded sample_judgement_def] sample_run]
    verifier_verdict [OF out(2) [unfolded sample_judgement_def] sample_run]
  have "rp_success p \<and> \<not> rp_success p'"
    by (auto simp: mappings_at_def py_list_def claims_referenced_def)
  with out show ?thesis by blast
qed

theorem verifier_rounds_end_witness:
  "\<exists>out. verifier_rounds (verifier_bound sample_run) sample_env sample_transport (source_tools sample_env) sample_db sample_actor
     sample_run ''uu'' [] [] [] [] = Some out \<and>
   verifier_rounds (verifier_bound sample_run + 3) sample_env sample_transport (source_tools sample_env) sample_db sample_actor
     sample_run ''uu'' [] [] [] [] = Some out"
proof (rule verifier_rounds_end [OF sample_transport_sound])
  show "get_run sample_db (r_id sample_run) = Some sample_run" using sample_run by (simp add: sample_run_def)
qed (simp_all add: sample_run_def dget_initial_usage)

end
