(* ===== verification/Model_References.thy ===== *)
theory Model_References
  imports Model_Answers Investigation_Sample Content_Binding
begin

text \<open>
  The short handles for source references: what the context of a role shows compactly, the expansion of
  the answer restores.
\<close>

text \<open>A document in which no mapping has a member of a handle's name.\<close>

fun without_handles :: "json \<Rightarrow> bool" where
  "without_handles (JObj f) \<longleftrightarrow> \<not> has_key f ''source_ref'' \<and> list_all (\<lambda>kv. without_handles (snd kv)) f"
| "without_handles (JList xs) \<longleftrightarrow> list_all without_handles xs"
| "without_handles v \<longleftrightarrow> True"

text \<open>\<open>restored v w\<close>: a well-formed document that is the same Python value.\<close>

definition restored :: "json \<Rightarrow> json \<Rightarrow> bool" where
  "restored v w \<longleftrightarrow> json_wf w \<and> json_norm w = json_norm v"

lemma json_norm_members:
  assumes "set f = set g" and "distinct (map fst f)" and "distinct (map fst g)"
  shows "json_norm (JObj f) = json_norm (JObj g)"
  using sort_key_fst_unique [of "map (\<lambda>kv. (fst kv, json_norm (snd kv))) f" "map (\<lambda>kv. (fst kv, json_norm (snd kv))) g"] assms
  by (simp add: comp_def)

lemma full_reference_members:
  assumes "distinct (map fst f)" and "set (map fst f) = {''source_id'', ''revision_hash'', ''locator''}"
  shows "set f = set [(''source_id'', jget f ''source_id''), (''revision_hash'', jget f ''revision_hash''),
    (''locator'', jget f ''locator'')]"
proof -
  have "set f = (\<lambda>k. (k, jget f k)) ` set (map fst f)"
    using assms(1) by (force simp: jget_def image_iff)
  then show ?thesis unfolding assms(2) by auto
qed

lemma expand_compacted:
  assumes "handle_for catalog f = Some handle" and "distinct (map fst catalog)" and "json_wf (JObj f)"
  shows "\<exists>w. expand_handle catalog [(''source_ref'', JStr handle), (''locator'', jget f ''locator'')] = Inr w \<and>
    restored (JObj f) w"
proof -
  from assms(1) obtain source revision where full: "full_reference f"
    and m: "(handle, source, revision) \<in> set catalog"
    and s: "jget f ''source_id'' = JStr source" "jget f ''revision_hash'' = JStr revision"
    by (auto simp: handle_for_def split: if_split_asm dest!: find_SomeD)
  let ?g = "reference_base (source, revision) @ [(''locator'', jget f ''locator'')]"
  have d: "distinct (map fst f)" using assms(3) by simp
  have k: "set (map fst f) = {''source_id'', ''revision_hash'', ''locator''}" "is_mapping (jget f ''locator'')"
    using full by (simp_all add: full_reference_def)
  have "set f = set ?g" using full_reference_members [OF d k(1)] s by (simp add: reference_base_def)
  then have n: "json_norm (JObj ?g) = json_norm (JObj f)"
    using json_norm_members [of ?g f] d by (simp add: reference_base_def)
  have "(''locator'', jget f ''locator'') \<in> set f" using full_reference_members [OF d k(1)] by simp
  then have "json_wf (jget f ''locator'')" using assms(3) by (force simp: list_all_iff)
  then have "json_wf (JObj ?g)" by (simp add: reference_base_def)
  moreover have "map_of catalog handle = Some (source, revision)" using m assms(2) by simp
  ultimately show ?thesis
    using n k(2) by (simp add: expand_handle_def restored_def del: json_norm.simps)
qed

lemma mapR_restored:
  assumes "\<And>v. v \<in> set vs \<Longrightarrow> \<exists>w. f v = Inr w \<and> restored v w"
  shows "\<exists>ws. mapR f vs = Inr ws \<and> list_all2 restored vs ws"
  using assms
proof (induction vs)
  case (Cons v vs)
  then obtain w ws where "f v = Inr w" "restored v w" "mapR f vs = Inr ws" "list_all2 restored vs ws" by fastforce
  then show ?case by simp
qed simp

lemma restored_list: "list_all2 restored vs ws \<Longrightarrow> list_all json_wf ws \<and> map json_norm ws = map json_norm vs"
  by (induction rule: list_all2_induct) (auto simp: restored_def)

text \<open>A pair is restored with its key.\<close>

lemma mapR_members:
  assumes "\<And>kv. kv \<in> set f \<Longrightarrow> \<exists>w. g (snd kv) = Inr w \<and> restored (snd kv) w"
  shows "\<exists>h. mapR (\<lambda>kv. bindR (g (snd kv)) (\<lambda>v. Inr (fst kv, v))) f = Inr h \<and> map fst h = map fst f \<and>
    list_all (\<lambda>kv. json_wf (snd kv)) h \<and>
    map (\<lambda>kv. (fst kv, json_norm (snd kv))) h = map (\<lambda>kv. (fst kv, json_norm (snd kv))) f"
  using assms
proof (induction f)
  case (Cons kv f)
  then obtain w h where "g (snd kv) = Inr w" "restored (snd kv) w"
    "mapR (\<lambda>kv. bindR (g (snd kv)) (\<lambda>v. Inr (fst kv, v))) f = Inr h" "map fst h = map fst f"
    "list_all (\<lambda>kv. json_wf (snd kv)) h"
    "map (\<lambda>kv. (fst kv, json_norm (snd kv))) h = map (\<lambda>kv. (fst kv, json_norm (snd kv))) f"
    by fastforce
  then show ?case by (simp add: restored_def)
qed simp

lemma mapR_map: "mapR f (map g xs) = mapR (\<lambda>x. f (g x)) xs"
  by (induction xs) simp_all

lemma expand_compact:
  "distinct (map fst catalog) \<Longrightarrow> json_wf v \<Longrightarrow> without_handles v \<Longrightarrow>
    \<exists>w. expand_source_references catalog (compact_source_references catalog v) = Inr w \<and> restored v w"
proof (induction catalog v rule: compact_source_references.induct)
  case (1 c f)
  show ?case
  proof (cases "handle_for c f")
    case None
    have keys: "\<not> has_key (map (\<lambda>kv. (fst kv, compact_source_references c (snd kv))) f) ''source_ref''"
      using 1(4) by (simp add: has_key_def comp_def)
    have "\<exists>w. expand_source_references c (compact_source_references c (snd kv)) = Inr w \<and> restored (snd kv) w"
      if "kv \<in> set f" for kv
      using 1(1) [OF None that] 1(2-4) that by (auto simp: list_all_iff)
    from mapR_members [OF this] obtain h where
      "mapR (\<lambda>kv. bindR (expand_source_references c (compact_source_references c (snd kv))) (\<lambda>v. Inr (fst kv, v))) f = Inr h"
      "map fst h = map fst f" "list_all (\<lambda>kv. json_wf (snd kv)) h"
      "map (\<lambda>kv. (fst kv, json_norm (snd kv))) h = map (\<lambda>kv. (fst kv, json_norm (snd kv))) f"
      by blast
    with 1(3) keys show ?thesis by (simp add: None mapR_map restored_def)
  next
    case (Some handle)
    with expand_compacted [OF this 1(2,3)] show ?thesis by (simp add: has_key_def)
  qed
next
  case (2 c xs)
  then have "\<exists>w. expand_source_references c (compact_source_references c v) = Inr w \<and> restored v w"
    if "v \<in> set xs" for v using that by (auto simp: list_all_iff)
  from mapR_restored [OF this] obtain ws where
    "mapR (\<lambda>v. expand_source_references c (compact_source_references c v)) xs = Inr ws" "list_all2 restored xs ws"
    by blast
  with restored_list [of xs ws] show ?case by (simp add: mapR_map restored_def)
qed (simp_all add: restored_def)

lemma distinct_handles: "distinct (map fst (source_reference_catalog r))"
proof -
  let ?ss = "sort_key src_id (snap_sources (r_snapshot r))"
  let ?ns = "[1..<Suc (length ?ss)]"
  have "map fst (source_reference_catalog r) = map (\<lambda>n. ''S'' @ int_text (int n)) (map fst (zip ?ns ?ss))"
    by (simp add: source_reference_catalog_def Let_def split_def comp_def del: upt_Suc map_fst_zip)
  also have "map fst (zip ?ns ?ss) = ?ns" by (rule map_fst_zip) (simp del: upt_Suc)
  finally show ?thesis by (simp add: distinct_map inj_on_def int_text_inj del: upt_Suc)
qed

text \<open>
  C40. The short handles are lossless: a document of the package, whose source references the context of a
  run replaces by handles of its sources, is restored by the expansion of the handles as the same value,
  with the same canonical text, so with the same hash. The only condition is that no mapping of the
  document has a member named like a handle.
\<close>

theorem source_references_restored:
  assumes "json_wf v" and "without_handles v"
  shows "\<exists>w. expand_source_references (source_reference_catalog r)
      (compact_source_references (source_reference_catalog r) v) = Inr w \<and>
    json_norm w = json_norm v \<and> canonical_json w = canonical_json v"
proof -
  from expand_compact [OF distinct_handles assms] obtain w where
    "expand_source_references (source_reference_catalog r)
      (compact_source_references (source_reference_catalog r) v) = Inr w" "json_wf w" "json_norm w = json_norm v"
    unfolding restored_def by blast
  then show ?thesis using canonical_json_cong assms(1) by blast
qed

definition sample_claims :: json where
  "sample_claims = JList [JObj [(''claim_id'', JStr ''c1''), (''evidence'', JList
     [JObj [(''locator'', JObj [(''row'', JInt 2)]), (''source_id'', JStr ''s1''), (''revision_hash'', JStr ''h1'')],
      JObj [(''source_id'', JStr ''s1''), (''revision_hash'', JStr ''old''), (''locator'', JObj [])]])]]"

theorem source_references_restored_witness:
  "compact_source_references (source_reference_catalog sample_run) sample_claims =
     JList [JObj [(''claim_id'', JStr ''c1''), (''evidence'', JList
       [JObj [(''source_ref'', JStr ''S1''), (''locator'', JObj [(''row'', JInt 2)])],
        JObj [(''source_id'', JStr ''s1''), (''revision_hash'', JStr ''old''), (''locator'', JObj [])]])]] \<and>
   (\<exists>w. expand_source_references (source_reference_catalog sample_run)
      (compact_source_references (source_reference_catalog sample_run) sample_claims) = Inr w \<and>
    json_norm w = json_norm sample_claims)"
proof -
  have ok: "json_wf sample_claims" "without_handles sample_claims" by code_simp+
  have "compact_source_references (source_reference_catalog sample_run) sample_claims =
     JList [JObj [(''claim_id'', JStr ''c1''), (''evidence'', JList
       [JObj [(''source_ref'', JStr ''S1''), (''locator'', JObj [(''row'', JInt 2)])],
        JObj [(''source_id'', JStr ''s1''), (''revision_hash'', JStr ''old''), (''locator'', JObj [])]])]]"
    by code_simp
  with source_references_restored [OF ok, of sample_run] show ?thesis by metis
qed

end
