(* ===== verification/Spec2Isabelle.thy ===== *)
theory Spec2Isabelle
  imports Content_Binding Investigation_Properties Investigation_Package_Properties Investigation_Loop_Properties
    Source_Properties Source_Snapshot_Properties Evidence_Properties Json_Round_Trip Model_Properties Model_References
begin

text \<open>
  A development of the investigation runtime of KI-Ideenwerkstatt (\<open>src/ki_radar/accelerator\<close>): an agent
  loop that examines frozen business sources with read-only tools, keeps a register of claims, drafts a
  decision brief, has it verified and stops under a deterministic policy. Language models propose the
  actions; everything that keeps a run correct is ordinary code, and that code is modelled here.

  Parts and how they interact. \<open>investigation_loop.py\<close> asks a planner for an action, executes it and asks
  \<open>investigation_policy.py\<close> whether to go on; every effect of an action is a transaction of
  \<open>investigation_runtime.py\<close> on the rows of \<open>investigation_models.py\<close>, guarded by the executor token of
  the run. The tools of \<open>investigation_tools.py\<close> read the frozen snapshot of the sources. The model roles of
  \<open>investigation_llm.py\<close> reserve budget, call the provider outside a transaction and record the answer
  only while the executor still owns the run; \<open>investigation_evidence.py\<close> keeps the ledger of the money
  such calls may cost. Any number of executors and users act on one database at the same time.

  Theories, bottom up.
  \<^item> \<open>Prelude\<close>: results of code that raises (\<open>Inl\<close> the exception), dictionaries in insertion order,
    \<open>sorted(set(xs))\<close>, maps that stop at the first exception.
  \<^item> \<open>Python_Values\<close>, \<open>Python_Int\<close>, \<open>Python_Decimal\<close>, \<open>Python_Float\<close>, \<open>Python_Json\<close>, \<open>Python_Time\<close>,
    \<open>Csv\<close>: what the code uses of the language: strings, JSON documents with \<open>bool\<close>, \<open>str\<close>, \<open>repr\<close> and \<open>==\<close>,
    \<open>int(v)\<close>, \<open>Decimal\<close> arithmetic at 28 digits, \<open>json.dumps\<close> and \<open>json.loads\<close>, \<open>datetime.isoformat\<close>,
    \<open>csv.reader\<close> and \<open>csv.DictReader\<close>. \<open>Json_Round_Trip\<close>: what is written as JSON is read back.
  \<^item> \<open>Canonical\<close>, \<open>Content_Binding\<close>: \<open>canonical_json\<close> and \<open>content_hash\<close>; equal texts mean equal documents.
  \<^item> \<open>Accounts\<close>: groups and the permission predicates (\<open>accounts/permissions.py\<close>,
    \<open>architecture/permissions.py\<close>, \<open>use_cases/permissions.py\<close>).
  \<^item> \<open>Investigation_Policy\<close>: \<open>investigation_policy.py\<close>, the whole module.
  \<^item> \<open>Investigation_Model\<close>: the rows and the database, \<open>locked_run\<close> and the other access checks.
  \<^item> \<open>Investigation_Release\<close>: the release constants and the execution snapshot a run is started with.
  \<^item> \<open>Investigation_Budget\<close>, \<open>_References\<close>, \<open>_Tool_Params\<close>, \<open>_Brief\<close>, \<open>_Claims\<close>, \<open>_Runtime\<close>,
    \<open>_Steps\<close>, \<open>_Run_Policy\<close>: the functions of \<open>investigation_runtime.py\<close>, in the order of the module.
  \<^item> \<open>Investigation_Loop\<close>: \<open>investigation_loop.py\<close>, with the three model roles as arguments, as in the code.
  \<^item> \<open>Source_Snapshots\<close>, \<open>Source_Scan\<close>, \<open>Source_Freezing\<close>, \<open>Source_Handoff\<close>, \<open>Source_Capture\<close>: how source
    folders are scanned, frozen, discovered and handed to a process; \<open>Source_Tools\<close>, \<open>Source_Analysis\<close>,
    \<open>Source_Groups\<close>, \<open>Source_Replay\<close>: the tools, their analyses, the replay of a stored analysis.
  \<^item> \<open>Evidence_Prices\<close>, \<open>Evidence_Ledger\<close>, \<open>Evidence_Budget\<close>: price tables, reservations of provider
    attempts, settlement, and the search for the tokens that still fit.
  \<^item> \<open>Model_Answers\<close>, \<open>Model_Calls\<close>, \<open>Model_Roles\<close>: \<open>investigation_llm.py\<close>: decoding and validating answers,
    the frozen execution contract, reserving, requesting and settling a call, and the planner, the
    synthesizer and the rounds of the verifier. \<open>Model_Steps\<close> shows that each role moves the database only
    by transactions of the runtime.
  \<^item> \<open>Investigation_Invariants\<close>, \<open>Investigation_System\<close>: what every transaction keeps, the step relation
    \<open>run_step\<close> with one rule per transaction, reachability and the invariant \<open>db_ok\<close> by rule induction,
    the evolution of one run and the fencing of executor tokens.
  \<^item> \<open>Investigation_Sample\<close>: concrete databases the witnesses evaluate.
  \<^item> \<open>Investigation_Properties\<close>, \<open>_Package_Properties\<close>, \<open>_Loop_Properties\<close>, \<open>Source_Properties\<close>,
    \<open>Source_Snapshot_Properties\<close>, \<open>Evidence_Properties\<close>, \<open>Model_Properties\<close>, \<open>Model_References\<close>: the
    properties, and some stand beside the definitions they are about.

  How state and operations correspond to the code. A transaction is a function from a database and its
  arguments to an exception or the new database and the returned value; an exception rolls back, so it
  carries no database. Row locks serialise the transactions of a run, so a transaction is one step.
  A function that is more than one transaction returns the database its committed parts left together
  with the exception or the value (\<open>run_io\<close>). The rows that belong to a run (steps, model calls,
  reports, inputs, brief revisions, the frozen snapshot) are embedded in its record in the order of their
  creation. The loop hands Python objects around that may be older than their rows: \<open>with_rows\<close> in
  \<open>Investigation_Loop\<close> tells which fields are read from the object and which from the table. The two
  \<open>action_state\<close> entries of the usage dictionary are the fields \<open>r_fingerprint\<close> and \<open>r_repeat\<close>.

  Parameters. \<open>env\<close> holds SHA-256 (\<open>e_hash\<close>), the conversion of a value to a primary key by the
  object-relational mapper (\<open>e_pk\<close>), the identifiers \<open>uuid4\<close> draws (\<open>e_uuid\<close>), the collation of the database
  (\<open>e_collation\<close>), the instruction texts of the roles, the configured model and runtime; theorems that need it
  assume that no identifier is drawn twice. The file system is an argument of the scan. The transport of
  the provider (\<open>openrouter.py\<close>) is an arbitrary function that may answer, fail and let other transactions
  run meanwhile; \<open>sound_transport\<close> assumes that it moves the database by transactions of the runtime and
  reports no negative token count. In the theorems on the loop the model roles are arbitrary functions
  that may also raise. Exceptions carry the code of the source; the text of a message is modelled where
  the code stores or compares it.

  Bounds. Strings are Latin-1. \<open>run_until_boundary\<close> iterates 128 times, as the code does; its theorem
  says that it reports a boundary within them. The JSON reader has the fuel \<open>2 * length + 1\<close>, which
  \<open>json_loads_fuel\<close> shows to be enough. The verifier's loop has no bound in the code: here it runs
  \<open>verifier_bound\<close> rounds, one more than its calls are limited to, and \<open>verifier_rounds_end\<close> shows that it
  returns within them. The headroom search is bounded by the interval it halves.

  What modelling showed is listed in the manifest's findings.

  Not modelled: the branch of \<open>start_investigation\<close> for an \<open>IntegrityError\<close> (two transactions racing
  for one key, which serialised transactions cannot show), the texts of the prompts, HTTP, logging, views,
  forms and templates, and the applications listed as not modelled in the manifest.
\<close>

end
